(* ===== verification/Prelude.thy ===== *)
theory Prelude
  imports Main "HOL-Library.AList" "HOL-Library.Multiset" "HOL-Library.Sublist" "HOL-Library.Word"
begin

text \<open>
  Shared vocabulary of the development: how Go values that have no HOL counterpart are
  represented (errors, panics, maps with an unspecified iteration order, pointers that may be
  nil), and the generic lemmas the component theories use through the collection
  \<open>go_simps\<close> (equations of the result type).
\<close>

named_theorems go_simps \<open>equations for results, wrapped errors and Go maps\<close>

section \<open>Errors, results, panics\<close>

text \<open>
  A formatted message keeps the format string and its arguments apart instead of rendering
  them: \<open>Sprintf f args\<close> is the value of \<^verbatim>\<open>fmt.Sprintf(f, args...)\<close>, \<open>Joined\<close> that of
  \<^verbatim>\<open>strings.Join\<close>. \<open>Errorf f args\<close> is \<^verbatim>\<open>fmt.Errorf\<close> without \<^verbatim>\<open>%w\<close> (and \<^verbatim>\<open>errors.New\<close> when
  \<open>args\<close> is empty), \<open>Wrapf f args e\<close> is \<^verbatim>\<open>fmt.Errorf\<close> with \<^verbatim>\<open>%w\<close> bound to \<open>e\<close>.
  \<open>Canceled\<close> is \<^verbatim>\<open>context.Canceled\<close>, \<open>NotFound\<close> an API error for which
  \<^verbatim>\<open>apierrors.IsNotFound\<close> holds, \<open>MaxBytesError\<close> the error of \<^verbatim>\<open>http.MaxBytesReader\<close>,
  \<open>ErrJoin\<close> the value of \<^verbatim>\<open>errors.Join\<close>.
\<close>

datatype msg =
    StrArg string
  | IntArg int
  | QuotedArg string
  | ErrArg error
  | Sprintf string "msg list"
  | Joined string "msg list"
and error =
    Errorf string "msg list"
  | Wrapf string "msg list" error
  | Canceled
  | NotFound string
  | MaxBytesError nat
  | ErrJoin "error list"

text \<open>
  The outcome of a Go call. \<open>Panic\<close> is a run-time panic that unwinds the goroutine
  (nil dereference, index out of range, \<^verbatim>\<open>regexp.MustCompile\<close>), \<open>Blocked\<close> says that the
  goroutine has not returned within the number of scheduler wake-ups given to the model.
\<close>

datatype 'a result = Ok 'a | Err error | Panic string | Blocked

definition errors_New :: "string \<Rightarrow> error" where
  "errors_New s = Errorf s []"

fun rbind :: "'a result \<Rightarrow> ('a \<Rightarrow> 'b result) \<Rightarrow> 'b result" where
  "rbind (Ok x) f = f x"
| "rbind (Err e) f = Err e"
| "rbind (Panic p) f = Panic p"
| "rbind Blocked f = Blocked"

text \<open>Outside functions fail only with an error: their results are sums.\<close>

fun lift :: "error + 'a \<Rightarrow> 'a result" where
  "lift (Inl e) = Err e"
| "lift (Inr x) = Ok x"

text \<open>\<^verbatim>\<open>if err != nil { return ..., fmt.Errorf("...: %w", err) }\<close> around a call.\<close>

fun map_err :: "(error \<Rightarrow> error) \<Rightarrow> 'a result \<Rightarrow> 'a result" where
  "map_err f (Ok x) = Ok x"
| "map_err f (Err e) = Err (f e)"
| "map_err f (Panic p) = Panic p"
| "map_err f Blocked = Blocked"

fun is_ok :: "'a result \<Rightarrow> bool" where
  "is_ok (Ok x) = True"
| "is_ok (Err e) = False"
| "is_ok (Panic p) = False"
| "is_ok Blocked = False"

text \<open>Dereferencing a pointer: nil panics.\<close>

definition deref :: "'a option \<Rightarrow> 'a result" where
  "deref p = (case p of None \<Rightarrow> Panic ''nil pointer dereference'' | Some x \<Rightarrow> Ok x)"

text \<open>Indexing a slice: out of range panics.\<close>

definition slice_at :: "'a list \<Rightarrow> nat \<Rightarrow> 'a result" where
  "slice_at xs i = (if i < length xs then Ok (xs ! i) else Panic ''index out of range'')"

section \<open>Go maps\<close>

text \<open>
  A Go map is an association list with distinct keys; \<open>map_of\<close>, \<open>AList.update\<close> and
  \<open>AList.delete\<close> are read, store and \<^verbatim>\<open>delete\<close>. Iteration with \<^verbatim>\<open>range\<close> visits every entry
  once in an order the language leaves open: definitions that iterate over a map take the
  order as an argument, a function that permutes the list of keys.
\<close>

type_synonym ('k, 'v) gomap = "('k \<times> 'v) list"

abbreviation gomap_ok :: "('k, 'v) gomap \<Rightarrow> bool" where
  "gomap_ok m \<equiv> distinct (map fst m)"

definition range_order :: "('a list \<Rightarrow> 'a list) \<Rightarrow> bool" where
  "range_order ord \<longleftrightarrow> (\<forall>xs. mset (ord xs) = mset xs)"

section \<open>Lemmas\<close>

lemma rbind_Ok_iff [go_simps]: "rbind r f = Ok y \<longleftrightarrow> (\<exists>x. r = Ok x \<and> f x = Ok y)"
  by (cases r) auto

lemma rbind_assoc [go_simps]: "rbind (rbind r f) g = rbind r (\<lambda>x. rbind (f x) g)"
  by (cases r) auto

lemma map_err_Ok_iff [go_simps]: "map_err f r = Ok x \<longleftrightarrow> r = Ok x"
  by (cases r) auto

lemma map_err_Panic_iff [go_simps]: "map_err f r = Panic p \<longleftrightarrow> r = Panic p"
  by (cases r) auto

lemma map_err_Err_iff [go_simps]: "map_err f r = Err e \<longleftrightarrow> (\<exists>e'. r = Err e' \<and> e = f e')"
  by (cases r) auto

lemma is_ok_iff [go_simps]: "is_ok r \<longleftrightarrow> (\<exists>x. r = Ok x)"
  by (cases r) auto

lemma lift_Ok_iff [go_simps]: "lift r = Ok x \<longleftrightarrow> r = Inr x"
  by (cases r) auto

lemma lift_Err_iff [go_simps]: "lift r = Err e \<longleftrightarrow> r = Inl e"
  by (cases r) auto

lemma lift_no_panic [simp]: "lift r \<noteq> Panic p" "lift r \<noteq> Blocked"
  by (cases r; simp)+

text \<open>A call that returns: a value or an error, no panic and no endless wait.\<close>

definition returns :: "'a result \<Rightarrow> bool" where
  "returns r \<longleftrightarrow> (\<exists>x. r = Ok x) \<or> (\<exists>e. r = Err e)"

lemma returns_simps [simp]:
  "returns (Ok x)" "returns (Err e)" "\<not> returns (Panic p)" "\<not> returns Blocked"
  by (simp_all add: returns_def)

lemma returns_lift [simp]: "returns (lift r)"
  by (cases r) auto

lemma returns_map_err [simp]: "returns (map_err f r) = returns r"
  by (cases r) auto

lemma returns_rbind: "returns r \<Longrightarrow> (\<And>x. r = Ok x \<Longrightarrow> returns (f x)) \<Longrightarrow> returns (rbind r f)"
  by (cases r) auto

lemma returns_cases [consumes 1, case_names Ok Err]:
  assumes "returns r" obtains x where "r = Ok x" | e where "r = Err e"
  using assms by (auto simp: returns_def)

lemma deref_simps [simp]:
  "deref (Some x) = Ok x" "deref None = Panic ''nil pointer dereference''"
  by (simp_all add: deref_def)

lemma deref_Ok_iff [go_simps]: "deref p = Ok x \<longleftrightarrow> p = Some x"
  by (cases p) auto

lemma slice_at_Ok_iff [go_simps]: "slice_at xs i = Ok x \<longleftrightarrow> i < length xs \<and> xs ! i = x"
  by (auto simp: slice_at_def)

lemma range_order_set [simp]: "range_order ord \<Longrightarrow> set (ord xs) = set xs"
  by (metis range_order_def set_mset_mset)

lemma range_order_distinct [simp]: "range_order ord \<Longrightarrow> distinct (ord xs) = distinct xs"
  by (metis mset_eq_imp_distinct_iff range_order_def)

lemma range_order_length [simp]: "range_order ord \<Longrightarrow> length (ord xs) = length xs"
  by (metis range_order_def size_mset)

lemma range_order_id [intro]: "range_order (\<lambda>xs. xs)"
  by (simp add: range_order_def)

lemma range_order_rev [intro]: "range_order rev"
  by (simp add: range_order_def)

lemma map_of_AList_update [simp]: "map_of (AList.update k v m) = (map_of m)(k \<mapsto> v)"
  by (simp add: update_conv')

lemma map_of_AList_delete [simp]: "map_of (AList.delete k m) = (map_of m)(k := None)"
  by (simp add: delete_conv')

end
