(* ===== verification/Memory.thy ===== *)
theory Memory
  imports Prelude
begin

text \<open>
  Go values in memory, with the sharing that pointers, slices and maps bring, and the shapes of
  statement that a deep copy is made of. A struct is stored in place, a pointer, slice or map by
  the address of its cell. What a typed value means is the tree that \<open>view\<close> unfolds; the cells it
  depends on are its \<open>addrs\<close>. The interface \<open>deep_copier\<close> states what a copy function promises: the
  same tree, made of new cells only.
\<close>

section \<open>Values, cells, types\<close>

text \<open>\<open>VSlice a i n\<close> are the \<open>n\<close> elements from index \<open>i\<close> on of the array at \<open>a\<close>; \<open>VNil\<close> is every kind of nil.\<close>

datatype gval =
    VStr string
  | VInt int
  | VNil
  | VPtr nat
  | VSlice nat nat nat
  | VMap nat
  | VStruct "(string \<times> gval) list"

datatype cell = Cell gval | Backing "gval list" | Table "(string \<times> gval) list"

type_synonym mem = "cell list"

datatype gty =
    TStr
  | TInt
  | TPtr gty
  | TSlice gty
  | TMap gty
  | TStruct "(string \<times> gty) list"

text \<open>The tree a value stands for; nil and empty slices and maps differ.\<close>

datatype gtree =
    NStr string
  | NInt int
  | NNil
  | NPtr gtree
  | NSlice "gtree list"
  | NMap "(string \<times> gtree) list"
  | NStruct "(string \<times> gtree) list"

definition cell_at :: "mem \<Rightarrow> nat \<Rightarrow> cell option" where
  "cell_at m a = (if a < length m then Some (m ! a) else None)"

text \<open>The elements of a slice, when it lies within its array.\<close>

definition slice_of :: "gval list \<Rightarrow> nat \<Rightarrow> nat \<Rightarrow> gval list option" where
  "slice_of vs i n = (if i + n \<le> length vs then Some (take n (drop i vs)) else None)"

fun view :: "gty \<Rightarrow> mem \<Rightarrow> gval \<Rightarrow> gtree option"
  and view_fields :: "(string \<times> gty) list \<Rightarrow> mem \<Rightarrow> (string \<times> gval) list \<Rightarrow> (string \<times> gtree) list option" where
  "view TStr m v = (case v of VStr s \<Rightarrow> Some (NStr s) | _ \<Rightarrow> None)"
| "view TInt m v = (case v of VInt i \<Rightarrow> Some (NInt i) | _ \<Rightarrow> None)"
| "view (TPtr t) m v =
     (case v of
        VNil \<Rightarrow> Some NNil
      | VPtr a \<Rightarrow> (case cell_at m a of Some (Cell x) \<Rightarrow> map_option NPtr (view t m x) | _ \<Rightarrow> None)
      | _ \<Rightarrow> None)"
| "view (TSlice t) m v =
     (case v of
        VNil \<Rightarrow> Some NNil
      | VSlice a i n \<Rightarrow>
          (case cell_at m a of
             Some (Backing vs) \<Rightarrow> Option.bind (slice_of vs i n) (\<lambda>xs. map_option NSlice (those (map (view t m) xs)))
           | _ \<Rightarrow> None)
      | _ \<Rightarrow> None)"
| "view (TMap t) m v =
     (case v of
        VNil \<Rightarrow> Some NNil
      | VMap a \<Rightarrow>
          (case cell_at m a of
             Some (Table es) \<Rightarrow> map_option (\<lambda>ts. NMap (zip (map fst es) ts)) (those (map (view t m) (map snd es)))
           | _ \<Rightarrow> None)
      | _ \<Rightarrow> None)"
| "view (TStruct fs) m v = (case v of VStruct vs \<Rightarrow> map_option NStruct (view_fields fs m vs) | _ \<Rightarrow> None)"
| "view_fields [] m vs = (if vs = [] then Some [] else None)"
| "view_fields ((f, t) # fs) m vs =
     (case vs of
        (g, v) # vs' \<Rightarrow>
          (if g = f then
             (case view t m v of
                Some x \<Rightarrow> map_option (\<lambda>xs. (f, x) # xs) (view_fields fs m vs')
              | None \<Rightarrow> None)
           else None)
      | [] \<Rightarrow> None)"

text \<open>The cells a value is made of.\<close>

fun addrs :: "gty \<Rightarrow> mem \<Rightarrow> gval \<Rightarrow> nat set"
  and addrs_fields :: "(string \<times> gty) list \<Rightarrow> mem \<Rightarrow> (string \<times> gval) list \<Rightarrow> nat set" where
  "addrs TStr m v = {}"
| "addrs TInt m v = {}"
| "addrs (TPtr t) m v =
     (case v of VPtr a \<Rightarrow> insert a (case cell_at m a of Some (Cell x) \<Rightarrow> addrs t m x | _ \<Rightarrow> {}) | _ \<Rightarrow> {})"
| "addrs (TSlice t) m v =
     (case v of
        VSlice a i n \<Rightarrow> insert a
          (case cell_at m a of
             Some (Backing vs) \<Rightarrow> (case slice_of vs i n of Some xs \<Rightarrow> \<Union>(set (map (addrs t m) xs)) | None \<Rightarrow> {})
           | _ \<Rightarrow> {})
      | _ \<Rightarrow> {})"
| "addrs (TMap t) m v =
     (case v of
        VMap a \<Rightarrow> insert a (case cell_at m a of Some (Table es) \<Rightarrow> \<Union>(set (map (addrs t m) (map snd es))) | _ \<Rightarrow> {})
      | _ \<Rightarrow> {})"
| "addrs (TStruct fs) m v = (case v of VStruct vs \<Rightarrow> addrs_fields fs m vs | _ \<Rightarrow> {})"
| "addrs_fields [] m vs = {}"
| "addrs_fields ((f, t) # fs) m vs =
     (case vs of (g, v) # vs' \<Rightarrow> addrs t m v \<union> addrs_fields fs m vs' | [] \<Rightarrow> {})"

section \<open>Frames\<close>

text \<open>A value depends on its own cells only, and these exist.\<close>

lemma those_Some: "those xs = Some ys \<longleftrightarrow> xs = map Some ys"
proof (induction xs arbitrary: ys)
  case (Cons x xs)
  then show ?case by (cases x; cases ys) auto
qed auto

lemma those_map_frame:
  assumes "those (map f xs) = Some ys" and "\<And>z y. z \<in> set xs \<Longrightarrow> f z = Some y \<Longrightarrow> g z = Some y"
  shows "those (map g xs) = Some ys"
  using assms by (auto simp: those_Some list_eq_iff_nth_eq)

lemma those_map_mem: "those (map f xs) = Some ys \<Longrightarrow> z \<in> set xs \<Longrightarrow> \<exists>y. f z = Some y"
  by (auto simp: those_Some list_eq_iff_nth_eq in_set_conv_nth)

lemma view_frame:
  "view t m v = Some x \<Longrightarrow> (\<And>a. a \<in> addrs t m v \<Longrightarrow> cell_at m' a = cell_at m a) \<Longrightarrow>
     view t m' v = Some x \<and> addrs t m' v = addrs t m v"
  "view_fields fs m vs = Some xs \<Longrightarrow> (\<And>a. a \<in> addrs_fields fs m vs \<Longrightarrow> cell_at m' a = cell_at m a) \<Longrightarrow>
     view_fields fs m' vs = Some xs \<and> addrs_fields fs m' vs = addrs_fields fs m vs"
proof (induction t m v and fs m vs arbitrary: x and xs rule: view_view_fields.induct)
  case (4 t m v)
  show ?case
  proof (cases "v = VNil")
    case True
    with 4 show ?thesis by auto
  next
    case False
    then obtain a i n vs xs ys where v: "v = VSlice a i n" and c: "cell_at m a = Some (Backing vs)" and s: "slice_of vs i n = Some xs"
      and ys: "those (map (view t m) xs) = Some ys" and x: "x = NSlice ys"
      using 4(2) by (auto split: gval.splits option.splits cell.splits simp: bind_eq_Some_conv)
    have c': "cell_at m' a = Some (Backing vs)" using 4(3) [of a] c by (simp add: v)
    have fr: "view t m' z = Some y \<and> addrs t m' z = addrs t m z" if "z \<in> set xs" "view t m z = Some y" for z y
      by (rule 4(1) [OF v c refl s that]) (use 4(3) that(1) c s in \<open>auto simp: v\<close>)
    have "those (map (view t m') xs) = Some ys" using ys by (rule those_map_frame) (use fr in blast)
    moreover have "map (addrs t m') xs = map (addrs t m) xs" using fr those_map_mem [OF ys] by (intro map_cong) blast+
    ultimately show ?thesis using v c c' s x by simp
  qed
next
  case (5 t m v)
  show ?case
  proof (cases "v = VNil")
    case True
    with 5 show ?thesis by auto
  next
    case False
    then obtain a es ys where v: "v = VMap a" and c: "cell_at m a = Some (Table es)"
      and ys: "those (map (view t m) (map snd es)) = Some ys" and x: "x = NMap (zip (map fst es) ys)"
      using 5(2) by (auto split: gval.splits option.splits cell.splits)
    have c': "cell_at m' a = Some (Table es)" using 5(3) [of a] c by (simp add: v)
    have fr: "view t m' z = Some y \<and> addrs t m' z = addrs t m z" if "z \<in> set (map snd es)" "view t m z = Some y" for z y
      by (rule 5(1) [OF v c refl that]) (use 5(3) that(1) c in \<open>auto simp: v\<close>)
    have "those (map (view t m') (map snd es)) = Some ys" using ys by (rule those_map_frame) (use fr in blast)
    moreover have "map (addrs t m') (map snd es) = map (addrs t m) (map snd es)"
      using fr those_map_mem [OF ys] by (intro map_cong) blast+
    ultimately show ?thesis using v c c' x by (simp del: map_map)
  qed
qed (auto split: gval.splits option.splits cell.splits list.splits if_splits, blast)

lemma addrs_exist:
  "view t m v = Some x \<Longrightarrow> a \<in> addrs t m v \<Longrightarrow> a < length m"
  "view_fields fs m vs = Some xs \<Longrightarrow> a \<in> addrs_fields fs m vs \<Longrightarrow> a < length m"
proof (induction t m v and fs m vs arbitrary: x and xs rule: view_view_fields.induct)
  case (4 t m v)
  show ?case
  proof (cases "v = VNil")
    case True
    with 4(3) show ?thesis by simp
  next
    case False
    then obtain b i n vs xs ys where v: "v = VSlice b i n" "cell_at m b = Some (Backing vs)" "slice_of vs i n = Some xs"
      and ys: "those (map (view t m) xs) = Some ys"
      using 4(2) by (auto split: gval.splits option.splits cell.splits simp: bind_eq_Some_conv)
    have "b < length m" using v(2) by (simp add: cell_at_def split: if_splits)
    moreover have "a < length m" if "z \<in> set xs" "a \<in> addrs t m z" for z
      using 4(1) [OF v(1,2) refl v(3) that(1) _ that(2)] those_map_mem [OF ys that(1)] by blast
    ultimately show ?thesis using 4(3) v by auto
  qed
next
  case (5 t m v)
  show ?case
  proof (cases "v = VNil")
    case True
    with 5(3) show ?thesis by simp
  next
    case False
    then obtain b es ys where v: "v = VMap b" "cell_at m b = Some (Table es)" and ys: "those (map (view t m) (map snd es)) = Some ys"
      using 5(2) by (auto split: gval.splits option.splits cell.splits)
    have "b < length m" using v(2) by (simp add: cell_at_def split: if_splits)
    moreover have "a < length m" if "z \<in> set (map snd es)" "a \<in> addrs t m z" for z
      using 5(1) [OF v refl that(1) _ that(2)] those_map_mem [OF ys that(1)] by blast
    ultimately show ?thesis using 5(3) v by auto
  qed
qed (auto split: gval.splits option.splits cell.splits list.splits if_splits simp: cell_at_def)

lemma cell_at_append: "a < length m \<Longrightarrow> cell_at (m @ m') a = cell_at m a"
  by (simp add: cell_at_def nth_append)

lemma cell_at_new [simp]: "cell_at (m @ [c]) (length m) = Some c"
  by (simp add: cell_at_def)

lemma cell_at_write: "b \<noteq> a \<Longrightarrow> cell_at (m[b := c]) a = cell_at m a"
  by (simp add: cell_at_def)

text \<open>Memory that grows keeps all values, and a write keeps those that do not contain the cell.\<close>

lemma view_grow:
  assumes "view t m v = Some x"
  shows "view t (m @ m') v = Some x" and "addrs t (m @ m') v = addrs t m v"
  using view_frame(1) [OF assms, of "m @ m'"] addrs_exist(1) [OF assms] by (auto simp: cell_at_append)

lemma view_write: "view t m v = Some x \<Longrightarrow> b \<notin> addrs t m v \<Longrightarrow> view t (m[b := c]) v = Some x"
  using view_frame(1) [of t m v x "m[b := c]"] by (metis cell_at_write)

section \<open>Copy functions\<close>

type_synonym copier = "gval \<Rightarrow> mem \<Rightarrow> gval result \<times> mem"

definition andThen :: "'a result \<times> mem \<Rightarrow> ('a \<Rightarrow> mem \<Rightarrow> 'b result \<times> mem) \<Rightarrow> 'b result \<times> mem" where
  "andThen r k =
     (case r of
        (Ok x, m) \<Rightarrow> k x m
      | (Err e, m) \<Rightarrow> (Err e, m)
      | (Panic p, m) \<Rightarrow> (Panic p, m)
      | (Blocked, m) \<Rightarrow> (Blocked, m))"

text \<open>\<^verbatim>\<open>new\<close>, \<^verbatim>\<open>make\<close>: a new cell, here with its final contents, as nothing looks at it before.\<close>

definition new_cell :: "cell \<Rightarrow> (nat \<Rightarrow> gval) \<Rightarrow> mem \<Rightarrow> gval result \<times> mem" where
  "new_cell c ref m = (Ok (ref (length m)), m @ [c])"

definition nil_panic :: "mem \<Rightarrow> 'a result \<times> mem" where
  "nil_panic m = (Panic ''invalid memory address or nil pointer dereference'', m)"

text \<open>\<^verbatim>\<open>*out = *in\<close> and nothing more.\<close>

definition copy_plain :: copier where
  "copy_plain v m = (Ok v, m)"

text \<open>\<^verbatim>\<open>if in.F != nil { *out = new(T); (*in).DeepCopyInto(*out) }\<close>.\<close>

definition copy_ptr :: "copier \<Rightarrow> copier" where
  "copy_ptr c v m =
     (case v of
        VNil \<Rightarrow> (Ok VNil, m)
      | VPtr a \<Rightarrow> (case cell_at m a of Some (Cell x) \<Rightarrow> andThen (c x m) (\<lambda>y. new_cell (Cell y) VPtr) | _ \<Rightarrow> nil_panic m)
      | _ \<Rightarrow> nil_panic m)"

fun copy_elems :: "copier \<Rightarrow> gval list \<Rightarrow> mem \<Rightarrow> gval list result \<times> mem" where
  "copy_elems c [] m = (Ok [], m)"
| "copy_elems c (x # xs) m = andThen (c x m) (\<lambda>y m'. andThen (copy_elems c xs m') (\<lambda>ys m''. (Ok (y # ys), m'')))"

text \<open>\<^verbatim>\<open>if in.F != nil { *out = make([]T, len(*in)); for i := range *in { (*in)[i].DeepCopyInto(&(*out)[i]) } }\<close>.\<close>

definition copy_slice :: "copier \<Rightarrow> copier" where
  "copy_slice c v m =
     (case v of
        VNil \<Rightarrow> (Ok VNil, m)
      | VSlice a i n \<Rightarrow>
          (case cell_at m a of
             Some (Backing vs) \<Rightarrow>
               (case slice_of vs i n of
                  Some xs \<Rightarrow> andThen (copy_elems c xs m) (\<lambda>ys. new_cell (Backing ys) (\<lambda>b. VSlice b 0 n))
                | None \<Rightarrow> nil_panic m)
           | _ \<Rightarrow> nil_panic m)
      | _ \<Rightarrow> nil_panic m)"

text \<open>\<^verbatim>\<open>*out = make(map[string]T, len(*in)); for key, val := range *in { (*out)[key] = copy of val }\<close>.\<close>

definition copy_map :: "copier \<Rightarrow> copier" where
  "copy_map c v m =
     (case v of
        VNil \<Rightarrow> (Ok VNil, m)
      | VMap a \<Rightarrow>
          (case cell_at m a of
             Some (Table es) \<Rightarrow> andThen (copy_elems c (map snd es) m) (\<lambda>ys. new_cell (Table (zip (map fst es) ys)) VMap)
           | _ \<Rightarrow> nil_panic m)
      | _ \<Rightarrow> nil_panic m)"

text \<open>
  The body of a \<^verbatim>\<open>DeepCopyInto\<close>: after \<^verbatim>\<open>*out = *in\<close>, each listed field of \<^verbatim>\<open>out\<close> is set to a copy of
  that field of \<^verbatim>\<open>in\<close>.
\<close>

fun set_fields :: "(string \<times> copier) list \<Rightarrow> (string \<times> gval) list \<Rightarrow> (string \<times> gval) list \<Rightarrow> mem \<Rightarrow> gval result \<times> mem" where
  "set_fields [] inp out m = (Ok (VStruct out), m)"
| "set_fields ((f, c) # cs) inp out m =
     (case map_of inp f of
        Some v \<Rightarrow> andThen (c v m) (\<lambda>y. set_fields cs inp (AList.update f y out))
      | None \<Rightarrow> nil_panic m)"

definition copy_struct :: "(string \<times> copier) list \<Rightarrow> copier" where
  "copy_struct cs v m = (case v of VStruct vs \<Rightarrow> set_fields cs vs vs m | _ \<Rightarrow> nil_panic m)"

text \<open>Types without pointers, of which the assignment is a copy.\<close>

fun flat :: "gty \<Rightarrow> bool" where
  "flat TStr = True"
| "flat TInt = True"
| "flat (TStruct fs) = list_all (\<lambda>(f, t). flat t) fs"
| "flat _ = False"

section \<open>The promise of a copy function\<close>

locale deep_copier =
  fixes ty :: gty and copy :: copier
  assumes copies: "view ty m v = Some x \<Longrightarrow>
    \<exists>v' m'. copy v m = (Ok v', m @ m') \<and> view ty (m @ m') v' = Some x \<and> addrs ty (m @ m') v' \<subseteq> {length m..}"
begin

text \<open>The copy shares nothing with the original: whatever is written through one is not seen through the other.\<close>

lemma independent:
  assumes "view ty m v = Some x"
  shows "\<exists>v' m'. copy v m = (Ok v', m @ m') \<and> view ty (m @ m') v' = Some x \<and> addrs ty (m @ m') v \<inter> addrs ty (m @ m') v' = {}
    \<and> (\<forall>b c. b \<in> addrs ty (m @ m') v' \<longrightarrow> view ty ((m @ m')[b := c]) v = Some x)
    \<and> (\<forall>b c. b \<in> addrs ty (m @ m') v \<longrightarrow> view ty ((m @ m')[b := c]) v' = Some x)"
proof -
  obtain v' m' where c: "copy v m = (Ok v', m @ m')" "view ty (m @ m') v' = Some x" "addrs ty (m @ m') v' \<subseteq> {length m..}"
    using copies [OF assms] by blast
  have dis: "addrs ty (m @ m') v \<inter> addrs ty (m @ m') v' = {}"
    using c(3) addrs_exist(1) [OF assms] unfolding view_grow(2) [OF assms] by fastforce
  then show ?thesis using c view_write [OF c(2)] view_write [OF view_grow(1) [OF assms]] by blast
qed

end

lemma andThen_Ok [simp]: "andThen (Ok x, m) k = k x m"
  by (simp add: andThen_def)

lemma flat_addrs: "flat t \<Longrightarrow> addrs t m v = {}" "list_all (\<lambda>(f, t). flat t) fs \<Longrightarrow> addrs_fields fs m vs = {}"
  by (induction t m v and fs m vs rule: addrs_addrs_fields.induct) (auto split: gval.splits list.splits)

lemma deep_copier_plain: "flat t \<Longrightarrow> deep_copier t copy_plain"
  by unfold_locales (auto simp: copy_plain_def flat_addrs intro: exI [of _ "[]"])

lemma deep_copier_ptr:
  assumes "deep_copier t c"
  shows "deep_copier (TPtr t) (copy_ptr c)"
proof
  fix m v x
  assume x: "view (TPtr t) m v = Some x"
  show "\<exists>v' m'. copy_ptr c v m = (Ok v', m @ m') \<and> view (TPtr t) (m @ m') v' = Some x \<and> addrs (TPtr t) (m @ m') v' \<subseteq> {length m..}"
  proof (cases "v = VNil")
    case True
    with x show ?thesis by (intro exI [of _ VNil] exI [of _ "[]"]) (simp add: copy_ptr_def)
  next
    case False
    then obtain a u y where v: "v = VPtr a" "cell_at m a = Some (Cell u)" "view t m u = Some y" "x = NPtr y"
      using x by (auto split: gval.splits option.splits cell.splits)
    obtain u' m1 where c: "c u m = (Ok u', m @ m1)" "view t (m @ m1) u' = Some y" "addrs t (m @ m1) u' \<subseteq> {length m..}"
      using deep_copier.copies [OF assms v(3)] by blast
    let ?m' = "m1 @ [Cell u']"
    have new: "cell_at (m @ ?m') (length (m @ m1)) = Some (Cell u')" using cell_at_new [of "m @ m1"] by simp
    have "copy_ptr c v m = (Ok (VPtr (length (m @ m1))), m @ ?m')" using v c(1) by (simp add: copy_ptr_def new_cell_def)
    moreover have "view (TPtr t) (m @ ?m') (VPtr (length (m @ m1))) = Some x"
      using new view_grow(1) [OF c(2), of "[Cell u']"] v(4) by simp
    moreover have "addrs (TPtr t) (m @ ?m') (VPtr (length (m @ m1))) \<subseteq> {length m..}"
      using new c(3) view_grow(2) [OF c(2), of "[Cell u']"] by simp
    ultimately show ?thesis by blast
  qed
qed

lemma copy_elems_copies:
  assumes "deep_copier t c"
  shows "those (map (view t m) xs) = Some ts \<Longrightarrow>
    \<exists>ys m'. copy_elems c xs m = (Ok ys, m @ m') \<and> length ys = length xs \<and> those (map (view t (m @ m')) ys) = Some ts
      \<and> (\<forall>y \<in> set ys. addrs t (m @ m') y \<subseteq> {length m..})"
proof (induction xs arbitrary: m ts)
  case Nil
  then show ?case by simp
next
  case (Cons x xs)
  then obtain x1 ts1 where x1: "view t m x = Some x1" and ts1: "those (map (view t m) xs) = Some ts1" "ts = x1 # ts1"
    by (auto split: option.splits)
  obtain y m1 where y: "c x m = (Ok y, m @ m1)" "view t (m @ m1) y = Some x1" "addrs t (m @ m1) y \<subseteq> {length m..}"
    using deep_copier.copies [OF assms x1] by blast
  have "those (map (view t (m @ m1)) xs) = Some ts1" using ts1(1) by (rule those_map_frame) (rule view_grow(1))
  from Cons.IH [OF this] obtain ys m2 where ys: "copy_elems c xs (m @ m1) = (Ok ys, (m @ m1) @ m2)" "length ys = length xs"
    "those (map (view t ((m @ m1) @ m2)) ys) = Some ts1" "\<forall>y \<in> set ys. addrs t ((m @ m1) @ m2) y \<subseteq> {length (m @ m1)..}" by blast
  have "\<forall>y \<in> set ys. addrs t (m @ m1 @ m2) y \<subseteq> {length m..}" using ys(4) by (fastforce dest: add_leD1)
  then show ?case
    using y(1,3) ys(1-3) ts1(2) view_grow [OF y(2), of m2]
    by (intro exI [of _ "y # ys"] exI [of _ "m1 @ m2"]) auto
qed

lemma deep_copier_slice:
  assumes "deep_copier t c"
  shows "deep_copier (TSlice t) (copy_slice c)"
proof
  fix m v x
  assume x: "view (TSlice t) m v = Some x"
  show "\<exists>v' m'. copy_slice c v m = (Ok v', m @ m') \<and> view (TSlice t) (m @ m') v' = Some x \<and> addrs (TSlice t) (m @ m') v' \<subseteq> {length m..}"
  proof (cases "v = VNil")
    case True
    with x show ?thesis by (intro exI [of _ VNil] exI [of _ "[]"]) (simp add: copy_slice_def)
  next
    case False
    then obtain a i n vs xs ts where v: "v = VSlice a i n" "cell_at m a = Some (Backing vs)" "slice_of vs i n = Some xs"
      and ts: "those (map (view t m) xs) = Some ts" and x': "x = NSlice ts"
      using x by (auto split: gval.splits option.splits cell.splits simp: bind_eq_Some_conv)
    obtain ys m1 where ys: "copy_elems c xs m = (Ok ys, m @ m1)" "length ys = length xs" "those (map (view t (m @ m1)) ys) = Some ts"
      "\<forall>y \<in> set ys. addrs t (m @ m1) y \<subseteq> {length m..}" using copy_elems_copies [OF assms ts] by blast
    let ?m' = "m1 @ [Backing ys]" and ?b = "length (m @ m1)"
    have n: "length xs = n" using v(3) by (auto simp: slice_of_def split: if_splits)
    have new: "cell_at (m @ ?m') ?b = Some (Backing ys)" using cell_at_new [of "m @ m1"] by simp
    have all: "slice_of ys 0 n = Some ys" using n ys(2) by (simp add: slice_of_def)
    have fr: "view t (m @ ?m') y = Some z \<and> addrs t (m @ ?m') y = addrs t (m @ m1) y" if "view t (m @ m1) y = Some z" for y z
      using view_grow [OF that, of "[Backing ys]"] by simp
    have "copy_slice c v m = (Ok (VSlice ?b 0 n), m @ ?m')" using v ys(1) by (simp add: copy_slice_def new_cell_def)
    moreover have "view (TSlice t) (m @ ?m') (VSlice ?b 0 n) = Some x"
      using new all x' those_map_frame [OF ys(3), of "view t (m @ ?m')"] fr by simp
    moreover have "addrs (TSlice t) (m @ ?m') (VSlice ?b 0 n) \<subseteq> {length m..}"
      using new all ys(4) fr those_map_mem [OF ys(3)] by fastforce
    ultimately show ?thesis by blast
  qed
qed

lemma deep_copier_map:
  assumes "deep_copier t c"
  shows "deep_copier (TMap t) (copy_map c)"
proof
  fix m v x
  assume x: "view (TMap t) m v = Some x"
  show "\<exists>v' m'. copy_map c v m = (Ok v', m @ m') \<and> view (TMap t) (m @ m') v' = Some x \<and> addrs (TMap t) (m @ m') v' \<subseteq> {length m..}"
  proof (cases "v = VNil")
    case True
    with x show ?thesis by (intro exI [of _ VNil] exI [of _ "[]"]) (simp add: copy_map_def)
  next
    case False
    then obtain a es ts where v: "v = VMap a" "cell_at m a = Some (Table es)"
      and ts: "those (map (view t m) (map snd es)) = Some ts" and x': "x = NMap (zip (map fst es) ts)"
      using x by (auto split: gval.splits option.splits cell.splits)
    obtain ys m1 where ys: "copy_elems c (map snd es) m = (Ok ys, m @ m1)" "length ys = length (map snd es)"
      "those (map (view t (m @ m1)) ys) = Some ts" "\<forall>y \<in> set ys. addrs t (m @ m1) y \<subseteq> {length m..}"
      using copy_elems_copies [OF assms ts] by blast
    let ?tb = "Table (zip (map fst es) ys)" and ?b = "length (m @ m1)"
    let ?m' = "m1 @ [?tb]"
    have new: "cell_at (m @ ?m') ?b = Some ?tb" using cell_at_new [of "m @ m1"] by simp
    have parts: "map snd (zip (map fst es) ys) = ys" "map fst (zip (map fst es) ys) = map fst es" using ys(2) by simp_all
    have fr: "view t (m @ ?m') y = Some z \<and> addrs t (m @ ?m') y = addrs t (m @ m1) y" if "view t (m @ m1) y = Some z" for y z
      using view_grow [OF that, of "[?tb]"] by simp
    have "copy_map c v m = (Ok (VMap ?b), m @ ?m')" using v ys(1) by (simp add: copy_map_def new_cell_def del: map_map)
    moreover have "view (TMap t) (m @ ?m') (VMap ?b) = Some x"
      using new x' those_map_frame [OF ys(3), of "view t (m @ ?m')"] fr by (simp del: map_map add: parts)
    moreover have "addrs (TMap t) (m @ ?m') (VMap ?b) \<subseteq> {length m..}"
    proof -
      have "addrs t (m @ ?m') y \<subseteq> {length m..}" if "y \<in> set ys" for y
        using ys(4) fr those_map_mem [OF ys(3) that] that by (metis (no_types))
      then show ?thesis using new by (simp del: map_map add: parts) blast
    qed
    ultimately show ?thesis by blast
  qed
qed

text \<open>The fields of a struct by name.\<close>

lemma map_of_key: "map_of fs g = Some t \<Longrightarrow> g \<in> fst ` set fs"
  by (force dest: map_of_SomeD)

lemma view_fields_names: "view_fields fs m vs = Some xs \<Longrightarrow> map fst vs = map fst fs \<and> map fst xs = map fst fs"
proof (induction fs arbitrary: vs xs)
  case (Cons ft fs)
  then show ?case by (cases ft) (auto split: list.splits if_splits option.splits)
qed (auto split: if_splits)

lemma view_fields_by_name:
  "distinct (map fst fs) \<Longrightarrow> map fst vs = map fst fs \<Longrightarrow> map fst xs = map fst fs \<Longrightarrow>
     view_fields fs m vs = Some xs \<longleftrightarrow>
       (\<forall>f t. map_of fs f = Some t \<longrightarrow> (\<exists>v x. map_of vs f = Some v \<and> map_of xs f = Some x \<and> view t m v = Some x))"
proof (induction fs arbitrary: vs xs)
  case (Cons ft fs)
  obtain f t where ft: "ft = (f, t)" by force
  obtain v vs' x xs' where vs: "vs = (f, v) # vs'" "map fst vs' = map fst fs" "xs = (f, x) # xs'" "map fst xs' = map fst fs"
    using Cons.prems(2,3) ft by (auto simp: Cons_eq_map_conv)
  have notin: "f \<notin> fst ` set fs" "distinct (map fst fs)" using Cons.prems(1) ft by auto
  have other: "map_of fs g = Some t' \<Longrightarrow> g \<noteq> f" for g t' using notin(1) map_of_key by metis
  have "(\<forall>g t'. map_of ((f, t) # fs) g = Some t' \<longrightarrow> (\<exists>u y. map_of vs g = Some u \<and> map_of xs g = Some y \<and> view t' m u = Some y))
    \<longleftrightarrow> view t m v = Some x
      \<and> (\<forall>g t'. map_of fs g = Some t' \<longrightarrow> (\<exists>u y. map_of vs' g = Some u \<and> map_of xs' g = Some y \<and> view t' m u = Some y))"
    unfolding vs using other by auto
  then show ?case using Cons.IH [OF notin(2) vs(2,4)] ft vs by (auto split: option.splits)
qed auto

lemma addrs_fields_by_name:
  "distinct (map fst fs) \<Longrightarrow> map fst vs = map fst fs \<Longrightarrow> a \<in> addrs_fields fs m vs \<Longrightarrow>
     \<exists>f t v. map_of fs f = Some t \<and> map_of vs f = Some v \<and> a \<in> addrs t m v"
proof (induction fs arbitrary: vs)
  case (Cons ft fs)
  obtain f t where ft: "ft = (f, t)" by force
  obtain v vs' where vs: "vs = (f, v) # vs'" "map fst vs' = map fst fs" using Cons.prems(2) ft by (auto simp: Cons_eq_map_conv)
  have notin: "f \<notin> fst ` set fs" "distinct (map fst fs)" using Cons.prems(1) ft by auto
  consider "a \<in> addrs t m v" | "a \<in> addrs_fields fs m vs'" using Cons.prems(3) ft vs(1) by auto
  then show ?case
  proof cases
    case 1
    then show ?thesis using ft vs(1) by (intro exI [of _ f] exI [of _ t] exI [of _ v]) simp
  next
    case 2
    from Cons.IH [OF notin(2) vs(2) this] obtain g t' u where g: "map_of fs g = Some t'" "map_of vs' g = Some u" "a \<in> addrs t' m u" by blast
    then have "g \<noteq> f" using notin(1) map_of_key by metis
    with g ft vs(1) show ?thesis by (intro exI [of _ g] exI [of _ t'] exI [of _ u]) simp
  qed
qed auto

text \<open>Setting the fields one after the other.\<close>

lemma set_fields_copies:
  assumes "distinct (map fst cs)" and "fst ` set cs \<subseteq> fst ` set out"
    and "\<And>f c. (f, c) \<in> set cs \<Longrightarrow> \<exists>t v x. map_of fs f = Some t \<and> deep_copier t c \<and> map_of vs f = Some v \<and> view t m v = Some x"
  shows "\<exists>out' m'. set_fields cs vs out m = (Ok (VStruct out'), m @ m') \<and> map fst out' = map fst out
    \<and> (\<forall>g. g \<notin> fst ` set cs \<longrightarrow> map_of out' g = map_of out g)
    \<and> (\<forall>f t v x. f \<in> fst ` set cs \<longrightarrow> map_of fs f = Some t \<longrightarrow> map_of vs f = Some v \<longrightarrow> view t m v = Some x \<longrightarrow>
         (\<exists>v'. map_of out' f = Some v' \<and> view t (m @ m') v' = Some x \<and> addrs t (m @ m') v' \<subseteq> {length m..}))"
  using assms
proof (induction cs arbitrary: out m)
  case Nil
  then show ?case by auto
next
  case (Cons fc cs)
  obtain f c where fc: "fc = (f, c)" by force
  obtain t v x where f: "map_of fs f = Some t" "deep_copier t c" "map_of vs f = Some v" "view t m v = Some x"
    using Cons.prems(3) [of f c] fc by auto
  obtain y m1 where y: "c v m = (Ok y, m @ m1)" "view t (m @ m1) y = Some x" "addrs t (m @ m1) y \<subseteq> {length m..}"
    using deep_copier.copies [OF f(2,4)] by blast
  let ?out = "AList.update f y out"
  have nf: "f \<notin> fst ` set cs" using Cons.prems(1) fc by simp
  have keys: "map fst ?out = map fst out" using Cons.prems(2) fc by (auto simp: update_keys)
  have sub: "fst ` set cs \<subseteq> fst ` set ?out" using Cons.prems(2) fc keys by (metis image_set insert_subset list.set(2) list.simps(9) set_map subset_trans fst_conv image_insert)
  have views: "\<exists>t v x. map_of fs g = Some t \<and> deep_copier t d \<and> map_of vs g = Some v \<and> view t (m @ m1) v = Some x"
    if "(g, d) \<in> set cs" for g d using Cons.prems(3) [of g d] that view_grow(1) fc by (metis list.set_intros(2))
  obtain out' m2 where rest: "set_fields cs vs ?out (m @ m1) = (Ok (VStruct out'), (m @ m1) @ m2)" "map fst out' = map fst ?out"
    "\<forall>g. g \<notin> fst ` set cs \<longrightarrow> map_of out' g = map_of ?out g"
    "\<forall>g t v x. g \<in> fst ` set cs \<longrightarrow> map_of fs g = Some t \<longrightarrow> map_of vs g = Some v \<longrightarrow> view t (m @ m1) v = Some x \<longrightarrow>
       (\<exists>v'. map_of out' g = Some v' \<and> view t ((m @ m1) @ m2) v' = Some x \<and> addrs t ((m @ m1) @ m2) v' \<subseteq> {length (m @ m1)..})"
    using Cons.IH [of ?out "m @ m1", OF _ sub views] Cons.prems(1) by auto
  have "\<exists>v'. map_of out' g = Some v' \<and> view t' (m @ m1 @ m2) v' = Some x' \<and> addrs t' (m @ m1 @ m2) v' \<subseteq> {length m..}"
    if g: "g \<in> fst ` set (fc # cs)" "map_of fs g = Some t'" "map_of vs g = Some u" "view t' m u = Some x'" for g t' u x'
  proof (cases "g = f")
    case True
    then have "map_of out' g = Some y" using rest(3) nf by simp
    then show ?thesis using True g f y view_grow [OF y(2), of m2] by simp
  next
    case False
    then have "g \<in> fst ` set cs" using g(1) fc by auto
    with rest(4) g(2,3) view_grow(1) [OF g(4), of m1] obtain v' where
      "map_of out' g = Some v'" "view t' ((m @ m1) @ m2) v' = Some x'" "addrs t' ((m @ m1) @ m2) v' \<subseteq> {length (m @ m1)..}" by blast
    then show ?thesis by (intro exI [of _ v']) (auto dest: subsetD)
  qed
  moreover have "map_of out' g = map_of out g" if "g \<notin> fst ` set (fc # cs)" for g using rest(3) that fc by auto
  ultimately show ?case
    using f(3) y(1) rest(1,2) keys fc by (intro exI [of _ out'] exI [of _ "m1 @ m2"]) auto
qed

lemma deep_copier_struct:
  assumes "distinct (map fst fs)" and "distinct (map fst cs)"
    and cs: "\<And>f c. (f, c) \<in> set cs \<Longrightarrow> \<exists>t. map_of fs f = Some t \<and> deep_copier t c"
    and flat: "\<And>f t. map_of fs f = Some t \<Longrightarrow> f \<notin> fst ` set cs \<Longrightarrow> flat t"
  shows "deep_copier (TStruct fs) (copy_struct cs)"
proof
  fix m v x
  assume x: "view (TStruct fs) m v = Some x"
  then obtain vs xs where v: "v = VStruct vs" "view_fields fs m vs = Some xs" "x = NStruct xs" by (auto split: gval.splits)
  note names = view_fields_names [OF v(2)]
  have fields: "\<exists>v x. map_of vs f = Some v \<and> map_of xs f = Some x \<and> view t m v = Some x" if "map_of fs f = Some t" for f t
    using view_fields_by_name [OF assms(1) conjunct1 [OF names] conjunct2 [OF names]] v(2) that by blast
  have 1: "fst ` set cs \<subseteq> fst ` set vs"
  proof
    fix f assume "f \<in> fst ` set cs"
    then obtain c where "(f, c) \<in> set cs" by auto
    then obtain t where "map_of fs f = Some t" using cs by blast
    then have "f \<in> set (map fst fs)" using map_of_key by simp
    then show "f \<in> fst ` set vs" using names by (metis list.set_map)
  qed
  have 2: "\<exists>t v x. map_of fs f = Some t \<and> deep_copier t c \<and> map_of vs f = Some v \<and> view t m v = Some x" if "(f, c) \<in> set cs" for f c
    using cs [OF that] fields by blast
  obtain out m' where out: "set_fields cs vs vs m = (Ok (VStruct out), m @ m')" "map fst out = map fst vs"
    "\<forall>g. g \<notin> fst ` set cs \<longrightarrow> map_of out g = map_of vs g"
    "\<forall>f t v x. f \<in> fst ` set cs \<longrightarrow> map_of fs f = Some t \<longrightarrow> map_of vs f = Some v \<longrightarrow> view t m v = Some x \<longrightarrow>
       (\<exists>v'. map_of out f = Some v' \<and> view t (m @ m') v' = Some x \<and> addrs t (m @ m') v' \<subseteq> {length m..})"
    using set_fields_copies [OF assms(2) 1 2] by blast
  have each: "\<exists>v' x'. map_of out f = Some v' \<and> map_of xs f = Some x' \<and> view t (m @ m') v' = Some x' \<and> addrs t (m @ m') v' \<subseteq> {length m..}"
    if t: "map_of fs f = Some t" for f t
  proof -
    obtain u y where u: "map_of vs f = Some u" "map_of xs f = Some y" "view t m u = Some y" using fields [OF t] by blast
    show ?thesis
    proof (cases "f \<in> fst ` set cs")
      case True
      then show ?thesis using out(4) t u by blast
    next
      case False
      then have "map_of out f = Some u" using out(3) u(1) by simp
      moreover have "addrs t (m @ m') u = {}" using flat [OF t False] by (rule flat_addrs(1))
      ultimately show ?thesis using u view_grow(1) [OF u(3)] by auto
    qed
  qed
  have keys: "map fst out = map fst fs" "map fst xs = map fst fs" using out(2) names by simp_all
  have "view_fields fs (m @ m') out = Some xs" unfolding view_fields_by_name [OF assms(1) keys] using each by blast
  moreover have "addrs_fields fs (m @ m') out \<subseteq> {length m..}"
    using addrs_fields_by_name [OF assms(1) keys(1)] each by fastforce
  ultimately show "\<exists>v' m'. copy_struct cs v m = (Ok v', m @ m') \<and> view (TStruct fs) (m @ m') v' = Some x
      \<and> addrs (TStruct fs) (m @ m') v' \<subseteq> {length m..}"
    using v out(1) by (intro exI [of _ "VStruct out"] exI [of _ m']) (simp add: copy_struct_def)
qed

text \<open>The same by evaluation of the two lists, for the structs of the program.\<close>

lemma deep_copier_structI:
  assumes "distinct (map fst fs)" and "distinct (map fst cs)"
    and "list_all (\<lambda>(f, c). case map_of fs f of Some t \<Rightarrow> deep_copier t c | None \<Rightarrow> False) cs"
    and "list_all (\<lambda>(f, t). f \<in> fst ` set cs \<or> flat t) fs"
  shows "deep_copier (TStruct fs) (copy_struct cs)"
proof (rule deep_copier_struct [OF assms(1,2)])
  fix f c
  assume "(f, c) \<in> set cs"
  then show "\<exists>t. map_of fs f = Some t \<and> deep_copier t c" using assms(3) by (auto simp: list_all_iff split: option.splits)
next
  fix f t
  assume "map_of fs f = Some t" "f \<notin> fst ` set cs"
  then show "flat t" using assms(4) by (auto simp: list_all_iff dest: map_of_SomeD)
qed

named_theorems deep_copiers "the copy functions that keep the promise"

declare deep_copier_structI [deep_copiers] deep_copier_ptr [deep_copiers] deep_copier_slice [deep_copiers] deep_copier_map [deep_copiers]
  deep_copier_plain [deep_copiers]

end
