(* ===== verification/DeepCopy.thy ===== *)
theory DeepCopy
  imports Memory
begin

text \<open>
  The deep copies of the API types (\<^verbatim>\<open>api/v1alpha1/zz_generated.deepcopy.go\<close>) on memory: for every
  struct its type, its \<^verbatim>\<open>DeepCopyInto\<close> with the field assignments of the source in their order, and
  its \<^verbatim>\<open>DeepCopy\<close>. The client of the controller hands out such copies of cached objects, which
  \<^verbatim>\<open>Reconcile\<close> then changes, so a copy must share nothing with its original.
\<close>

text \<open>
  The types of \<^verbatim>\<open>k8s.io/apimachinery\<close> that occur in the API and their copy functions. \<^verbatim>\<open>TypeMeta\<close> and
  \<^verbatim>\<open>Duration\<close> are assigned.
\<close>

record meta =
  me_TypeMeta :: gty
  me_Duration :: gty
  me_ObjectMeta :: gty
  me_ObjectMeta_DeepCopyInto :: copier
  me_ListMeta :: gty
  me_ListMeta_DeepCopyInto :: copier
  me_LabelSelector :: gty
  me_LabelSelector_DeepCopyInto :: copier
  me_Condition :: gty
  me_Condition_DeepCopyInto :: copier

section \<open>The copy functions\<close>

definition ServiceAccountSelector_type :: "gty" where
  "ServiceAccountSelector_type = TStruct
    [(''Name'', TStr), (''Namespace'', TStr), (''Audiences'', TSlice TStr)]"

definition ServiceAccountSelector_DeepCopyInto :: "copier" where
  "ServiceAccountSelector_DeepCopyInto = copy_struct
    [(''Audiences'', copy_slice copy_plain)]"

definition ServiceAccountSelector_DeepCopy :: "copier" where
  "ServiceAccountSelector_DeepCopy = copy_ptr ServiceAccountSelector_DeepCopyInto"

definition SecretKeySelector_type :: "gty" where
  "SecretKeySelector_type = TStruct
    [(''Name'', TStr), (''Key'', TStr), (''Namespace'', TStr)]"

definition SecretKeySelector_DeepCopyInto :: "copier" where
  "SecretKeySelector_DeepCopyInto = copy_struct
    []"

definition SecretKeySelector_DeepCopy :: "copier" where
  "SecretKeySelector_DeepCopy = copy_ptr SecretKeySelector_DeepCopyInto"

definition AWSSDKSecretRef_type :: "gty" where
  "AWSSDKSecretRef_type = TStruct
    [(''AccessKeyId'', SecretKeySelector_type), (''SecretAccessKey'', SecretKeySelector_type)]"

definition AWSSDKSecretRef_DeepCopyInto :: "copier" where
  "AWSSDKSecretRef_DeepCopyInto = copy_struct
    [(''AccessKeyId'', copy_plain), (''SecretAccessKey'', copy_plain)]"

definition AWSSDKSecretRef_DeepCopy :: "copier" where
  "AWSSDKSecretRef_DeepCopy = copy_ptr AWSSDKSecretRef_DeepCopyInto"

definition AWSSDKAuth_type :: "gty" where
  "AWSSDKAuth_type = TStruct
    [(''AuthMethod'', TStr), (''Region'', TStr), (''ServiceAccount'', TPtr ServiceAccountSelector_type),
     (''SecretRef'', TPtr AWSSDKSecretRef_type)]"

definition AWSSDKAuth_DeepCopyInto :: "copier" where
  "AWSSDKAuth_DeepCopyInto = copy_struct
    [(''ServiceAccount'', copy_ptr ServiceAccountSelector_DeepCopyInto), (''SecretRef'', copy_ptr copy_plain)]"

definition AWSSDKAuth_DeepCopy :: "copier" where
  "AWSSDKAuth_DeepCopy = copy_ptr AWSSDKAuth_DeepCopyInto"

definition AWSSQSConfig_type :: "gty" where
  "AWSSQSConfig_type = TStruct
    [(''QueueURL'', TStr), (''Auth'', AWSSDKAuth_type), (''MaxNumberOfMessages'', TInt), (''WaitTimeSeconds'', TInt),
     (''VisibilityTimeout'', TInt)]"

definition AWSSQSConfig_DeepCopyInto :: "copier" where
  "AWSSQSConfig_DeepCopyInto = copy_struct
    [(''Auth'', AWSSDKAuth_DeepCopyInto)]"

definition AWSSQSConfig_DeepCopy :: "copier" where
  "AWSSQSConfig_DeepCopy = copy_ptr AWSSQSConfig_DeepCopyInto"

definition AzureEventGridConfig_type :: "gty" where
  "AzureEventGridConfig_type = TStruct
    [(''Host'', TStr), (''Port'', TInt), (''Subscriptions'', TSlice TStr)]"

definition AzureEventGridConfig_DeepCopyInto :: "copier" where
  "AzureEventGridConfig_DeepCopyInto = copy_struct
    [(''Subscriptions'', copy_slice copy_plain)]"

definition AzureEventGridConfig_DeepCopy :: "copier" where
  "AzureEventGridConfig_DeepCopy = copy_ptr AzureEventGridConfig_DeepCopyInto"

definition BasicAuth_type :: "gty" where
  "BasicAuth_type = TStruct
    [(''UsernameSecretRef'', SecretKeySelector_type), (''PasswordSecretRef'', SecretKeySelector_type)]"

definition BasicAuth_DeepCopyInto :: "copier" where
  "BasicAuth_DeepCopyInto = copy_struct
    [(''UsernameSecretRef'', copy_plain), (''PasswordSecretRef'', copy_plain)]"

definition BasicAuth_DeepCopy :: "copier" where
  "BasicAuth_DeepCopy = copy_ptr BasicAuth_DeepCopyInto"

definition BearerToken_type :: "gty" where
  "BearerToken_type = TStruct
    [(''BearerTokenSecretRef'', SecretKeySelector_type)]"

definition BearerToken_DeepCopyInto :: "copier" where
  "BearerToken_DeepCopyInto = copy_struct
    [(''BearerTokenSecretRef'', copy_plain)]"

definition BearerToken_DeepCopy :: "copier" where
  "BearerToken_DeepCopy = copy_ptr BearerToken_DeepCopyInto"

definition Condition_type :: "gty" where
  "Condition_type = TStruct
    [(''Value'', TStr), (''Operation'', TStr)]"

definition Condition_DeepCopyInto :: "copier" where
  "Condition_DeepCopyInto = copy_struct
    []"

definition Condition_DeepCopy :: "copier" where
  "Condition_DeepCopy = copy_ptr Condition_DeepCopyInto"

definition GCPSMAuthSecretRef_type :: "gty" where
  "GCPSMAuthSecretRef_type = TStruct
    [(''SecretAccessKey'', SecretKeySelector_type)]"

definition GCPSMAuthSecretRef_DeepCopyInto :: "copier" where
  "GCPSMAuthSecretRef_DeepCopyInto = copy_struct
    [(''SecretAccessKey'', copy_plain)]"

definition GCPSMAuthSecretRef_DeepCopy :: "copier" where
  "GCPSMAuthSecretRef_DeepCopy = copy_ptr GCPSMAuthSecretRef_DeepCopyInto"

definition GCPWorkloadIdentity_type :: "gty" where
  "GCPWorkloadIdentity_type = TStruct
    [(''ServiceAccountRef'', ServiceAccountSelector_type), (''ClusterLocation'', TStr), (''ClusterName'', TStr),
     (''ClusterProjectID'', TStr)]"

definition GCPWorkloadIdentity_DeepCopyInto :: "copier" where
  "GCPWorkloadIdentity_DeepCopyInto = copy_struct
    [(''ServiceAccountRef'', ServiceAccountSelector_DeepCopyInto)]"

definition GCPWorkloadIdentity_DeepCopy :: "copier" where
  "GCPWorkloadIdentity_DeepCopy = copy_ptr GCPWorkloadIdentity_DeepCopyInto"

definition GooglePubSubAuth_type :: "gty" where
  "GooglePubSubAuth_type = TStruct
    [(''SecretRef'', TPtr GCPSMAuthSecretRef_type), (''WorkloadIdentity'', TPtr GCPWorkloadIdentity_type)]"

definition GooglePubSubAuth_DeepCopyInto :: "copier" where
  "GooglePubSubAuth_DeepCopyInto = copy_struct
    [(''SecretRef'', copy_ptr copy_plain), (''WorkloadIdentity'', copy_ptr GCPWorkloadIdentity_DeepCopyInto)]"

definition GooglePubSubAuth_DeepCopy :: "copier" where
  "GooglePubSubAuth_DeepCopy = copy_ptr GooglePubSubAuth_DeepCopyInto"

definition GooglePubSubConfig_type :: "gty" where
  "GooglePubSubConfig_type = TStruct
    [(''SubscriptionID'', TStr), (''ProjectID'', TStr), (''Auth'', TPtr GooglePubSubAuth_type)]"

definition GooglePubSubConfig_DeepCopyInto :: "copier" where
  "GooglePubSubConfig_DeepCopyInto = copy_struct
    [(''Auth'', copy_ptr GooglePubSubAuth_DeepCopyInto)]"

definition GooglePubSubConfig_DeepCopy :: "copier" where
  "GooglePubSubConfig_DeepCopy = copy_ptr GooglePubSubConfig_DeepCopyInto"

definition WebhookAuth_type :: "gty" where
  "WebhookAuth_type = TStruct
    [(''BasicAuth'', TPtr BasicAuth_type), (''BearerToken'', TPtr BearerToken_type)]"

definition WebhookAuth_DeepCopyInto :: "copier" where
  "WebhookAuth_DeepCopyInto = copy_struct
    [(''BasicAuth'', copy_ptr copy_plain), (''BearerToken'', copy_ptr copy_plain)]"

definition WebhookAuth_DeepCopy :: "copier" where
  "WebhookAuth_DeepCopy = copy_ptr WebhookAuth_DeepCopyInto"

definition RetryPolicy_type :: "gty" where
  "RetryPolicy_type = TStruct
    [(''MaxRetries'', TInt), (''Algorithm'', TStr)]"

definition RetryPolicy_DeepCopyInto :: "copier" where
  "RetryPolicy_DeepCopyInto = copy_struct
    []"

definition RetryPolicy_DeepCopy :: "copier" where
  "RetryPolicy_DeepCopy = copy_ptr RetryPolicy_DeepCopyInto"

definition WebhookConfig_type :: "gty" where
  "WebhookConfig_type = TStruct
    [(''SecretIdentifierOnPayload'', TStr), (''PathSuffix'', TStr), (''Auth'', TPtr WebhookAuth_type),
     (''RetryPolicy'', TPtr RetryPolicy_type)]"

definition WebhookConfig_DeepCopyInto :: "copier" where
  "WebhookConfig_DeepCopyInto = copy_struct
    [(''Auth'', copy_ptr WebhookAuth_DeepCopyInto), (''RetryPolicy'', copy_ptr copy_plain)]"

definition WebhookConfig_DeepCopy :: "copier" where
  "WebhookConfig_DeepCopy = copy_ptr WebhookConfig_DeepCopyInto"

definition HashicorpVaultConfig_type :: "gty" where
  "HashicorpVaultConfig_type = TStruct
    [(''Host'', TStr), (''Port'', TInt)]"

definition HashicorpVaultConfig_DeepCopyInto :: "copier" where
  "HashicorpVaultConfig_DeepCopyInto = copy_struct
    []"

definition HashicorpVaultConfig_DeepCopy :: "copier" where
  "HashicorpVaultConfig_DeepCopy = copy_ptr HashicorpVaultConfig_DeepCopyInto"

definition KubeConfigRef_type :: "gty" where
  "KubeConfigRef_type = TStruct
    [(''SecretRef'', SecretKeySelector_type)]"

definition KubeConfigRef_DeepCopyInto :: "copier" where
  "KubeConfigRef_DeepCopyInto = copy_struct
    [(''SecretRef'', copy_plain)]"

definition KubeConfigRef_DeepCopy :: "copier" where
  "KubeConfigRef_DeepCopy = copy_ptr KubeConfigRef_DeepCopyInto"

definition TokenRef_type :: "gty" where
  "TokenRef_type = TStruct
    [(''SecretRef'', SecretKeySelector_type)]"

definition TokenRef_DeepCopyInto :: "copier" where
  "TokenRef_DeepCopyInto = copy_struct
    [(''SecretRef'', copy_plain)]"

definition TokenRef_DeepCopy :: "copier" where
  "TokenRef_DeepCopy = copy_ptr TokenRef_DeepCopyInto"

definition KubernetesAuth_type :: "gty" where
  "KubernetesAuth_type = TStruct
    [(''KubeConfigRef'', TPtr KubeConfigRef_type), (''CABundle'', TStr), (''TokenRef'', TPtr TokenRef_type),
     (''ServiceAccountRef'', TPtr ServiceAccountSelector_type)]"

definition KubernetesAuth_DeepCopyInto :: "copier" where
  "KubernetesAuth_DeepCopyInto = copy_struct
    [(''KubeConfigRef'', copy_ptr copy_plain), (''TokenRef'', copy_ptr copy_plain),
     (''ServiceAccountRef'', copy_ptr ServiceAccountSelector_DeepCopyInto)]"

definition KubernetesAuth_DeepCopy :: "copier" where
  "KubernetesAuth_DeepCopy = copy_ptr KubernetesAuth_DeepCopyInto"

definition KubernetesSecretConfig_type :: "meta \<Rightarrow> gty" where
  "KubernetesSecretConfig_type me = TStruct
    [(''ServerURL'', TStr), (''Auth'', TPtr KubernetesAuth_type), (''LabelSelector'', TPtr (me_LabelSelector me))]"

definition KubernetesSecretConfig_DeepCopyInto :: "meta \<Rightarrow> copier" where
  "KubernetesSecretConfig_DeepCopyInto me = copy_struct
    [(''Auth'', copy_ptr KubernetesAuth_DeepCopyInto),
     (''LabelSelector'', copy_ptr (me_LabelSelector_DeepCopyInto me))]"

definition KubernetesSecretConfig_DeepCopy :: "meta \<Rightarrow> copier" where
  "KubernetesSecretConfig_DeepCopy me = copy_ptr (KubernetesSecretConfig_DeepCopyInto me)"

definition KubernetesConfigMapConfig_type :: "meta \<Rightarrow> gty" where
  "KubernetesConfigMapConfig_type me = TStruct
    [(''ServerURL'', TStr), (''Auth'', TPtr KubernetesAuth_type), (''LabelSelector'', TPtr (me_LabelSelector me))]"

definition KubernetesConfigMapConfig_DeepCopyInto :: "meta \<Rightarrow> copier" where
  "KubernetesConfigMapConfig_DeepCopyInto me = copy_struct
    [(''Auth'', copy_ptr KubernetesAuth_DeepCopyInto),
     (''LabelSelector'', copy_ptr (me_LabelSelector_DeepCopyInto me))]"

definition KubernetesConfigMapConfig_DeepCopy :: "meta \<Rightarrow> copier" where
  "KubernetesConfigMapConfig_DeepCopy me = copy_ptr (KubernetesConfigMapConfig_DeepCopyInto me)"

definition TCPSocketConfig_type :: "gty" where
  "TCPSocketConfig_type = TStruct
    [(''Host'', TStr), (''Port'', TInt), (''SecretIdentifierOnPayload'', TStr)]"

definition TCPSocketConfig_DeepCopyInto :: "copier" where
  "TCPSocketConfig_DeepCopyInto = copy_struct
    []"

definition TCPSocketConfig_DeepCopy :: "copier" where
  "TCPSocketConfig_DeepCopy = copy_ptr TCPSocketConfig_DeepCopyInto"

definition MockConfig_type :: "gty" where
  "MockConfig_type = TStruct
    [(''EmitInterval'', TInt)]"

definition MockConfig_DeepCopyInto :: "copier" where
  "MockConfig_DeepCopyInto = copy_struct
    []"

definition MockConfig_DeepCopy :: "copier" where
  "MockConfig_DeepCopy = copy_ptr MockConfig_DeepCopyInto"

definition NotificationSource_type :: "meta \<Rightarrow> gty" where
  "NotificationSource_type me = TStruct
    [(''Type'', TStr), (''AwsSqs'', TPtr AWSSQSConfig_type), (''AzureEventGrid'', TPtr AzureEventGridConfig_type),
     (''GooglePubSub'', TPtr GooglePubSubConfig_type), (''Webhook'', TPtr WebhookConfig_type),
     (''HashicorpVault'', TPtr HashicorpVaultConfig_type),
     (''KubernetesSecret'', TPtr (KubernetesSecretConfig_type me)),
     (''KubernetesConfigMap'', TPtr (KubernetesConfigMapConfig_type me)), (''TCPSocket'', TPtr TCPSocketConfig_type),
     (''Mock'', TPtr MockConfig_type)]"

definition NotificationSource_DeepCopyInto :: "meta \<Rightarrow> copier" where
  "NotificationSource_DeepCopyInto me = copy_struct
    [(''AwsSqs'', copy_ptr AWSSQSConfig_DeepCopyInto),
     (''AzureEventGrid'', copy_ptr AzureEventGridConfig_DeepCopyInto),
     (''GooglePubSub'', copy_ptr GooglePubSubConfig_DeepCopyInto),
     (''Webhook'', copy_ptr WebhookConfig_DeepCopyInto), (''HashicorpVault'', copy_ptr copy_plain),
     (''KubernetesSecret'', copy_ptr (KubernetesSecretConfig_DeepCopyInto me)),
     (''KubernetesConfigMap'', copy_ptr (KubernetesConfigMapConfig_DeepCopyInto me)),
     (''TCPSocket'', copy_ptr copy_plain), (''Mock'', copy_ptr copy_plain)]"

definition NotificationSource_DeepCopy :: "meta \<Rightarrow> copier" where
  "NotificationSource_DeepCopy me = copy_ptr (NotificationSource_DeepCopyInto me)"

definition WorkflowRunTemplateDestination_type :: "meta \<Rightarrow> gty" where
  "WorkflowRunTemplateDestination_type me = TStruct
    [(''NamespaceSelectors'', TSlice (me_LabelSelector me)), (''LabelSelectors'', TPtr (me_LabelSelector me)),
     (''Names'', TSlice TStr)]"

definition WorkflowRunTemplateDestination_DeepCopyInto :: "meta \<Rightarrow> copier" where
  "WorkflowRunTemplateDestination_DeepCopyInto me = copy_struct
    [(''NamespaceSelectors'', copy_slice (me_LabelSelector_DeepCopyInto me)),
     (''LabelSelectors'', copy_ptr (me_LabelSelector_DeepCopyInto me)), (''Names'', copy_slice copy_plain)]"

definition WorkflowRunTemplateDestination_DeepCopy :: "meta \<Rightarrow> copier" where
  "WorkflowRunTemplateDestination_DeepCopy me = copy_ptr (WorkflowRunTemplateDestination_DeepCopyInto me)"

definition ExternalSecretDestination_type :: "meta \<Rightarrow> gty" where
  "ExternalSecretDestination_type me = TStruct
    [(''NamespaceSelectors'', TSlice (me_LabelSelector me)), (''LabelSelectors'', TPtr (me_LabelSelector me)),
     (''Names'', TSlice TStr)]"

definition ExternalSecretDestination_DeepCopyInto :: "meta \<Rightarrow> copier" where
  "ExternalSecretDestination_DeepCopyInto me = copy_struct
    [(''NamespaceSelectors'', copy_slice (me_LabelSelector_DeepCopyInto me)),
     (''LabelSelectors'', copy_ptr (me_LabelSelector_DeepCopyInto me)), (''Names'', copy_slice copy_plain)]"

definition ExternalSecretDestination_DeepCopy :: "meta \<Rightarrow> copier" where
  "ExternalSecretDestination_DeepCopy me = copy_ptr (ExternalSecretDestination_DeepCopyInto me)"

definition PushSecretDestination_type :: "meta \<Rightarrow> gty" where
  "PushSecretDestination_type me = TStruct
    [(''NamespaceSelectors'', TSlice (me_LabelSelector me)), (''LabelSelectors'', TPtr (me_LabelSelector me)),
     (''Names'', TSlice TStr)]"

definition PushSecretDestination_DeepCopyInto :: "meta \<Rightarrow> copier" where
  "PushSecretDestination_DeepCopyInto me = copy_struct
    [(''NamespaceSelectors'', copy_slice (me_LabelSelector_DeepCopyInto me)),
     (''LabelSelectors'', copy_ptr (me_LabelSelector_DeepCopyInto me)), (''Names'', copy_slice copy_plain)]"

definition PushSecretDestination_DeepCopy :: "meta \<Rightarrow> copier" where
  "PushSecretDestination_DeepCopy me = copy_ptr (PushSecretDestination_DeepCopyInto me)"

definition DeploymentDestination_type :: "meta \<Rightarrow> gty" where
  "DeploymentDestination_type me = TStruct
    [(''NamespaceSelectors'', TSlice (me_LabelSelector me)), (''LabelSelectors'', TPtr (me_LabelSelector me)),
     (''Names'', TSlice TStr)]"

definition DeploymentDestination_DeepCopyInto :: "meta \<Rightarrow> copier" where
  "DeploymentDestination_DeepCopyInto me = copy_struct
    [(''NamespaceSelectors'', copy_slice (me_LabelSelector_DeepCopyInto me)),
     (''LabelSelectors'', copy_ptr (me_LabelSelector_DeepCopyInto me)), (''Names'', copy_slice copy_plain)]"

definition DeploymentDestination_DeepCopy :: "meta \<Rightarrow> copier" where
  "DeploymentDestination_DeepCopy me = copy_ptr (DeploymentDestination_DeepCopyInto me)"

definition PatchOperationConfig_type :: "gty" where
  "PatchOperationConfig_type = TStruct
    [(''Path'', TStr), (''Template'', TStr)]"

definition PatchOperationConfig_DeepCopyInto :: "copier" where
  "PatchOperationConfig_DeepCopyInto = copy_struct
    []"

definition PatchOperationConfig_DeepCopy :: "copier" where
  "PatchOperationConfig_DeepCopy = copy_ptr PatchOperationConfig_DeepCopyInto"

definition UpdateStrategy_type :: "gty" where
  "UpdateStrategy_type = TStruct
    [(''Operation'', TStr), (''PatchOperationConfig'', TPtr PatchOperationConfig_type)]"

definition UpdateStrategy_DeepCopyInto :: "copier" where
  "UpdateStrategy_DeepCopyInto = copy_struct
    [(''PatchOperationConfig'', copy_ptr copy_plain)]"

definition UpdateStrategy_DeepCopy :: "copier" where
  "UpdateStrategy_DeepCopy = copy_ptr UpdateStrategy_DeepCopyInto"

definition MatchStrategy_type :: "gty" where
  "MatchStrategy_type = TStruct
    [(''Path'', TStr), (''Conditions'', TSlice Condition_type)]"

definition MatchStrategy_DeepCopyInto :: "copier" where
  "MatchStrategy_DeepCopyInto = copy_struct
    [(''Conditions'', copy_slice copy_plain)]"

definition MatchStrategy_DeepCopy :: "copier" where
  "MatchStrategy_DeepCopy = copy_ptr MatchStrategy_DeepCopyInto"

definition WaitForCondition_type :: "meta \<Rightarrow> gty" where
  "WaitForCondition_type me = TStruct
    [(''RetryTimeout'', TPtr (me_Duration me)), (''MaxRetries'', TPtr TInt), (''Type'', TStr), (''Status'', TStr),
     (''Message'', TStr), (''Reason'', TStr), (''TransitionedAfter'', TPtr (me_Duration me)),
     (''UpdatedAfter'', TPtr (me_Duration me))]"

definition WaitForCondition_DeepCopyInto :: "meta \<Rightarrow> copier" where
  "WaitForCondition_DeepCopyInto me = copy_struct
    [(''RetryTimeout'', copy_ptr copy_plain), (''MaxRetries'', copy_ptr copy_plain),
     (''TransitionedAfter'', copy_ptr copy_plain), (''UpdatedAfter'', copy_ptr copy_plain)]"

definition WaitForCondition_DeepCopy :: "meta \<Rightarrow> copier" where
  "WaitForCondition_DeepCopy me = copy_ptr (WaitForCondition_DeepCopyInto me)"

definition WaitStrategy_type :: "meta \<Rightarrow> gty" where
  "WaitStrategy_type me = TStruct
    [(''Time'', TPtr (me_Duration me)), (''Condition'', TPtr (WaitForCondition_type me))]"

definition WaitStrategy_DeepCopyInto :: "meta \<Rightarrow> copier" where
  "WaitStrategy_DeepCopyInto me = copy_struct
    [(''Time'', copy_ptr copy_plain), (''Condition'', copy_ptr (WaitForCondition_DeepCopyInto me))]"

definition WaitStrategy_DeepCopy :: "meta \<Rightarrow> copier" where
  "WaitStrategy_DeepCopy me = copy_ptr (WaitStrategy_DeepCopyInto me)"

definition DestinationToWatch_type :: "meta \<Rightarrow> gty" where
  "DestinationToWatch_type me = TStruct
    [(''Type'', TStr), (''WorkflowRunTemplate'', TPtr (WorkflowRunTemplateDestination_type me)),
     (''ExternalSecret'', TPtr (ExternalSecretDestination_type me)),
     (''PushSecret'', TPtr (PushSecretDestination_type me)), (''Deployment'', TPtr (DeploymentDestination_type me)),
     (''UpdateStrategy'', TPtr UpdateStrategy_type), (''MatchStrategy'', TPtr MatchStrategy_type),
     (''WaitStrategy'', TPtr (WaitStrategy_type me))]"

definition DestinationToWatch_DeepCopyInto :: "meta \<Rightarrow> copier" where
  "DestinationToWatch_DeepCopyInto me = copy_struct
    [(''WorkflowRunTemplate'', copy_ptr (WorkflowRunTemplateDestination_DeepCopyInto me)),
     (''ExternalSecret'', copy_ptr (ExternalSecretDestination_DeepCopyInto me)),
     (''PushSecret'', copy_ptr (PushSecretDestination_DeepCopyInto me)),
     (''Deployment'', copy_ptr (DeploymentDestination_DeepCopyInto me)),
     (''UpdateStrategy'', copy_ptr UpdateStrategy_DeepCopyInto),
     (''MatchStrategy'', copy_ptr MatchStrategy_DeepCopyInto),
     (''WaitStrategy'', copy_ptr (WaitStrategy_DeepCopyInto me))]"

definition DestinationToWatch_DeepCopy :: "meta \<Rightarrow> copier" where
  "DestinationToWatch_DeepCopy me = copy_ptr (DestinationToWatch_DeepCopyInto me)"

definition ConfigSpec_type :: "meta \<Rightarrow> gty" where
  "ConfigSpec_type me = TStruct
    [(''NotificationSources'', TSlice (NotificationSource_type me)),
     (''DestinationsToWatch'', TSlice (DestinationToWatch_type me))]"

definition ConfigSpec_DeepCopyInto :: "meta \<Rightarrow> copier" where
  "ConfigSpec_DeepCopyInto me = copy_struct
    [(''NotificationSources'', copy_slice (NotificationSource_DeepCopyInto me)),
     (''DestinationsToWatch'', copy_slice (DestinationToWatch_DeepCopyInto me))]"

definition ConfigSpec_DeepCopy :: "meta \<Rightarrow> copier" where
  "ConfigSpec_DeepCopy me = copy_ptr (ConfigSpec_DeepCopyInto me)"

definition ConfigStatus_type :: "meta \<Rightarrow> gty" where
  "ConfigStatus_type me = TStruct
    [(''Conditions'', TSlice (me_Condition me))]"

definition ConfigStatus_DeepCopyInto :: "meta \<Rightarrow> copier" where
  "ConfigStatus_DeepCopyInto me = copy_struct
    [(''Conditions'', copy_slice (me_Condition_DeepCopyInto me))]"

definition ConfigStatus_DeepCopy :: "meta \<Rightarrow> copier" where
  "ConfigStatus_DeepCopy me = copy_ptr (ConfigStatus_DeepCopyInto me)"

definition Config_type :: "meta \<Rightarrow> gty" where
  "Config_type me = TStruct
    [(''TypeMeta'', me_TypeMeta me), (''ObjectMeta'', me_ObjectMeta me), (''Spec'', ConfigSpec_type me),
     (''Status'', ConfigStatus_type me)]"

definition Config_DeepCopyInto :: "meta \<Rightarrow> copier" where
  "Config_DeepCopyInto me = copy_struct
    [(''TypeMeta'', copy_plain), (''ObjectMeta'', me_ObjectMeta_DeepCopyInto me),
     (''Spec'', ConfigSpec_DeepCopyInto me), (''Status'', ConfigStatus_DeepCopyInto me)]"

definition Config_DeepCopy :: "meta \<Rightarrow> copier" where
  "Config_DeepCopy me = copy_ptr (Config_DeepCopyInto me)"

definition ConfigList_type :: "meta \<Rightarrow> gty" where
  "ConfigList_type me = TStruct
    [(''TypeMeta'', me_TypeMeta me), (''ListMeta'', me_ListMeta me), (''Items'', TSlice (Config_type me))]"

definition ConfigList_DeepCopyInto :: "meta \<Rightarrow> copier" where
  "ConfigList_DeepCopyInto me = copy_struct
    [(''TypeMeta'', copy_plain), (''ListMeta'', me_ListMeta_DeepCopyInto me),
     (''Items'', copy_slice (Config_DeepCopyInto me))]"

definition ConfigList_DeepCopy :: "meta \<Rightarrow> copier" where
  "ConfigList_DeepCopy me = copy_ptr (ConfigList_DeepCopyInto me)"

definition KubernetesObjectConfig_type :: "meta \<Rightarrow> gty" where
  "KubernetesObjectConfig_type me = TStruct
    [(''ServerURL'', TStr), (''Auth'', TPtr KubernetesAuth_type), (''LabelSelector'', TPtr (me_LabelSelector me))]"

definition KubernetesObjectConfig_DeepCopyInto :: "meta \<Rightarrow> copier" where
  "KubernetesObjectConfig_DeepCopyInto me = copy_struct
    [(''Auth'', copy_ptr KubernetesAuth_DeepCopyInto),
     (''LabelSelector'', copy_ptr (me_LabelSelector_DeepCopyInto me))]"

definition KubernetesObjectConfig_DeepCopy :: "meta \<Rightarrow> copier" where
  "KubernetesObjectConfig_DeepCopy me = copy_ptr (KubernetesObjectConfig_DeepCopyInto me)"

text \<open>\<^verbatim>\<open>if c := in.DeepCopy(); c != nil { return c }; return nil\<close>.\<close>

definition Config_DeepCopyObject :: "meta \<Rightarrow> copier" where
  "Config_DeepCopyObject me v m = andThen (Config_DeepCopy me v m) (\<lambda>c m'. if c \<noteq> VNil then (Ok c, m') else (Ok VNil, m'))"

definition ConfigList_DeepCopyObject :: "meta \<Rightarrow> copier" where
  "ConfigList_DeepCopyObject me v m = andThen (ConfigList_DeepCopy me v m) (\<lambda>c m'. if c \<noteq> VNil then (Ok c, m') else (Ok VNil, m'))"

section \<open>They copy deeply\<close>

lemma flat_types [simp]:
  "flat SecretKeySelector_type"
  "flat AWSSDKSecretRef_type"
  "flat BasicAuth_type"
  "flat BearerToken_type"
  "flat Condition_type"
  "flat GCPSMAuthSecretRef_type"
  "flat RetryPolicy_type"
  "flat HashicorpVaultConfig_type"
  "flat KubeConfigRef_type"
  "flat TokenRef_type"
  "flat TCPSocketConfig_type"
  "flat MockConfig_type"
  "flat PatchOperationConfig_type"
  by (simp_all add: SecretKeySelector_type_def AWSSDKSecretRef_type_def BasicAuth_type_def BearerToken_type_def
    Condition_type_def GCPSMAuthSecretRef_type_def RetryPolicy_type_def HashicorpVaultConfig_type_def
    KubeConfigRef_type_def TokenRef_type_def TCPSocketConfig_type_def MockConfig_type_def
    PatchOperationConfig_type_def)

lemma ServiceAccountSelector_copies [deep_copiers]: "deep_copier ServiceAccountSelector_type ServiceAccountSelector_DeepCopyInto"
  unfolding ServiceAccountSelector_type_def ServiceAccountSelector_DeepCopyInto_def by (simp add: deep_copiers)

lemma SecretKeySelector_copies [deep_copiers]: "deep_copier SecretKeySelector_type SecretKeySelector_DeepCopyInto"
  unfolding SecretKeySelector_type_def SecretKeySelector_DeepCopyInto_def by (simp add: deep_copiers)

lemma AWSSDKSecretRef_copies [deep_copiers]: "deep_copier AWSSDKSecretRef_type AWSSDKSecretRef_DeepCopyInto"
  unfolding AWSSDKSecretRef_type_def AWSSDKSecretRef_DeepCopyInto_def by (simp add: deep_copiers)

lemma AWSSDKAuth_copies [deep_copiers]: "deep_copier AWSSDKAuth_type AWSSDKAuth_DeepCopyInto"
  unfolding AWSSDKAuth_type_def AWSSDKAuth_DeepCopyInto_def by (simp add: deep_copiers)

lemma AWSSQSConfig_copies [deep_copiers]: "deep_copier AWSSQSConfig_type AWSSQSConfig_DeepCopyInto"
  unfolding AWSSQSConfig_type_def AWSSQSConfig_DeepCopyInto_def by (simp add: deep_copiers)

lemma AzureEventGridConfig_copies [deep_copiers]: "deep_copier AzureEventGridConfig_type AzureEventGridConfig_DeepCopyInto"
  unfolding AzureEventGridConfig_type_def AzureEventGridConfig_DeepCopyInto_def by (simp add: deep_copiers)

lemma BasicAuth_copies [deep_copiers]: "deep_copier BasicAuth_type BasicAuth_DeepCopyInto"
  unfolding BasicAuth_type_def BasicAuth_DeepCopyInto_def by (simp add: deep_copiers)

lemma BearerToken_copies [deep_copiers]: "deep_copier BearerToken_type BearerToken_DeepCopyInto"
  unfolding BearerToken_type_def BearerToken_DeepCopyInto_def by (simp add: deep_copiers)

lemma Condition_copies [deep_copiers]: "deep_copier Condition_type Condition_DeepCopyInto"
  unfolding Condition_type_def Condition_DeepCopyInto_def by (simp add: deep_copiers)

lemma GCPSMAuthSecretRef_copies [deep_copiers]: "deep_copier GCPSMAuthSecretRef_type GCPSMAuthSecretRef_DeepCopyInto"
  unfolding GCPSMAuthSecretRef_type_def GCPSMAuthSecretRef_DeepCopyInto_def by (simp add: deep_copiers)

lemma GCPWorkloadIdentity_copies [deep_copiers]: "deep_copier GCPWorkloadIdentity_type GCPWorkloadIdentity_DeepCopyInto"
  unfolding GCPWorkloadIdentity_type_def GCPWorkloadIdentity_DeepCopyInto_def by (simp add: deep_copiers)

lemma GooglePubSubAuth_copies [deep_copiers]: "deep_copier GooglePubSubAuth_type GooglePubSubAuth_DeepCopyInto"
  unfolding GooglePubSubAuth_type_def GooglePubSubAuth_DeepCopyInto_def by (simp add: deep_copiers)

lemma GooglePubSubConfig_copies [deep_copiers]: "deep_copier GooglePubSubConfig_type GooglePubSubConfig_DeepCopyInto"
  unfolding GooglePubSubConfig_type_def GooglePubSubConfig_DeepCopyInto_def by (simp add: deep_copiers)

lemma WebhookAuth_copies [deep_copiers]: "deep_copier WebhookAuth_type WebhookAuth_DeepCopyInto"
  unfolding WebhookAuth_type_def WebhookAuth_DeepCopyInto_def by (simp add: deep_copiers)

lemma RetryPolicy_copies [deep_copiers]: "deep_copier RetryPolicy_type RetryPolicy_DeepCopyInto"
  unfolding RetryPolicy_type_def RetryPolicy_DeepCopyInto_def by (simp add: deep_copiers)

lemma WebhookConfig_copies [deep_copiers]: "deep_copier WebhookConfig_type WebhookConfig_DeepCopyInto"
  unfolding WebhookConfig_type_def WebhookConfig_DeepCopyInto_def by (simp add: deep_copiers)

lemma HashicorpVaultConfig_copies [deep_copiers]: "deep_copier HashicorpVaultConfig_type HashicorpVaultConfig_DeepCopyInto"
  unfolding HashicorpVaultConfig_type_def HashicorpVaultConfig_DeepCopyInto_def by (simp add: deep_copiers)

lemma KubeConfigRef_copies [deep_copiers]: "deep_copier KubeConfigRef_type KubeConfigRef_DeepCopyInto"
  unfolding KubeConfigRef_type_def KubeConfigRef_DeepCopyInto_def by (simp add: deep_copiers)

lemma TokenRef_copies [deep_copiers]: "deep_copier TokenRef_type TokenRef_DeepCopyInto"
  unfolding TokenRef_type_def TokenRef_DeepCopyInto_def by (simp add: deep_copiers)

lemma KubernetesAuth_copies [deep_copiers]: "deep_copier KubernetesAuth_type KubernetesAuth_DeepCopyInto"
  unfolding KubernetesAuth_type_def KubernetesAuth_DeepCopyInto_def by (simp add: deep_copiers)

lemma TCPSocketConfig_copies [deep_copiers]: "deep_copier TCPSocketConfig_type TCPSocketConfig_DeepCopyInto"
  unfolding TCPSocketConfig_type_def TCPSocketConfig_DeepCopyInto_def by (simp add: deep_copiers)

lemma MockConfig_copies [deep_copiers]: "deep_copier MockConfig_type MockConfig_DeepCopyInto"
  unfolding MockConfig_type_def MockConfig_DeepCopyInto_def by (simp add: deep_copiers)

lemma PatchOperationConfig_copies [deep_copiers]: "deep_copier PatchOperationConfig_type PatchOperationConfig_DeepCopyInto"
  unfolding PatchOperationConfig_type_def PatchOperationConfig_DeepCopyInto_def by (simp add: deep_copiers)

lemma UpdateStrategy_copies [deep_copiers]: "deep_copier UpdateStrategy_type UpdateStrategy_DeepCopyInto"
  unfolding UpdateStrategy_type_def UpdateStrategy_DeepCopyInto_def by (simp add: deep_copiers)

lemma MatchStrategy_copies [deep_copiers]: "deep_copier MatchStrategy_type MatchStrategy_DeepCopyInto"
  unfolding MatchStrategy_type_def MatchStrategy_DeepCopyInto_def by (simp add: deep_copiers)

text \<open>The rest relies on the copy functions of apimachinery.\<close>

locale meta_copiers =
  fixes me :: meta
  assumes flat_meta: "flat (me_TypeMeta me)" "flat (me_Duration me)"
    and meta_copies: "deep_copier (me_ObjectMeta me) (me_ObjectMeta_DeepCopyInto me)" "deep_copier (me_ListMeta me) (me_ListMeta_DeepCopyInto me)"
      "deep_copier (me_LabelSelector me) (me_LabelSelector_DeepCopyInto me)" "deep_copier (me_Condition me) (me_Condition_DeepCopyInto me)"
begin

lemmas with_meta = deep_copiers flat_meta meta_copies

lemma KubernetesSecretConfig_copies: "deep_copier (KubernetesSecretConfig_type me) (KubernetesSecretConfig_DeepCopyInto me)"
  unfolding KubernetesSecretConfig_type_def KubernetesSecretConfig_DeepCopyInto_def by (simp add: with_meta)

lemma KubernetesConfigMapConfig_copies: "deep_copier (KubernetesConfigMapConfig_type me) (KubernetesConfigMapConfig_DeepCopyInto me)"
  unfolding KubernetesConfigMapConfig_type_def KubernetesConfigMapConfig_DeepCopyInto_def by (simp add: with_meta)

lemma NotificationSource_copies: "deep_copier (NotificationSource_type me) (NotificationSource_DeepCopyInto me)"
  unfolding NotificationSource_type_def NotificationSource_DeepCopyInto_def by (simp add: with_meta KubernetesSecretConfig_copies KubernetesConfigMapConfig_copies)

lemma WorkflowRunTemplateDestination_copies: "deep_copier (WorkflowRunTemplateDestination_type me) (WorkflowRunTemplateDestination_DeepCopyInto me)"
  unfolding WorkflowRunTemplateDestination_type_def WorkflowRunTemplateDestination_DeepCopyInto_def by (simp add: with_meta)

lemma ExternalSecretDestination_copies: "deep_copier (ExternalSecretDestination_type me) (ExternalSecretDestination_DeepCopyInto me)"
  unfolding ExternalSecretDestination_type_def ExternalSecretDestination_DeepCopyInto_def by (simp add: with_meta)

lemma PushSecretDestination_copies: "deep_copier (PushSecretDestination_type me) (PushSecretDestination_DeepCopyInto me)"
  unfolding PushSecretDestination_type_def PushSecretDestination_DeepCopyInto_def by (simp add: with_meta)

lemma DeploymentDestination_copies: "deep_copier (DeploymentDestination_type me) (DeploymentDestination_DeepCopyInto me)"
  unfolding DeploymentDestination_type_def DeploymentDestination_DeepCopyInto_def by (simp add: with_meta)

lemma WaitForCondition_copies: "deep_copier (WaitForCondition_type me) (WaitForCondition_DeepCopyInto me)"
  unfolding WaitForCondition_type_def WaitForCondition_DeepCopyInto_def by (simp add: with_meta)

lemma WaitStrategy_copies: "deep_copier (WaitStrategy_type me) (WaitStrategy_DeepCopyInto me)"
  unfolding WaitStrategy_type_def WaitStrategy_DeepCopyInto_def by (simp add: with_meta WaitForCondition_copies)

lemma DestinationToWatch_copies: "deep_copier (DestinationToWatch_type me) (DestinationToWatch_DeepCopyInto me)"
  unfolding DestinationToWatch_type_def DestinationToWatch_DeepCopyInto_def by (simp add: with_meta WorkflowRunTemplateDestination_copies ExternalSecretDestination_copies PushSecretDestination_copies DeploymentDestination_copies WaitStrategy_copies)

lemma ConfigSpec_copies: "deep_copier (ConfigSpec_type me) (ConfigSpec_DeepCopyInto me)"
  unfolding ConfigSpec_type_def ConfigSpec_DeepCopyInto_def by (simp add: with_meta NotificationSource_copies DestinationToWatch_copies)

lemma ConfigStatus_copies: "deep_copier (ConfigStatus_type me) (ConfigStatus_DeepCopyInto me)"
  unfolding ConfigStatus_type_def ConfigStatus_DeepCopyInto_def by (simp add: with_meta)

lemma Config_copies: "deep_copier (Config_type me) (Config_DeepCopyInto me)"
  unfolding Config_type_def Config_DeepCopyInto_def by (simp add: with_meta ConfigSpec_copies ConfigStatus_copies)

lemma ConfigList_copies: "deep_copier (ConfigList_type me) (ConfigList_DeepCopyInto me)"
  unfolding ConfigList_type_def ConfigList_DeepCopyInto_def by (simp add: with_meta Config_copies)

lemma KubernetesObjectConfig_copies: "deep_copier (KubernetesObjectConfig_type me) (KubernetesObjectConfig_DeepCopyInto me)"
  unfolding KubernetesObjectConfig_type_def KubernetesObjectConfig_DeepCopyInto_def by (simp add: with_meta)

lemma objects_copy:
  "deep_copier (TPtr (Config_type me)) (Config_DeepCopyObject me)" "deep_copier (TPtr (ConfigList_type me)) (ConfigList_DeepCopyObject me)"
proof -
  have same: "(\<lambda>v m. andThen (c v m) (\<lambda>u m'. if u \<noteq> VNil then (Ok u, m') else (Ok VNil, m'))) = c" for c :: copier
    by (intro ext) (simp add: andThen_def split: prod.split result.split)
  show "deep_copier (TPtr (Config_type me)) (Config_DeepCopyObject me)"
    unfolding Config_DeepCopyObject_def [abs_def] same Config_DeepCopy_def by (rule deep_copier_ptr [OF Config_copies])
  show "deep_copier (TPtr (ConfigList_type me)) (ConfigList_DeepCopyObject me)"
    unfolding ConfigList_DeepCopyObject_def [abs_def] same ConfigList_DeepCopy_def by (rule deep_copier_ptr [OF ConfigList_copies])
qed

end

text \<open>
  C19: a deep copy of a Config or of a list of Configs is equal to the original and independent
  of it: copying succeeds and leaves the memory it found as it was, the copy unfolds to the same
  value, no cell belongs to both, and whatever is written to a cell of one of them changes
  nothing in the other.
\<close>

theorem DeepCopyObject_independent:
  assumes "meta_copiers me" and "view ty m v = Some x"
    and "ty = TPtr (Config_type me) \<and> copy = Config_DeepCopyObject me \<or> ty = TPtr (ConfigList_type me) \<and> copy = ConfigList_DeepCopyObject me"
  shows "\<exists>v' m'. copy v m = (Ok v', m @ m') \<and> view ty (m @ m') v' = Some x \<and> addrs ty (m @ m') v \<inter> addrs ty (m @ m') v' = {}
    \<and> (\<forall>b c. b \<in> addrs ty (m @ m') v' \<longrightarrow> view ty ((m @ m')[b := c]) v = Some x)
    \<and> (\<forall>b c. b \<in> addrs ty (m @ m') v \<longrightarrow> view ty ((m @ m')[b := c]) v' = Some x)"
proof -
  have "deep_copier ty copy" using assms(1,3) meta_copiers.objects_copy by blast
  from deep_copier.independent [OF this assms(2)] show ?thesis .
qed

text \<open>A Config with an annotation and a webhook source, and the apimachinery types it needs.\<close>

definition fixture_meta_types :: meta where
  "fixture_meta_types =
     (let om = [(''Name'', TStr), (''Annotations'', TMap TStr), (''Finalizers'', TSlice TStr)];
          sel = [(''MatchLabels'', TMap TStr)];
          cond = [(''Type'', TStr), (''Status'', TStr)] in
      \<lparr>me_TypeMeta = TStruct [(''Kind'', TStr), (''APIVersion'', TStr)], me_Duration = TInt,
       me_ObjectMeta = TStruct om, me_ObjectMeta_DeepCopyInto = copy_struct [(''Annotations'', copy_map copy_plain), (''Finalizers'', copy_slice copy_plain)],
       me_ListMeta = TStruct [(''ResourceVersion'', TStr)], me_ListMeta_DeepCopyInto = copy_struct [],
       me_LabelSelector = TStruct sel, me_LabelSelector_DeepCopyInto = copy_struct [(''MatchLabels'', copy_map copy_plain)],
       me_Condition = TStruct cond, me_Condition_DeepCopyInto = copy_struct []\<rparr>)"

interpretation fixture_copiers: meta_copiers fixture_meta_types
  by (rule meta_copiers.intro) (simp_all add: fixture_meta_types_def deep_copiers)

lemma fixture_me:
  "me_TypeMeta fixture_meta_types = TStruct [(''Kind'', TStr), (''APIVersion'', TStr)]"
  "me_ObjectMeta fixture_meta_types = TStruct [(''Name'', TStr), (''Annotations'', TMap TStr), (''Finalizers'', TSlice TStr)]"
  by (simp_all add: fixture_meta_types_def)

definition fixture_struct :: gval where
  "fixture_struct = VStruct
     [(''TypeMeta'', VStruct [(''Kind'', VStr ''Config''), (''APIVersion'', VStr ''v1alpha1'')]),
      (''ObjectMeta'', VStruct [(''Name'', VStr ''keeper''), (''Annotations'', VMap 1), (''Finalizers'', VNil)]),
      (''Spec'', VStruct [(''NotificationSources'', VSlice 2 0 1), (''DestinationsToWatch'', VNil)]),
      (''Status'', VStruct [(''Conditions'', VNil)])]"

definition fixture_source :: gval where
  "fixture_source = VStruct
     [(''Type'', VStr ''Mock''), (''AwsSqs'', VNil), (''AzureEventGrid'', VNil), (''GooglePubSub'', VNil), (''Webhook'', VNil),
      (''HashicorpVault'', VNil), (''KubernetesSecret'', VNil), (''KubernetesConfigMap'', VNil), (''TCPSocket'', VNil), (''Mock'', VPtr 3)]"

definition fixture_memory :: mem where
  "fixture_memory =
     [Cell fixture_struct, Table [(''owner'', VStr ''me'')], Backing [fixture_source], Cell (VStruct [(''EmitInterval'', VInt 500)])]"

lemma fixture_cells:
  "cell_at fixture_memory 0 = Some (Cell fixture_struct)" "cell_at fixture_memory (Suc 0) = Some (Table [(''owner'', VStr ''me'')])"
  "cell_at fixture_memory 2 = Some (Backing [fixture_source])" "cell_at fixture_memory 3 = Some (Cell (VStruct [(''EmitInterval'', VInt 500)]))"
  by (simp_all add: cell_at_def fixture_memory_def)

lemma fixture_view: "\<exists>x. view (TPtr (Config_type fixture_meta_types)) fixture_memory (VPtr 0) = Some x"
proof -
  have "\<exists>y. view (NotificationSource_type fixture_meta_types) fixture_memory fixture_source = Some y"
    by (simp add: NotificationSource_type_def fixture_source_def fixture_cells MockConfig_type_def)
  then obtain y where y: "view (NotificationSource_type fixture_meta_types) fixture_memory fixture_source = Some y" by blast
  have "\<exists>z. view (Config_type fixture_meta_types) fixture_memory fixture_struct = Some z"
    by (simp add: Config_type_def fixture_struct_def fixture_cells ConfigSpec_type_def ConfigStatus_type_def y slice_of_def
        fixture_me)
  then show ?thesis by (auto simp: fixture_cells)
qed

theorem DeepCopyObject_independent_witness:
  "\<exists>v' m'. Config_DeepCopyObject fixture_meta_types (VPtr 0) fixture_memory = (Ok v', fixture_memory @ m')
    \<and> view (TPtr (Config_type fixture_meta_types)) (fixture_memory @ m') v' = view (TPtr (Config_type fixture_meta_types)) fixture_memory (VPtr 0)
    \<and> 0 \<notin> addrs (TPtr (Config_type fixture_meta_types)) (fixture_memory @ m') v'"
proof -
  obtain x where x: "view (TPtr (Config_type fixture_meta_types)) fixture_memory (VPtr 0) = Some x" using fixture_view by blast
  obtain v' m' where r: "Config_DeepCopyObject fixture_meta_types (VPtr 0) fixture_memory = (Ok v', fixture_memory @ m')"
    "view (TPtr (Config_type fixture_meta_types)) (fixture_memory @ m') v' = Some x"
    "addrs (TPtr (Config_type fixture_meta_types)) (fixture_memory @ m') (VPtr 0)
       \<inter> addrs (TPtr (Config_type fixture_meta_types)) (fixture_memory @ m') v' = {}"
    using DeepCopyObject_independent [OF fixture_copiers.meta_copiers_axioms x, of "Config_DeepCopyObject fixture_meta_types"] by blast
  have "0 \<in> addrs (TPtr (Config_type fixture_meta_types)) (fixture_memory @ m') (VPtr 0)" by simp
  with r(3) have "0 \<notin> addrs (TPtr (Config_type fixture_meta_types)) (fixture_memory @ m') v'" by blast
  with r(1,2) x show ?thesis by metis
qed

end
