(* ===== verification/Kube.thy ===== *)
theory Kube
  imports Prelude "HOL-Library.List_Lexorder" "HOL-Library.Char_ord"
begin

text \<open>
  The Kubernetes API types the program handles (packages \<^verbatim>\<open>k8s.io/api\<close>,
  \<^verbatim>\<open>k8s.io/apimachinery\<close> and the external-secrets API), restricted to the fields the program
  reads or writes, and the record of outside functions the handlers call: the
  controller-runtime client, label selectors, regular expressions and the timer of the rollout
  wait. Nothing here fixes how these functions behave: every definition that uses them takes
  the record as an argument, over an arbitrary world \<open>'w\<close> (the API server and the clock).
\<close>

section \<open>Metadata\<close>

type_synonym int32 = "32 word"
type_synonym int64 = "64 word"
type_synonym labels = "string \<rightharpoonup> string"

datatype NamespacedName = NamespacedName (nn_Namespace: string) (nn_Name: string)

record LabelSelectorRequirement =
  lsr_Key :: string
  lsr_Operator :: string
  lsr_Values :: "string list"

record LabelSelector =
  ls_MatchLabels :: "(string, string) gomap"
  ls_MatchExpressions :: "LabelSelectorRequirement list"

record Condition =
  mc_Type :: string
  mc_Status :: string
  mc_Reason :: string

text \<open>A nil annotation map and an empty one are different values: \<open>None\<close> is nil.\<close>

record ObjectMeta =
  om_Name :: string
  om_Namespace :: string
  om_Labels :: labels
  om_Annotations :: "labels option"
  om_Generation :: int64
  om_ResourceVersion :: string
  om_DeletionTimestamp :: "string option"
  om_Finalizers :: "string list"

section \<open>Objects\<close>

record EnvVarSource =
  evs_SecretKeyRef :: "string option"      \<comment> \<open>name of the referenced Secret\<close>
  evs_ConfigMapKeyRef :: "string option"   \<comment> \<open>name of the referenced ConfigMap\<close>

record EnvFromSource =
  efs_SecretRef :: "string option"
  efs_ConfigMapRef :: "string option"

record Container =
  con_Env :: "EnvVarSource option list"    \<comment> \<open>\<^verbatim>\<open>ValueFrom\<close> of every variable\<close>
  con_EnvFrom :: "EnvFromSource list"

record PodTemplateSpec =
  pts_Annotations :: "labels option"
  pts_Containers :: "Container list"

record DeploymentCondition =
  dc_Type :: string
  dc_Status :: string
  dc_Reason :: string

record Deployment =
  dep_Meta :: ObjectMeta
  dep_Replicas :: "int32 option"
  dep_Paused :: bool
  dep_Template :: PodTemplateSpec
  dep_ObservedGeneration :: int64
  dep_UpdatedReplicas :: int32
  dep_AvailableReplicas :: int32
  dep_ReadyReplicas :: int32
  dep_Conditions :: "DeploymentCondition list"

record ExternalSecretDataFrom =
  esf_ExtractKey :: "string option"                 \<comment> \<open>\<^verbatim>\<open>Extract.Key\<close>\<close>
  esf_FindNameRegExp :: "string option option"      \<comment> \<open>\<^verbatim>\<open>Find\<close>, then \<^verbatim>\<open>Find.Name\<close>\<close>

record TemplateFrom =
  tf_ConfigMap :: "string option"
  tf_Secret :: "string option"

record ExternalSecret =
  es_Meta :: ObjectMeta
  es_DataRemoteKeys :: "string list"                \<comment> \<open>\<^verbatim>\<open>Data[i].RemoteRef.Key\<close>\<close>
  es_DataFrom :: "ExternalSecretDataFrom list"
  es_TargetTemplate :: "TemplateFrom list option"   \<comment> \<open>\<^verbatim>\<open>Target.Template.TemplateFrom\<close>\<close>

record PushSecret =
  ps_Meta :: ObjectMeta
  ps_SelectorSecret :: "string option"              \<comment> \<open>\<^verbatim>\<open>Selector.Secret.Name\<close>\<close>
  ps_DataRemoteKeys :: "string list"                \<comment> \<open>\<^verbatim>\<open>Data[i].Match.RemoteRef.RemoteKey\<close>\<close>

record Unstructured =
  un_Meta :: ObjectMeta

text \<open>The dynamic types behind \<^verbatim>\<open>client.Object\<close>; a type assertion is a case distinction.\<close>

datatype Object =
    ODeployment Deployment
  | OExternalSecret ExternalSecret
  | OPushSecret PushSecret
  | OUnstructured Unstructured

record Secret =
  sec_Data :: "(string, string) gomap"

record ServiceAccount =
  sa_Annotations :: "labels option"

fun obj_meta :: "Object \<Rightarrow> ObjectMeta" where
  "obj_meta (ODeployment d) = dep_Meta d"
| "obj_meta (OExternalSecret e) = es_Meta e"
| "obj_meta (OPushSecret p) = ps_Meta p"
| "obj_meta (OUnstructured u) = un_Meta u"

fun set_meta :: "ObjectMeta \<Rightarrow> Object \<Rightarrow> Object" where
  "set_meta m (ODeployment d) = ODeployment (d\<lparr>dep_Meta := m\<rparr>)"
| "set_meta m (OExternalSecret e) = OExternalSecret (e\<lparr>es_Meta := m\<rparr>)"
| "set_meta m (OPushSecret p) = OPushSecret (p\<lparr>ps_Meta := m\<rparr>)"
| "set_meta m (OUnstructured u) = OUnstructured (u\<lparr>un_Meta := m\<rparr>)"

definition GetName :: "Object \<Rightarrow> string" where
  "GetName ob = om_Name (obj_meta ob)"

definition GetNamespace :: "Object \<Rightarrow> string" where
  "GetNamespace ob = om_Namespace (obj_meta ob)"

definition GetLabels :: "Object \<Rightarrow> labels" where
  "GetLabels ob = om_Labels (obj_meta ob)"

definition GetAnnotations :: "Object \<Rightarrow> labels option" where
  "GetAnnotations ob = om_Annotations (obj_meta ob)"

definition SetAnnotations :: "labels \<Rightarrow> Object \<Rightarrow> Object" where
  "SetAnnotations a ob = set_meta ((obj_meta ob)\<lparr>om_Annotations := Some a\<rparr>) ob"

section \<open>The outside world\<close>

text \<open>What the select statement of the rollout wait wakes up on.\<close>

datatype wake = TimeoutFired | TickerFired

text \<open>
  \<open>k_List*\<close> and \<open>k_Get*\<close> are \<^verbatim>\<open>client.List\<close> and \<^verbatim>\<open>client.Get\<close> for one kind, \<open>k_Update\<close> is
  \<^verbatim>\<open>client.Update\<close> (the error it returns, nil being \<open>None\<close>, and the world after it; the
  version fields the server fills into the argument are read by nobody),
  \<open>k_Selector\<close> is \<^verbatim>\<open>metav1.LabelSelectorAsSelector\<close> followed by \<^verbatim>\<open>Matches\<close>, \<open>k_Regexp\<close> is
  \<^verbatim>\<open>regexp.Compile\<close> followed by \<^verbatim>\<open>MatchString\<close> (\<open>None\<close>: the expression does not parse),
  \<open>k_Wake\<close> lets time pass until the next timer event of the rollout wait.
\<close>

record 'w kube =
  k_ListDeployments :: "'w \<Rightarrow> string option \<Rightarrow> error + Deployment list"
  k_ListExternalSecrets :: "'w \<Rightarrow> error + ExternalSecret list"
  k_ListPushSecrets :: "'w \<Rightarrow> error + PushSecret list"
  k_ListWorkflows :: "'w \<Rightarrow> error + Unstructured list"
  k_GetNamespace :: "'w \<Rightarrow> string \<Rightarrow> error + labels"
  k_GetDeployment :: "'w \<Rightarrow> NamespacedName \<Rightarrow> error + Deployment"
  k_GetSecret :: "'w \<Rightarrow> NamespacedName \<Rightarrow> error + Secret"
  k_GetServiceAccount :: "'w \<Rightarrow> NamespacedName \<Rightarrow> error + ServiceAccount"
  k_Update :: "'w \<Rightarrow> Object \<Rightarrow> error option \<times> 'w"
  k_Selector :: "LabelSelector \<Rightarrow> error + (labels \<Rightarrow> bool)"
  k_Regexp :: "string \<Rightarrow> (string \<Rightarrow> bool) option"
  k_Wake :: "'w \<Rightarrow> wake \<times> 'w"

section \<open>Lemmas\<close>

lemma obj_meta_set_meta [simp]: "obj_meta (set_meta m ob) = m"
  by (cases ob) auto

lemma set_meta_set_meta [simp]: "set_meta m (set_meta m' ob) = set_meta m ob"
  by (cases ob) auto

lemma SetAnnotations_meta [simp]:
  "GetName (SetAnnotations a ob) = GetName ob"
  "GetNamespace (SetAnnotations a ob) = GetNamespace ob"
  "GetLabels (SetAnnotations a ob) = GetLabels ob"
  "GetAnnotations (SetAnnotations a ob) = Some a"
  by (simp_all add: SetAnnotations_def GetName_def GetNamespace_def GetLabels_def GetAnnotations_def)

section \<open>Order on namespaced names\<close>

text \<open>
  Namespaced names are ordered lexicographically, so that sorting is one of the iteration
  orders a map keyed by them can have.
\<close>

instantiation NamespacedName :: linorder
begin

definition less_eq_NamespacedName :: "NamespacedName \<Rightarrow> NamespacedName \<Rightarrow> bool" where
  "less_eq_NamespacedName a b \<longleftrightarrow>
     nn_Namespace a < nn_Namespace b \<or> (nn_Namespace a = nn_Namespace b \<and> nn_Name a \<le> nn_Name b)"

definition less_NamespacedName :: "NamespacedName \<Rightarrow> NamespacedName \<Rightarrow> bool" where
  "less_NamespacedName a b \<longleftrightarrow>
     nn_Namespace a < nn_Namespace b \<or> (nn_Namespace a = nn_Namespace b \<and> nn_Name a < nn_Name b)"

instance
  by standard
    (auto simp: less_eq_NamespacedName_def less_NamespacedName_def NamespacedName.expand)

end

lemma range_order_sort [intro]: "range_order (sort :: 'a::linorder list \<Rightarrow> 'a list)"
  by (simp add: range_order_def)

end
