(* ===== verification/GoStrings.thy ===== *)
theory GoStrings
  imports Prelude
begin

text \<open>
  The functions of Go's \<^verbatim>\<open>strings\<close> and \<^verbatim>\<open>bytes\<close> packages that the program calls, on byte
  strings (\<open>char\<close> is a byte). The lemmas give what the route and message parsers rely on:
  splitting and joining are inverse, pieces contain no separator.
\<close>

section \<open>Definitions\<close>

definition HasPrefix :: "string \<Rightarrow> string \<Rightarrow> bool" where
  "HasPrefix s p = prefix p s"

definition TrimPrefix :: "string \<Rightarrow> string \<Rightarrow> string" where
  "TrimPrefix s p = (if prefix p s then drop (length p) s else s)"

text \<open>\<^verbatim>\<open>strings.Cut\<close>: the text before and after the first occurrence of the separator.\<close>

fun Cut :: "string \<Rightarrow> string \<Rightarrow> (string \<times> string) option" where
  "Cut [] sep = (if sep = [] then Some ([], []) else None)"
| "Cut (c # s) sep =
     (if prefix sep (c # s) then Some ([], drop (length sep) (c # s))
      else map_option (\<lambda>(a, b). (c # a, b)) (Cut s sep))"

text \<open>
  The number of bytes of the UTF-8 sequence at the head of a non-empty string, 1 for a byte
  that starts no valid sequence (\<^verbatim>\<open>utf8.DecodeRuneInString\<close>).
\<close>

definition cont_byte :: "nat \<Rightarrow> bool" where
  "cont_byte b = (128 \<le> b \<and> b < 192)"

fun rune_len :: "nat list \<Rightarrow> nat" where
  "rune_len (a # b # c # d # r) =
     (if 194 \<le> a \<and> a < 224 \<and> cont_byte b then 2
      else if 224 \<le> a \<and> a < 240 \<and> cont_byte b \<and> cont_byte c
        \<and> (a = 224 \<longrightarrow> 160 \<le> b) \<and> (a = 237 \<longrightarrow> b < 160) then 3
      else if 240 \<le> a \<and> a < 245 \<and> cont_byte b \<and> cont_byte c \<and> cont_byte d
        \<and> (a = 240 \<longrightarrow> 144 \<le> b) \<and> (a = 244 \<longrightarrow> b < 144) then 4
      else 1)"
| "rune_len [a, b, c] =
     (if 194 \<le> a \<and> a < 224 \<and> cont_byte b then 2
      else if 224 \<le> a \<and> a < 240 \<and> cont_byte b \<and> cont_byte c
        \<and> (a = 224 \<longrightarrow> 160 \<le> b) \<and> (a = 237 \<longrightarrow> b < 160) then 3
      else 1)"
| "rune_len [a, b] = (if 194 \<le> a \<and> a < 224 \<and> cont_byte b then 2 else 1)"
| "rune_len _ = 1"

text \<open>\<^verbatim>\<open>strings.Split(s, "")\<close>: one piece per UTF-8 sequence.\<close>

function explode :: "string \<Rightarrow> string list" where
  "explode s = (if s = [] then [] else
     (let n = rune_len (map of_char (take 4 s)) in take n s # explode (drop n s)))"
  by pat_completeness auto

lemma rune_len_pos: "0 < rune_len bs"
  by (induction bs rule: rune_len.induct) auto

termination explode
  by (relation "measure length") (auto simp: rune_len_pos)

lemma Cut_Some: "Cut s sep = Some (a, b) \<Longrightarrow> s = a @ sep @ b"
  by (induction s sep arbitrary: a b rule: Cut.induct) (auto simp: prefix_def split: if_splits)

text \<open>\<^verbatim>\<open>strings.Split\<close> and \<^verbatim>\<open>bytes.Split\<close>.\<close>

function Split :: "string \<Rightarrow> string \<Rightarrow> string list" where
  "Split s sep =
     (if sep = [] then explode s
      else (case Cut s sep of None \<Rightarrow> [s] | Some (a, b) \<Rightarrow> a # Split b sep))"
  by pat_completeness auto
termination Split
  by (relation "measure (\<lambda>(s, sep). length s)") (auto dest!: Cut_Some)

declare explode.simps [simp del] Split.simps [simp del]

text \<open>\<^verbatim>\<open>strings.SplitN(s, sep, 2)\<close> for a non-empty separator.\<close>

definition SplitN2 :: "string \<Rightarrow> string \<Rightarrow> string list" where
  "SplitN2 s sep = (case Cut s sep of None \<Rightarrow> [s] | Some (a, b) \<Rightarrow> [a, b])"

text \<open>\<^verbatim>\<open>strings.Join\<close>.\<close>

fun Join :: "string list \<Rightarrow> string \<Rightarrow> string" where
  "Join [] sep = []"
| "Join [x] sep = x"
| "Join (x # y # ys) sep = x @ sep @ Join (y # ys) sep"

text \<open>
  \<^verbatim>\<open>strings.TrimSpace\<close>: strips at both ends the characters of \<^verbatim>\<open>unicode.IsSpace\<close>, given here
  by their UTF-8 encodings.
\<close>

definition bytes :: "nat list \<Rightarrow> string" where
  "bytes = map char_of"

definition space_seqs :: "string list" where
  "space_seqs = map bytes
     ([[9], [10], [11], [12], [13], [32], [194, 133], [194, 160], [225, 154, 128]]
      @ map (\<lambda>b. [226, 128, b]) [128, 129, 130, 131, 132, 133, 134, 135, 136, 137, 138, 168, 169, 175]
      @ [[226, 129, 159], [227, 128, 128]])"

function strip_seqs :: "string list \<Rightarrow> string \<Rightarrow> string" where
  "strip_seqs qs s =
     (case find (\<lambda>q. q \<noteq> [] \<and> prefix q s) qs of
        None \<Rightarrow> s
      | Some q \<Rightarrow> strip_seqs qs (drop (length q) s))"
  by pat_completeness auto
termination strip_seqs
  by (relation "measure (\<lambda>(qs, s). length s)")
    (auto simp: find_Some_iff prefix_def)

declare strip_seqs.simps [simp del]

definition TrimSpace :: "string \<Rightarrow> string" where
  "TrimSpace s =
     rev (strip_seqs (map rev space_seqs) (rev (strip_seqs space_seqs s)))"

definition ascii_lower :: "char \<Rightarrow> char" where
  "ascii_lower c =
     (let n = of_char c :: nat in if 65 \<le> n \<and> n \<le> 90 then char_of (n + 32) else c)"

text \<open>
  \<^verbatim>\<open>strings.EqualFold(s, t)\<close> for an ASCII \<open>t\<close>: simple case folding. Besides the other case of
  a letter only U+017F (folds to s) and U+212A (folds to k) equal an ASCII letter.
\<close>

fun fold_case :: "string \<Rightarrow> string" where
  "fold_case s =
     (case s of
        [] \<Rightarrow> []
      | c # s' \<Rightarrow>
          if prefix (bytes [197, 191]) s then CHR ''s'' # fold_case (drop 1 s')
          else if prefix (bytes [226, 132, 170]) s then CHR ''k'' # fold_case (drop 2 s')
          else ascii_lower c # fold_case s')"

declare fold_case.simps [simp del]

definition EqualFold :: "string \<Rightarrow> string \<Rightarrow> bool" where
  "EqualFold s t = (fold_case s = fold_case t)"

text \<open>
  \<^verbatim>\<open>strings.ToLower\<close>: the ASCII mapping on ASCII strings; on other strings the Unicode table,
  which is the argument \<open>ul\<close>.
\<close>

definition ToLower :: "(string \<Rightarrow> string) \<Rightarrow> string \<Rightarrow> string" where
  "ToLower ul s =
     (if list_all (\<lambda>c. (of_char c :: nat) < 128) s then map ascii_lower s else ul s)"

section \<open>Cutting, splitting and joining\<close>

lemma Cut_None_iff: "sep \<noteq> [] \<Longrightarrow> Cut s sep = None \<longleftrightarrow> \<not> sublist sep s"
proof (induction s sep rule: Cut.induct)
  case (1 sep)
  then show ?case by simp
next
  case (2 c s sep)
  then show ?case by (auto simp: sublist_Cons_right)
qed

lemma Cut_char_free: "c \<notin> set s \<Longrightarrow> Cut s [c] = None"
  by (induction s) auto

lemma Cut_char: "c \<notin> set a \<Longrightarrow> Cut (a @ c # b) [c] = Some (a, b)"
  by (induction a) auto

lemma Cut_char_head: "Cut s [c] = Some (a, b) \<Longrightarrow> c \<notin> set a"
  by (induction s "[c]" arbitrary: a b rule: Cut.induct) (auto split: if_splits)

lemma Split_char_free [simp]: "c \<notin> set s \<Longrightarrow> Split s [c] = [s]"
  by (simp add: Split.simps Cut_char_free)

lemma Split_char [simp]: "c \<notin> set a \<Longrightarrow> Split (a @ c # b) [c] = a # Split b [c]"
  by (subst Split.simps) (simp add: Cut_char)

lemma Split_not_Nil: "sep \<noteq> [] \<Longrightarrow> Split s sep \<noteq> []"
  by (subst Split.simps) (auto split: option.splits)

lemma Join_Cons: "xs \<noteq> [] \<Longrightarrow> Join (x # xs) sep = x @ sep @ Join xs sep"
  by (cases xs) auto

lemma Join_Split: "sep \<noteq> [] \<Longrightarrow> Join (Split s sep) sep = s"
proof (induction s sep rule: Split.induct)
  case (1 s sep)
  show ?case
  proof (cases "Cut s sep")
    case None
    with 1 show ?thesis by (subst Split.simps) simp
  next
    case (Some ab)
    obtain a b where ab: "ab = (a, b)" by (cases ab)
    from 1 Some ab have "Join (Split b sep) sep = b" by simp
    with Some ab 1 show ?thesis
      by (subst Split.simps) (auto simp: Join_Cons Split_not_Nil dest: Cut_Some)
  qed
qed

lemma Cut_char_None: "Cut s [c] = None \<Longrightarrow> c \<notin> set s"
  by (induction s) (auto split: if_splits)

lemma Split_no_sep: "x \<in> set (Split s [c]) \<Longrightarrow> c \<notin> set x"
proof (induction s "[c]" rule: Split.induct)
  case (1 s)
  show ?case
  proof (cases "Cut s [c]")
    case None
    with "1.prems" have "x = s" by (simp add: Split.simps)
    with None show ?thesis by (simp add: Cut_char_None)
  next
    case (Some ab)
    obtain a b where ab: "ab = (a, b)" by (cases ab)
    with Some have "Split s [c] = a # Split b [c]" by (subst Split.simps) simp
    with "1.prems" consider "x = a" | "x \<in> set (Split b [c])" by auto
    then show ?thesis
      using "1.hyps" Some ab by cases (auto dest: Cut_char_head)
  qed
qed

lemma Split_length_1: "Split s [c] = [x] \<Longrightarrow> s = x"
  using Join_Split [of "[c]" s] by simp

lemma Split_length_2: "Split s [c] = [x, y] \<Longrightarrow> s = x @ c # y"
  using Join_Split [of "[c]" s] by simp

lemma Split_append: "Split (x @ c # y) [c] = Split x [c] @ Split y [c]"
proof (induction x "[c]" rule: Split.induct)
  case (1 x)
  show ?case
  proof (cases "c \<in> set x")
    case True
    then obtain a b where x: "x = a @ c # b" "c \<notin> set a" by (metis split_list_first)
    then have "Cut x [c] = Some (a, b)" by (simp add: Cut_char)
    then have "Split (b @ c # y) [c] = Split b [c] @ Split y [c]" using 1 by simp
    with x show ?thesis by simp
  qed simp
qed

lemma Split_no_sublist: "sep \<noteq> [] \<Longrightarrow> \<not> sublist sep s \<Longrightarrow> Split s sep = [s]"
  using Cut_None_iff [of sep s] by (subst Split.simps) simp

text \<open>On ASCII strings folding is the lower-case mapping.\<close>

lemma fold_case_ascii: "list_all (\<lambda>c. (of_char c :: nat) < 128) s \<Longrightarrow> fold_case s = map ascii_lower s"
proof (induction s)
  case Nil
  show ?case by (simp add: fold_case.simps)
next
  case (Cons c s)
  have "\<not> prefix (bytes [197, 191]) (c # s)" "\<not> prefix (bytes [226, 132, 170]) (c # s)"
    using Cons.prems by (auto simp: bytes_def of_char_of)
  note not_folded = this [THEN eq_False [THEN iffD2]]
  have "fold_case (c # s) = ascii_lower c # fold_case s"
    by (subst fold_case.simps) (simp only: list.case not_folded if_False)
  with Cons show ?case by simp
qed

lemma EqualFold_ascii:
  "list_all (\<lambda>c. (of_char c :: nat) < 128) s \<Longrightarrow> list_all (\<lambda>c. (of_char c :: nat) < 128) t \<Longrightarrow>
     EqualFold s t \<longleftrightarrow> map ascii_lower s = map ascii_lower t"
  by (simp add: EqualFold_def fold_case_ascii)

section \<open>Prefixes\<close>

lemma HasPrefix_append [simp]: "HasPrefix (p @ s) p"
  by (simp add: HasPrefix_def)

lemma TrimPrefix_append [simp]: "TrimPrefix (p @ s) p = s"
  by (simp add: TrimPrefix_def)

lemma HasPrefix_iff: "HasPrefix s p \<longleftrightarrow> s = p @ TrimPrefix s p"
  by (auto simp: HasPrefix_def TrimPrefix_def prefix_def)

section \<open>Trimming\<close>

text \<open>A visible ASCII character: no byte of a white-space sequence.\<close>

definition visible :: "char \<Rightarrow> bool" where
  "visible c \<longleftrightarrow> 32 < (of_char c :: nat) \<and> (of_char c :: nat) < 127"

lemma space_seqs_invisible: "\<forall>q \<in> set space_seqs. q \<noteq> [] \<and> \<not> visible (hd q) \<and> \<not> visible (last q)"
  by (simp add: space_seqs_def bytes_def visible_def of_char_of)

lemma strip_seqs_none: "(\<And>q. q \<in> set qs \<Longrightarrow> \<not> (q \<noteq> [] \<and> prefix q s)) \<Longrightarrow> strip_seqs qs s = s"
proof -
  assume "\<And>q. q \<in> set qs \<Longrightarrow> \<not> (q \<noteq> [] \<and> prefix q s)"
  then have "find (\<lambda>q. q \<noteq> [] \<and> prefix q s) qs = None" by (simp add: find_None_iff)
  then show ?thesis by (subst strip_seqs.simps) simp
qed

lemma TrimSpace_visible:
  assumes "s \<noteq> []" "visible (hd s)" "visible (last s)"
  shows "TrimSpace s = s"
proof -
  have "strip_seqs space_seqs s = s"
    using assms(2) space_seqs_invisible by (intro strip_seqs_none) (force simp: prefix_def)
  moreover have "strip_seqs (map rev space_seqs) (rev s) = rev s"
  proof (rule strip_seqs_none)
    fix q assume "q \<in> set (map rev space_seqs)"
    then obtain p where p: "p \<in> set space_seqs" "q = rev p" by auto
    then have "p \<noteq> []" "\<not> visible (last p)" using space_seqs_invisible by auto
    then show "\<not> (q \<noteq> [] \<and> prefix q (rev s))"
      using assms(3) p(2) by (auto simp: prefix_def) (metis hd_append2 hd_rev rev_is_Nil_conv)
  qed
  ultimately show ?thesis by (simp add: TrimSpace_def)
qed

end
