(* ===== verification/Api.thy ===== *)
theory Api
  imports Kube GoStrings
begin

text \<open>
  The \<^verbatim>\<open>v1alpha1\<close> API of the program: the event that travels from the notification sources to
  the destinations, the \<^verbatim>\<open>Config\<close> resource with the configuration of every source and
  destination, and the cross-field validation of \<^verbatim>\<open>ConfigSpec\<close>. Every struct is a record with
  the source's fields in the source's order; a pointer is an option; \<^verbatim>\<open>int32\<close> and \<^verbatim>\<open>int\<close> are
  words of 32 and 64 bits.
\<close>

section \<open>Events\<close>

record SecretRotationEvent =
  ev_SecretIdentifier :: string
  ev_RotationTimestamp :: string
  ev_TriggerSource :: string
  ev_Namespace :: string

section \<open>Selectors\<close>

record ServiceAccountSelector =
  sas_Name :: string
  sas_Namespace :: string
  sas_Audiences :: "string list"

record SecretKeySelector =
  sks_Name :: string
  sks_Key :: string
  sks_Namespace :: string

section \<open>Notification sources\<close>

record AWSSDKSecretRef =
  asr_AccessKeyId :: SecretKeySelector
  asr_SecretAccessKey :: SecretKeySelector

record AWSSDKAuth =
  asa_AuthMethod :: string
  asa_Region :: string
  asa_ServiceAccount :: "ServiceAccountSelector option"
  asa_SecretRef :: "AWSSDKSecretRef option"

record AWSSQSConfig =
  sqs_QueueURL :: string
  sqs_Auth :: AWSSDKAuth
  sqs_MaxNumberOfMessages :: int32
  sqs_WaitTimeSeconds :: int32
  sqs_VisibilityTimeout :: int32

record AzureEventGridConfig =
  aeg_Host :: string
  aeg_Port :: int32
  aeg_Subscriptions :: "string list"

record GCPSMAuthSecretRef =
  gsr_SecretAccessKey :: SecretKeySelector

record GCPWorkloadIdentity =
  gwi_ServiceAccountRef :: ServiceAccountSelector
  gwi_ClusterLocation :: string
  gwi_ClusterName :: string
  gwi_ClusterProjectID :: string

record GooglePubSubAuth =
  gpa_SecretRef :: "GCPSMAuthSecretRef option"
  gpa_WorkloadIdentity :: "GCPWorkloadIdentity option"

record GooglePubSubConfig =
  gps_SubscriptionID :: string
  gps_ProjectID :: string
  gps_Auth :: "GooglePubSubAuth option"

record RetryPolicy =
  rp_MaxRetries :: int64
  rp_Algorithm :: string

record BasicAuth =
  ba_UsernameSecretRef :: SecretKeySelector
  ba_PasswordSecretRef :: SecretKeySelector

record BearerToken =
  bt_BearerTokenSecretRef :: SecretKeySelector

record WebhookAuth =
  wa_BasicAuth :: "BasicAuth option"
  wa_BearerToken :: "BearerToken option"

record WebhookConfig =
  wh_SecretIdentifierOnPayload :: string
  wh_PathSuffix :: string
  wh_Auth :: "WebhookAuth option"
  wh_RetryPolicy :: "RetryPolicy option"

record HashicorpVaultConfig =
  hv_Host :: string
  hv_Port :: int32

record KubeConfigRef =
  kcr_SecretRef :: SecretKeySelector

record TokenRef =
  tr_SecretRef :: SecretKeySelector

record KubernetesAuth =
  ka_KubeConfigRef :: "KubeConfigRef option"
  ka_CABundle :: string
  ka_TokenRef :: "TokenRef option"
  ka_ServiceAccountRef :: "ServiceAccountSelector option"

record KubernetesObjectConfig =
  koc_ServerURL :: string
  koc_Auth :: "KubernetesAuth option"
  koc_LabelSelector :: "LabelSelector option"

record KubernetesSecretConfig =
  ksc_ServerURL :: string
  ksc_Auth :: "KubernetesAuth option"
  ksc_LabelSelector :: "LabelSelector option"

record KubernetesConfigMapConfig =
  kcm_ServerURL :: string
  kcm_Auth :: "KubernetesAuth option"
  kcm_LabelSelector :: "LabelSelector option"

record TCPSocketConfig =
  tcp_Host :: string
  tcp_Port :: int32
  tcp_SecretIdentifierOnPayload :: string

record MockConfig =
  mock_EmitInterval :: int32

record NotificationSource =
  ns_Type :: string
  ns_AwsSqs :: "AWSSQSConfig option"
  ns_AzureEventGrid :: "AzureEventGridConfig option"
  ns_GooglePubSub :: "GooglePubSubConfig option"
  ns_Webhook :: "WebhookConfig option"
  ns_HashicorpVault :: "HashicorpVaultConfig option"
  ns_KubernetesSecret :: "KubernetesSecretConfig option"
  ns_KubernetesConfigMap :: "KubernetesConfigMapConfig option"
  ns_TCPSocket :: "TCPSocketConfig option"
  ns_Mock :: "MockConfig option"

section \<open>Destinations\<close>

record DeploymentDestination =
  dd_NamespaceSelectors :: "LabelSelector list"
  dd_LabelSelectors :: "LabelSelector option"
  dd_Names :: "string list"

record ExternalSecretDestination =
  esd_NamespaceSelectors :: "LabelSelector list"
  esd_LabelSelectors :: "LabelSelector option"
  esd_Names :: "string list"

record PushSecretDestination =
  psd_NamespaceSelectors :: "LabelSelector list"
  psd_LabelSelectors :: "LabelSelector option"
  psd_Names :: "string list"

record WorkflowRunTemplateDestination =
  wrd_NamespaceSelectors :: "LabelSelector list"
  wrd_LabelSelectors :: "LabelSelector option"
  wrd_Names :: "string list"

record PatchOperationConfig =
  poc_Path :: string
  poc_Template :: string

record UpdateStrategy =
  us_Operation :: string
  us_PatchOperationConfig :: "PatchOperationConfig option"

record MatchCondition =
  mcond_Value :: string
  mcond_Operation :: string

record MatchStrategy =
  ms_Path :: string
  ms_Conditions :: "MatchCondition list"

record WaitForCondition =
  wfc_RetryTimeout :: "int64 option"
  wfc_MaxRetries :: "int32 option"
  wfc_Type :: string
  wfc_Status :: string
  wfc_Message :: string
  wfc_Reason :: string
  wfc_TransitionedAfter :: "int64 option"
  wfc_UpdatedAfter :: "int64 option"

record WaitStrategy =
  ws_Time :: "int64 option"
  ws_Condition :: "WaitForCondition option"

record DestinationToWatch =
  dw_Type :: string
  dw_WorkflowRunTemplate :: "WorkflowRunTemplateDestination option"
  dw_ExternalSecret :: "ExternalSecretDestination option"
  dw_PushSecret :: "PushSecretDestination option"
  dw_Deployment :: "DeploymentDestination option"
  dw_UpdateStrategy :: "UpdateStrategy option"
  dw_MatchStrategy :: "MatchStrategy option"
  dw_WaitStrategy :: "WaitStrategy option"

section \<open>The Config resource\<close>

text \<open>A nil slice of sources and an empty one are told apart by \<^verbatim>\<open>ManageListeners\<close> only.\<close>

record ConfigSpec =
  cs_NotificationSources :: "NotificationSource list"
  cs_DestinationsToWatch :: "DestinationToWatch list"

record ConfigStatus =
  cst_Conditions :: "Condition list"

record Config =
  cfg_Meta :: ObjectMeta
  cfg_Spec :: ConfigSpec
  cfg_Status :: ConfigStatus

section \<open>Validation\<close>

definition webhookNotificationSourceType :: string where
  "webhookNotificationSourceType = ''Webhook''"

text \<open>The suffix a webhook source is compared by: blank ends are ignored, nil is empty.\<close>

definition webhook_suffix :: "NotificationSource \<Rightarrow> string" where
  "webhook_suffix source =
     (case ns_Webhook source of None \<Rightarrow> [] | Some wh \<Rightarrow> TrimSpace (wh_PathSuffix wh))"

definition duplicate_msg :: "string \<Rightarrow> nat \<Rightarrow> nat \<Rightarrow> msg" where
  "duplicate_msg sfx firstIndex i =
     (if sfx = [] then
        Sprintf ''notificationSources[%d] and notificationSources[%d] both omit webhook.pathSuffix; at most one webhook without pathSuffix is allowed''
          [IntArg (int firstIndex), IntArg (int i)]
      else
        Sprintf ''notificationSources[%d].webhook.pathSuffix %q duplicates notificationSources[%d].webhook.pathSuffix''
          [IntArg (int i), QuotedArg sfx, IntArg (int firstIndex)])"

text \<open>The loop: \<open>i\<close> is the index, \<open>seen\<close> the first index of every suffix.\<close>

fun duplicates_loop :: "nat \<Rightarrow> (string \<rightharpoonup> nat) \<Rightarrow> msg list \<Rightarrow> NotificationSource list \<Rightarrow> msg list" where
  "duplicates_loop i seen duplicates [] = duplicates"
| "duplicates_loop i seen duplicates (source # sources) =
     (if ns_Type source \<noteq> webhookNotificationSourceType
      then duplicates_loop (Suc i) seen duplicates sources
      else
        (let sfx = webhook_suffix source in
         case seen sfx of
           Some firstIndex \<Rightarrow>
             duplicates_loop (Suc i) seen (duplicates @ [duplicate_msg sfx firstIndex i]) sources
         | None \<Rightarrow> duplicates_loop (Suc i) (seen(sfx \<mapsto> i)) duplicates sources))"

definition validateUniqueWebhookPathSuffixes :: "NotificationSource list \<Rightarrow> unit result" where
  "validateUniqueWebhookPathSuffixes sources =
     (let duplicates = duplicates_loop 0 Map.empty [] sources in
      if duplicates = [] then Ok ()
      else Err (Errorf ''%s'' [Joined ''; '' duplicates]))"

definition Validate :: "ConfigSpec \<Rightarrow> unit result" where
  "Validate s = rbind (validateUniqueWebhookPathSuffixes (cs_NotificationSources s)) (\<lambda>_. Ok ())"

text \<open>The webhook sources of a list, in order.\<close>

abbreviation webhooks :: "NotificationSource list \<Rightarrow> NotificationSource list" where
  "webhooks sources \<equiv> filter (\<lambda>s. ns_Type s = webhookNotificationSourceType) sources"

section \<open>What validation accepts\<close>

lemma duplicates_loop_acc:
  "duplicates_loop i seen ds sources = ds @ duplicates_loop i seen [] sources"
proof (induction sources arbitrary: i seen ds)
  case Nil
  show ?case by simp
next
  case (Cons s sources)
  let ?m = "\<lambda>f. duplicate_msg (webhook_suffix s) f i"
  show ?case
  proof (cases "seen (webhook_suffix s)")
    case None
    then show ?thesis
      by (simp add: Let_def Cons.IH [of "Suc i" _ ds] del: fun_upd_apply)
  next
    case (Some f)
    then show ?thesis
      using Cons.IH [of "Suc i" seen ds] Cons.IH [of "Suc i" seen "ds @ [?m f]"]
        Cons.IH [of "Suc i" seen "[?m f]"] by simp
  qed
qed

lemma duplicates_loop_Nil_iff:
  "duplicates_loop i seen [] sources = [] \<longleftrightarrow>
     distinct (map webhook_suffix (webhooks sources))
     \<and> set (map webhook_suffix (webhooks sources)) \<inter> dom seen = {}"
proof (induction sources arbitrary: i seen)
  case Nil
  show ?case by simp
next
  case (Cons s sources)
  show ?case
  proof (cases "seen (webhook_suffix s)")
    case None
    then show ?thesis
      by (auto simp: Let_def Cons.IH simp del: fun_upd_apply)
  next
    case (Some f)
    then show ?thesis
      by (auto simp: Let_def Cons.IH duplicates_loop_acc [of _ _ "[_]"])
  qed
qed

lemma validate_Ok_iff:
  "validateUniqueWebhookPathSuffixes sources = Ok () \<longleftrightarrow>
     distinct (map webhook_suffix (webhooks sources))"
  by (simp add: validateUniqueWebhookPathSuffixes_def Let_def duplicates_loop_Nil_iff)

lemma Validate_eq: "Validate s = validateUniqueWebhookPathSuffixes (cs_NotificationSources s)"
  by (cases "validateUniqueWebhookPathSuffixes (cs_NotificationSources s)") (simp_all add: Validate_def)

lemma Validate_total: "Validate s = Ok () \<or> (\<exists>ms. Validate s = Err (Errorf ''%s'' [Joined ''; '' ms]) \<and> ms \<noteq> [])"
  by (auto simp: Validate_eq validateUniqueWebhookPathSuffixes_def Let_def)

text \<open>
  C26: a \<^verbatim>\<open>ConfigSpec\<close> passes \<^verbatim>\<open>Validate\<close> exactly when no two of its webhook sources have the
  same path suffix once surrounding white space is removed, a missing webhook block counting
  as the empty suffix.
\<close>

theorem Validate_accepts_iff:
  "Validate s = Ok () \<longleftrightarrow>
     distinct (map webhook_suffix (webhooks (cs_NotificationSources s)))"
  by (simp add: Validate_eq validate_Ok_iff)

end
