(* ===== verification/Runtime.thy ===== *)
theory Runtime
  imports Api
begin

text \<open>
  What the goroutines of the listeners see of the Go runtime: a cancellable context, channels
  and timers in \<^verbatim>\<open>select\<close> statements, the clock, and HTTP requests and responses. What the
  environment does is data: a schedule gives, for every point at which the goroutine is
  resumed at a \<^verbatim>\<open>select\<close>, whether the context has been cancelled meanwhile, whether the other
  side of the channel is ready, which of two ready cases the runtime picks, and how much time
  has passed. A theorem over all schedules is a theorem over all interleavings; a goroutine
  that is still waiting when the schedule ends is \<open>Blocked\<close>.
\<close>

section \<open>Schedules and select\<close>

record sched =
  sc_cancel :: bool
  sc_ready :: bool
  sc_pick :: bool
  sc_elapse :: nat

record retryMessage =
  rm_event :: SecretRotationEvent
  rm_currentRun :: int
  rm_retryAt :: int

text \<open>
  The state of a route's goroutine: is its context done, the clock in nanoseconds, the rest of
  the schedule, the events accepted by \<^verbatim>\<open>eventChan\<close> and the messages handed to the retry
  worker, oldest first.
\<close>

record rt =
  rt_done :: bool
  rt_now :: int
  rt_sched :: "sched list"
  rt_out :: "SecretRotationEvent list"
  rt_retry :: "retryMessage list"

datatype select_case = Ready | DoneCase

text \<open>The goroutine is resumed once.\<close>

definition resume :: "sched \<Rightarrow> sched list \<Rightarrow> rt \<Rightarrow> rt" where
  "resume s ss st =
     st\<lparr>rt_done := rt_done st \<or> sc_cancel s, rt_now := rt_now st + int (sc_elapse s), rt_sched := ss\<rparr>"

text \<open>
  \<^verbatim>\<open>select\<close> with one communication and \<^verbatim>\<open><-ctx.Done()\<close>: if both are ready the runtime picks
  either. The argument \<open>P\<close> says whether the communication is ready.
\<close>

fun select_loop :: "(sched \<Rightarrow> rt \<Rightarrow> bool) \<Rightarrow> sched list \<Rightarrow> rt \<Rightarrow> select_case result \<times> rt" where
  "select_loop P [] st = (Blocked, st\<lparr>rt_sched := []\<rparr>)"
| "select_loop P (s # ss) st =
     (let st' = resume s ss st in
      if P s st' \<and> (\<not> rt_done st' \<or> sc_pick s) then (Ok Ready, st')
      else if rt_done st' then (Ok DoneCase, st')
      else select_loop P ss st')"

definition select_or_done :: "(sched \<Rightarrow> rt \<Rightarrow> bool) \<Rightarrow> rt \<Rightarrow> select_case result \<times> rt" where
  "select_or_done P st = select_loop P (rt_sched st) st"

text \<open>The other side of the channel is ready; the timer of \<^verbatim>\<open>time.After\<close> has fired.\<close>

definition chan_ready :: "sched \<Rightarrow> rt \<Rightarrow> bool" where
  "chan_ready s st = sc_ready s"

definition timer_ready :: "int \<Rightarrow> sched \<Rightarrow> rt \<Rightarrow> bool" where
  "timer_ready t s st \<longleftrightarrow> t \<le> rt_now st"

lemma resume_simps [simp]:
  "rt_done (resume s ss st) = (rt_done st \<or> sc_cancel s)" "rt_sched (resume s ss st) = ss"
  "rt_out (resume s ss st) = rt_out st" "rt_retry (resume s ss st) = rt_retry st"
  "rt_now (resume s ss st) = rt_now st + int (sc_elapse s)"
  by (simp_all add: resume_def)

text \<open>
  A select changes neither what was published nor what was handed over, uses up part of the
  schedule, never revives a cancelled context, and takes the \<^verbatim>\<open>Done\<close> case only when the
  context is cancelled.
\<close>

lemma select_loop_frame:
  "select_loop P ss st = (x, st') \<Longrightarrow>
     rt_out st' = rt_out st \<and> rt_retry st' = rt_retry st \<and> rt_now st \<le> rt_now st'
     \<and> (rt_done st \<longrightarrow> rt_done st') \<and> length (rt_sched st') \<le> length ss
     \<and> (x \<noteq> Blocked \<longrightarrow> length (rt_sched st') < length ss) \<and> (x = Ok DoneCase \<longrightarrow> rt_done st')"
proof (induction P ss st arbitrary: st' rule: select_loop.induct)
  case (1 P st)
  then show ?case by auto
next
  case (2 P s ss st)
  let ?st = "resume s ss st"
  consider "P s ?st \<and> (\<not> rt_done ?st \<or> sc_pick s)" | "\<not> (P s ?st \<and> (\<not> rt_done ?st \<or> sc_pick s))" "rt_done ?st"
    | "\<not> (P s ?st \<and> (\<not> rt_done ?st \<or> sc_pick s))" "\<not> rt_done ?st" by blast
  then show ?case
  proof cases
    case 3
    with "2.prems" have "select_loop P ss ?st = (x, st')"
      by (simp only: select_loop.simps Let_def if_False)
    from "2.IH" [OF refl 3 this] 3(2) show ?thesis by simp
  qed (use "2.prems" in \<open>simp_all add: Let_def, auto\<close>)
qed

lemma select_frame:
  assumes "select_or_done P st = (x, st')"
  shows "rt_out st' = rt_out st" "rt_retry st' = rt_retry st" "rt_now st \<le> rt_now st'"
    "rt_done st \<Longrightarrow> rt_done st'" "length (rt_sched st') \<le> length (rt_sched st)"
    "x \<noteq> Blocked \<Longrightarrow> length (rt_sched st') < length (rt_sched st)" "x = Ok DoneCase \<Longrightarrow> rt_done st'"
  using select_loop_frame [OF assms [unfolded select_or_done_def]] by auto

lemma select_outcome:
  "fst (select_or_done P st) = Ok Ready \<or> fst (select_or_done P st) = Ok DoneCase
     \<or> fst (select_or_done P st) = Blocked"
proof -
  have "fst (select_loop P ss st) \<in> {Ok Ready, Ok DoneCase, Blocked}" for ss st
    by (induction P ss st rule: select_loop.induct) (auto simp: Let_def)
  then show ?thesis by (auto simp: select_or_done_def)
qed

text \<open>Once the context is cancelled a select does not wait.\<close>

lemma select_cancelled:
  "rt_done st \<Longrightarrow> rt_sched st = s # ss \<Longrightarrow> fst (select_or_done P st) \<noteq> Blocked"
  by (simp add: select_or_done_def Let_def)

lemma select_not_blocked:
  "\<exists>s \<in> set (rt_sched st). sc_cancel s \<Longrightarrow> fst (select_or_done P st) \<noteq> Blocked"
proof -
  have "\<exists>s \<in> set ss. sc_cancel s \<Longrightarrow> fst (select_loop P ss st) \<noteq> Blocked" for ss st
    by (induction P ss st rule: select_loop.induct) (auto simp: Let_def)
  then show "\<exists>s \<in> set (rt_sched st). sc_cancel s \<Longrightarrow> fst (select_or_done P st) \<noteq> Blocked"
    by (simp add: select_or_done_def)
qed

section \<open>HTTP\<close>

text \<open>
  A request: the method, the path of its URL, the headers by canonical name, and the body: the
  bytes the connection delivers and the error it ends with, if any.
\<close>

record Request =
  rq_Method :: string
  rq_Path :: string
  rq_Header :: "(string, string list) gomap"
  rq_Body :: "string \<times> error option"

text \<open>\<^verbatim>\<open>http.ResponseWriter\<close>: the first status written is the one sent; a body write implies 200.\<close>

record ResponseWriter =
  rw_Status :: "nat option"
  rw_Body :: "msg list"

definition new_response :: ResponseWriter where
  "new_response = \<lparr>rw_Status = None, rw_Body = []\<rparr>"

definition WriteHeader :: "nat \<Rightarrow> ResponseWriter \<Rightarrow> ResponseWriter" where
  "WriteHeader code w = (if rw_Status w = None then w\<lparr>rw_Status := Some code\<rparr> else w)"

definition Fprintln :: "msg \<Rightarrow> ResponseWriter \<Rightarrow> ResponseWriter" where
  "Fprintln m w = (let w' = WriteHeader 200 w in w'\<lparr>rw_Body := rw_Body w' @ [m]\<rparr>)"

definition http_Error :: "msg \<Rightarrow> nat \<Rightarrow> ResponseWriter \<Rightarrow> ResponseWriter" where
  "http_Error m code w = Fprintln m (WriteHeader code w)"

text \<open>\<^verbatim>\<open>Header.Get\<close> for a name in canonical form.\<close>

definition Header_Get :: "(string, string list) gomap \<Rightarrow> string \<Rightarrow> string" where
  "Header_Get h key = (case map_of h key of Some (v # vs) \<Rightarrow> v | _ \<Rightarrow> [])"

text \<open>\<^verbatim>\<open>io.ReadAll(http.MaxBytesReader(w, body, limit))\<close>.\<close>

definition ReadAll_limited :: "nat \<Rightarrow> string \<times> error option \<Rightarrow> string result" where
  "ReadAll_limited limit body =
     (case body of (data, end_error) \<Rightarrow>
        if limit < length data then Err (MaxBytesError limit)
        else (case end_error of None \<Rightarrow> Ok data | Some e \<Rightarrow> Err e))"

lemmas response_defs = WriteHeader_def Fprintln_def http_Error_def Let_def

lemma new_response_status [simp]: "rw_Status new_response = None"
  by (simp add: new_response_def)

lemma WriteHeader_new [simp]: "rw_Status (WriteHeader c new_response) = Some c"
  by (simp add: WriteHeader_def new_response_def)

lemma WriteHeader_once [simp]: "rw_Status w = Some c \<Longrightarrow> WriteHeader d w = w"
  by (simp add: WriteHeader_def)

lemma Fprintln_status [simp]:
  "rw_Status (Fprintln m w) = (case rw_Status w of None \<Rightarrow> Some 200 | Some c \<Rightarrow> Some c)"
  by (simp add: response_defs split: option.split)

end
