(* ===== verification/Base64.thy ===== *)
theory Base64
  imports GoStrings
begin

text \<open>
  The standard Base64 codec of \<^verbatim>\<open>encoding/base64\<close> (\<^verbatim>\<open>StdEncoding\<close>), which basic authentication
  and the CA bundle of the Kubernetes source are read with. As in Go, line breaks in the input
  are ignored, padding is required, and the unused bits of the last group are not checked.
  \<open>EncodeToString\<close> is what a client sends; the round trip says that the decoder gives it back.
\<close>

section \<open>The codec\<close>

text \<open>The digit of an alphabet character, and the character of a digit.\<close>

definition b64_digit :: "char \<Rightarrow> nat option" where
  "b64_digit c =
     (let n = of_char c :: nat in
      if 65 \<le> n \<and> n \<le> 90 then Some (n - 65)
      else if 97 \<le> n \<and> n \<le> 122 then Some (n - 71)
      else if 48 \<le> n \<and> n \<le> 57 then Some (n + 4)
      else if n = 43 then Some 62
      else if n = 47 then Some 63
      else None)"

definition b64_char :: "nat \<Rightarrow> char" where
  "b64_char d =
     char_of (if d < 26 then d + 65 else if d < 52 then d + 71 else if d < 62 then d - 4
              else if d = 62 then 43 else 47)"

abbreviation pad_char :: char where "pad_char \<equiv> CHR ''=''"

text \<open>Groups of four: a full group, or a last group with one or two padding characters.\<close>

fun decode_groups :: "string \<Rightarrow> string option" where
  "decode_groups [] = Some []"
| "decode_groups (a # b # c # d # rest) =
     (case (b64_digit a, b64_digit b) of
        (Some x, Some y) \<Rightarrow>
          (if c = pad_char then
             (if d = pad_char \<and> rest = [] then Some [char_of (x * 4 + y div 16)] else None)
           else
             (case b64_digit c of
                None \<Rightarrow> None
              | Some z \<Rightarrow>
                  (if d = pad_char then
                     (if rest = [] then Some [char_of (x * 4 + y div 16), char_of (y mod 16 * 16 + z div 4)] else None)
                   else
                     (case b64_digit d of
                        None \<Rightarrow> None
                      | Some u \<Rightarrow>
                          map_option (\<lambda>s. char_of (x * 4 + y div 16) # char_of (y mod 16 * 16 + z div 4)
                              # char_of (z mod 4 * 64 + u) # s)
                            (decode_groups rest)))))
      | _ \<Rightarrow> None)"
| "decode_groups _ = None"

definition is_newline :: "char \<Rightarrow> bool" where
  "is_newline c \<longleftrightarrow> c = char_of (10 :: nat) \<or> c = char_of (13 :: nat)"

text \<open>The error carries no offset: the program only logs it.\<close>

definition DecodeString :: "string \<Rightarrow> string result" where
  "DecodeString s =
     (case decode_groups (filter (\<lambda>c. \<not> is_newline c) s) of
        None \<Rightarrow> Err (errors_New ''illegal base64 data'')
      | Some bs \<Rightarrow> Ok bs)"

fun EncodeToString :: "string \<Rightarrow> string" where
  "EncodeToString [] = []"
| "EncodeToString [a] =
     (let x = of_char a :: nat in [b64_char (x div 4), b64_char (x mod 4 * 16), pad_char, pad_char])"
| "EncodeToString [a, b] =
     (let x = of_char a :: nat; y = of_char b :: nat in
      [b64_char (x div 4), b64_char (x mod 4 * 16 + y div 16), b64_char (y mod 16 * 4), pad_char])"
| "EncodeToString (a # b # c # rest) =
     (let x = of_char a :: nat; y = of_char b :: nat; z = of_char c :: nat in
      [b64_char (x div 4), b64_char (x mod 4 * 16 + y div 16), b64_char (y mod 16 * 4 + z div 64), b64_char (z mod 64)]
      @ EncodeToString rest)"

section \<open>Round trip\<close>

lemma char_of_char [simp]: "char_of (of_char c :: nat) = c"
  by simp

lemma of_char_less [simp]: "(of_char c :: nat) < 256"
  by (cases c) (simp add: of_char_def horner_sum_simps)

lemma of_char_char_of_nat: "n < 256 \<Longrightarrow> (of_char (char_of n :: char) :: nat) = n"
  by (simp add: of_char_of)

lemma b64_char_code:
  "d < 64 \<Longrightarrow> (of_char (b64_char d) :: nat) =
     (if d < 26 then d + 65 else if d < 52 then d + 71 else if d < 62 then d - 4 else if d = 62 then 43 else 47)"
  unfolding b64_char_def by (subst of_char_char_of_nat) auto

lemma b64_digit_char [simp]: "d < 64 \<Longrightarrow> b64_digit (b64_char d) = Some d"
  by (auto simp: b64_digit_def Let_def b64_char_code)

lemma b64_char_not_special:
  assumes "d < 64"
  shows "b64_char d \<noteq> pad_char" and "\<not> is_newline (b64_char d)"
proof -
  have neq: "b64_char d \<noteq> char_of n" if "n \<in> {10, 13, 61 :: nat}" for n
  proof
    assume "b64_char d = char_of n"
    then have "(of_char (b64_char d) :: nat) = n" using that by (auto simp: of_char_of)
    with assms that show False by (auto simp: b64_char_code split: if_splits)
  qed
  have "pad_char = char_of (61 :: nat)" by code_simp
  with neq [of 61] show "b64_char d \<noteq> pad_char" by simp
  from neq show "\<not> is_newline (b64_char d)" by (simp add: is_newline_def)
qed

lemma pad_char_not_newline [simp]: "\<not> is_newline pad_char"
  by code_simp

text \<open>Cutting three bytes into four digits and putting them together again.\<close>

lemma byte_div [simp]:
  "(of_char b :: nat) div 4 < 64" "(of_char b :: nat) div 16 < 16" "(of_char b :: nat) div 64 < 4"
  by (simp_all add: less_mult_imp_div_less)

lemma digit_bounds:
  "x mod 4 * 16 < (64 :: nat)" "y mod 16 * 4 < (64 :: nat)"
  "x mod 4 * 16 + (of_char b :: nat) div 16 < 64" "y mod 16 * 4 + (of_char c :: nat) div 64 < 64"
proof -
  have "x mod 4 < 4" "y mod 16 < 16" by simp_all
  with byte_div [of b] byte_div [of c]
  show "x mod 4 * 16 < (64 :: nat)" "y mod 16 * 4 < (64 :: nat)"
    "x mod 4 * 16 + (of_char b :: nat) div 16 < 64" "y mod 16 * 4 + (of_char c :: nat) div 64 < 64"
    by linarith+
qed

lemma byte_join:
  "(of_char b :: nat) div 16 div 16 = 0" "(of_char b :: nat) div 16 mod 16 = of_char b div 16"
  "(of_char b :: nat) div 64 div 4 = 0" "(of_char b :: nat) div 64 mod 4 = of_char b div 64"
  by simp_all

lemma encode_no_newline: "filter (\<lambda>c. \<not> is_newline c) (EncodeToString s) = EncodeToString s"
  by (induction s rule: EncodeToString.induct) (simp_all add: Let_def b64_char_not_special digit_bounds)

lemma decode_encode: "decode_groups (EncodeToString s) = Some s"
  by (induction s rule: EncodeToString.induct) (simp_all add: Let_def b64_char_not_special digit_bounds byte_join)

lemma DecodeString_EncodeToString: "DecodeString (EncodeToString s) = Ok s"
  by (simp add: DecodeString_def encode_no_newline decode_encode)

lemma returns_DecodeString [simp]: "returns (DecodeString s)"
  by (simp add: DecodeString_def split: option.split)

end
