(* ===== verification/Fixture.thy ===== *)
theory Fixture
  imports Api
begin

text \<open>
  A concrete outside world for the witnesses: an API server that holds fixed lists of
  objects, accepts every update and records it, whose selectors compare \<^verbatim>\<open>matchLabels\<close> only and
  whose regular expressions are literal strings (an expression starting with a star does not
  parse). Every second timer event of the rollout wait is the timeout.
\<close>

record fixture_world =
  fw_updates :: "Object list"
  fw_clock :: nat

definition fixture_matches :: "LabelSelector \<Rightarrow> labels \<Rightarrow> bool" where
  "fixture_matches s ls = list_all (\<lambda>(a, b). ls a = Some b) (ls_MatchLabels s)"

definition fixture_kube ::
  "Deployment list \<Rightarrow> ExternalSecret list \<Rightarrow> PushSecret list \<Rightarrow> Unstructured list
    \<Rightarrow> (NamespacedName \<rightharpoonup> Secret) \<Rightarrow> fixture_world kube" where
  "fixture_kube ds es ps ws secs =
     \<lparr>k_ListDeployments = (\<lambda>w ns. Inr (case ns of None \<Rightarrow> ds
        | Some n \<Rightarrow> filter (\<lambda>d. om_Namespace (dep_Meta d) = n) ds)),
      k_ListExternalSecrets = (\<lambda>w. Inr es),
      k_ListPushSecrets = (\<lambda>w. Inr ps),
      k_ListWorkflows = (\<lambda>w. Inr ws),
      k_GetNamespace = (\<lambda>w n. Inr [''kubernetes.io/metadata.name'' \<mapsto> n]),
      k_GetDeployment = (\<lambda>w n. case find (\<lambda>d. om_Namespace (dep_Meta d) = nn_Namespace n
          \<and> om_Name (dep_Meta d) = nn_Name n) ds of
        None \<Rightarrow> Inl (NotFound ''deployment'') | Some d \<Rightarrow> Inr d),
      k_GetSecret = (\<lambda>w n. case secs n of None \<Rightarrow> Inl (NotFound ''secret'') | Some s \<Rightarrow> Inr s),
      k_GetServiceAccount = (\<lambda>w n. Inl (NotFound ''serviceaccount'')),
      k_Update = (\<lambda>w ob. (None, w\<lparr>fw_updates := fw_updates w @ [ob]\<rparr>)),
      k_Selector = (\<lambda>s. Inr (fixture_matches s)),
      k_Regexp = (\<lambda>e. case e of [] \<Rightarrow> Some (\<lambda>_. True) | c # cs \<Rightarrow> if c = CHR ''*'' then None else Some (\<lambda>t. t = e)),
      k_Wake = (\<lambda>w. (if even (fw_clock w) then TickerFired else TimeoutFired,
        w\<lparr>fw_clock := Suc (fw_clock w)\<rparr>))\<rparr>"

definition fixture_meta :: "string \<Rightarrow> string \<Rightarrow> ObjectMeta" where
  "fixture_meta ns nm =
     \<lparr>om_Name = nm, om_Namespace = ns, om_Labels = Map.empty, om_Annotations = None,
      om_Generation = 1, om_ResourceVersion = ''1'', om_DeletionTimestamp = None, om_Finalizers = []\<rparr>"

text \<open>An ExternalSecret that reads the given remote keys and regular expressions.\<close>

definition fixture_es :: "string \<Rightarrow> string list \<Rightarrow> string list \<Rightarrow> ExternalSecret" where
  "fixture_es nm keys exprs =
     \<lparr>es_Meta = fixture_meta ''default'' nm, es_DataRemoteKeys = keys,
      es_DataFrom = map (\<lambda>e. \<lparr>esf_ExtractKey = None, esf_FindNameRegExp = Some (Some e)\<rparr>) exprs,
      es_TargetTemplate = None\<rparr>"

text \<open>A Deployment with one container that reads the given Secret, rolled out or not.\<close>

definition fixture_deployment :: "string \<Rightarrow> string \<Rightarrow> bool \<Rightarrow> Deployment" where
  "fixture_deployment nm sec rolled_out =
     \<lparr>dep_Meta = fixture_meta ''default'' nm, dep_Replicas = Some 2, dep_Paused = False,
      dep_Template = \<lparr>pts_Annotations = None,
        pts_Containers = [\<lparr>con_Env = [None, Some \<lparr>evs_SecretKeyRef = Some sec, evs_ConfigMapKeyRef = None\<rparr>],
                           con_EnvFrom = []\<rparr>]\<rparr>,
      dep_ObservedGeneration = 1, dep_UpdatedReplicas = (if rolled_out then 2 else 1),
      dep_AvailableReplicas = 2, dep_ReadyReplicas = 2,
      dep_Conditions = [\<lparr>dc_Type = ''Progressing'', dc_Status = ''True'', dc_Reason = ''NewReplicaSetAvailable''\<rparr>]\<rparr>"

definition fixture_destination :: "string \<Rightarrow> DestinationToWatch" where
  "fixture_destination t =
     \<lparr>dw_Type = t, dw_WorkflowRunTemplate = Some \<lparr>wrd_NamespaceSelectors = [], wrd_LabelSelectors = None, wrd_Names = []\<rparr>,
      dw_ExternalSecret = Some \<lparr>esd_NamespaceSelectors = [], esd_LabelSelectors = None, esd_Names = []\<rparr>,
      dw_PushSecret = Some \<lparr>psd_NamespaceSelectors = [], psd_LabelSelectors = None, psd_Names = []\<rparr>,
      dw_Deployment = Some \<lparr>dd_NamespaceSelectors = [], dd_LabelSelectors = None, dd_Names = []\<rparr>,
      dw_UpdateStrategy = None, dw_MatchStrategy = None, dw_WaitStrategy = None\<rparr>"

definition fixture_event :: "string \<Rightarrow> SecretRotationEvent" where
  "fixture_event ident =
     \<lparr>ev_SecretIdentifier = ident, ev_RotationTimestamp = ''2024-09-19T12:00:00Z'',
      ev_TriggerSource = ''Webhook'', ev_Namespace = []\<rparr>"

definition fixture_start :: fixture_world where
  "fixture_start = \<lparr>fw_updates = [], fw_clock = 0\<rparr>"

lemmas fixture_defs =
  fixture_kube_def fixture_meta_def fixture_es_def fixture_deployment_def fixture_destination_def
  fixture_event_def fixture_start_def fixture_matches_def

end
