(* ===== verification/Secrets.thy ===== *)
theory Secrets
  imports Api Base64 Fixture
begin

text \<open>
  Reading one key of a Kubernetes Secret, which the program does in three places:
  \<^verbatim>\<open>decodeSecret\<close> of the webhook route, \<^verbatim>\<open>resolvers.SecretKeyRef\<close> of the Google token source and
  \<^verbatim>\<open>fetchSecretKey\<close> of the Kubernetes source. The interface \<open>secret_resolver\<close> states what their
  clients rely on; all three are interpreted.
\<close>

section \<open>Definitions\<close>

definition GetSecret :: "'w kube \<Rightarrow> 'w \<Rightarrow> string \<Rightarrow> string \<Rightarrow> Secret result" where
  "GetSecret k w nm ns =
     (let key = NamespacedName ns nm in
      map_err (Wrapf ''failed to get secret: %w'' []) (lift (k_GetSecret k w key)))"

definition decodeSecret :: "'w kube \<Rightarrow> 'w \<Rightarrow> SecretKeySelector \<Rightarrow> string result" where
  "decodeSecret k w config =
     rbind (GetSecret k w (sks_Name config) (sks_Namespace config)) (\<lambda>secret.
       (case map_of (sec_Data secret) (sks_Key config) of
          None \<Rightarrow> Err (Errorf ''%s not found in secret %s'' [StrArg (sks_Key config), StrArg (sks_Name config)])
        | Some secretBytes \<Rightarrow> Ok secretBytes))"

definition SecretKeyRef :: "'w kube \<Rightarrow> 'w \<Rightarrow> SecretKeySelector \<Rightarrow> string result" where
  "SecretKeyRef k w ref =
     (let key = NamespacedName (sks_Namespace ref) (sks_Name ref) in
      rbind (map_err (Wrapf ''cannot get Kubernetes secret %q: %w'' [QuotedArg (sks_Name ref)]) (lift (k_GetSecret k w key)))
        (\<lambda>secret.
          (case map_of (sec_Data secret) (sks_Key ref) of
             None \<Rightarrow> Err (Errorf ''cannot find secret data for key: %q'' [QuotedArg (sks_Key ref)])
           | Some val \<Rightarrow> Ok val)))"

definition fetchSecretKey :: "'w kube \<Rightarrow> 'w \<Rightarrow> SecretKeySelector option \<Rightarrow> string result" where
  "fetchSecretKey k w secretKeySelector =
     (case secretKeySelector of
        None \<Rightarrow> Err (errors_New ''secret key selector is nil'')
      | Some sel \<Rightarrow>
          rbind (map_err (Wrapf ''could not fetch secret key: %w'' []) (GetSecret k w (sks_Name sel) (sks_Namespace sel)))
            (\<lambda>secret.
              (case map_of (sec_Data secret) (sks_Key sel) of
                 None \<Rightarrow> Err (Errorf ''key %s not found in secret %s'' [StrArg (sks_Key sel), StrArg (sks_Name sel)])
               | Some data \<Rightarrow> Ok data)))"

section \<open>The interface\<close>

text \<open>The value a selector points to, if the Secret can be read and has the key.\<close>

definition secret_value :: "'w kube \<Rightarrow> 'w \<Rightarrow> SecretKeySelector \<Rightarrow> string option" where
  "secret_value k w sel =
     (case k_GetSecret k w (NamespacedName (sks_Namespace sel) (sks_Name sel)) of
        Inl e \<Rightarrow> None
      | Inr secret \<Rightarrow> map_of (sec_Data secret) (sks_Key sel))"

locale secret_resolver =
  fixes k :: "'w kube" and resolve :: "'w \<Rightarrow> SecretKeySelector \<Rightarrow> string result"
  assumes resolve_value: "resolve w sel = Ok v \<longleftrightarrow> secret_value k w sel = Some v"
    and resolve_returns: "returns (resolve w sel)"
begin

lemma resolve_cases [consumes 0, case_names Value Missing]:
  obtains v where "resolve w sel = Ok v" and "secret_value k w sel = Some v"
  | e where "resolve w sel = Err e" and "secret_value k w sel = None"
  using resolve_returns [of w sel] resolve_value [of w sel]
  by (metis not_Some_eq result.distinct(1) returns_def)

lemma resolve_Err_iff: "(\<exists>e. resolve w sel = Err e) \<longleftrightarrow> secret_value k w sel = None"
  by (cases rule: resolve_cases [of w sel]) auto

text \<open>Only the selected Secret matters: another client that agrees on it resolves to the same value.\<close>

lemma resolve_local:
  assumes "secret_resolver k' resolve'"
    and "k_GetSecret k w (NamespacedName (sks_Namespace sel) (sks_Name sel))
       = k_GetSecret k' w' (NamespacedName (sks_Namespace sel) (sks_Name sel))"
  shows "resolve w sel = Ok v \<longleftrightarrow> resolve' w' sel = Ok v"
  using assms(2) by (simp add: resolve_value secret_resolver.resolve_value [OF assms(1)] secret_value_def)

end

lemma returns_GetSecret [simp]: "returns (GetSecret k w nm ns)"
  by (simp add: GetSecret_def Let_def)

lemma GetSecret_Ok_iff: "GetSecret k w nm ns = Ok s \<longleftrightarrow> k_GetSecret k w (NamespacedName ns nm) = Inr s"
  by (simp add: GetSecret_def Let_def go_simps)

interpretation decodeSecret: secret_resolver k "decodeSecret k"
  by unfold_locales
    (auto simp: decodeSecret_def secret_value_def GetSecret_Ok_iff go_simps intro!: returns_rbind split: option.splits sum.splits)

interpretation SecretKeyRef: secret_resolver k "SecretKeyRef k"
  by unfold_locales
    (auto simp: SecretKeyRef_def secret_value_def go_simps Let_def intro!: returns_rbind split: option.splits sum.splits)

interpretation fetchSecretKey: secret_resolver k "\<lambda>w sel. fetchSecretKey k w (Some sel)"
  by unfold_locales
    (auto simp: fetchSecretKey_def secret_value_def GetSecret_Ok_iff go_simps intro!: returns_rbind split: option.splits sum.splits)

text \<open>
  The three ways of reading a secret key agree: each yields the value stored under the
  key of the selected Secret in the selected namespace, and each reports an error (never an
  empty value) when the Secret cannot be read or has no such key.
\<close>

theorem secret_resolvers_agree:
  "(case secret_value k w sel of
      Some v \<Rightarrow> decodeSecret k w sel = Ok v \<and> SecretKeyRef k w sel = Ok v \<and> fetchSecretKey k w (Some sel) = Ok v
    | None \<Rightarrow> (\<exists>e1 e2 e3. decodeSecret k w sel = Err e1 \<and> SecretKeyRef k w sel = Err e2
        \<and> fetchSecretKey k w (Some sel) = Err e3))"
  by (auto simp: decodeSecret.resolve_Err_iff SecretKeyRef.resolve_Err_iff fetchSecretKey.resolve_Err_iff
      decodeSecret.resolve_value SecretKeyRef.resolve_value fetchSecretKey.resolve_value split: option.split)

end
