(* ===== verification/Route.thy ===== *)
theory Route
  imports Runtime Secrets
begin

text \<open>
  One webhook endpoint (\<^verbatim>\<open>internal/listener/webhook/route.go\<close>): authentication, the bounded read
  of the body, the extraction of the secret identifier, the publication of the event and the
  retry worker. The route's context and the goroutines on the other side of its channels are
  the state \<open>rt\<close> with its schedule; \<^verbatim>\<open>gjson.Get\<close> and the formatted wall clock are the record
  \<open>web\<close>.
\<close>

section \<open>State\<close>

text \<open>
  \<open>wb_gjson payload path\<close> is \<^verbatim>\<open>gjson.Get\<close>: \<open>None\<close> when the result does not exist, otherwise its
  \<^verbatim>\<open>String()\<close>. \<open>wb_Format\<close> renders a clock reading in the layout \<^verbatim>\<open>2006-01-02-15-04-05.000\<close>.
\<close>

record web =
  wb_gjson :: "string \<Rightarrow> string \<Rightarrow> string option"
  wb_Format :: "int \<Rightarrow> string"

text \<open>\<open>r_done\<close>: the route's context is cancelled; \<open>r_worker\<close>: its retry worker runs.\<close>

record route =
  r_configName :: string
  r_config :: "WebhookConfig option"
  r_done :: bool
  r_worker :: bool

definition defaultIdentifierPath :: string where "defaultIdentifierPath = ''0.data.ObjectName''"
definition defaultMaxRetries :: int where "defaultMaxRetries = 10"
definition maxWebhookBodyBytes :: nat where "maxWebhookBodyBytes = 1048576"
definition WEBHOOK :: string where "WEBHOOK = ''Webhook''"

definition newRoute :: "bool \<Rightarrow> string \<Rightarrow> WebhookConfig option \<Rightarrow> route" where
  "newRoute parent_done configName cfg =
     \<lparr>r_configName = configName, r_config = cfg, r_done = parent_done,
      r_worker = (case cfg of None \<Rightarrow> False | Some c \<Rightarrow> wh_RetryPolicy c \<noteq> None)\<rparr>"

text \<open>\<^verbatim>\<open>shutdown\<close> cancels the context and waits for the worker, which leaves its loop then.\<close>

definition shutdown :: "route \<Rightarrow> route" where
  "shutdown r = r\<lparr>r_done := True, r_worker := False\<rparr>"

section \<open>Authentication\<close>

definition authenticateWithBasicAuth :: "'w kube \<Rightarrow> 'w \<Rightarrow> string \<Rightarrow> BasicAuth \<Rightarrow> unit result" where
  "authenticateWithBasicAuth k w requestToken basicAuth =
     rbind (decodeSecret k w (ba_UsernameSecretRef basicAuth)) (\<lambda>username.
     rbind (decodeSecret k w (ba_PasswordSecretRef basicAuth)) (\<lambda>password.
     rbind (DecodeString requestToken) (\<lambda>userPwOnRequest.
       let storedUserPw = username @ '':'' @ password in
       if storedUserPw \<noteq> userPwOnRequest then Err (errors_New ''invalid token. unauthenticated request'')
       else Ok ())))"

text \<open>The bearer configuration is a pointer that is dereferenced without a check.\<close>

definition authenticateWithBearer :: "'w kube \<Rightarrow> 'w \<Rightarrow> string \<Rightarrow> BearerToken option \<Rightarrow> unit result" where
  "authenticateWithBearer k w requestToken bearer =
     rbind (deref bearer) (\<lambda>b.
     rbind (decodeSecret k w (bt_BearerTokenSecretRef b)) (\<lambda>token.
       if token \<noteq> requestToken then Err (errors_New ''invalid token. unauthenticated request'')
       else Ok ()))"

definition authenticate :: "'w kube \<Rightarrow> 'w \<Rightarrow> route \<Rightarrow> (string, string list) gomap \<Rightarrow> unit result" where
  "authenticate k w r header =
     (case r_config r of
        None \<Rightarrow> Ok ()
      | Some config \<Rightarrow>
          (case wh_Auth config of
             None \<Rightarrow> Ok ()
           | Some auth \<Rightarrow>
               (let basicAuth = wa_BasicAuth auth; bearer = wa_BearerToken auth in
                if basicAuth = None \<and> bearer = None then Ok ()
                else
                  (case SplitN2 (Header_Get header ''Authorization'') '' '' of
                     [scheme, token] \<Rightarrow>
                       (case basicAuth of
                          Some ba \<Rightarrow>
                            (if EqualFold scheme ''basic'' then authenticateWithBasicAuth k w token ba
                             else authenticateWithBearer k w token bearer)
                        | None \<Rightarrow> authenticateWithBearer k w token bearer)
                   | _ \<Rightarrow> Err (errors_New ''malformed authorization header. Use `Bearer <token>` or `Basic <token>`'')))))"

section \<open>Payload\<close>

definition getIdentifierPath :: "route \<Rightarrow> string" where
  "getIdentifierPath r =
     (case r_config r of
        Some config \<Rightarrow>
          (if wh_SecretIdentifierOnPayload config \<noteq> [] then wh_SecretIdentifierOnPayload config
           else defaultIdentifierPath)
      | None \<Rightarrow> defaultIdentifierPath)"

definition parsePayloadToString :: "string \<times> error option \<Rightarrow> nat \<Rightarrow> string result" where
  "parsePayloadToString body limit = ReadAll_limited limit body"

definition getSecretIdentifierFromPayload :: "web \<Rightarrow> string \<Rightarrow> string \<Rightarrow> string result" where
  "getSecretIdentifierFromPayload wb payload identifierPath =
     (case wb_gjson wb payload identifierPath of
        None \<Rightarrow> Err (errors_New ''secret not found on event'')
      | Some s \<Rightarrow> Ok s)"

section \<open>Publishing\<close>

definition processEvent :: "SecretRotationEvent \<Rightarrow> rt \<Rightarrow> unit result \<times> rt" where
  "processEvent event st =
     (case select_or_done chan_ready st of
        (Ok Ready, st') \<Rightarrow> (Ok (), st'\<lparr>rt_out := rt_out st' @ [event]\<rparr>)
      | (Ok DoneCase, st') \<Rightarrow> (Err Canceled, st')
      | (Err e, st') \<Rightarrow> (Err e, st')
      | (Panic p, st') \<Rightarrow> (Panic p, st')
      | (Blocked, st') \<Rightarrow> (Blocked, st'))"

definition webhook_event :: "web \<Rightarrow> string \<Rightarrow> int \<Rightarrow> SecretRotationEvent" where
  "webhook_event wb secretIdentifier now =
     \<lparr>ev_SecretIdentifier = secretIdentifier, ev_RotationTimestamp = wb_Format wb now,
      ev_TriggerSource = WEBHOOK, ev_Namespace = []\<rparr>"

definition processSecret :: "web \<Rightarrow> string \<Rightarrow> rt \<Rightarrow> SecretRotationEvent \<times> unit result \<times> rt" where
  "processSecret wb secretIdentifier st =
     (let event = webhook_event wb secretIdentifier (rt_now st) in (event, processEvent event st))"

section \<open>The handler\<close>

text \<open>Handing a failed event to the retry worker, or giving up when the context is done.\<close>

definition enqueue_retry :: "retryMessage \<Rightarrow> rt \<Rightarrow> unit result \<times> rt" where
  "enqueue_retry m st =
     (case select_or_done chan_ready st of
        (Ok Ready, st') \<Rightarrow> (Ok (), st'\<lparr>rt_retry := rt_retry st' @ [m]\<rparr>)
      | (Ok DoneCase, st') \<Rightarrow> (Ok (), st')
      | (Err e, st') \<Rightarrow> (Err e, st')
      | (Panic p, st') \<Rightarrow> (Panic p, st')
      | (Blocked, st') \<Rightarrow> (Blocked, st'))"

definition has_retry_policy :: "route \<Rightarrow> bool" where
  "has_retry_policy r = (case r_config r of None \<Rightarrow> False | Some c \<Rightarrow> wh_RetryPolicy c \<noteq> None)"

definition handle ::
  "web \<Rightarrow> 'w kube \<Rightarrow> 'w \<Rightarrow> route \<Rightarrow> ResponseWriter \<Rightarrow> Request \<Rightarrow> rt \<Rightarrow> unit result \<times> ResponseWriter \<times> rt" where
  "handle wb k kw r w req st =
     (case authenticate k kw r (rq_Header req) of
        Panic p \<Rightarrow> (Panic p, w, st)
      | Blocked \<Rightarrow> (Blocked, w, st)
      | Err e \<Rightarrow> (Ok (), Fprintln (StrArg ''Couldn't authenticate request'') (WriteHeader 401 w), st)
      | Ok _ \<Rightarrow>
      (case parsePayloadToString (rq_Body req) maxWebhookBodyBytes of
        Panic p \<Rightarrow> (Panic p, w, st)
      | Blocked \<Rightarrow> (Blocked, w, st)
      | Err e \<Rightarrow>
          (case e of
             MaxBytesError n \<Rightarrow> (Ok (), Fprintln (StrArg ''Request body too large'') (WriteHeader 413 w), st)
           | _ \<Rightarrow> (Ok (), Fprintln (StrArg ''Couldn't decode webhook payload. Send a valid json'') (WriteHeader 400 w), st))
      | Ok payload \<Rightarrow>
      (let identifierPath = getIdentifierPath r in
      (case getSecretIdentifierFromPayload wb payload identifierPath of
        Panic p \<Rightarrow> (Panic p, w, st)
      | Blocked \<Rightarrow> (Blocked, w, st)
      | Err e \<Rightarrow>
          (Ok (), Fprintln (Sprintf ''Secret Identifier not found on payload. Ensure that your secret is on the following path: %s''
             [StrArg identifierPath]) (WriteHeader 400 w), st)
      | Ok secretIdentifier \<Rightarrow>
      (case processSecret wb secretIdentifier st of
        (event, Panic p, st') \<Rightarrow> (Panic p, w, st')
      | (event, Blocked, st') \<Rightarrow> (Blocked, w, st')
      | (event, Err e, st') \<Rightarrow>
          (let w' = Fprintln (StrArg ''Failed to process event'') (WriteHeader 500 w) in
           if has_retry_policy r then
             (case enqueue_retry \<lparr>rm_event = event, rm_currentRun = 1, rm_retryAt = rt_now st'\<rparr> st' of
                (x, st'') \<Rightarrow> (x, w', st''))
           else (Ok (), w', st'))
      | (event, Ok _, st') \<Rightarrow> (Ok (), WriteHeader 204 w, st'))))))"

section \<open>Retries\<close>

text \<open>
  Durations are 64-bit nanoseconds. \<^verbatim>\<open>time.Duration(math.Exp2(n))\<close> truncates towards zero; a
  value of \<open>2 ^ 63\<close> or more does not fit and becomes the smallest integer (amd64).
\<close>

definition Exp2_Duration :: "int \<Rightarrow> int64" where
  "Exp2_Duration n = (if n < 0 then 0 else if n < 63 then 2 ^ nat n else 2 ^ 63)"

definition Second :: int64 where "Second = 1000000000"

definition retry_delay :: "string \<Rightarrow> int \<Rightarrow> int64" where
  "retry_delay algorithm currentRun =
     (if algorithm = ''linear'' then Second else Second * Exp2_Duration currentRun)"

definition getNextRetryAt :: "string \<Rightarrow> int \<Rightarrow> int \<Rightarrow> int" where
  "getNextRetryAt algorithm currentRun now = now + sint (retry_delay algorithm currentRun)"

lemma processEvent_sched:
  "processEvent event st = (x, st') \<Longrightarrow> x \<noteq> Blocked \<Longrightarrow> length (rt_sched st') < length (rt_sched st)"
  by (cases "select_or_done chan_ready st")
    (auto simp: processEvent_def split: result.splits select_case.splits dest: select_frame(6))

text \<open>The wait before an attempt: \<open>Ok DoneCase\<close> when the context was cancelled meanwhile.\<close>

definition retry_wait :: "retryMessage \<Rightarrow> rt \<Rightarrow> select_case result \<times> rt" where
  "retry_wait message st =
     (if rm_retryAt message - rt_now st > 0
      then select_or_done (timer_ready (rm_retryAt message)) st else (Ok Ready, st))"

lemma retry_wait_sched: "retry_wait message st = (x, st') \<Longrightarrow> length (rt_sched st') \<le> length (rt_sched st)"
  by (auto simp: retry_wait_def split: if_splits dest: select_frame(5))

function retryMessage_loop :: "string \<Rightarrow> int \<Rightarrow> retryMessage \<Rightarrow> rt \<Rightarrow> unit result \<times> retryMessage \<times> rt" where
  "retryMessage_loop algorithm maxRetries message st =
     (if rt_done st then (Ok (), message, st)
      else
        (case retry_wait message st of
           (Ok DoneCase, st1) \<Rightarrow> (Ok (), message, st1)
         | (Err e, st1) \<Rightarrow> (Err e, message, st1)
         | (Panic p, st1) \<Rightarrow> (Panic p, message, st1)
         | (Blocked, st1) \<Rightarrow> (Blocked, message, st1)
         | (Ok Ready, st1) \<Rightarrow>
             (case processEvent (rm_event message) st1 of
                (Ok _, st2) \<Rightarrow> (Ok (), message, st2)
              | (Panic p, st2) \<Rightarrow> (Panic p, message, st2)
              | (Blocked, st2) \<Rightarrow> (Blocked, message, st2)
              | (Err e, st2) \<Rightarrow>
                  (if rm_currentRun message \<ge> maxRetries then (Ok (), message, st2)
                   else
                     (let run = rm_currentRun message + 1;
                          message' = message\<lparr>rm_currentRun := run, rm_retryAt := getNextRetryAt algorithm run (rt_now st2)\<rparr>
                      in retryMessage_loop algorithm maxRetries message' st2)))))"
  by pat_completeness auto
termination retryMessage_loop
  by (relation "measure (\<lambda>(a, n, m, st). length (rt_sched st))")
    (auto dest!: sym [of "(_, _)"] retry_wait_sched processEvent_sched)

declare retryMessage_loop.simps [simp del]

text \<open>
  The worker: \<open>q\<close> are the messages of the request goroutines that wait to hand one over. The
  queue is never closed.
\<close>

fun handleRetries_loop :: "string \<Rightarrow> int \<Rightarrow> retryMessage list \<Rightarrow> rt \<Rightarrow> unit result \<times> rt" where
  "handleRetries_loop algorithm maxRetries q st =
     (case select_or_done (\<lambda>s st. chan_ready s st \<and> q \<noteq> []) st of
        (Ok DoneCase, st1) \<Rightarrow> (Ok (), st1)
      | (Err e, st1) \<Rightarrow> (Err e, st1)
      | (Panic p, st1) \<Rightarrow> (Panic p, st1)
      | (Blocked, st1) \<Rightarrow> (Blocked, st1)
      | (Ok Ready, st1) \<Rightarrow>
          (case q of
             [] \<Rightarrow> (Ok (), st1)
           | message # q' \<Rightarrow>
               (case retryMessage_loop algorithm maxRetries message st1 of
                  (Ok _, _, st2) \<Rightarrow> handleRetries_loop algorithm maxRetries q' st2
                | (Err e, _, st2) \<Rightarrow> (Err e, st2)
                | (Panic p, _, st2) \<Rightarrow> (Panic p, st2)
                | (Blocked, _, st2) \<Rightarrow> (Blocked, st2))))"

declare handleRetries_loop.simps [simp del]

definition handleRetries :: "RetryPolicy \<Rightarrow> retryMessage list \<Rightarrow> rt \<Rightarrow> unit result \<times> rt" where
  "handleRetries policy q st =
     (let maxRetries = min (sint (rp_MaxRetries policy)) defaultMaxRetries in
      handleRetries_loop (rp_Algorithm policy) maxRetries q st)"

section \<open>Who is let in\<close>

text \<open>The credentials a request may come with, read off the configuration and the stored secrets.\<close>

definition auth_required :: "route \<Rightarrow> WebhookAuth option" where
  "auth_required r =
     (case r_config r of
        None \<Rightarrow> None
      | Some c \<Rightarrow>
          (case wh_Auth c of
             None \<Rightarrow> None
           | Some auth \<Rightarrow> (if wa_BasicAuth auth = None \<and> wa_BearerToken auth = None then None else Some auth)))"

definition basic_credentials :: "'w kube \<Rightarrow> 'w \<Rightarrow> WebhookAuth \<Rightarrow> string \<Rightarrow> string \<Rightarrow> bool" where
  "basic_credentials k w auth scheme token \<longleftrightarrow>
     (\<exists>ba u p. wa_BasicAuth auth = Some ba \<and> EqualFold scheme ''basic''
        \<and> secret_value k w (ba_UsernameSecretRef ba) = Some u
        \<and> secret_value k w (ba_PasswordSecretRef ba) = Some p
        \<and> DecodeString token = Ok (u @ '':'' @ p))"

definition bearer_credentials :: "'w kube \<Rightarrow> 'w \<Rightarrow> WebhookAuth \<Rightarrow> string \<Rightarrow> string \<Rightarrow> bool" where
  "bearer_credentials k w auth scheme token \<longleftrightarrow>
     (\<exists>b. wa_BearerToken auth = Some b \<and> \<not> (wa_BasicAuth auth \<noteq> None \<and> EqualFold scheme ''basic'')
        \<and> secret_value k w (bt_BearerTokenSecretRef b) = Some token)"

definition authorised :: "'w kube \<Rightarrow> 'w \<Rightarrow> route \<Rightarrow> (string, string list) gomap \<Rightarrow> bool" where
  "authorised k w r header \<longleftrightarrow>
     (\<forall>auth. auth_required r = Some auth \<longrightarrow>
        (\<exists>scheme token. Header_Get header ''Authorization'' = scheme @ '' '' @ token \<and> CHR '' '' \<notin> set scheme
           \<and> (basic_credentials k w auth scheme token \<or> bearer_credentials k w auth scheme token)))"

lemma SplitN2_char_iff: "SplitN2 s [c] = [a, b] \<longleftrightarrow> s = a @ c # b \<and> c \<notin> set a"
  by (auto simp: SplitN2_def Cut_char split: option.splits dest: Cut_Some Cut_char_head Cut_char_None)

lemma basic_auth_Ok:
  "authenticateWithBasicAuth k w token ba = Ok () \<longleftrightarrow>
     (\<exists>u p. secret_value k w (ba_UsernameSecretRef ba) = Some u
        \<and> secret_value k w (ba_PasswordSecretRef ba) = Some p \<and> DecodeString token = Ok (u @ '':'' @ p))"
  by (auto simp: authenticateWithBasicAuth_def go_simps decodeSecret.resolve_value Let_def split: if_splits)

lemma bearer_auth_Ok:
  "authenticateWithBearer k w token b = Ok () \<longleftrightarrow>
     (\<exists>bt. b = Some bt \<and> secret_value k w (bt_BearerTokenSecretRef bt) = Some token)"
  by (auto simp: authenticateWithBearer_def go_simps decodeSecret.resolve_value split: if_splits)

lemma authenticate_free: "auth_required r = None \<Longrightarrow> authenticate k w r header = Ok ()"
  by (auto simp: auth_required_def authenticate_def Let_def split: option.splits if_splits)

lemma authenticate_required:
  assumes "auth_required r = Some auth"
  shows "authenticate k w r header =
    (case SplitN2 (Header_Get header ''Authorization'') '' '' of
       [scheme, token] \<Rightarrow>
         (if wa_BasicAuth auth \<noteq> None \<and> EqualFold scheme ''basic''
          then authenticateWithBasicAuth k w token (the (wa_BasicAuth auth))
          else authenticateWithBearer k w token (wa_BearerToken auth))
     | _ \<Rightarrow> Err (errors_New ''malformed authorization header. Use `Bearer <token>` or `Basic <token>`''))"
  using assms
  by (auto simp: auth_required_def authenticate_def Let_def split: option.splits if_splits list.splits)

lemma SplitN2_cases:
  obtains (one) "SplitN2 s [c] = [s]" "c \<notin> set s"
  | (two) a b where "SplitN2 s [c] = [a, b]" "s = a @ c # b" "c \<notin> set a"
proof (cases "Cut s [c]")
  case None
  then show ?thesis using that(1) by (simp add: SplitN2_def Cut_char_None)
next
  case (Some ab)
  then have "SplitN2 s [c] = [fst ab, snd ab]" by (simp add: SplitN2_def split_beta)
  then show ?thesis using that(2) SplitN2_char_iff by blast
qed

lemma authenticate_Ok_iff: "authenticate k w r header = Ok () \<longleftrightarrow> authorised k w r header"
proof (cases "auth_required r")
  case None
  then show ?thesis by (simp add: authenticate_free authorised_def)
next
  case (Some auth)
  show ?thesis
  proof (cases rule: SplitN2_cases [of "Header_Get header ''Authorization''" "CHR '' ''"])
    case one
    then show ?thesis
      by (auto simp: authenticate_required [OF Some] authorised_def Some)
  next
    case (two scheme token)
    have unique: "Header_Get header ''Authorization'' = sch @ '' '' @ tok \<and> CHR '' '' \<notin> set sch
        \<longleftrightarrow> sch = scheme \<and> tok = token" for sch tok
      using two(1) SplitN2_char_iff [of "Header_Get header ''Authorization''" "CHR '' ''" sch tok] by auto
    have split: "authorised k w r header \<longleftrightarrow>
        basic_credentials k w auth scheme token \<or> bearer_credentials k w auth scheme token"
      unfolding authorised_def Some option.inject conj_assoc [symmetric] unique by blast
    have "authenticate k w r header =
        (if wa_BasicAuth auth \<noteq> None \<and> EqualFold scheme ''basic''
          then authenticateWithBasicAuth k w token (the (wa_BasicAuth auth))
          else authenticateWithBearer k w token (wa_BearerToken auth))"
      by (simp add: authenticate_required [OF Some] two(1))
    then show ?thesis
      by (auto simp: split basic_credentials_def bearer_credentials_def basic_auth_Ok bearer_auth_Ok)
  qed
qed

text \<open>
  C7: a request passes \<^verbatim>\<open>authenticate\<close> exactly when the webhook requires no credentials, or
  its \<^verbatim>\<open>Authorization\<close> header is a scheme, one blank and a token such that either basic
  authentication is configured, the scheme is "basic" in any case and the token is the Base64
  form of the stored user name, a colon and the stored password, or a bearer token is
  configured, the scheme is not the configured basic one, and the token is the stored one.
\<close>

theorem authenticate_accepts_iff:
  "authenticate k w r header = Ok () \<longleftrightarrow> authorised k w r header"
  by (rule authenticate_Ok_iff)

lemma authenticate_basic:
  assumes "auth_required r = Some auth" and "wa_BasicAuth auth = Some ba"
  shows "authenticate k w r [(''Authorization'', [''Basic '' @ t])] = authenticateWithBasicAuth k w t ba"
proof -
  have "EqualFold ''Basic'' ''basic''" by code_simp
  moreover have "SplitN2 (''Basic '' @ t) '' '' = [''Basic'', t]"
    by (simp add: SplitN2_char_iff)
  ultimately show ?thesis
    using assms(2) by (simp add: authenticate_required [OF assms(1)] Header_Get_def)
qed

text \<open>
  With basic authentication configured and both secrets readable, a client that sends
  the Base64 form of \<^verbatim>\<open>user:password\<close> is let in exactly when both are the stored ones, provided
  neither user name contains a colon.
\<close>

theorem basic_auth_roundtrip:
  assumes "auth_required r = Some auth" and "wa_BasicAuth auth = Some ba"
    and "secret_value k w (ba_UsernameSecretRef ba) = Some u"
    and "secret_value k w (ba_PasswordSecretRef ba) = Some p"
    and "CHR '':'' \<notin> set u" and "CHR '':'' \<notin> set user"
  shows "authenticate k w r [(''Authorization'', [''Basic '' @ EncodeToString (user @ '':'' @ pass)])] = Ok ()
    \<longleftrightarrow> user = u \<and> pass = p"
  unfolding authenticate_basic [OF assms(1,2)]
  using assms(3-6) SplitN2_char_iff [of "u @ '':'' @ p" "CHR '':''" user pass]
      SplitN2_char_iff [of "u @ '':'' @ p" "CHR '':''" u p]
  by (auto simp: basic_auth_Ok DecodeString_EncodeToString)

section \<open>What a request does\<close>

lemma processEvent_cases:
  obtains (Sent) st' where "processEvent ev st = (Ok (), st')" "rt_out st' = rt_out st @ [ev]" "rt_retry st' = rt_retry st"
  | (Cancelled) st' where "processEvent ev st = (Err Canceled, st')" "rt_out st' = rt_out st" "rt_retry st' = rt_retry st"
      "rt_done st'"
  | (Waits) st' where "processEvent ev st = (Blocked, st')" "rt_out st' = rt_out st" "rt_retry st' = rt_retry st"
proof -
  obtain x st' where sel: "select_or_done chan_ready st = (x, st')" by (cases "select_or_done chan_ready st")
  note frame = select_frame [OF sel]
  from select_outcome [of chan_ready st] sel consider "x = Ok Ready" | "x = Ok DoneCase" | "x = Blocked" by auto
  then show thesis
    using sel frame that by cases (simp_all add: processEvent_def)
qed

lemma enqueue_retry_cases:
  obtains st' where "enqueue_retry m st = (Ok (), st')" "rt_out st' = rt_out st"
      "rt_retry st' \<in> {rt_retry st, rt_retry st @ [m]}" "rt_done st \<Longrightarrow> rt_done st'"
  | st' where "enqueue_retry m st = (Blocked, st')" "rt_out st' = rt_out st" "rt_retry st' = rt_retry st"
proof -
  obtain x st' where sel: "select_or_done chan_ready st = (x, st')" by (cases "select_or_done chan_ready st")
  note frame = select_frame [OF sel]
  from select_outcome [of chan_ready st] sel consider "x = Ok Ready" | "x = Ok DoneCase" | "x = Blocked" by auto
  then show thesis
    using sel frame that by cases (simp_all add: enqueue_retry_def)
qed

text \<open>The body of an acceptable request and the identifier it carries.\<close>

definition identifies :: "web \<Rightarrow> route \<Rightarrow> Request \<Rightarrow> string \<Rightarrow> bool" where
  "identifies wb r req ident \<longleftrightarrow>
     (\<exists>payload. rq_Body req = (payload, None) \<and> length payload \<le> maxWebhookBodyBytes
        \<and> wb_gjson wb payload (getIdentifierPath r) = Some ident)"

lemma handle_accepted:
  assumes "authenticate k kw r (rq_Header req) = Ok ()" and "identifies wb r req ident"
  shows "handle wb k kw r w req st =
    (case processSecret wb ident st of
       (event, Panic p, st') \<Rightarrow> (Panic p, w, st')
     | (event, Blocked, st') \<Rightarrow> (Blocked, w, st')
     | (event, Err e, st') \<Rightarrow>
         (let w' = Fprintln (StrArg ''Failed to process event'') (WriteHeader 500 w) in
          if has_retry_policy r then
            (case enqueue_retry \<lparr>rm_event = event, rm_currentRun = 1, rm_retryAt = rt_now st'\<rparr> st' of
               (x, st'') \<Rightarrow> (x, w', st''))
          else (Ok (), w', st'))
     | (event, Ok _, st') \<Rightarrow> (Ok (), WriteHeader 204 w, st'))"
  using assms
  by (auto simp: handle_def identifies_def parsePayloadToString_def ReadAll_limited_def
      getSecretIdentifierFromPayload_def Let_def)

lemma handle_rejected:
  assumes "\<not> (authenticate k kw r (rq_Header req) = Ok () \<and> (\<exists>ident. identifies wb r req ident))"
  obtains x w' where "handle wb k kw r new_response req st = (x, w', st)" "rw_Status w' \<noteq> Some 204"
proof -
  have "\<exists>x w'. handle wb k kw r new_response req st = (x, w', st) \<and> rw_Status w' \<noteq> Some 204"
  proof (cases "authenticate k kw r (rq_Header req)")
    case (Ok u)
    obtain data end_error where body: "rq_Body req = (data, end_error)" by (cases "rq_Body req")
    show ?thesis
    proof (cases "maxWebhookBodyBytes < length data \<or> end_error \<noteq> None")
      case True
      then have "\<exists>e. parsePayloadToString (rq_Body req) maxWebhookBodyBytes = Err e"
        by (auto simp: parsePayloadToString_def ReadAll_limited_def body)
      then obtain e where "parsePayloadToString (rq_Body req) maxWebhookBodyBytes = Err e" by blast
      with Ok show ?thesis by (cases e) (simp_all add: handle_def)
    next
      case False
      with assms Ok have "wb_gjson wb data (getIdentifierPath r) = None"
        by (auto simp: identifies_def body)
      with Ok False show ?thesis
        by (simp add: handle_def body parsePayloadToString_def ReadAll_limited_def getSecretIdentifierFromPayload_def Let_def)
    qed
  qed (simp_all add: handle_def)
  with that show thesis by blast
qed

lemma handle_outcome:
  assumes "handle wb k kw r new_response req st = (x, w', st')"
  shows "(rw_Status w' = Some 204 \<and> x = Ok () \<and> authorised k kw r (rq_Header req) \<and> rt_retry st' = rt_retry st
      \<and> (\<exists>ident. identifies wb r req ident \<and> rt_out st' = rt_out st @ [webhook_event wb ident (rt_now st)]))
    \<or> (rw_Status w' \<noteq> Some 204 \<and> rt_out st' = rt_out st
      \<and> (rt_retry st' \<noteq> rt_retry st \<longrightarrow> rt_done st' \<and> rw_Status w' = Some 500))"
proof (cases "authenticate k kw r (rq_Header req) = Ok () \<and> (\<exists>ident. identifies wb r req ident)")
  case True
  then obtain ident where auth: "authenticate k kw r (rq_Header req) = Ok ()" and ident: "identifies wb r req ident"
    by blast
  let ?ev = "webhook_event wb ident (rt_now st)"
  show ?thesis
  proof (cases rule: processEvent_cases [of ?ev st])
    case (Sent st1)
    with assms auth ident show ?thesis
      by (auto simp: handle_accepted processSecret_def Let_def simp flip: authenticate_Ok_iff)
  next
    case (Cancelled st1)
    let ?m = "\<lparr>rm_event = ?ev, rm_currentRun = 1, rm_retryAt = rt_now st1\<rparr>"
    show ?thesis
      using assms Cancelled auth ident
      by (cases rule: enqueue_retry_cases [of ?m st1])
        (auto simp: handle_accepted processSecret_def Let_def split: if_splits)
  next
    case (Waits st1)
    with assms auth ident show ?thesis
      by (auto simp: handle_accepted processSecret_def Let_def)
  qed
next
  case False
  then obtain x1 w1 where "handle wb k kw r new_response req st = (x1, w1, st)" "rw_Status w1 \<noteq> Some 204"
    by (rule handle_rejected)
  with assms show ?thesis by auto
qed

text \<open>
  A webhook request publishes an event only if it is authorised, its body was read
  completely and is at most 1 MiB, and the configured path finds an identifier in it; then it
  publishes exactly one event, for that identifier, and answers 204. Every other request
  publishes nothing and is never answered 204.
\<close>

theorem handle_publishes_iff_accepted:
  assumes "handle wb k kw r new_response req st = (x, w', st')"
  shows "(rw_Status w' = Some 204 \<and> x = Ok () \<and> authorised k kw r (rq_Header req)
      \<and> (\<exists>ident. identifies wb r req ident \<and> rt_out st' = rt_out st @ [webhook_event wb ident (rt_now st)]))
    \<or> (rw_Status w' \<noteq> Some 204 \<and> rt_out st' = rt_out st)"
  using handle_outcome [OF assms] by blast

text \<open>A route with basic authentication, and a request to it.\<close>

definition fixture_selector :: "string \<Rightarrow> SecretKeySelector" where
  "fixture_selector key = \<lparr>sks_Name = ''creds'', sks_Key = key, sks_Namespace = ''default''\<rparr>"

definition fixture_secrets :: "NamespacedName \<rightharpoonup> Secret" where
  "fixture_secrets =
     [NamespacedName ''default'' ''creds'' \<mapsto> \<lparr>sec_Data = [(''user'', ''bob''), (''pass'', ''s3cret'')]\<rparr>]"

definition fixture_auth :: WebhookAuth where
  "fixture_auth =
     \<lparr>wa_BasicAuth = Some \<lparr>ba_UsernameSecretRef = fixture_selector ''user'', ba_PasswordSecretRef = fixture_selector ''pass''\<rparr>,
      wa_BearerToken = None\<rparr>"

definition fixture_route :: route where
  "fixture_route = newRoute False ''cfg''
     (Some \<lparr>wh_SecretIdentifierOnPayload = ''id'', wh_PathSuffix = [], wh_Auth = Some fixture_auth,
        wh_RetryPolicy = Some \<lparr>rp_MaxRetries = 3, rp_Algorithm = ''linear''\<rparr>\<rparr>)"

definition fixture_request :: "string \<Rightarrow> string \<Rightarrow> Request" where
  "fixture_request auth body =
     \<lparr>rq_Method = ''POST'', rq_Path = ''/webhook/cfg'', rq_Header = [(''Authorization'', [auth])], rq_Body = (body, None)\<rparr>"

text \<open>The stand-in for \<^verbatim>\<open>gjson\<close> takes the whole payload as the identifier.\<close>

definition fixture_web :: web where
  "fixture_web = \<lparr>wb_gjson = (\<lambda>payload path. if payload = [] then None else Some payload), wb_Format = (\<lambda>t. ''now'')\<rparr>"

definition fixture_rt :: "bool \<Rightarrow> bool \<Rightarrow> rt" where
  "fixture_rt cancelled ready =
     \<lparr>rt_done = cancelled, rt_now = 0,
      rt_sched = replicate 3 \<lparr>sc_cancel = False, sc_ready = ready, sc_pick = False, sc_elapse = 1\<rparr>,
      rt_out = [], rt_retry = []\<rparr>"

abbreviation fixture_secret_kube :: "fixture_world kube" where
  "fixture_secret_kube \<equiv> fixture_kube [] [] [] [] fixture_secrets"

lemmas fixture_route_defs =
  fixture_selector_def fixture_secrets_def fixture_auth_def fixture_route_def fixture_request_def
  fixture_web_def fixture_rt_def newRoute_def

theorem basic_auth_roundtrip_witness:
  "authenticate fixture_secret_kube fixture_start fixture_route
     [(''Authorization'', [''Basic '' @ EncodeToString (''bob'' @ '':'' @ ''s3cret'')])] = Ok ()
   \<and> authenticate fixture_secret_kube fixture_start fixture_route
     [(''Authorization'', [''Basic '' @ EncodeToString (''bob'' @ '':'' @ ''guess'')])] \<noteq> Ok ()"
  using basic_auth_roundtrip [of fixture_route fixture_auth "the (wa_BasicAuth fixture_auth)" fixture_secret_kube
      fixture_start "''bob''" "''s3cret''" "''bob''" "''s3cret''"]
    basic_auth_roundtrip [of fixture_route fixture_auth "the (wa_BasicAuth fixture_auth)" fixture_secret_kube
      fixture_start "''bob''" "''s3cret''" "''bob''" "''guess''"]
  by (simp add: fixture_route_defs fixture_defs auth_required_def secret_value_def)

lemma fixture_authenticate:
  "authenticate fixture_secret_kube fixture_start fixture_route
     (rq_Header (fixture_request (''Basic '' @ EncodeToString ''bob:s3cret'') body)) = Ok ()"
  using authenticate_basic [of fixture_route fixture_auth "the (wa_BasicAuth fixture_auth)" fixture_secret_kube fixture_start]
  by (simp add: fixture_route_defs fixture_defs auth_required_def secret_value_def basic_auth_Ok DecodeString_EncodeToString del: EncodeToString.simps)

lemma fixture_identifies:
  "identifies fixture_web fixture_route (fixture_request auth ''db'') ''db''"
  by (simp add: identifies_def fixture_route_defs maxWebhookBodyBytes_def)

lemma fixture_handle:
  "handle fixture_web fixture_secret_kube fixture_start fixture_route new_response
     (fixture_request (''Basic '' @ EncodeToString ''bob:s3cret'') ''db'') (fixture_rt False True)
   = (Ok (), WriteHeader 204 new_response,
      (fixture_rt False True)\<lparr>rt_now := 1, rt_sched := tl (rt_sched (fixture_rt False True)),
        rt_out := [webhook_event fixture_web ''db'' 0]\<rparr>)"
  unfolding handle_accepted [OF fixture_authenticate fixture_identifies]
  by (simp add: processSecret_def processEvent_def fixture_rt_def select_or_done_def resume_def chan_ready_def
      numeral_3_eq_3 Let_def)

theorem handle_publishes_iff_accepted_witness:
  "\<exists>ident. identifies fixture_web fixture_route (fixture_request (''Basic '' @ EncodeToString ''bob:s3cret'') ''db'') ident
     \<and> [webhook_event fixture_web ''db'' 0] = [] @ [webhook_event fixture_web ident 0]"
  using handle_publishes_iff_accepted [OF fixture_handle] by (simp add: fixture_route_defs)

text \<open>
  C40: a request that passes authentication but whose body is longer than 1 MiB is answered
  413 and publishes nothing, whatever it contains.
\<close>

theorem handle_too_large:
  assumes "authorised k kw r (rq_Header req)" and "1048576 < length (fst (rq_Body req))"
  shows "handle wb k kw r new_response req st =
    (Ok (), \<lparr>rw_Status = Some 413, rw_Body = [StrArg ''Request body too large'']\<rparr>, st)"
  using assms
  by (simp add: handle_def parsePayloadToString_def ReadAll_limited_def maxWebhookBodyBytes_def response_defs
      new_response_def split_beta flip: authenticate_Ok_iff)

theorem handle_too_large_witness:
  "handle fixture_web fixture_secret_kube fixture_start (newRoute False ''cfg'' None) new_response
     (fixture_request [] (replicate 1048577 CHR ''x'')) (fixture_rt False True)
   = (Ok (), \<lparr>rw_Status = Some 413, rw_Body = [StrArg ''Request body too large'']\<rparr>, fixture_rt False True)"
  by (rule handle_too_large) (simp_all add: authorised_def auth_required_def newRoute_def fixture_request_def
      del: replicate.simps)

section \<open>Retries\<close>

lemma retryMessage_cancelled: "rt_done st \<Longrightarrow> retryMessage_loop alg n m st = (Ok (), m, st)"
  by (subst retryMessage_loop.simps) simp

lemma retry_wait_frame:
  "retry_wait m st = (x, st1) \<Longrightarrow> rt_out st1 = rt_out st \<and> rt_retry st1 = rt_retry st \<and> (rt_done st \<longrightarrow> rt_done st1)
     \<and> (x = Ok Ready \<or> x = Ok DoneCase \<or> x = Blocked)"
  using select_outcome [of "timer_ready (rm_retryAt m)" st]
  by (auto simp: retry_wait_def split: if_splits dest: select_frame)

lemma retryMessage_once:
  assumes "retryMessage_loop alg n m st = (x, m', st')"
  shows "rt_out st' \<in> {rt_out st, rt_out st @ [rm_event m]} \<and> rm_event m' = rm_event m
    \<and> rm_currentRun m' \<in> {rm_currentRun m, rm_currentRun m + 1} \<and> (x = Ok () \<or> x = Blocked)"
proof (cases "rt_done st")
  case True
  with assms show ?thesis by (simp add: retryMessage_cancelled)
next
  case False
  obtain y st1 where wait: "retry_wait m st = (y, st1)" by (cases "retry_wait m st")
  note frame = retry_wait_frame [OF wait]
  show ?thesis
  proof (cases "y = Ok Ready")
    case True
    show ?thesis
    proof (cases rule: processEvent_cases [of "rm_event m" st1])
      case (Cancelled st2)
      then show ?thesis
        using assms False wait frame True
        by (subst (asm) retryMessage_loop.simps) (auto simp: retryMessage_cancelled Let_def split: if_splits)
    qed (use assms False wait frame True in \<open>subst (asm) retryMessage_loop.simps, auto\<close>)+
  next
    case notready: False
    show ?thesis
      using assms False wait frame notready by (subst (asm) retryMessage_loop.simps) auto
  qed
qed

lemma handleRetries_loop_cancelled:
  "rt_done st \<Longrightarrow> length q < length (rt_sched st) \<Longrightarrow>
     \<exists>st'. handleRetries_loop alg n q st = (Ok (), st') \<and> rt_out st' = rt_out st"
proof (induction q arbitrary: st)
  case Nil
  obtain x st1 where sel: "select_or_done (\<lambda>s st. chan_ready s st \<and> ([] :: retryMessage list) \<noteq> []) st = (x, st1)"
    by (cases "select_or_done (\<lambda>s st. chan_ready s st \<and> ([] :: retryMessage list) \<noteq> []) st")
  from Nil obtain s ss where "rt_sched st = s # ss" by (cases "rt_sched st") auto
  with Nil sel have "x = Ok DoneCase" by (simp add: select_or_done_def Let_def)
  with sel select_frame(1) [OF sel] show ?case by (subst handleRetries_loop.simps) simp
next
  case (Cons m q)
  obtain x st1 where sel: "select_or_done (\<lambda>s st. chan_ready s st \<and> m # q \<noteq> []) st = (x, st1)"
    by (cases "select_or_done (\<lambda>s st. chan_ready s st \<and> m # q \<noteq> []) st")
  from Cons.prems obtain s ss where sched: "rt_sched st = s # ss" by (cases "rt_sched st") auto
  with Cons.prems sel have x: "x = Ok Ready \<or> x = Ok DoneCase" and len: "rt_sched st1 = ss"
    by (auto simp: select_or_done_def Let_def split: if_splits)
  have st1: "rt_done st1" "rt_out st1 = rt_out st" using select_frame [OF sel] Cons.prems by auto
  obtain st' where "handleRetries_loop alg n q st1 = (Ok (), st')" "rt_out st' = rt_out st1"
    using Cons.IH [OF st1(1)] Cons.prems sched len by auto
  with x sel st1 show ?case
    by (subst handleRetries_loop.simps) (auto simp: retryMessage_cancelled)
qed

text \<open>
  C27: the retry worker never republishes an event. A request hands a message to the worker
  only when its publication failed, which happens only when the route's context is cancelled;
  from such a state the worker, whatever messages wait for it and whatever the schedule does,
  publishes nothing and leaves its loop within one resumption per waiting message and one more.
\<close>

theorem retries_never_republish:
  assumes "handle wb k kw r new_response req st = (x, w', st')" and "rt_retry st' \<noteq> rt_retry st"
    and "length q < length (rt_sched st')"
  shows "rw_Status w' = Some 500
    \<and> (\<exists>st''. handleRetries policy q st' = (Ok (), st'') \<and> rt_out st'' = rt_out st)"
proof -
  from handle_outcome [OF assms(1)] assms(2)
  have "rt_done st'" "rw_Status w' = Some 500" "rt_out st' = rt_out st" by auto
  with handleRetries_loop_cancelled [OF _ assms(3)] show ?thesis
    by (fastforce simp: handleRetries_def Let_def)
qed

lemma fixture_handle_cancelled:
  "handle fixture_web fixture_secret_kube fixture_start
     (newRoute True ''cfg'' (Some \<lparr>wh_SecretIdentifierOnPayload = [], wh_PathSuffix = [], wh_Auth = None,
        wh_RetryPolicy = Some \<lparr>rp_MaxRetries = 3, rp_Algorithm = ''linear''\<rparr>\<rparr>))
     new_response (fixture_request [] ''db'')
     ((fixture_rt True True)\<lparr>rt_sched := \<lparr>sc_cancel = False, sc_ready = False, sc_pick = False, sc_elapse = 1\<rparr>
        # replicate 3 \<lparr>sc_cancel = False, sc_ready = True, sc_pick = True, sc_elapse = 1\<rparr>\<rparr>)
   = (Ok (), \<lparr>rw_Status = Some 500, rw_Body = [StrArg ''Failed to process event'']\<rparr>,
      (fixture_rt True True)\<lparr>rt_now := 2, rt_sched := replicate 2 \<lparr>sc_cancel = False, sc_ready = True, sc_pick = True, sc_elapse = 1\<rparr>,
        rt_retry := [\<lparr>rm_event = webhook_event fixture_web ''db'' 0, rm_currentRun = 1, rm_retryAt = 1\<rparr>]\<rparr>)"
  by (simp add: handle_def authenticate_def newRoute_def parsePayloadToString_def ReadAll_limited_def fixture_request_def
      maxWebhookBodyBytes_def getSecretIdentifierFromPayload_def fixture_web_def processSecret_def processEvent_def
      enqueue_retry_def has_retry_policy_def select_or_done_def chan_ready_def resume_def fixture_rt_def
      response_defs new_response_def numeral_3_eq_3 numeral_2_eq_2)

theorem retries_never_republish_witness:
  "\<exists>st''. handleRetries \<lparr>rp_MaxRetries = 3, rp_Algorithm = ''linear''\<rparr>
     [\<lparr>rm_event = webhook_event fixture_web ''db'' 0, rm_currentRun = 1, rm_retryAt = 1\<rparr>]
     ((fixture_rt True True)\<lparr>rt_now := 2, rt_sched := replicate 2 \<lparr>sc_cancel = False, sc_ready = True, sc_pick = True, sc_elapse = 1\<rparr>,
        rt_retry := [\<lparr>rm_event = webhook_event fixture_web ''db'' 0, rm_currentRun = 1, rm_retryAt = 1\<rparr>]\<rparr>)
     = (Ok (), st'') \<and> rt_out st'' = []"
  using retries_never_republish [OF fixture_handle_cancelled,
      of "[\<lparr>rm_event = webhook_event fixture_web ''db'' 0, rm_currentRun = 1, rm_retryAt = 1\<rparr>]"
        "\<lparr>rp_MaxRetries = 3, rp_Algorithm = ''linear''\<rparr>"]
  by (simp add: fixture_rt_def)

text \<open>
  Whatever the schedule, working off one retry message publishes its event at most once,
  and raises its run counter by at most one.
\<close>

theorem retryMessage_at_most_once:
  "\<exists>x m' st'. retryMessage_loop alg n m st = (x, m', st')
     \<and> rt_out st' \<in> {rt_out st, rt_out st @ [rm_event m]} \<and> rm_event m' = rm_event m
     \<and> rm_currentRun m' \<in> {rm_currentRun m, rm_currentRun m + 1} \<and> (x = Ok () \<or> x = Blocked)"
  by (cases "retryMessage_loop alg n m st") (use retryMessage_once in blast)

lemma retry_delay_exact:
  assumes "0 \<le> n" and "n \<le> 33" and "alg \<noteq> ''linear''"
  shows "sint (retry_delay alg n) = 1000000000 * 2 ^ nat n"
proof -
  have "nat n \<in> {0..33}" using assms by auto
  then have "nat n \<in> set [0..<34]" by auto
  moreover have "list_all (\<lambda>i. sint ((1000000000 :: 64 word) * 2 ^ i) = 1000000000 * 2 ^ i) [0..<34]"
    by code_simp
  ultimately show ?thesis
    using assms by (auto simp: retry_delay_def Exp2_Duration_def Second_def list_all_iff)
qed

text \<open>
  The delay before run \<open>n\<close> is one second with the linear algorithm and \<open>2 ^ n\<close> seconds
  otherwise; the 64-bit product does not wrap for runs up to 33, so not for the at most 10 runs
  of the retry policy. Run 34 would wrap to a time in the past.
\<close>

theorem getNextRetryAt_bounds:
  assumes "1 \<le> n" and "n \<le> 33"
  shows "getNextRetryAt alg n now = now + 1000000000 * (if alg = ''linear'' then 1 else 2 ^ nat n)
    \<and> getNextRetryAt ''exponential'' 34 now < now"
proof -
  have "sint (retry_delay ''exponential'' 34) < 0" by code_simp
  moreover have "sint (retry_delay ''linear'' n) = 1000000000"
    by (simp add: retry_delay_def Second_def)
  ultimately show ?thesis
    using assms retry_delay_exact [of n alg] by (auto simp: getNextRetryAt_def)
qed

theorem getNextRetryAt_bounds_witness:
  "getNextRetryAt ''exponential'' 10 0 = 1024000000000 \<and> getNextRetryAt ''linear'' 10 0 = 1000000000"
  using getNextRetryAt_bounds [of 10 "''exponential''" 0] getNextRetryAt_bounds [of 10 "''linear''" 0] by simp

end
