(* ===== verification/Server.thy ===== *)
theory Server
  imports Route
begin

text \<open>
  The shared webhook server (\<^verbatim>\<open>internal/listener/webhook/server.go\<close>) and the listener that
  registers one route on it (\<^verbatim>\<open>listener.go\<close>): the route table, the dispatch of a request by its
  path, the panic barrier around the handlers, and the route key of a webhook source.
\<close>

section \<open>The route table\<close>

record WebhookServer =
  ws_addr :: string
  ws_routes :: "(string, route) gomap"

definition webhookRoutePrefix :: string where "webhookRoutePrefix = ''/webhook/''"

definition NewWebhookServer :: "string \<Rightarrow> WebhookServer" where
  "NewWebhookServer addr = \<lparr>ws_addr = addr, ws_routes = []\<rparr>"

text \<open>
  The route of an existing key is shut down before the new one takes its place. The shut down
  routes are returned as well: requests that are being served may still hold them.
\<close>

definition Register :: "string \<Rightarrow> bool \<Rightarrow> WebhookConfig option \<Rightarrow> WebhookServer \<Rightarrow> route list \<times> WebhookServer" where
  "Register routeKey routeCtx_done cfg s =
     (let stopped = (case map_of (ws_routes s) routeKey of Some existing \<Rightarrow> [shutdown existing] | None \<Rightarrow> []);
          r = newRoute routeCtx_done routeKey cfg
      in (stopped, s\<lparr>ws_routes := AList.update routeKey r (ws_routes s)\<rparr>))"

definition Unregister :: "string \<Rightarrow> WebhookServer \<Rightarrow> route list \<times> WebhookServer" where
  "Unregister routeKey s =
     (case map_of (ws_routes s) routeKey of
        Some r \<Rightarrow> ([shutdown r], s\<lparr>ws_routes := AList.delete routeKey (ws_routes s)\<rparr>)
      | None \<Rightarrow> ([], s))"

definition HasRoute :: "WebhookServer \<Rightarrow> string \<Rightarrow> bool" where
  "HasRoute s routeKey = (map_of (ws_routes s) routeKey \<noteq> None)"

section \<open>Dispatch\<close>

definition routeKeyFromPath :: "string \<Rightarrow> string option" where
  "routeKeyFromPath path =
     (if \<not> HasPrefix path webhookRoutePrefix then None
      else
        (let rest = TrimPrefix path webhookRoutePrefix in
         if rest = [] then None
         else
           (let parts = Split rest ''/'' in
            if length parts = 1 then Some (parts ! 0)
            else if length parts = 2 then
              (if parts ! 0 = [] \<or> parts ! 1 = [] then None else Some (parts ! 0 @ ''/'' @ parts ! 1))
            else None)))"

definition RouteKey :: "string \<Rightarrow> string \<Rightarrow> string \<Rightarrow> nat \<Rightarrow> string" where
  "RouteKey configName pathSuffix listenerKey webhookSourceCount =
     (if pathSuffix \<noteq> [] then configName @ ''/'' @ pathSuffix
      else if webhookSourceCount \<le> 1 then configName
      else
        (let pre = ''Webhook-'';
             sfx = (if HasPrefix listenerKey pre then drop (length pre) listenerKey else listenerKey)
         in configName @ ''/'' @ sfx))"

type_synonym http_handler = "ResponseWriter \<Rightarrow> Request \<Rightarrow> rt \<Rightarrow> unit result \<times> ResponseWriter \<times> rt"

definition recoverMiddleware :: "http_handler \<Rightarrow> http_handler" where
  "recoverMiddleware next w req st =
     (case next w req st of
        (Panic p, w', st') \<Rightarrow> (Ok (), WriteHeader 500 w', st')
      | (r, w', st') \<Rightarrow> (r, w', st'))"

definition ServeHTTP :: "web \<Rightarrow> 'w kube \<Rightarrow> 'w \<Rightarrow> WebhookServer \<Rightarrow> http_handler" where
  "ServeHTTP wb k kw s w req st =
     (if rq_Method req \<noteq> ''POST'' then (Ok (), http_Error (StrArg ''method not allowed'') 405 w, st)
      else
        (case routeKeyFromPath (rq_Path req) of
           None \<Rightarrow> (Ok (), http_Error (StrArg ''404 page not found'') 404 w, st)
         | Some routeKey \<Rightarrow>
             (case map_of (ws_routes s) routeKey of
                None \<Rightarrow> (Ok (), http_Error (StrArg ''404 page not found'') 404 w, st)
              | Some rte \<Rightarrow> recoverMiddleware (handle wb k kw rte) w req (st\<lparr>rt_done := r_done rte\<rparr>))))"

section \<open>WebhookListener\<close>

record WebhookListener =
  wl_routeKey :: string
  wl_routeCtx_done :: bool
  wl_cfg :: "WebhookConfig option"

definition NewWebhookListener :: "string \<Rightarrow> bool \<Rightarrow> WebhookConfig option \<Rightarrow> WebhookListener" where
  "NewWebhookListener routeKey routeCtx_done cfg =
     \<lparr>wl_routeKey = routeKey, wl_routeCtx_done = routeCtx_done, wl_cfg = cfg\<rparr>"

definition webhook_Start :: "WebhookListener \<Rightarrow> WebhookServer \<Rightarrow> error option \<times> WebhookServer" where
  "webhook_Start l s = (None, snd (Register (wl_routeKey l) (wl_routeCtx_done l) (wl_cfg l) s))"

definition webhook_Stop :: "WebhookListener \<Rightarrow> WebhookServer \<Rightarrow> error option \<times> WebhookServer" where
  "webhook_Stop l s = (None, snd (Unregister (wl_routeKey l) s))"

section \<open>Paths and route keys\<close>

text \<open>The keys a path can name: one non-empty segment, or two.\<close>

definition segment :: "string \<Rightarrow> bool" where
  "segment s \<longleftrightarrow> s \<noteq> [] \<and> CHR ''/'' \<notin> set s"

definition reachable_key :: "string \<Rightarrow> bool" where
  "reachable_key key \<longleftrightarrow> segment key \<or> (\<exists>a b. segment a \<and> segment b \<and> key = a @ ''/'' @ b)"

lemma Split_cases:
  "CHR ''/'' \<notin> set s \<Longrightarrow> Split s ''/'' = [s]"
  "CHR ''/'' \<notin> set a \<Longrightarrow> CHR ''/'' \<notin> set b \<Longrightarrow> Split (a @ CHR ''/'' # b) ''/'' = [a, b]"
  by simp_all

lemma Split_2_iff:
  "Split s ''/'' = [a, b] \<longleftrightarrow> s = a @ CHR ''/'' # b \<and> CHR ''/'' \<notin> set a \<and> CHR ''/'' \<notin> set b"
  using Split_length_2 [of s "CHR ''/''" a b] Split_no_sep [of _ s "CHR ''/''"] by force

lemma Split_1_iff: "Split s ''/'' = [a] \<longleftrightarrow> s = a \<and> CHR ''/'' \<notin> set a"
  using Split_length_1 [of s "CHR ''/''" a] Split_no_sep [of _ s "CHR ''/''"] by force

lemma routeKeyFromPath_iff:
  "routeKeyFromPath path = Some key \<longleftrightarrow> path = webhookRoutePrefix @ key \<and> reachable_key key"
proof -
  have "routeKeyFromPath (webhookRoutePrefix @ rest) = Some key \<longleftrightarrow> rest = key \<and> reachable_key key" for rest
  proof -
    let ?parts = "Split rest ''/''"
    consider (one) a where "?parts = [a]" | (two) a b where "?parts = [a, b]"
      | (other) "length ?parts \<noteq> 1" "length ?parts \<noteq> 2"
      by (cases ?parts; cases "tl ?parts"; cases "tl (tl ?parts)") auto
    then show ?thesis
    proof cases
      case one
      then have "rest = a" "CHR ''/'' \<notin> set a" by (simp_all add: Split_1_iff)
      with one show ?thesis
        by (auto simp: routeKeyFromPath_def Let_def reachable_key_def segment_def)
    next
      case two
      then have "rest = a @ CHR ''/'' # b" "CHR ''/'' \<notin> set a" "CHR ''/'' \<notin> set b"
        by (simp_all add: Split_2_iff)
      moreover have "reachable_key rest \<longleftrightarrow> a \<noteq> [] \<and> b \<noteq> []"
      proof
        assume "reachable_key rest"
        then obtain a' b' where "segment a'" "segment b'" "rest = a' @ ''/'' @ b'"
          using \<open>rest = a @ CHR ''/'' # b\<close> by (auto simp: reachable_key_def segment_def)
        then have "?parts = [a', b']" by (simp add: segment_def)
        with two \<open>segment a'\<close> \<open>segment b'\<close> show "a \<noteq> [] \<and> b \<noteq> []" by (simp add: segment_def)
      qed (use calculation in \<open>auto simp: reachable_key_def segment_def\<close>)
      ultimately show ?thesis
        using two by (auto simp: routeKeyFromPath_def Let_def)
    next
      case other
      then have "\<not> reachable_key rest"
        using Split_cases by (auto simp: reachable_key_def segment_def)
      with other show ?thesis by (auto simp: routeKeyFromPath_def Let_def)
    qed
  qed
  then show ?thesis
    by (metis HasPrefix_iff option.distinct(1) routeKeyFromPath_def)
qed

lemma reachable_key_pair: "segment a \<Longrightarrow> segment b \<Longrightarrow> reachable_key (a @ ''/'' @ b)"
  by (auto simp: reachable_key_def)

lemma RouteKey_reachable:
  assumes "segment cfg" and "CHR ''/'' \<notin> set sfx" and "segment h"
  shows "reachable_key (RouteKey cfg sfx (''Webhook-'' @ h) n)"
proof -
  have "RouteKey cfg sfx (''Webhook-'' @ h) n \<in> {cfg, cfg @ ''/'' @ h} \<or> sfx \<noteq> [] \<and> RouteKey cfg sfx (''Webhook-'' @ h) n = cfg @ ''/'' @ sfx"
    by (auto simp: RouteKey_def Let_def HasPrefix_def)
  with assms show ?thesis
    using reachable_key_pair [of cfg h] reachable_key_pair [of cfg sfx]
    by (auto simp: reachable_key_def segment_def)
qed

text \<open>
  C28: the dispatcher finds the key of a path exactly when the path is the prefix
  \<^verbatim>\<open>/webhook/\<close> followed by one or two non-empty segments, and the key is those segments; so the
  route of every webhook source is found under the path it is published at, when neither the
  name of its Config nor its suffix contains a slash.
\<close>

theorem route_path_roundtrip:
  assumes "segment cfg" and "CHR ''/'' \<notin> set sfx" and "segment h"
  shows "routeKeyFromPath (''/webhook/'' @ RouteKey cfg sfx (''Webhook-'' @ h) n) = Some (RouteKey cfg sfx (''Webhook-'' @ h) n)
    \<and> (\<forall>path key. routeKeyFromPath path = Some key \<longleftrightarrow> path = ''/webhook/'' @ key \<and> reachable_key key)"
  using RouteKey_reachable [OF assms, of n] routeKeyFromPath_iff by (simp add: webhookRoutePrefix_def)

theorem route_path_roundtrip_witness:
  "routeKeyFromPath (''/webhook/'' @ RouteKey ''keeper'' ''vault-events'' (''Webhook-'' @ ''0a'') 2) = Some ''keeper/vault-events''"
  using route_path_roundtrip [of "''keeper''" "''vault-events''" "''0a''" 2]
  by (simp add: segment_def RouteKey_def)

text \<open>
  C29: a request that is not a POST, or whose path names no registered route, reaches no
  handler: it is answered 405 or 404 and publishes nothing. A panic of the handler becomes a
  500 that publishes nothing; in particular that is how a route with basic authentication only
  answers a request that uses another scheme, where 401 would be due.
\<close>

theorem ServeHTTP_dispatch:
  "(rq_Method req \<noteq> ''POST'' \<longrightarrow>
      ServeHTTP wb k kw s new_response req st = (Ok (), \<lparr>rw_Status = Some 405, rw_Body = [StrArg ''method not allowed'']\<rparr>, st))
   \<and> (rq_Method req = ''POST'' \<and> (\<forall>key. routeKeyFromPath (rq_Path req) = Some key \<longrightarrow> \<not> HasRoute s key) \<longrightarrow>
      ServeHTTP wb k kw s new_response req st = (Ok (), \<lparr>rw_Status = Some 404, rw_Body = [StrArg ''404 page not found'']\<rparr>, st))
   \<and> (rq_Method req = ''POST'' \<and> routeKeyFromPath (rq_Path req) = Some key \<and> map_of (ws_routes s) key = Some rte
      \<and> auth_required rte = Some auth \<and> wa_BearerToken auth = None
      \<and> Header_Get (rq_Header req) ''Authorization'' = scheme @ '' '' @ token \<and> CHR '' '' \<notin> set scheme
      \<and> \<not> EqualFold scheme ''basic'' \<longrightarrow>
      ServeHTTP wb k kw s new_response req st
        = (Ok (), \<lparr>rw_Status = Some 500, rw_Body = []\<rparr>, st\<lparr>rt_done := r_done rte\<rparr>))"
proof (intro conjI impI, goal_cases)
  case 1
  then show ?case by (simp add: ServeHTTP_def response_defs new_response_def)
next
  case 2
  then show ?case
    by (auto simp: ServeHTTP_def response_defs new_response_def HasRoute_def split: option.split)
next
  case 3
  then have "SplitN2 (Header_Get (rq_Header req) ''Authorization'') '' '' = [scheme, token]"
    by (simp add: SplitN2_char_iff)
  with 3 have "authenticate k kw rte (rq_Header req) = Panic ''nil pointer dereference''"
    by (simp add: authenticate_required [of rte auth] authenticateWithBearer_def)
  with 3 show ?case
    by (simp add: ServeHTTP_def recoverMiddleware_def handle_def response_defs new_response_def)
qed

definition fixture_server :: WebhookServer where
  "fixture_server = \<lparr>ws_addr = '':8090'', ws_routes = [(''cfg'', fixture_route)]\<rparr>"

theorem ServeHTTP_dispatch_witness:
  "ServeHTTP fixture_web fixture_secret_kube fixture_start fixture_server new_response
      (fixture_request ''Bearer x'' ''db'') (fixture_rt False True)
    = (Ok (), \<lparr>rw_Status = Some 500, rw_Body = []\<rparr>, (fixture_rt False True)\<lparr>rt_done := False\<rparr>)"
proof -
  have "routeKeyFromPath (rq_Path (fixture_request ''Bearer x'' ''db'')) = Some ''cfg''"
    by (simp add: routeKeyFromPath_iff fixture_request_def webhookRoutePrefix_def reachable_key_def segment_def)
  moreover have "\<not> EqualFold ''Bearer'' ''basic''" by code_simp
  moreover have "auth_required fixture_route = Some fixture_auth" "wa_BearerToken fixture_auth = None" "r_done fixture_route = False"
    by (simp_all add: auth_required_def fixture_route_defs)
  moreover have "Header_Get (rq_Header (fixture_request ''Bearer x'' ''db'')) ''Authorization'' = ''Bearer'' @ '' '' @ ''x''"
    by (simp add: Header_Get_def fixture_request_def)
  moreover have "rq_Method (fixture_request ''Bearer x'' ''db'') = ''POST''" "map_of (ws_routes fixture_server) ''cfg'' = Some fixture_route"
    by (simp_all add: fixture_request_def fixture_server_def)
  ultimately show ?thesis
    using ServeHTTP_dispatch [of "fixture_request ''Bearer x'' ''db''" fixture_web fixture_secret_kube fixture_start fixture_server
        "fixture_rt False True" "''cfg''" fixture_route fixture_auth "''Bearer''" "''x''"] by simp
qed

lemma ServeHTTP_authorised:
  assumes "ServeHTTP wb k kw s new_response req st = (x, w', st')" and "rt_out st' \<noteq> rt_out st"
  shows "\<exists>key rte ident. rq_Method req = ''POST'' \<and> rq_Path req = ''/webhook/'' @ key \<and> map_of (ws_routes s) key = Some rte
    \<and> authorised k kw rte (rq_Header req) \<and> identifies wb rte req ident
    \<and> rt_out st' = rt_out st @ [webhook_event wb ident (rt_now st)] \<and> rw_Status w' = Some 204"
proof -
  have post: "rq_Method req = ''POST''"
    using assms by (auto simp: ServeHTTP_def split: if_splits)
  obtain key where key: "routeKeyFromPath (rq_Path req) = Some key"
    using assms post by (cases "routeKeyFromPath (rq_Path req)") (auto simp: ServeHTTP_def)
  obtain rte where rte: "map_of (ws_routes s) key = Some rte"
    using assms post key by (cases "map_of (ws_routes s) key") (auto simp: ServeHTTP_def)
  let ?st = "st\<lparr>rt_done := r_done rte\<rparr>"
  obtain y w1 st1 where h: "handle wb k kw rte new_response req ?st = (y, w1, st1)"
    by (cases "handle wb k kw rte new_response req ?st")
  have st': "st' = st1" "y = Ok () \<Longrightarrow> w' = w1"
    using assms(1) post key rte h by (auto simp: ServeHTTP_def recoverMiddleware_def split: result.splits)
  have "rq_Path req = ''/webhook/'' @ key" using key by (simp add: routeKeyFromPath_iff webhookRoutePrefix_def)
  with post rte st' handle_outcome [OF h] assms(2) show ?thesis by fastforce
qed

text \<open>
  C1: whatever a client sends to the server, an event reaches the channel only through a POST
  to the path of a registered route, with the credentials that route asks for and a complete
  body of at most 1 MiB in which the route's path finds an identifier; it is one event, for
  that identifier, and the answer is 204.
\<close>

theorem ServeHTTP_publishes_only_authorised:
  assumes "ServeHTTP wb k kw s new_response req st = (x, w', st')" and "rt_out st' \<noteq> rt_out st"
  shows "\<exists>key rte ident. rq_Method req = ''POST'' \<and> rq_Path req = ''/webhook/'' @ key \<and> map_of (ws_routes s) key = Some rte
    \<and> authorised k kw rte (rq_Header req) \<and> identifies wb rte req ident
    \<and> rt_out st' = rt_out st @ [webhook_event wb ident (rt_now st)] \<and> rw_Status w' = Some 204"
  using assms by (rule ServeHTTP_authorised)

theorem ServeHTTP_publishes_only_authorised_witness:
  "\<exists>key rte ident. rq_Path (fixture_request (''Basic '' @ EncodeToString ''bob:s3cret'') ''db'') = ''/webhook/'' @ key
     \<and> map_of (ws_routes fixture_server) key = Some rte
     \<and> identifies fixture_web rte (fixture_request (''Basic '' @ EncodeToString ''bob:s3cret'') ''db'') ident"
proof -
  let ?req = "fixture_request (''Basic '' @ EncodeToString ''bob:s3cret'') ''db''"
  let ?st = "(fixture_rt False True)\<lparr>rt_now := 1, rt_sched := tl (rt_sched (fixture_rt False True)),
        rt_out := [webhook_event fixture_web ''db'' 0]\<rparr>"
  have "routeKeyFromPath (rq_Path ?req) = Some ''cfg''"
    by (simp add: routeKeyFromPath_iff fixture_request_def webhookRoutePrefix_def reachable_key_def segment_def)
  moreover have "(fixture_rt False True)\<lparr>rt_done := r_done fixture_route\<rparr> = fixture_rt False True"
    by (simp add: fixture_route_defs)
  moreover have "rq_Method ?req = ''POST''" "map_of (ws_routes fixture_server) ''cfg'' = Some fixture_route"
    by (simp_all add: fixture_request_def fixture_server_def)
  ultimately have "ServeHTTP fixture_web fixture_secret_kube fixture_start fixture_server new_response ?req (fixture_rt False True)
      = (Ok (), WriteHeader 204 new_response, ?st)"
    using fixture_handle by (simp add: ServeHTTP_def recoverMiddleware_def del: EncodeToString.simps)
  from ServeHTTP_publishes_only_authorised [OF this] show ?thesis
    by (auto simp: fixture_rt_def simp del: EncodeToString.simps)
qed

end
