(* ===== verification/Sha1.thy ===== *)
theory Sha1
  imports GoStrings
begin

text \<open>
  \<^verbatim>\<open>crypto/sha1\<close>, which the listener manager keys its listeners by, and the \<^verbatim>\<open>%x\<close> rendering of the
  digest. The lemmas say what the route table relies on: the rendering is forty lower-case
  hexadecimal digits, so it is a path segment.
\<close>

unbundle bit_operations_syntax

section \<open>The hash\<close>

text \<open>Padding: a bit 1, zeros, and the length of the message in bits, in 64-byte blocks.\<close>

type_synonym byte_words = "32 word list"

definition sha1_length :: "nat \<Rightarrow> byte_words" where
  "sha1_length n = map (\<lambda>i. ucast (drop_bit (8 * i) (8 * of_nat n :: 64 word) AND 255)) [7, 6, 5, 4, 3, 2, 1, 0]"

definition sha1_pad :: "byte_words \<Rightarrow> byte_words" where
  "sha1_pad m = (let n = length m in m @ [128] @ replicate ((119 - n mod 64) mod 64) 0 @ sha1_length n)"

fun words_of :: "byte_words \<Rightarrow> 32 word list" where
  "words_of (a # b # c # d # r) = (push_bit 24 a OR push_bit 16 b OR push_bit 8 c OR d) # words_of r"
| "words_of _ = []"

text \<open>The message schedule, newest word first.\<close>

definition sha1_next :: "32 word list \<Rightarrow> 32 word" where
  "sha1_next ws = word_rotl 1 (ws ! 2 XOR ws ! 7 XOR ws ! 13 XOR ws ! 15)"

definition sha1_schedule :: "32 word list \<Rightarrow> 32 word list" where
  "sha1_schedule block = rev (((\<lambda>ws. sha1_next ws # ws) ^^ 64) (rev block))"

type_synonym sha1_state = "32 word \<times> 32 word \<times> 32 word \<times> 32 word \<times> 32 word"

definition sha1_fk :: "nat \<Rightarrow> 32 word \<Rightarrow> 32 word \<Rightarrow> 32 word \<Rightarrow> 32 word \<times> 32 word" where
  "sha1_fk t b c d =
     (if t < 20 then ((b AND c) OR (NOT b AND d), 0x5A827999)
      else if t < 40 then (b XOR c XOR d, 0x6ED9EBA1)
      else if t < 60 then ((b AND c) OR (b AND d) OR (c AND d), 0x8F1BBCDC)
      else (b XOR c XOR d, 0xCA62C1D6))"

fun sha1_rounds :: "nat \<Rightarrow> 32 word list \<Rightarrow> sha1_state \<Rightarrow> sha1_state" where
  "sha1_rounds t [] s = s"
| "sha1_rounds t (w # ws) (a, b, c, d, e) =
     (let (f, k) = sha1_fk t b c d in
      sha1_rounds (Suc t) ws (word_rotl 5 a + f + e + w + k, a, word_rotl 30 b, c, d))"

definition sha1_block :: "sha1_state \<Rightarrow> 32 word list \<Rightarrow> sha1_state" where
  "sha1_block s block =
     (case (s, sha1_rounds 0 (sha1_schedule block) s) of
        ((a, b, c, d, e), (a', b', c', d', e')) \<Rightarrow> (a + a', b + b', c + c', d + d', e + e'))"

fun sha1_blocks :: "nat \<Rightarrow> sha1_state \<Rightarrow> 32 word list \<Rightarrow> sha1_state" where
  "sha1_blocks 0 s ws = s"
| "sha1_blocks (Suc n) s ws = sha1_blocks n (sha1_block s (take 16 ws)) (drop 16 ws)"

definition sha1_init :: sha1_state where
  "sha1_init = (0x67452301, 0xEFCDAB89, 0x98BADCFE, 0x10325476, 0xC3D2E1F0)"

definition sha1_sum :: "string \<Rightarrow> sha1_state" where
  "sha1_sum data =
     (let bs = sha1_pad (map (\<lambda>c. of_nat (of_char c)) data) in sha1_blocks (length bs div 64) sha1_init (words_of bs))"

section \<open>Rendering\<close>

definition hex_digit :: "nat \<Rightarrow> char" where
  "hex_digit n = (if n < 10 then char_of (48 + n) else char_of (87 + n))"

definition hex_word :: "32 word \<Rightarrow> string" where
  "hex_word w = map (\<lambda>i. hex_digit (unat (drop_bit (4 * i) w AND 15))) [7, 6, 5, 4, 3, 2, 1, 0]"

text \<open>\<^verbatim>\<open>fmt.Sprintf("%x", sha1.Sum(data))\<close>.\<close>

definition sha1_hex :: "string \<Rightarrow> string" where
  "sha1_hex data = (case sha1_sum data of (a, b, c, d, e) \<Rightarrow>
     hex_word a @ hex_word b @ hex_word c @ hex_word d @ hex_word e)"

section \<open>Lemmas\<close>

definition is_hex :: "char \<Rightarrow> bool" where
  "is_hex c \<longleftrightarrow> (let n = of_char c :: nat in (48 \<le> n \<and> n \<le> 57) \<or> (97 \<le> n \<and> n \<le> 102))"

lemma is_hex_digit: "n < 16 \<Longrightarrow> is_hex (hex_digit n)"
  by (auto simp: is_hex_def hex_digit_def of_char_of Let_def)

lemma hex_word_length [simp]: "length (hex_word w) = 8"
  by (simp add: hex_word_def)

lemma hex_word_digits: "c \<in> set (hex_word w) \<Longrightarrow> is_hex c"
proof -
  have "unat (v AND 15) < 16" for v :: "32 word"
  proof -
    have "v AND 15 \<le> 15" by (rule word_and_le1)
    then show ?thesis by (simp add: word_le_nat_alt)
  qed
  then show "c \<in> set (hex_word w) \<Longrightarrow> is_hex c"
    by (auto simp: hex_word_def is_hex_digit)
qed

lemma sha1_hex_length: "length (sha1_hex data) = 40"
  by (simp add: sha1_hex_def split: prod.split)

lemma sha1_hex_digits: "c \<in> set (sha1_hex data) \<Longrightarrow> is_hex c"
  by (auto simp: sha1_hex_def hex_word_digits split: prod.splits)

lemma sha1_hex_no_slash: "CHR ''/'' \<notin> set (sha1_hex data)"
  using sha1_hex_digits [of "CHR ''/''" data] by (auto simp: is_hex_def Let_def)

lemma sha1_pad_blocks: "64 dvd length (sha1_pad m)"
proof -
  have "64 dvd n + (9 + (119 - n mod 64) mod 64)" for n :: nat
  proof -
    have "(n + (9 + (119 - n mod 64) mod 64)) mod 64 = (n mod 64 + (9 + (119 - n mod 64))) mod 64"
      by (metis mod_add_left_eq mod_add_right_eq)
    also have "n mod 64 + (9 + (119 - n mod 64)) = 128"
    proof -
      have "n mod 64 < 64" by simp
      then show ?thesis by linarith
    qed
    also have "128 mod 64 = (0 :: nat)" by simp
    finally show ?thesis by (rule mod_0_imp_dvd)
  qed
  moreover have "length (sha1_pad m) = length m + (9 + (119 - length m mod 64) mod 64)"
    by (simp add: sha1_pad_def sha1_length_def Let_def)
  ultimately show ?thesis by metis
qed

end
