(* ===== verification/Json.thy ===== *)
theory Json
  imports Sha1 Api
begin

text \<open>
  \<^verbatim>\<open>encoding/json\<close> as far as the listener keys need it: JSON values, the encoder with Go's string
  escapes, the values the source configurations marshal to (\<^verbatim>\<open>api/v1alpha1\<close>, field by field with
  the JSON names and the \<^verbatim>\<open>omitempty\<close> options), and the key of a notification source. A slice is
  marshalled as an array; the configurations come from the API server, where an absent required
  slice is not accepted.
\<close>

section \<open>JSON values and their encoding\<close>

datatype json =
    JNull
  | JBool bool
  | JNum int
  | JStr string
  | JArr "json list"
  | JObj "(string \<times> json) list"

text \<open>Decimal digits.\<close>

fun digits :: "nat \<Rightarrow> string" where
  "digits n = (if n < 10 then [char_of (48 + n)] else digits (n div 10) @ [char_of (48 + n mod 10)])"

declare digits.simps [simp del]

definition itoa :: "int \<Rightarrow> string" where
  "itoa i = (if i < 0 then ''-'' @ digits (nat (- i)) else digits (nat i))"

definition escape_u :: "nat \<Rightarrow> string" where
  "escape_u b = [CHR 0x5C, CHR ''u'', CHR ''0'', CHR ''0'', hex_digit (b div 16), hex_digit (b mod 16)]"

text \<open>One ASCII byte of a string.\<close>

definition escape_byte :: "nat \<Rightarrow> string" where
  "escape_byte b =
     (if b = 34 \<or> b = 92 then [CHR 0x5C, char_of b]
      else if b = 8 then [CHR 0x5C, CHR ''b'']
      else if b = 12 then [CHR 0x5C, CHR ''f'']
      else if b = 10 then [CHR 0x5C, CHR ''n'']
      else if b = 13 then [CHR 0x5C, CHR ''r'']
      else if b = 9 then [CHR 0x5C, CHR ''t'']
      else if b < 32 \<or> b = 60 \<or> b = 62 \<or> b = 38 then escape_u b
      else [char_of b])"

text \<open>
  A string: ASCII bytes one by one, other UTF-8 sequences as they are except the line and
  paragraph separators, a byte that starts no sequence as the replacement character.
\<close>

function escape_string :: "string \<Rightarrow> string" where
  "escape_string s =
     (case s of
        [] \<Rightarrow> []
      | c # s' \<Rightarrow>
          (let b = of_char c :: nat; n = rune_len (map of_char (take 4 s)) in
           if b < 128 then escape_byte b @ escape_string s'
           else if n = 1 then CHR 0x5C # ''ufffd'' @ escape_string s'
           else if take 3 s = bytes [226, 128, 168] then CHR 0x5C # ''u2028'' @ escape_string (drop n s)
           else if take 3 s = bytes [226, 128, 169] then CHR 0x5C # ''u2029'' @ escape_string (drop n s)
           else take n s @ escape_string (drop n s)))"
  by pat_completeness auto
termination escape_string
proof (relation "measure length", goal_cases)
  case 1
  show ?case by simp
qed (simp_all add: rune_len_pos)

declare escape_string.simps [simp del]

definition quote_json :: "string \<Rightarrow> string" where
  "quote_json s = [CHR 0x22] @ escape_string s @ [CHR 0x22]"

fun json_encode :: "json \<Rightarrow> string" where
  "json_encode JNull = ''null''"
| "json_encode (JBool b) = (if b then ''true'' else ''false'')"
| "json_encode (JNum i) = itoa i"
| "json_encode (JStr s) = quote_json s"
| "json_encode (JArr xs) = ''['' @ Join (map json_encode xs) '','' @ '']''"
| "json_encode (JObj fs) =
     ''{'' @ Join (map (\<lambda>(k, v). quote_json k @ '':'' @ json_encode v) fs) '','' @ ''}''"

section \<open>What the source configurations marshal to\<close>

text \<open>\<^verbatim>\<open>omitempty\<close> on a pointer, a string and a slice of strings.\<close>

definition opt_ptr :: "string \<Rightarrow> ('a \<Rightarrow> json) \<Rightarrow> 'a option \<Rightarrow> (string \<times> json) list" where
  "opt_ptr nm f p = (case p of None \<Rightarrow> [] | Some x \<Rightarrow> [(nm, f x)])"

definition opt_str :: "string \<Rightarrow> string \<Rightarrow> (string \<times> json) list" where
  "opt_str nm s = (if s = [] then [] else [(nm, JStr s)])"

definition opt_strs :: "string \<Rightarrow> string list \<Rightarrow> (string \<times> json) list" where
  "opt_strs nm xs = (if xs = [] then [] else [(nm, JArr (map JStr xs))])"

definition marshal_ServiceAccountSelector :: "ServiceAccountSelector \<Rightarrow> json" where
  "marshal_ServiceAccountSelector s =
     JObj ([(''name'', JStr (sas_Name s)), (''namespace'', JStr (sas_Namespace s))]
       @ opt_strs ''audiences'' (sas_Audiences s))"

definition marshal_SecretKeySelector :: "SecretKeySelector \<Rightarrow> json" where
  "marshal_SecretKeySelector s =
     JObj [(''name'', JStr (sks_Name s)), (''key'', JStr (sks_Key s)), (''namespace'', JStr (sks_Namespace s))]"

definition marshal_AWSSDKSecretRef :: "AWSSDKSecretRef \<Rightarrow> json" where
  "marshal_AWSSDKSecretRef r =
     JObj [(''accessKeyIdSecretRef'', marshal_SecretKeySelector (asr_AccessKeyId r)),
           (''secretAccessKeySecretRef'', marshal_SecretKeySelector (asr_SecretAccessKey r))]"

definition marshal_AWSSDKAuth :: "AWSSDKAuth \<Rightarrow> json" where
  "marshal_AWSSDKAuth a =
     JObj ([(''authMethod'', JStr (asa_AuthMethod a)), (''region'', JStr (asa_Region a))]
       @ opt_ptr ''serviceAccountRef'' marshal_ServiceAccountSelector (asa_ServiceAccount a)
       @ opt_ptr ''secretRef'' marshal_AWSSDKSecretRef (asa_SecretRef a))"

definition marshal_AWSSQSConfig :: "AWSSQSConfig \<Rightarrow> json" where
  "marshal_AWSSQSConfig c =
     JObj [(''queueURL'', JStr (sqs_QueueURL c)), (''auth'', marshal_AWSSDKAuth (sqs_Auth c)),
           (''numberOfMessages'', JNum (sint (sqs_MaxNumberOfMessages c))),
           (''waitTimeSeconds'', JNum (sint (sqs_WaitTimeSeconds c))),
           (''visibilityTimeout'', JNum (sint (sqs_VisibilityTimeout c)))]"

definition marshal_AzureEventGridConfig :: "AzureEventGridConfig \<Rightarrow> json" where
  "marshal_AzureEventGridConfig c =
     JObj [(''host'', JStr (aeg_Host c)), (''port'', JNum (sint (aeg_Port c))),
           (''subscriptions'', JArr (map JStr (aeg_Subscriptions c)))]"

definition marshal_GCPSMAuthSecretRef :: "GCPSMAuthSecretRef \<Rightarrow> json" where
  "marshal_GCPSMAuthSecretRef r =
     JObj [(''secretAccessKeySecretRef'', marshal_SecretKeySelector (gsr_SecretAccessKey r))]"

definition marshal_GCPWorkloadIdentity :: "GCPWorkloadIdentity \<Rightarrow> json" where
  "marshal_GCPWorkloadIdentity w =
     JObj ([(''serviceAccountRef'', marshal_ServiceAccountSelector (gwi_ServiceAccountRef w)),
            (''clusterLocation'', JStr (gwi_ClusterLocation w)), (''clusterName'', JStr (gwi_ClusterName w))]
       @ opt_str ''clusterProjectID'' (gwi_ClusterProjectID w))"

definition marshal_GooglePubSubAuth :: "GooglePubSubAuth \<Rightarrow> json" where
  "marshal_GooglePubSubAuth a =
     JObj (opt_ptr ''secretRef'' marshal_GCPSMAuthSecretRef (gpa_SecretRef a)
       @ opt_ptr ''workloadIdentity'' marshal_GCPWorkloadIdentity (gpa_WorkloadIdentity a))"

definition marshal_GooglePubSubConfig :: "GooglePubSubConfig \<Rightarrow> json" where
  "marshal_GooglePubSubConfig c =
     JObj ([(''subscriptionID'', JStr (gps_SubscriptionID c)), (''projectID'', JStr (gps_ProjectID c))]
       @ opt_ptr ''auth'' marshal_GooglePubSubAuth (gps_Auth c))"

definition marshal_HashicorpVaultConfig :: "HashicorpVaultConfig \<Rightarrow> json" where
  "marshal_HashicorpVaultConfig c =
     JObj [(''host'', JStr (hv_Host c)), (''port'', JNum (sint (hv_Port c)))]"

definition marshal_TCPSocketConfig :: "TCPSocketConfig \<Rightarrow> json" where
  "marshal_TCPSocketConfig c =
     JObj ([(''host'', JStr (tcp_Host c)), (''port'', JNum (sint (tcp_Port c)))]
       @ opt_str ''identifierPathOnPayload'' (tcp_SecretIdentifierOnPayload c))"

definition marshal_MockConfig :: "MockConfig \<Rightarrow> json" where
  "marshal_MockConfig c = JObj [(''emitInterval'', JNum (sint (mock_EmitInterval c)))]"

text \<open>\<^verbatim>\<open>metav1.LabelSelector\<close>: maps are encoded with their keys sorted.\<close>

definition marshal_LabelSelector :: "LabelSelector \<Rightarrow> json" where
  "marshal_LabelSelector s =
     JObj ((if ls_MatchLabels s = [] then [] else
             [(''matchLabels'', JObj (map (\<lambda>k. (k, JStr (the (map_of (ls_MatchLabels s) k)))) (sort (map fst (ls_MatchLabels s)))))])
       @ (if ls_MatchExpressions s = [] then [] else
             [(''matchExpressions'', JArr (map (\<lambda>r. JObj ([(''key'', JStr (lsr_Key r)), (''operator'', JStr (lsr_Operator r))]
               @ opt_strs ''values'' (lsr_Values r))) (ls_MatchExpressions s)))]))"

definition marshal_KubernetesAuth :: "KubernetesAuth \<Rightarrow> json" where
  "marshal_KubernetesAuth a =
     JObj (opt_ptr ''kubeConfigRef'' (\<lambda>r. JObj [(''secretRef'', marshal_SecretKeySelector (kcr_SecretRef r))]) (ka_KubeConfigRef a)
       @ opt_str ''caBundle'' (ka_CABundle a)
       @ opt_ptr ''tokenRef'' (\<lambda>r. JObj [(''secretRef'', marshal_SecretKeySelector (tr_SecretRef r))]) (ka_TokenRef a)
       @ opt_ptr ''serviceAccountRef'' marshal_ServiceAccountSelector (ka_ServiceAccountRef a))"

definition marshal_KubernetesSecretConfig :: "KubernetesSecretConfig \<Rightarrow> json" where
  "marshal_KubernetesSecretConfig c =
     JObj ([(''serverURL'', JStr (ksc_ServerURL c))] @ opt_ptr ''auth'' marshal_KubernetesAuth (ksc_Auth c)
       @ opt_ptr ''labelSelector'' marshal_LabelSelector (ksc_LabelSelector c))"

definition marshal_KubernetesConfigMapConfig :: "KubernetesConfigMapConfig \<Rightarrow> json" where
  "marshal_KubernetesConfigMapConfig c =
     JObj ([(''serverURL'', JStr (kcm_ServerURL c))] @ opt_ptr ''auth'' marshal_KubernetesAuth (kcm_Auth c)
       @ opt_ptr ''labelSelector'' marshal_LabelSelector (kcm_LabelSelector c))"

definition marshal_RetryPolicy :: "RetryPolicy \<Rightarrow> json" where
  "marshal_RetryPolicy p =
     JObj [(''maxRetries'', JNum (sint (rp_MaxRetries p))), (''algorithm'', JStr (rp_Algorithm p))]"

definition marshal_WebhookAuth :: "WebhookAuth \<Rightarrow> json" where
  "marshal_WebhookAuth a =
     JObj (opt_ptr ''basicAuth'' (\<lambda>b. JObj [(''usernameSecretRef'', marshal_SecretKeySelector (ba_UsernameSecretRef b)),
              (''passwordSecretRef'', marshal_SecretKeySelector (ba_PasswordSecretRef b))]) (wa_BasicAuth a)
       @ opt_ptr ''bearerToken'' (\<lambda>b. JObj [(''bearerTokenSecretRef'', marshal_SecretKeySelector (bt_BearerTokenSecretRef b))])
           (wa_BearerToken a))"

definition marshal_WebhookConfig :: "WebhookConfig \<Rightarrow> json" where
  "marshal_WebhookConfig c =
     JObj (opt_str ''identifierPathOnPayload'' (wh_SecretIdentifierOnPayload c)
       @ opt_str ''pathSuffix'' (wh_PathSuffix c)
       @ opt_ptr ''webhookAuth'' marshal_WebhookAuth (wh_Auth c)
       @ opt_ptr ''retryPolicy'' marshal_RetryPolicy (wh_RetryPolicy c))"

text \<open>A pointer marshals as what it points to, nil as null.\<close>

definition marshal_ptr :: "('a \<Rightarrow> json) \<Rightarrow> 'a option \<Rightarrow> json" where
  "marshal_ptr f p = (case p of None \<Rightarrow> JNull | Some x \<Rightarrow> f x)"

section \<open>Listener keys (internal/listener/manager.go)\<close>

definition source_config :: "NotificationSource \<Rightarrow> json result" where
  "source_config source =
     (if ns_Type source = ''AwsSqs'' then Ok (marshal_ptr marshal_AWSSQSConfig (ns_AwsSqs source))
      else if ns_Type source = ''AzureEventGrid'' then Ok (marshal_ptr marshal_AzureEventGridConfig (ns_AzureEventGrid source))
      else if ns_Type source = ''GooglePubSub'' then Ok (marshal_ptr marshal_GooglePubSubConfig (ns_GooglePubSub source))
      else if ns_Type source = ''HashicorpVault'' then Ok (marshal_ptr marshal_HashicorpVaultConfig (ns_HashicorpVault source))
      else if ns_Type source = ''TCPSocket'' then Ok (marshal_ptr marshal_TCPSocketConfig (ns_TCPSocket source))
      else if ns_Type source = ''Mock'' then Ok (marshal_ptr marshal_MockConfig (ns_Mock source))
      else if ns_Type source = ''KubernetesSecret'' then Ok (marshal_ptr marshal_KubernetesSecretConfig (ns_KubernetesSecret source))
      else if ns_Type source = ''KubernetesConfigMap'' then Ok (marshal_ptr marshal_KubernetesConfigMapConfig (ns_KubernetesConfigMap source))
      else if ns_Type source = ''Webhook'' then Ok (marshal_ptr marshal_WebhookConfig (ns_Webhook source))
      else Err (Errorf ''unsupported notification source type: %s'' [StrArg (ns_Type source)]))"

text \<open>\<^verbatim>\<open>json.Marshal\<close> does not fail on these types, so its error branch has no counterpart.\<close>

definition generateListenerKey :: "NotificationSource \<Rightarrow> string result" where
  "generateListenerKey source =
     rbind (source_config source) (\<lambda>config.
       (let data = json_encode config; hash = sha1_hex data in Ok (ns_Type source @ ''-'' @ hash)))"

lemma generateListenerKey_Ok:
  "generateListenerKey source = Ok key \<Longrightarrow> \<exists>data. key = ns_Type source @ ''-'' @ sha1_hex data"
  by (auto simp: generateListenerKey_def go_simps Let_def)

lemma generateListenerKey_returns [simp]: "returns (generateListenerKey source)"
  by (simp add: generateListenerKey_def source_config_def Let_def)

lemma generateListenerKey_webhook:
  assumes "generateListenerKey source = Ok key" and "ns_Type source = ''Webhook''"
  obtains h where "key = ''Webhook-'' @ h" and "length h = 40" and "\<And>c. c \<in> set h \<Longrightarrow> is_hex c"
  using generateListenerKey_Ok [OF assms(1)] assms(2) sha1_hex_length sha1_hex_digits by fastforce

text \<open>The type of a source can be read off its key.\<close>

lemma generateListenerKey_type:
  assumes "generateListenerKey a = Ok key" and "generateListenerKey b = Ok key"
  shows "ns_Type a = ns_Type b"
proof -
  obtain da db where "key = ns_Type a @ ''-'' @ sha1_hex da" "key = ns_Type b @ ''-'' @ sha1_hex db"
    using generateListenerKey_Ok [OF assms(1)] generateListenerKey_Ok [OF assms(2)] by blast
  then have "ns_Type a @ ''-'' @ sha1_hex da = ns_Type b @ ''-'' @ sha1_hex db" by simp
  then show ?thesis
    by (subst (asm) append_eq_append_conv) (auto simp: sha1_hex_length)
qed

end
