(* ===== verification/Registry.thy ===== *)
theory Registry
  imports Prelude
begin

text \<open>
  The two provider registries, \<^verbatim>\<open>internal/handler/schema\<close> and \<^verbatim>\<open>internal/listener/schema\<close>: a
  \<^verbatim>\<open>sync.Map\<close> from a type name to a provider, filled by the \<^verbatim>\<open>init\<close> functions of the provider
  packages. A provider is an interface value, \<open>None\<close> being nil. The interface
  \<open>provider_registry\<close> states what the event processor and the listener manager need of a
  registry; both packages are interpreted. The two \<^verbatim>\<open>RegisterProvider\<close> functions differ in the
  boolean they return.
\<close>

section \<open>sync.Map\<close>

type_synonym 'p sync_map = "string \<rightharpoonup> 'p option"

definition Store :: "string \<Rightarrow> 'p option \<Rightarrow> 'p sync_map \<Rightarrow> 'p sync_map" where
  "Store k v m = m(k \<mapsto> v)"

definition LoadOrStore :: "string \<Rightarrow> 'p option \<Rightarrow> 'p sync_map \<Rightarrow> ('p option \<times> bool) \<times> 'p sync_map" where
  "LoadOrStore k v m =
     (case m k of Some actual \<Rightarrow> ((actual, True), m) | None \<Rightarrow> ((v, False), m(k \<mapsto> v)))"

section \<open>internal/handler/schema\<close>

definition handler_ForceRegister :: "string \<Rightarrow> 'p option \<Rightarrow> 'p sync_map \<Rightarrow> 'p sync_map" where
  "handler_ForceRegister nm prov m = Store nm prov m"

definition handler_RegisterProvider :: "string \<Rightarrow> 'p option \<Rightarrow> 'p sync_map \<Rightarrow> bool \<times> 'p sync_map" where
  "handler_RegisterProvider nm prov m =
     (case LoadOrStore nm prov m of ((actual, loaded), m') \<Rightarrow>
        ((if actual \<noteq> None then False else loaded), m'))"

definition handler_GetProvider :: "'p sync_map \<Rightarrow> string \<Rightarrow> 'p option" where
  "handler_GetProvider m nm =
     (case m nm of
        None \<Rightarrow> None
      | Some content \<Rightarrow> (case content of None \<Rightarrow> None | Some h \<Rightarrow> Some h))"

section \<open>internal/listener/schema\<close>

definition listener_ForceRegister :: "string \<Rightarrow> 'p option \<Rightarrow> 'p sync_map \<Rightarrow> 'p sync_map" where
  "listener_ForceRegister nm prov m = Store nm prov m"

definition listener_RegisterProvider :: "string \<Rightarrow> 'p option \<Rightarrow> 'p sync_map \<Rightarrow> bool \<times> 'p sync_map" where
  "listener_RegisterProvider nm prov m =
     (case LoadOrStore nm prov m of ((actual, loaded), m') \<Rightarrow>
        (if loaded then (False, m') else (True, m')))"

definition listener_GetProvider :: "'p sync_map \<Rightarrow> string \<Rightarrow> 'p option" where
  "listener_GetProvider m nm =
     (case m nm of
        Some prov \<Rightarrow> (case prov of Some p \<Rightarrow> Some p | None \<Rightarrow> None)
      | None \<Rightarrow> None)"

text \<open>Running the \<^verbatim>\<open>init\<close> functions of a list of provider packages.\<close>

fun register_all :: "(string \<Rightarrow> 'p option \<Rightarrow> 'r \<Rightarrow> bool \<times> 'r) \<Rightarrow> (string \<times> 'p) list \<Rightarrow> 'r \<Rightarrow> 'r" where
  "register_all reg [] r = r"
| "register_all reg ((nm, p) # ps) r = register_all reg ps (snd (reg nm (Some p) r))"

section \<open>The interface of a registry\<close>

locale provider_registry =
  fixes register :: "string \<Rightarrow> 'p option \<Rightarrow> 'r \<Rightarrow> bool \<times> 'r"
    and force_register :: "string \<Rightarrow> 'p option \<Rightarrow> 'r \<Rightarrow> 'r"
    and get_provider :: "'r \<Rightarrow> string \<Rightarrow> 'p option"
    and known :: "'r \<Rightarrow> string \<Rightarrow> bool"
    and empty_registry :: 'r
  assumes known_empty: "\<not> known empty_registry n"
    and get_unknown: "\<not> known r n \<Longrightarrow> get_provider r n = None"
    and known_register: "known (snd (register m p r)) n \<longleftrightarrow> n = m \<or> known r n"
    and get_register:
      "get_provider (snd (register m p r)) n = (if n = m \<and> \<not> known r m then p else get_provider r n)"
    and get_force: "get_provider (force_register m p r) n = (if n = m then p else get_provider r n)"
begin

text \<open>The first registration of a name wins; later ones have no effect.\<close>

lemma get_register_all:
  "get_provider (register_all register ps r) n =
     (if known r n then get_provider r n else map_of ps n)"
proof (induction ps arbitrary: r)
  case Nil
  show ?case by (simp add: get_unknown)
next
  case (Cons q ps)
  obtain m p where q: "q = (m, p)" by (cases q)
  show ?case
    by (auto simp: q Cons.IH known_register get_register)
qed

lemma get_register_all_empty:
  "get_provider (register_all register ps empty_registry) n = map_of ps n"
  by (simp add: get_register_all known_empty)

text \<open>The order in which the packages are initialised does not matter.\<close>

lemma register_order_irrelevant:
  assumes "distinct (map fst ps)" and "mset ps = mset qs"
  shows "get_provider (register_all register ps empty_registry) n =
         get_provider (register_all register qs empty_registry) n"
proof -
  from assms(2) have "mset (map fst ps) = mset (map fst qs)" by simp
  with assms(1) have "distinct (map fst qs)" using mset_eq_imp_distinct_iff by blast
  with assms have "map_of ps = map_of qs"
    by (metis map_of_inject_set mset_eq_setD)
  then show ?thesis by (simp add: get_register_all_empty)
qed

end

section \<open>Both registries implement the interface\<close>

lemmas registry_defs =
  Store_def LoadOrStore_def
  handler_ForceRegister_def handler_RegisterProvider_def handler_GetProvider_def
  listener_ForceRegister_def listener_RegisterProvider_def listener_GetProvider_def

interpretation handler_reg: provider_registry
  handler_RegisterProvider handler_ForceRegister handler_GetProvider "\<lambda>m n. m n \<noteq> None" Map.empty
  by unfold_locales (auto simp: registry_defs split: option.splits if_splits)

interpretation listener_reg: provider_registry
  listener_RegisterProvider listener_ForceRegister listener_GetProvider "\<lambda>m n. m n \<noteq> None" Map.empty
  by unfold_locales (auto simp: registry_defs split: option.splits if_splits)

section \<open>Properties\<close>

text \<open>
  The listener registry reports a registration: \<^verbatim>\<open>RegisterProvider\<close> returns true exactly
  when the name was free, and then \<^verbatim>\<open>GetProvider\<close> finds the new provider. The handler registry
  stores a provider under a free name in the same way, but its \<^verbatim>\<open>RegisterProvider\<close> returns
  false even then.
\<close>

theorem RegisterProvider_result:
  assumes "m nm = None"
  shows "fst (listener_RegisterProvider nm (Some p) m)
    \<and> listener_GetProvider (snd (listener_RegisterProvider nm (Some p) m)) nm = Some p
    \<and> \<not> fst (listener_RegisterProvider nm (Some q) (snd (listener_RegisterProvider nm (Some p) m)))
    \<and> handler_GetProvider (snd (handler_RegisterProvider nm (Some p) m)) nm = Some p
    \<and> \<not> fst (handler_RegisterProvider nm (Some p) m)"
  using assms by (simp add: registry_defs)

theorem RegisterProvider_result_witness:
  "(Map.empty :: nat sync_map) ''Mock'' = None
    \<and> fst (listener_RegisterProvider ''Mock'' (Some 1) (Map.empty :: nat sync_map))
    \<and> \<not> fst (handler_RegisterProvider ''Mock'' (Some 1) (Map.empty :: nat sync_map))"
  using RegisterProvider_result [of "Map.empty :: nat sync_map" "''Mock''" 1 2] by simp

end
