(* ===== verification/Manager.thy ===== *)
theory Manager
  imports Server Json Registry
begin

text \<open>
  The listener manager (\<^verbatim>\<open>internal/listener/manager.go\<close>): per Config the running listeners by
  key, the reconciliation of that map with a list of notification sources, and the shutdown.
  The listeners themselves are interface values: the model is generic in their type \<open>'l\<close> and
  in the world \<open>'w\<close> their methods act on. The iteration orders of the two maps are arguments.
\<close>

section \<open>State and interfaces\<close>

type_synonym ('l, 'w) lprovider = "NotificationSource \<Rightarrow> 'w \<Rightarrow> 'l result \<times> 'w"

text \<open>
  \<open>le_Start\<close> and \<open>le_Stop\<close> are the methods of \<^verbatim>\<open>schema.Listener\<close>, \<open>le_providers\<close> is the provider
  registry, \<open>le_hook\<close> is \<^verbatim>\<open>NewWebhookListener\<close> on the manager's webhook server, nil when it has
  none.
\<close>

record ('l, 'w) listener_env =
  le_providers :: "('l, 'w) lprovider sync_map"
  le_Start :: "'l \<Rightarrow> 'w \<Rightarrow> unit result \<times> 'w"
  le_Stop :: "'l \<Rightarrow> 'w \<Rightarrow> unit result \<times> 'w"
  le_hook :: "(string \<Rightarrow> WebhookConfig \<Rightarrow> 'l) option"

record 'l Manager =
  lm_listeners :: "(NamespacedName, (string, 'l) gomap) gomap"

definition NewListenerManager :: "'l Manager" where
  "NewListenerManager = \<lparr>lm_listeners = []\<rparr>"

section \<open>ManageListeners\<close>

text \<open>The desired listeners: a later source with the same key replaces an earlier one.\<close>

fun desired_listeners :: "NotificationSource list \<Rightarrow> (string, NotificationSource) gomap \<Rightarrow> (string, NotificationSource) gomap" where
  "desired_listeners [] m = m"
| "desired_listeners (source # sources) m =
     (case generateListenerKey source of
        Ok key \<Rightarrow> desired_listeners sources (AList.update key source m)
      | _ \<Rightarrow> desired_listeners sources m)"

text \<open>Removing the unwanted: a listener whose \<^verbatim>\<open>Stop\<close> fails is removed as well.\<close>

fun stop_unwanted ::
  "('l, 'w) listener_env \<Rightarrow> string set \<Rightarrow> string list \<Rightarrow> (string, 'l) gomap \<Rightarrow> 'w \<Rightarrow> unit result \<times> (string, 'l) gomap \<times> 'w" where
  "stop_unwanted env wanted [] cur w = (Ok (), cur, w)"
| "stop_unwanted env wanted (key # keys) cur w =
     (if key \<in> wanted then stop_unwanted env wanted keys cur w
      else
        (case map_of cur key of
           None \<Rightarrow> stop_unwanted env wanted keys cur w
         | Some l \<Rightarrow>
             (case le_Stop env l w of
                (Panic p, w') \<Rightarrow> (Panic p, cur, w')
              | (Blocked, w') \<Rightarrow> (Blocked, cur, w')
              | (_, w') \<Rightarrow> stop_unwanted env wanted keys (AList.delete key cur) w')))"

text \<open>Starting a listener and entering it: an error of \<^verbatim>\<open>Start\<close> is logged, the entry is not made.\<close>

definition start_and_enter ::
  "('l, 'w) listener_env \<Rightarrow> string \<Rightarrow> 'l \<Rightarrow> (string, 'l) gomap \<Rightarrow> 'w \<Rightarrow> unit result \<times> (string, 'l) gomap \<times> 'w" where
  "start_and_enter env key l cur w =
     (case le_Start env l w of
        (Ok _, w') \<Rightarrow> (Ok (), AList.update key l cur, w')
      | (Err e, w') \<Rightarrow> (Ok (), cur, w')
      | (Panic p, w') \<Rightarrow> (Panic p, cur, w')
      | (Blocked, w') \<Rightarrow> (Blocked, cur, w'))"

definition empty_webhook_config :: WebhookConfig where
  "empty_webhook_config =
     \<lparr>wh_SecretIdentifierOnPayload = [], wh_PathSuffix = [], wh_Auth = None, wh_RetryPolicy = None\<rparr>"

text \<open>One round of the loop that adds listeners.\<close>

definition add_listener ::
  "('l, 'w) listener_env \<Rightarrow> string \<Rightarrow> nat \<Rightarrow> string \<Rightarrow> NotificationSource \<Rightarrow> (string, 'l) gomap \<Rightarrow> 'w
    \<Rightarrow> unit result \<times> (string, 'l) gomap \<times> 'w" where
  "add_listener env configName webhookSourceCount key source cur w =
     (if map_of cur key \<noteq> None then (Ok (), cur, w)
      else if ns_Type source = WEBHOOK then
        (case le_hook env of
           None \<Rightarrow> (Ok (), cur, w)
         | Some newWebhookListener \<Rightarrow>
             (if ns_Webhook source = None \<and> ns_KubernetesSecret source \<noteq> None then (Ok (), cur, w)
              else if ns_Webhook source = None \<and> ns_KubernetesConfigMap source \<noteq> None then (Ok (), cur, w)
              else
                (let webhookCfg = (case ns_Webhook source of None \<Rightarrow> empty_webhook_config | Some c \<Rightarrow> c);
                     routeKey = RouteKey configName (wh_PathSuffix webhookCfg) key webhookSourceCount
                 in start_and_enter env key (newWebhookListener routeKey webhookCfg) cur w)))
      else
        (case listener_GetProvider (le_providers env) (ns_Type source) of
           None \<Rightarrow> (Ok (), cur, w)
         | Some createListener \<Rightarrow>
             (case createListener source w of
                (Ok l, w') \<Rightarrow> start_and_enter env key l cur w'
              | (Err e, w') \<Rightarrow> (Ok (), cur, w')
              | (Panic p, w') \<Rightarrow> (Panic p, cur, w')
              | (Blocked, w') \<Rightarrow> (Blocked, cur, w'))))"

fun add_listeners ::
  "('l, 'w) listener_env \<Rightarrow> string \<Rightarrow> nat \<Rightarrow> (string, NotificationSource) gomap \<Rightarrow> string list \<Rightarrow> (string, 'l) gomap \<Rightarrow> 'w
    \<Rightarrow> unit result \<times> (string, 'l) gomap \<times> 'w" where
  "add_listeners env configName webhookSourceCount desired [] cur w = (Ok (), cur, w)"
| "add_listeners env configName webhookSourceCount desired (key # keys) cur w =
     (case map_of desired key of
        None \<Rightarrow> add_listeners env configName webhookSourceCount desired keys cur w
      | Some source \<Rightarrow>
          (case add_listener env configName webhookSourceCount key source cur w of
             (Ok _, cur', w') \<Rightarrow> add_listeners env configName webhookSourceCount desired keys cur' w'
           | (r, cur', w') \<Rightarrow> (r, cur', w')))"

text \<open>The listeners of a manifest; an absent inner map reads as empty.\<close>

definition listeners_of :: "'l Manager \<Rightarrow> NamespacedName \<Rightarrow> (string, 'l) gomap" where
  "listeners_of lm m = (case map_of (lm_listeners lm) m of None \<Rightarrow> [] | Some cur \<Rightarrow> cur)"

definition set_listeners :: "NamespacedName \<Rightarrow> (string, 'l) gomap \<Rightarrow> 'l Manager \<Rightarrow> 'l Manager" where
  "set_listeners m cur lm = lm\<lparr>lm_listeners := AList.update m cur (lm_listeners lm)\<rparr>"

text \<open>
  \<open>sources = None\<close> is the nil slice, for which validation is skipped; \<open>ord1\<close> and \<open>ord2\<close> are the
  iteration orders over the current and the desired listeners.
\<close>

definition ManageListeners ::
  "('l, 'w) listener_env \<Rightarrow> (string list \<Rightarrow> string list) \<Rightarrow> (string list \<Rightarrow> string list)
    \<Rightarrow> NamespacedName \<Rightarrow> NotificationSource list option \<Rightarrow> 'l Manager \<Rightarrow> 'w \<Rightarrow> unit result \<times> 'l Manager \<times> 'w" where
  "ManageListeners env ord1 ord2 manifestName sources lm w =
     (case (case sources of None \<Rightarrow> Ok ()
            | Some ss \<Rightarrow> Validate \<lparr>cs_NotificationSources = ss, cs_DestinationsToWatch = []\<rparr>) of
        Err e \<Rightarrow> (Err e, lm, w)
      | Panic p \<Rightarrow> (Panic p, lm, w)
      | Blocked \<Rightarrow> (Blocked, lm, w)
      | Ok _ \<Rightarrow>
          (let cur = listeners_of lm manifestName;
               desired = desired_listeners (case sources of None \<Rightarrow> [] | Some ss \<Rightarrow> ss) [] in
           case stop_unwanted env (fst ` set desired) (ord1 (map fst cur)) cur w of
             (Ok _, cur1, w1) \<Rightarrow>
               (let webhookSourceCount = length (filter (\<lambda>(key, source). ns_Type source = WEBHOOK) desired) in
                case add_listeners env (nn_Name manifestName) webhookSourceCount desired (ord2 (map fst desired)) cur1 w1 of
                  (Ok _, cur2, w2) \<Rightarrow>
                    (if cur2 = [] then (Ok (), lm\<lparr>lm_listeners := AList.delete manifestName (lm_listeners lm)\<rparr>, w2)
                     else (Ok (), set_listeners manifestName cur2 lm, w2))
                | (r, cur2, w2) \<Rightarrow> (r, set_listeners manifestName cur2 lm, w2))
           | (r, cur1, w1) \<Rightarrow> (r, set_listeners manifestName cur1 lm, w1)))"

section \<open>StopAll\<close>

fun stop_listeners ::
  "('l, 'w) listener_env \<Rightarrow> (string, 'l) gomap \<Rightarrow> string list \<Rightarrow> error list \<Rightarrow> 'w \<Rightarrow> error list result \<times> (string, 'l) gomap \<times> 'w" where
  "stop_listeners env cur [] errs w = (Ok errs, cur, w)"
| "stop_listeners env cur (key # keys) errs w =
     (case map_of cur key of
        None \<Rightarrow> stop_listeners env cur keys errs w
      | Some l \<Rightarrow>
          (case le_Stop env l w of
             (Ok _, w') \<Rightarrow> stop_listeners env (AList.delete key cur) keys errs w'
           | (Err e, w') \<Rightarrow> stop_listeners env (AList.delete key cur) keys (errs @ [e]) w'
           | (Panic p, w') \<Rightarrow> (Panic p, cur, w')
           | (Blocked, w') \<Rightarrow> (Blocked, cur, w')))"

fun stop_manifests ::
  "('l, 'w) listener_env \<Rightarrow> (string list \<Rightarrow> string list) \<Rightarrow> NamespacedName list \<Rightarrow> error list \<Rightarrow> 'l Manager \<Rightarrow> 'w
    \<Rightarrow> error list result \<times> 'l Manager \<times> 'w" where
  "stop_manifests env ord [] errs lm w = (Ok errs, lm, w)"
| "stop_manifests env ord (m # ms) errs lm w =
     (case stop_listeners env (listeners_of lm m) (ord (map fst (listeners_of lm m))) errs w of
        (Ok errs', cur, w') \<Rightarrow> stop_manifests env ord ms errs' (set_listeners m cur lm) w'
      | (r, cur, w') \<Rightarrow> (r, set_listeners m cur lm, w'))"

definition StopAll ::
  "('l, 'w) listener_env \<Rightarrow> (NamespacedName list \<Rightarrow> NamespacedName list) \<Rightarrow> (string list \<Rightarrow> string list) \<Rightarrow> 'l Manager \<Rightarrow> 'w
    \<Rightarrow> unit result \<times> 'l Manager \<times> 'w" where
  "StopAll env ord1 ord2 lm w =
     (case stop_manifests env ord2 (ord1 (map fst (lm_listeners lm))) [] lm w of
        (Ok errs, lm', w') \<Rightarrow> (if length errs > 0 then Err (ErrJoin errs) else Ok (), lm', w')
      | (Err e, lm', w') \<Rightarrow> (Err e, lm', w')
      | (Panic p, lm', w') \<Rightarrow> (Panic p, lm', w')
      | (Blocked, lm', w') \<Rightarrow> (Blocked, lm', w'))"

section \<open>The three loops\<close>

lemma desired_distinct: "gomap_ok m \<Longrightarrow> gomap_ok (desired_listeners sources m)"
  by (induction sources m rule: desired_listeners.induct) (auto split: result.split simp: distinct_update)

lemma desired_sound:
  "map_of (desired_listeners sources m) key = Some source \<Longrightarrow>
     map_of m key = Some source \<or> (source \<in> set sources \<and> generateListenerKey source = Ok key)"
  by (induction sources m rule: desired_listeners.induct) (auto split: result.splits if_splits)

lemma desired_keys:
  "fst ` set (desired_listeners sources m) =
     fst ` set m \<union> {key. \<exists>source \<in> set sources. generateListenerKey source = Ok key}"
  by (induction sources m rule: desired_listeners.induct)
    (auto split: result.split simp: dom_update simp flip: dom_map_of_conv_image_fst)

lemma AList_delete_dom: "map_of (AList.delete k m) k' = (if k' = k then None else map_of m k')"
  by simp

lemma stop_unwanted_frame:
  "stop_unwanted env W keys cur w = (r, cur', w') \<Longrightarrow>
     (\<forall>k. map_of cur' k = map_of cur k \<or> (map_of cur' k = None \<and> k \<in> set keys \<and> k \<notin> W))
     \<and> (r = Ok () \<longrightarrow> (\<forall>k \<in> set keys. k \<notin> W \<longrightarrow> map_of cur' k = None))
     \<and> (gomap_ok cur \<longrightarrow> gomap_ok cur') \<and> (\<forall>e. r \<noteq> Err e)"
proof (induction keys arbitrary: cur w)
  case Nil
  then show ?case by auto
next
  case (Cons key keys)
  show ?case
  proof (cases "key \<in> W \<or> map_of cur key = None")
    case True
    then have rec: "stop_unwanted env W keys cur w = (r, cur', w')" using Cons.prems by (auto split: if_splits)
    from Cons.IH [OF this] True show ?thesis by (metis list.set_intros(2) set_ConsD)
  next
    case False
    then obtain l where l: "map_of cur key = Some l" "key \<notin> W" by auto
    obtain x w1 where stop: "le_Stop env l w = (x, w1)" by (cases "le_Stop env l w")
    show ?thesis
    proof (cases "returns x")
      case True
      with Cons.prems l stop have "stop_unwanted env W keys (AList.delete key cur) w1 = (r, cur', w')"
        by (auto simp: returns_def)
      note IH = Cons.IH [OF this]
      have del: "map_of (AList.delete key cur) k = (if k = key then None else map_of cur k)" for k by simp
      have "gomap_ok cur \<longrightarrow> gomap_ok cur'" using IH by (simp add: distinct_delete)
      moreover have "\<forall>k. map_of cur' k = map_of cur k \<or> (map_of cur' k = None \<and> k \<in> set (key # keys) \<and> k \<notin> W)"
        using IH l(2) unfolding del by (metis list.set_intros)
      moreover have "r = Ok () \<longrightarrow> (\<forall>k \<in> set (key # keys). k \<notin> W \<longrightarrow> map_of cur' k = None)"
        using IH unfolding del by (metis set_ConsD)
      ultimately show ?thesis using IH by blast
    next
      case False
      with Cons.prems l stop show ?thesis by (cases x) auto
    qed
  qed
qed

text \<open>What one round of the adding loop can do: nothing, or enter a new listener under the key.\<close>

lemma start_and_enter_cases:
  assumes "start_and_enter env key l cur w = (r, cur', w')"
  shows "(cur' = cur \<or> cur' = AList.update key l cur) \<and> (\<forall>e. r \<noteq> Err e)"
  using assms by (auto simp: start_and_enter_def split: prod.splits result.splits)

lemma add_listener_frame:
  assumes "add_listener env c n key source cur w = (r, cur', w')"
  shows "cur' = cur \<or> (map_of cur key = None \<and> (\<exists>l. cur' = AList.update key l cur))" and "r \<noteq> Err e"
proof -
  have "(cur' = cur \<or> (map_of cur key = None \<and> (\<exists>l. cur' = AList.update key l cur))) \<and> (\<forall>e. r \<noteq> Err e)"
    using assms unfolding add_listener_def
    by (auto simp: Let_def split: if_splits option.splits prod.splits result.splits dest: start_and_enter_cases)
  then show "cur' = cur \<or> (map_of cur key = None \<and> (\<exists>l. cur' = AList.update key l cur))" "r \<noteq> Err e" by auto
qed

lemma add_listeners_frame:
  "add_listeners env c n desired keys cur w = (r, cur', w') \<Longrightarrow>
     (\<forall>k. map_of cur' k = map_of cur k \<or> (map_of cur k = None \<and> k \<in> set keys \<and> map_of desired k \<noteq> None))
     \<and> (gomap_ok cur \<longrightarrow> gomap_ok cur') \<and> (\<forall>e. r \<noteq> Err e)"
proof (induction keys arbitrary: cur w)
  case Nil
  then show ?case by auto
next
  case (Cons key keys)
  show ?case
  proof (cases "map_of desired key")
    case None
    with Cons show ?thesis by fastforce
  next
    case (Some source)
    obtain x cur1 w1 where add: "add_listener env c n key source cur w = (x, cur1, w1)"
      by (cases "add_listener env c n key source cur w")
    note one = add_listener_frame [OF add]
    have ok1: "gomap_ok cur \<Longrightarrow> gomap_ok cur1" using one(1) by (auto simp: distinct_update)
    have step: "map_of cur1 k = map_of cur k \<or> (map_of cur k = None \<and> k = key)" for k
      using one(1) by (auto split: if_splits)
    show ?thesis
    proof (cases "x = Ok ()")
      case True
      with Cons.prems Some add have "add_listeners env c n desired keys cur1 w1 = (r, cur', w')" by simp
      from Cons.IH [OF this] ok1 step Some show ?thesis
        by (metis list.set_intros option.distinct(1))
    next
      case False
      with Cons.prems Some add have "r = x" "cur' = cur1" by (cases x; simp)+
      then show ?thesis using ok1 step one(2) Some by (metis list.set_intros(1) option.distinct(1))
    qed
  qed
qed

section \<open>What ManageListeners does\<close>

definition source_list :: "NotificationSource list option \<Rightarrow> NotificationSource list" where
  "source_list sources = (case sources of None \<Rightarrow> [] | Some ss \<Rightarrow> ss)"

abbreviation desired_of :: "NotificationSource list option \<Rightarrow> (string, NotificationSource) gomap" where
  "desired_of sources \<equiv> desired_listeners (source_list sources) []"

abbreviation webhook_count :: "(string, NotificationSource) gomap \<Rightarrow> nat" where
  "webhook_count desired \<equiv> length (filter (\<lambda>(key, source). ns_Type source = WEBHOOK) desired)"

definition sources_valid :: "NotificationSource list option \<Rightarrow> bool" where
  "sources_valid sources \<longleftrightarrow> distinct (map webhook_suffix (webhooks (source_list sources)))"

lemma validation_outcome:
  "(case sources of None \<Rightarrow> Ok () | Some ss \<Rightarrow> Validate \<lparr>cs_NotificationSources = ss, cs_DestinationsToWatch = []\<rparr>) =
     (if sources_valid sources then Ok ()
      else Err (Errorf ''%s'' [Joined ''; '' (duplicates_loop 0 Map.empty [] (source_list sources))]))"
  using duplicates_loop_Nil_iff [of 0 Map.empty "source_list sources"]
  by (auto simp: sources_valid_def source_list_def Validate_eq validateUniqueWebhookPathSuffixes_def Let_def
      split: option.split)

lemma ManageListeners_invalid:
  "\<not> sources_valid sources \<Longrightarrow> \<exists>e. ManageListeners env ord1 ord2 m sources lm w = (Err e, lm, w)"
  by (simp add: ManageListeners_def validation_outcome)

lemma ManageListeners_run:
  assumes "sources_valid sources"
    and "stop_unwanted env (fst ` set (desired_of sources)) (ord1 (map fst (listeners_of lm m))) (listeners_of lm m) w = (r1, cur1, w1)"
    and "add_listeners env (nn_Name m) (webhook_count (desired_of sources)) (desired_of sources)
      (ord2 (map fst (desired_of sources))) cur1 w1 = (r2, cur2, w2)"
  shows "ManageListeners env ord1 ord2 m sources lm w =
    (if r1 \<noteq> Ok () then (r1, set_listeners m cur1 lm, w1)
     else (r2, if r2 = Ok () \<and> cur2 = [] then lm\<lparr>lm_listeners := AList.delete m (lm_listeners lm)\<rparr>
               else set_listeners m cur2 lm, w2))"
  using assms
  by (cases r1; cases r2)
    (auto simp: ManageListeners_def validation_outcome Let_def source_list_def split: option.splits)

lemma listeners_of_set [simp]:
  "listeners_of (set_listeners m cur lm) n = (if n = m then cur else listeners_of lm n)"
  by (simp add: listeners_of_def set_listeners_def)

lemma listeners_of_delete [simp]:
  "listeners_of (lm\<lparr>lm_listeners := AList.delete m (lm_listeners lm)\<rparr>) n = (if n = m then [] else listeners_of lm n)"
  by (simp add: listeners_of_def)

lemma set_listeners_other: "n \<noteq> m \<Longrightarrow> map_of (lm_listeners (set_listeners m cur lm)) n = map_of (lm_listeners lm) n"
  by (simp add: set_listeners_def)

text \<open>The invariant of the manager's state: both levels are maps.\<close>

definition manager_ok :: "'l Manager \<Rightarrow> bool" where
  "manager_ok lm \<longleftrightarrow> gomap_ok (lm_listeners lm) \<and> (\<forall>m. gomap_ok (listeners_of lm m))"

lemma manager_ok_set: "manager_ok lm \<Longrightarrow> gomap_ok cur \<Longrightarrow> manager_ok (set_listeners m cur lm)"
  by (auto simp: manager_ok_def set_listeners_def distinct_update listeners_of_def)

lemma manager_ok_delete:
  "manager_ok lm \<Longrightarrow> manager_ok (lm\<lparr>lm_listeners := AList.delete m (lm_listeners lm)\<rparr>)"
  by (auto simp: manager_ok_def distinct_delete listeners_of_def)

lemma manage_steps:
  assumes "sources_valid sources"
  obtains r1 cur1 w1 r2 cur2 w2
  where "stop_unwanted env (fst ` set (desired_of sources)) (ord1 (map fst (listeners_of lm m))) (listeners_of lm m) w = (r1, cur1, w1)"
    and "add_listeners env (nn_Name m) (webhook_count (desired_of sources)) (desired_of sources)
      (ord2 (map fst (desired_of sources))) cur1 w1 = (r2, cur2, w2)"
    and "ManageListeners env ord1 ord2 m sources lm w =
      (if r1 \<noteq> Ok () then (r1, set_listeners m cur1 lm, w1)
       else (r2, if r2 = Ok () \<and> cur2 = [] then lm\<lparr>lm_listeners := AList.delete m (lm_listeners lm)\<rparr>
                 else set_listeners m cur2 lm, w2))"
  using ManageListeners_run [OF assms] by (metis prod_cases3)

lemma ManageListeners_isolated:
  assumes "ManageListeners env ord1 ord2 m sources lm w = (r, lm', w')"
  shows "(\<forall>n. n \<noteq> m \<longrightarrow> map_of (lm_listeners lm') n = map_of (lm_listeners lm) n)
    \<and> ((\<exists>e. r = Err e) \<longleftrightarrow> \<not> sources_valid sources) \<and> (\<not> sources_valid sources \<longrightarrow> lm' = lm \<and> w' = w)
    \<and> (manager_ok lm \<longrightarrow> manager_ok lm')"
proof (cases "sources_valid sources")
  case False
  with assms ManageListeners_invalid [OF False, of env ord1 ord2 m lm w] show ?thesis by auto
next
  case True
  obtain r1 cur1 w1 r2 cur2 w2 where
    stop: "stop_unwanted env (fst ` set (desired_of sources)) (ord1 (map fst (listeners_of lm m))) (listeners_of lm m) w = (r1, cur1, w1)"
    and add: "add_listeners env (nn_Name m) (webhook_count (desired_of sources)) (desired_of sources)
      (ord2 (map fst (desired_of sources))) cur1 w1 = (r2, cur2, w2)"
    and eq: "ManageListeners env ord1 ord2 m sources lm w =
      (if r1 \<noteq> Ok () then (r1, set_listeners m cur1 lm, w1)
       else (r2, if r2 = Ok () \<and> cur2 = [] then lm\<lparr>lm_listeners := AList.delete m (lm_listeners lm)\<rparr>
                 else set_listeners m cur2 lm, w2))"
    by (rule manage_steps [OF True])
  note fs = stop_unwanted_frame [OF stop] and fa = add_listeners_frame [OF add]
  have ok: "gomap_ok cur1" "gomap_ok cur2" if "manager_ok lm"
    using that fs fa by (auto simp: manager_ok_def)
  have shape: "lm' \<in> {set_listeners m cur1 lm, set_listeners m cur2 lm, lm\<lparr>lm_listeners := AList.delete m (lm_listeners lm)\<rparr>}"
    using assms eq by (auto split: if_splits)
  then have "n \<noteq> m \<Longrightarrow> map_of (lm_listeners lm') n = map_of (lm_listeners lm) n" for n
    by (auto simp: set_listeners_other)
  moreover have "\<nexists>e. r = Err e" using assms eq fs fa by (auto split: if_splits)
  moreover have "manager_ok lm \<Longrightarrow> manager_ok lm'"
    using shape ok by (auto intro: manager_ok_set manager_ok_delete)
  ultimately show ?thesis using True by blast
qed

lemma ManageListeners_converges:
  assumes "range_order ord1" and "ManageListeners env ord1 ord2 m sources lm w = (Ok (), lm', w')"
  shows "(map_of (listeners_of lm' m) key \<noteq> None \<longrightarrow> key \<in> fst ` set (desired_of sources))
    \<and> (map_of (listeners_of lm m) key \<noteq> None \<and> key \<in> fst ` set (desired_of sources)
        \<longrightarrow> map_of (listeners_of lm' m) key = map_of (listeners_of lm m) key)"
proof -
  have valid: "sources_valid sources"
    using ManageListeners_invalid [of sources env ord1 ord2 m lm w] assms(2) by auto
  obtain r1 cur1 w1 r2 cur2 w2 where
    stop: "stop_unwanted env (fst ` set (desired_of sources)) (ord1 (map fst (listeners_of lm m))) (listeners_of lm m) w = (r1, cur1, w1)"
    and add: "add_listeners env (nn_Name m) (webhook_count (desired_of sources)) (desired_of sources)
      (ord2 (map fst (desired_of sources))) cur1 w1 = (r2, cur2, w2)"
    and eq: "ManageListeners env ord1 ord2 m sources lm w =
      (if r1 \<noteq> Ok () then (r1, set_listeners m cur1 lm, w1)
       else (r2, if r2 = Ok () \<and> cur2 = [] then lm\<lparr>lm_listeners := AList.delete m (lm_listeners lm)\<rparr>
                 else set_listeners m cur2 lm, w2))"
    by (rule manage_steps [OF valid])
  note fs = stop_unwanted_frame [OF stop] and fa = add_listeners_frame [OF add]
  from assms(2) eq have r1: "r1 = Ok ()" and cur2: "map_of (listeners_of lm' m) = map_of cur2"
    by (auto split: if_splits)
  have gone: "map_of cur1 key = None" if "key \<notin> fst ` set (desired_of sources)"
  proof (cases "map_of (listeners_of lm m) key")
    case None
    with fs show ?thesis by metis
  next
    case (Some l)
    then have "key \<in> set (ord1 (map fst (listeners_of lm m)))"
      using assms(1) by (force dest: map_of_SomeD)
    with fs r1 that show ?thesis by blast
  qed
  have kept: "map_of cur1 key = map_of (listeners_of lm m) key" if "key \<in> fst ` set (desired_of sources)"
    using fs that by blast
  have new: "map_of cur2 key = map_of cur1 key \<or> (map_of cur1 key = None \<and> key \<in> fst ` set (desired_of sources))"
    using fa by (metis map_of_eq_None_iff)
  show ?thesis using gone kept new cur2 by metis
qed

text \<open>
  C15: \<^verbatim>\<open>ManageListeners\<close> on one Config never touches the listeners of another, whatever
  happens on the way; it reports an error exactly when the webhook suffixes clash, and then
  nothing at all has been stopped, started or entered; and it keeps the two-level map
  well formed.
\<close>

theorem ManageListeners_isolation:
  "\<exists>r lm' w'. ManageListeners env ord1 ord2 m sources lm w = (r, lm', w')
    \<and> (\<forall>n. n = m \<or> map_of (lm_listeners lm') n = map_of (lm_listeners lm) n)
    \<and> ((\<exists>e. r = Err e) \<longleftrightarrow> \<not> distinct (map webhook_suffix (webhooks (source_list sources))))
    \<and> (distinct (map webhook_suffix (webhooks (source_list sources))) \<or> (lm' = lm \<and> w' = w))"
  using ManageListeners_isolated
  by (cases "ManageListeners env ord1 ord2 m sources lm w") (fastforce simp: sources_valid_def)

text \<open>
  C16: after a successful call, whatever the iteration orders, every listener of the
  Config belongs to one of its notification sources, and every listener that was running for a
  source that is still configured is the same listener as before: it was not restarted.
\<close>

theorem ManageListeners_keeps_wanted:
  assumes "range_order ord1" and "ManageListeners env ord1 ord2 m sources lm w = (Ok (), lm', w')"
  shows "(map_of (listeners_of lm' m) key \<noteq> None \<longrightarrow> (\<exists>source \<in> set (source_list sources). generateListenerKey source = Ok key))
    \<and> ((\<exists>source \<in> set (source_list sources). generateListenerKey source = Ok key) \<and> map_of (listeners_of lm m) key \<noteq> None
        \<longrightarrow> map_of (listeners_of lm' m) key = map_of (listeners_of lm m) key)"
  using ManageListeners_converges [OF assms, of key] by (auto simp: desired_keys)

section \<open>When starting and stopping succeed\<close>

text \<open>A source whose listener can be created and started in every state of the world.\<close>

definition startable :: "('l, 'w) listener_env \<Rightarrow> NotificationSource \<Rightarrow> bool" where
  "startable env source \<longleftrightarrow>
     (if ns_Type source = WEBHOOK then
        (ns_Webhook source \<noteq> None \<or> (ns_KubernetesSecret source = None \<and> ns_KubernetesConfigMap source = None))
        \<and> (\<exists>new. le_hook env = Some new \<and> (\<forall>rk cfg w. fst (le_Start env (new rk cfg) w) = Ok ()))
      else
        (\<exists>create. listener_GetProvider (le_providers env) (ns_Type source) = Some create
           \<and> (\<forall>w. \<exists>l w'. create source w = (Ok l, w') \<and> fst (le_Start env l w') = Ok ())))"

definition stops_return :: "('l, 'w) listener_env \<Rightarrow> bool" where
  "stops_return env \<longleftrightarrow> (\<forall>l w. returns (fst (le_Stop env l w)))"

lemma start_and_enter_ok:
  "fst (le_Start env l w) = Ok () \<Longrightarrow> \<exists>w'. start_and_enter env key l cur w = (Ok (), AList.update key l cur, w')"
  by (cases "le_Start env l w") (simp add: start_and_enter_def)

lemma add_listener_startable:
  assumes "startable env source"
  shows "\<exists>cur' w'. add_listener env c n key source cur w = (Ok (), cur', w') \<and> map_of cur' key \<noteq> None"
proof (cases "map_of cur key = None")
  case False
  then show ?thesis by (auto simp: add_listener_def)
next
  case True
  show ?thesis
  proof (cases "ns_Type source = WEBHOOK")
    case web: True
    with assms obtain new where new: "le_hook env = Some new" "\<And>rk cfg w. fst (le_Start env (new rk cfg) w) = Ok ()"
      by (auto simp: startable_def)
    let ?cfg = "case ns_Webhook source of None \<Rightarrow> empty_webhook_config | Some c \<Rightarrow> c"
    let ?l = "new (RouteKey c (wh_PathSuffix ?cfg) key n) ?cfg"
    have "add_listener env c n key source cur w = start_and_enter env key ?l cur w"
      using True web new(1) assms by (auto simp: add_listener_def startable_def Let_def)
    with start_and_enter_ok [OF new(2)] show ?thesis by fastforce
  next
    case other: False
    with assms obtain create l w1 where create: "listener_GetProvider (le_providers env) (ns_Type source) = Some create"
      "create source w = (Ok l, w1)" "fst (le_Start env l w1) = Ok ()"
      by (force simp: startable_def)
    then have "add_listener env c n key source cur w = start_and_enter env key l cur w1"
      using True other by (simp add: add_listener_def)
    with start_and_enter_ok [OF create(3)] show ?thesis by fastforce
  qed
qed

lemma add_listeners_startable:
  assumes all: "\<And>key source. map_of desired key = Some source \<Longrightarrow> startable env source"
  shows "\<exists>cur' w'. add_listeners env c n desired keys cur w = (Ok (), cur', w')
       \<and> (\<forall>k \<in> set keys. map_of desired k \<noteq> None \<longrightarrow> map_of cur' k \<noteq> None)"
proof (induction keys arbitrary: cur w)
  case Nil
  then show ?case by simp
next
  case (Cons key keys)
  show ?case
  proof (cases "map_of desired key")
    case None
    with Cons.IH show ?thesis by auto
  next
    case (Some source)
    obtain cur1 w1 where one: "add_listener env c n key source cur w = (Ok (), cur1, w1)" "map_of cur1 key \<noteq> None"
      using add_listener_startable [OF all [OF Some]] by blast
    obtain cur' w' where rest: "add_listeners env c n desired keys cur1 w1 = (Ok (), cur', w')"
      "\<forall>k \<in> set keys. map_of desired k \<noteq> None \<longrightarrow> map_of cur' k \<noteq> None"
      using Cons.IH by blast
    have "map_of cur' key \<noteq> None"
      using add_listeners_frame [OF rest(1)] one(2) by metis
    with Some one rest show ?thesis by auto
  qed
qed

lemma add_listeners_present:
  "(\<And>k. k \<in> set keys \<Longrightarrow> map_of cur k \<noteq> None) \<Longrightarrow> add_listeners env c n desired keys cur w = (Ok (), cur, w)"
  by (induction keys) (auto simp: add_listener_def split: option.split)

lemma stop_unwanted_none: "set keys \<subseteq> W \<Longrightarrow> stop_unwanted env W keys cur w = (Ok (), cur, w)"
  by (induction keys) auto

lemma stop_unwanted_Ok:
  "stops_return env \<Longrightarrow> \<exists>cur' w'. stop_unwanted env W keys cur w = (Ok (), cur', w')"
proof (induction keys arbitrary: cur w)
  case Nil
  then show ?case by simp
next
  case (Cons key keys)
  show ?case
  proof (cases "key \<in> W \<or> map_of cur key = None")
    case True
    with Cons show ?thesis by (auto split: option.split)
  next
    case False
    then obtain l where l: "key \<notin> W" "map_of cur key = Some l" by auto
    obtain x w1 where stop: "le_Stop env l w = (x, w1)" by (cases "le_Stop env l w")
    with Cons.prems have "returns x" by (metis fst_conv stops_return_def)
    then show ?thesis using Cons l stop by (cases rule: returns_cases) auto
  qed
qed

lemma desired_startable:
  assumes "\<forall>source \<in> set (source_list sources). startable env source" and "map_of (desired_of sources) key = Some source"
  shows "startable env source"
  using desired_sound [OF assms(2)] assms(1) by auto

lemma ManageListeners_completes:
  assumes "range_order ord1" "range_order ord2" "sources_valid sources"
    and "\<exists>cur' w'. stop_unwanted env (fst ` set (desired_of sources)) (ord1 (map fst (listeners_of lm m))) (listeners_of lm m) w = (Ok (), cur', w')"
    and "\<forall>source \<in> set (source_list sources). startable env source"
  obtains lm' w' where "ManageListeners env ord1 ord2 m sources lm w = (Ok (), lm', w')"
    and "fst ` set (listeners_of lm' m) = fst ` set (desired_of sources)"
proof -
  obtain r1 cur1 w1 r2 cur2 w2 where
    stop: "stop_unwanted env (fst ` set (desired_of sources)) (ord1 (map fst (listeners_of lm m))) (listeners_of lm m) w = (r1, cur1, w1)"
    and add: "add_listeners env (nn_Name m) (webhook_count (desired_of sources)) (desired_of sources)
      (ord2 (map fst (desired_of sources))) cur1 w1 = (r2, cur2, w2)"
    and eq: "ManageListeners env ord1 ord2 m sources lm w =
      (if r1 \<noteq> Ok () then (r1, set_listeners m cur1 lm, w1)
       else (r2, if r2 = Ok () \<and> cur2 = [] then lm\<lparr>lm_listeners := AList.delete m (lm_listeners lm)\<rparr>
                 else set_listeners m cur2 lm, w2))"
    by (rule manage_steps [OF assms(3)])
  have r1: "r1 = Ok ()" using assms(4) stop by auto
  have r2: "r2 = Ok ()" and all: "\<forall>k \<in> set (ord2 (map fst (desired_of sources))). map_of (desired_of sources) k \<noteq> None \<longrightarrow> map_of cur2 k \<noteq> None"
    using add_listeners_startable [of "desired_of sources" env "nn_Name m" _ "ord2 (map fst (desired_of sources))" cur1 w1]
      desired_startable [OF assms(5)] add by (metis prod.inject)+
  let ?lm' = "if cur2 = [] then lm\<lparr>lm_listeners := AList.delete m (lm_listeners lm)\<rparr> else set_listeners m cur2 lm"
  have run: "ManageListeners env ord1 ord2 m sources lm w = (Ok (), ?lm', w2)" using eq r1 r2 by simp
  have list: "listeners_of ?lm' m = cur2" by simp
  have "fst ` set cur2 = fst ` set (desired_of sources)"
  proof
    show "fst ` set cur2 \<subseteq> fst ` set (desired_of sources)"
      using ManageListeners_converges [OF assms(1) run] unfolding list by (metis map_of_eq_None_iff subsetI)
    have "map_of cur2 k \<noteq> None" if "k \<in> fst ` set (desired_of sources)" for k
      using all that assms(2) by (auto simp: map_of_eq_None_iff)
    then show "fst ` set (desired_of sources) \<subseteq> fst ` set cur2" by (metis map_of_eq_None_iff subsetI)
  qed
  with run list that show thesis by metis
qed

lemmas ManageListeners_complete = ManageListeners_completes [OF _ _ _ stop_unwanted_Ok]

lemma ManageListeners_settled:
  assumes "range_order ord1" "range_order ord2" "sources_valid sources"
    and "fst ` set (listeners_of lm m) = fst ` set (desired_of sources)"
  shows "\<exists>lm'. ManageListeners env ord1 ord2 m sources lm w = (Ok (), lm', w) \<and> listeners_of lm' = listeners_of lm"
proof -
  have stop: "stop_unwanted env (fst ` set (desired_of sources)) (ord1 (map fst (listeners_of lm m))) (listeners_of lm m) w
      = (Ok (), listeners_of lm m, w)"
    by (rule stop_unwanted_none) (use assms(1,4) in simp)
  have add: "add_listeners env (nn_Name m) (webhook_count (desired_of sources)) (desired_of sources)
      (ord2 (map fst (desired_of sources))) (listeners_of lm m) w = (Ok (), listeners_of lm m, w)"
    by (rule add_listeners_present) (use assms(2,4) in \<open>simp add: map_of_eq_None_iff\<close>)
  show ?thesis
    using ManageListeners_run [where ?ord1.0 = ord1 and ?ord2.0 = ord2, OF assms(3) stop add] by (auto simp: fun_eq_iff)
qed


section \<open>A concrete environment\<close>

text \<open>
  An environment whose only listeners are webhook routes on the shared server, for the concrete
  runs below. The environment of the program, with all listeners, is that of \<open>Listeners\<close>.
\<close>

definition call_result :: "error option \<times> 'w \<Rightarrow> unit result \<times> 'w" where
  "call_result r = (case r of (None, w) \<Rightarrow> (Ok (), w) | (Some e, w) \<Rightarrow> (Err e, w))"

definition webhook_env :: "(WebhookListener, WebhookServer) listener_env" where
  "webhook_env =
     \<lparr>le_providers = Map.empty,
      le_Start = (\<lambda>l s. call_result (webhook_Start l s)),
      le_Stop = (\<lambda>l s. call_result (webhook_Stop l s)),
      le_hook = Some (\<lambda>routeKey cfg. NewWebhookListener routeKey False (Some cfg))\<rparr>"

lemma webhook_env_simps [simp]:
  "le_Start webhook_env l s = (Ok (), snd (Register (wl_routeKey l) (wl_routeCtx_done l) (wl_cfg l) s))"
  "le_Stop webhook_env l s = (Ok (), snd (Unregister (wl_routeKey l) s))"
  "le_hook webhook_env = Some (\<lambda>routeKey cfg. NewWebhookListener routeKey False (Some cfg))"
  by (simp_all add: webhook_env_def call_result_def webhook_Start_def webhook_Stop_def)

definition fixture_webhook_source :: "string \<Rightarrow> NotificationSource" where
  "fixture_webhook_source sfx =
     \<lparr>ns_Type = ''Webhook'', ns_AwsSqs = None, ns_AzureEventGrid = None, ns_GooglePubSub = None,
      ns_Webhook = Some (empty_webhook_config\<lparr>wh_PathSuffix := sfx\<rparr>), ns_HashicorpVault = None,
      ns_KubernetesSecret = None, ns_KubernetesConfigMap = None, ns_TCPSocket = None, ns_Mock = None\<rparr>"

abbreviation fixture_manifest :: NamespacedName where
  "fixture_manifest \<equiv> NamespacedName [] ''keeper''"


definition fixture_manager :: "WebhookListener Manager" where
  "fixture_manager =
     \<lparr>lm_listeners = [(fixture_manifest, [(''Webhook-1'', NewWebhookListener ''keeper'' False None),
        (''Webhook-2'', NewWebhookListener ''keeper/b'' False None)]), (NamespacedName [] ''other'', [])]\<rparr>"

theorem ManageListeners_keeps_wanted_witness:
  "map_of (listeners_of \<lparr>lm_listeners = [(NamespacedName [] ''other'', [])] :: (NamespacedName \<times> (string \<times> WebhookListener) list) list\<rparr>
     fixture_manifest) ''Webhook-1'' = None"
proof -
  have "ManageListeners webhook_env rev rev fixture_manifest None fixture_manager (NewWebhookServer [])
      = (Ok (), \<lparr>lm_listeners = [(NamespacedName [] ''other'', [])]\<rparr>, NewWebhookServer [])"
    by (simp add: ManageListeners_def fixture_manager_def listeners_of_def NewWebhookListener_def Unregister_def
        NewWebhookServer_def Let_def)
  from ManageListeners_keeps_wanted [OF range_order_rev this, of "''Webhook-1''"] show ?thesis
    by (auto simp: source_list_def)
qed

section \<open>Routes follow the listeners\<close>

text \<open>The webhook listeners whose route the server serves.\<close>

definition serving :: "WebhookServer \<Rightarrow> WebhookListener set" where
  "serving s = {l. map_of (ws_routes s) (wl_routeKey l) = Some (newRoute (wl_routeCtx_done l) (wl_routeKey l) (wl_cfg l))}"

lemma newRoute_inject: "newRoute d k c = newRoute d' k' c' \<longleftrightarrow> d = d' \<and> k = k' \<and> c = c'"
  by (auto simp: newRoute_def)

lemma WebhookListener_eqI:
  "wl_routeKey x = wl_routeKey y \<Longrightarrow> wl_routeCtx_done x = wl_routeCtx_done y \<Longrightarrow> wl_cfg x = wl_cfg y \<Longrightarrow> x = (y :: WebhookListener)"
  by simp

lemma serving_Register:
  "serving (snd (Register (wl_routeKey l) (wl_routeCtx_done l) (wl_cfg l) s))
     = insert l {x \<in> serving s. wl_routeKey x \<noteq> wl_routeKey l}"
  by (auto simp: serving_def Register_def Let_def newRoute_inject intro: WebhookListener_eqI split: if_splits)

lemma serving_Unregister:
  "serving (snd (Unregister k s)) = {x \<in> serving s. wl_routeKey x \<noteq> k}"
  by (auto simp: serving_def Unregister_def split: option.splits if_splits)

end
