(* ===== verification/Handlers.thy ===== *)
theory Handlers
  imports Api Registry
begin

text \<open>
  The destination side: the \<^verbatim>\<open>Handler\<close> interface of \<^verbatim>\<open>internal/handler/schema\<close>, the matching
  helpers of \<^verbatim>\<open>internal/util/resource_watch.go\<close>, and the interface \<open>destination_handler\<close> that
  the four handlers promise to the event processor. The handlers themselves are in the
  theories \<open>DeploymentHandler\<close> and \<open>SecretHandlers\<close>.
\<close>

section \<open>The Handler interface\<close>

text \<open>
  A handler is a value with four functions over the outside world. \<^verbatim>\<open>Apply\<close> changes the object
  behind the pointer it is given; the model returns the changed object.
\<close>

record 'w Handler =
  h_Filter :: "DestinationToWatch \<Rightarrow> SecretRotationEvent \<Rightarrow> 'w \<Rightarrow> Object list result"
  h_applyFn :: "Object \<Rightarrow> SecretRotationEvent \<Rightarrow> 'w \<Rightarrow> Object result \<times> 'w"
  h_referenceFn :: "Object \<Rightarrow> string \<Rightarrow> bool result"
  h_waitForFn :: "Object \<Rightarrow> 'w \<Rightarrow> unit result \<times> 'w"

definition EXTERNAL_SECRET :: string where "EXTERNAL_SECRET = ''ExternalSecret''"
definition PUSH_SECRET :: string where "PUSH_SECRET = ''PushSecret''"
definition DEPLOYMENT :: string where "DEPLOYMENT = ''Deployment''"
definition WORKFLOW :: string where "WORKFLOW = ''WorkflowRunTemplate''"

definition Apply :: "'w Handler \<Rightarrow> Object \<Rightarrow> SecretRotationEvent \<Rightarrow> 'w \<Rightarrow> Object result \<times> 'w" where
  "Apply h ob event w = h_applyFn h ob event w"

definition References :: "'w Handler \<Rightarrow> Object \<Rightarrow> string \<Rightarrow> bool result" where
  "References h ob secretName = h_referenceFn h ob secretName"

definition WaitFor :: "'w Handler \<Rightarrow> Object \<Rightarrow> 'w \<Rightarrow> unit result \<times> 'w" where
  "WaitFor h ob w = h_waitForFn h ob w"

definition WithApply ::
  "(Object \<Rightarrow> SecretRotationEvent \<Rightarrow> 'w \<Rightarrow> Object result \<times> 'w) \<Rightarrow> 'w Handler \<Rightarrow> 'w Handler" where
  "WithApply apply_fn h = h\<lparr>h_applyFn := apply_fn\<rparr>"

definition WithReference :: "(Object \<Rightarrow> string \<Rightarrow> bool result) \<Rightarrow> 'w Handler \<Rightarrow> 'w Handler" where
  "WithReference ref h = h\<lparr>h_referenceFn := ref\<rparr>"

definition WithWaitFor :: "(Object \<Rightarrow> 'w \<Rightarrow> unit result \<times> 'w) \<Rightarrow> 'w Handler \<Rightarrow> 'w Handler" where
  "WithWaitFor wait_fn h = h\<lparr>h_waitForFn := wait_fn\<rparr>"

section \<open>Matching helpers (internal/util/resource_watch.go)\<close>

definition MatchesAnyNamespaceSelector ::
  "'w kube \<Rightarrow> 'w \<Rightarrow> Object \<Rightarrow> (labels \<Rightarrow> bool) list \<Rightarrow> bool result" where
  "MatchesAnyNamespaceSelector k w ob namespaceSelectors =
     (if length namespaceSelectors = 0 then Ok True
      else rbind (map_err (Wrapf ''failed to get namespace: %w'' []) (lift (k_GetNamespace k w (GetNamespace ob))))
        (\<lambda>nsLabels. Ok (list_ex (\<lambda>nsSelector. nsSelector nsLabels) namespaceSelectors)))"

definition MatchesLabelSelectors :: "Object \<Rightarrow> (labels \<Rightarrow> bool) option \<Rightarrow> bool result" where
  "MatchesLabelSelectors ob labelSelector =
     (case labelSelector of None \<Rightarrow> Ok True | Some sel \<Rightarrow> Ok (sel (GetLabels ob)))"

definition IsNameInList :: "Object \<Rightarrow> string set \<Rightarrow> bool" where
  "IsNameInList ob nameSet = (if nameSet = {} then True else GetName ob \<in> nameSet)"

text \<open>The preprocessing of the namespace selectors: the first invalid one is an error.\<close>

fun namespace_selectors :: "'w kube \<Rightarrow> LabelSelector list \<Rightarrow> (labels \<Rightarrow> bool) list result" where
  "namespace_selectors k [] = Ok []"
| "namespace_selectors k (nsSelector # rest) =
     (case k_Selector k nsSelector of
        Inl e \<Rightarrow> Err (Errorf ''invalid namespace selector: %v'' [ErrArg e])
      | Inr selector \<Rightarrow> rbind (namespace_selectors k rest) (\<lambda>sels. Ok (selector # sels)))"

definition label_selector :: "'w kube \<Rightarrow> LabelSelector option \<Rightarrow> (labels \<Rightarrow> bool) option result" where
  "label_selector k ls =
     (case ls of
        None \<Rightarrow> Ok None
      | Some s \<Rightarrow>
          (case k_Selector k s of
             Inl e \<Rightarrow> Err (Errorf ''invalid label selector: %v'' [ErrArg e])
           | Inr sel \<Rightarrow> Ok (Some sel)))"

text \<open>
  The body the four \<^verbatim>\<open>isResourceWatched\<close> methods share: preprocess the selectors and the names,
  then match namespace, labels and name.
\<close>

definition resource_watched ::
  "'w kube \<Rightarrow> 'w \<Rightarrow> Object \<Rightarrow> LabelSelector list \<Rightarrow> LabelSelector option \<Rightarrow> string list \<Rightarrow> bool result" where
  "resource_watched k w ob nsSelectors labelSelectors nms =
     rbind (namespace_selectors k nsSelectors) (\<lambda>namespaceSelectors.
     rbind (label_selector k labelSelectors) (\<lambda>labelSelector.
     rbind (MatchesAnyNamespaceSelector k w ob namespaceSelectors) (\<lambda>namespaceMatch.
     rbind (MatchesLabelSelectors ob labelSelector) (\<lambda>labelMatch.
     (let nameMatch = IsNameInList ob (set nms) in
      if namespaceMatch \<and> labelMatch \<and> nameMatch then Ok True else Ok False)))))"

text \<open>The loop of the four \<^verbatim>\<open>Filter\<close> methods: an item whose check fails is logged and skipped.\<close>

fun filter_watched :: "('a \<Rightarrow> bool result) \<Rightarrow> 'a list \<Rightarrow> 'a list result" where
  "filter_watched isWatched [] = Ok []"
| "filter_watched isWatched (x # xs) =
     (case isWatched x of
        Ok b \<Rightarrow> rbind (filter_watched isWatched xs) (\<lambda>objs. Ok (if b then x # objs else objs))
      | Err e \<Rightarrow> filter_watched isWatched xs
      | Panic p \<Rightarrow> Panic p
      | Blocked \<Rightarrow> Blocked)"

section \<open>The paths a handler may take through the outside world\<close>

text \<open>
  \<open>world_path k S w w'\<close>: the world goes from \<open>w\<close> to \<open>w'\<close> by \<^verbatim>\<open>Update\<close> calls on objects of \<open>S\<close>
  and by waiting for timer events, and by nothing else.
\<close>

inductive world_path :: "'w kube \<Rightarrow> Object set \<Rightarrow> 'w \<Rightarrow> 'w \<Rightarrow> bool" for k S where
  path_refl: "world_path k S w w"
| path_update: "world_path k S w w1 \<Longrightarrow> ob \<in> S \<Longrightarrow> world_path k S w (snd (k_Update k w1 ob))"
| path_wake: "world_path k S w w1 \<Longrightarrow> world_path k S w (snd (k_Wake k w1))"

lemma world_path_trans: "world_path k S w1 w2 \<Longrightarrow> world_path k S w w1 \<Longrightarrow> world_path k S w w2"
  by (induction rule: world_path.induct) (auto intro: world_path.intros)

lemma world_path_mono: "world_path k S w w1 \<Longrightarrow> S \<subseteq> T \<Longrightarrow> world_path k T w w1"
  by (induction rule: world_path.induct) (auto intro: world_path.intros)

lemma world_path_no_update:
  assumes "world_path k {} w w'" and "\<And>v. I v \<Longrightarrow> I (snd (k_Wake k v))" and "I w"
  shows "I w'"
  using assms(1,3) by (induction rule: world_path.induct) (auto intro: assms(2))

section \<open>What a handler promises\<close>

text \<open>
  The contract of a destination handler \<open>h\<close> for objects of one \<open>kind\<close>: \<^verbatim>\<open>Filter\<close> yields objects of
  the kind; on such objects \<^verbatim>\<open>References\<close> gives no error, \<^verbatim>\<open>Apply\<close> makes one \<^verbatim>\<open>Update\<close> call with
  the object as \<open>mark\<close> changes it and reports that call's failure; \<^verbatim>\<open>WaitFor\<close> writes nothing.
\<close>

locale destination_handler =
  fixes k :: "'w kube"
    and h :: "'w Handler"
    and kind :: "Object \<Rightarrow> bool"
    and mark :: "SecretRotationEvent \<Rightarrow> Object \<Rightarrow> Object"
  assumes filter_kind: "h_Filter h d ev w = Ok objs \<Longrightarrow> ob \<in> set objs \<Longrightarrow> kind ob"
    and filter_returns: "returns (h_Filter h d ev w)"
    and references_no_error: "kind ob \<Longrightarrow> References h ob ident \<noteq> Err e"
    and apply_Ok: "kind ob \<Longrightarrow> k_Update k w (mark ev ob) = (None, w') \<Longrightarrow>
      Apply h ob ev w = (Ok (mark ev ob), w')"
    and apply_Err: "kind ob \<Longrightarrow> k_Update k w (mark ev ob) = (Some e, w') \<Longrightarrow>
      \<exists>e'. Apply h ob ev w = (Err e', w')"
    and wait_path: "world_path k {} w (snd (WaitFor h ob w))"
begin

lemma apply_world: "kind ob \<Longrightarrow> snd (Apply h ob ev w) = snd (k_Update k w (mark ev ob))"
  by (cases "k_Update k w (mark ev ob)"; cases "fst (k_Update k w (mark ev ob))")
    (use apply_Ok apply_Err in fastforce)+

lemma apply_returns: "kind ob \<Longrightarrow> returns (fst (Apply h ob ev w))"
  by (cases "k_Update k w (mark ev ob)"; cases "fst (k_Update k w (mark ev ob))")
    (use apply_Ok apply_Err in fastforce)+

end

section \<open>Lemmas on matching and filtering\<close>

lemma returns_namespace_selectors [simp]: "returns (namespace_selectors k ss)"
  by (induction k ss rule: namespace_selectors.induct) (auto split: sum.splits intro: returns_rbind)

lemma returns_label_selector [simp]: "returns (label_selector k ls)"
  by (auto simp: label_selector_def split: option.splits sum.splits)

lemma returns_resource_watched [simp]: "returns (resource_watched k w ob nss ls nms)"
  unfolding resource_watched_def MatchesAnyNamespaceSelector_def MatchesLabelSelectors_def
  by (auto intro!: returns_rbind simp: Let_def split: option.splits)

lemma namespace_selectors_Ok_iff:
  "namespace_selectors k ss = Ok fs \<longleftrightarrow> list_all2 (\<lambda>s f. k_Selector k s = Inr f) ss fs"
  by (induction ss arbitrary: fs) (auto simp: go_simps list_all2_Cons1 split: sum.splits)

lemma namespace_selectors_Ok_ex:
  "namespace_selectors k ss = Ok fs \<Longrightarrow>
     list_ex (\<lambda>f. f l) fs \<longleftrightarrow> (\<exists>s \<in> set ss. \<exists>f. k_Selector k s = Inr f \<and> f l)"
  unfolding namespace_selectors_Ok_iff
  by (induction rule: list_all2_induct) auto

text \<open>When every selector is well formed, an object is watched iff all three criteria hold.\<close>

definition criteria_hold ::
  "'w kube \<Rightarrow> 'w \<Rightarrow> Object \<Rightarrow> LabelSelector list \<Rightarrow> LabelSelector option \<Rightarrow> string list \<Rightarrow> bool" where
  "criteria_hold k w ob nss ls nms \<longleftrightarrow>
     (nss = [] \<or> (\<exists>nsLabels. k_GetNamespace k w (GetNamespace ob) = Inr nsLabels
        \<and> (\<exists>s \<in> set nss. \<exists>f. k_Selector k s = Inr f \<and> f nsLabels)))
   \<and> (\<forall>s. ls = Some s \<longrightarrow> (\<exists>f. k_Selector k s = Inr f \<and> f (GetLabels ob)))
   \<and> (nms = [] \<or> GetName ob \<in> set nms)"

definition selectors_valid :: "'w kube \<Rightarrow> LabelSelector list \<Rightarrow> LabelSelector option \<Rightarrow> bool" where
  "selectors_valid k nss ls \<longleftrightarrow>
     (\<forall>s \<in> set nss. \<exists>f. k_Selector k s = Inr f) \<and> (\<forall>s. ls = Some s \<longrightarrow> (\<exists>f. k_Selector k s = Inr f))"

lemma namespace_selectors_valid:
  "(\<exists>fs. namespace_selectors k ss = Ok fs) \<longleftrightarrow> (\<forall>s \<in> set ss. \<exists>f. k_Selector k s = Inr f)"
  by (induction ss) (auto simp: go_simps split: sum.splits)

lemma resource_watched_steps:
  "resource_watched k w ob nss ls nms = Ok True \<longleftrightarrow>
     (\<exists>fs lf. namespace_selectors k nss = Ok fs \<and> label_selector k ls = Ok lf
        \<and> MatchesAnyNamespaceSelector k w ob fs = Ok True
        \<and> MatchesLabelSelectors ob lf = Ok True \<and> IsNameInList ob (set nms))"
  unfolding resource_watched_def rbind_Ok_iff Let_def
  by (auto split: if_splits)

lemma label_selector_match:
  "(\<exists>lf. label_selector k ls = Ok lf \<and> MatchesLabelSelectors ob lf = Ok True) \<longleftrightarrow>
     (\<forall>s. ls = Some s \<longrightarrow> (\<exists>f. k_Selector k s = Inr f \<and> f (GetLabels ob)))"
  by (auto simp: label_selector_def MatchesLabelSelectors_def split: option.split sum.split)

lemma namespace_selector_match:
  assumes "namespace_selectors k nss = Ok fs"
  shows "MatchesAnyNamespaceSelector k w ob fs = Ok True \<longleftrightarrow>
     nss = [] \<or> (\<exists>nsLabels. k_GetNamespace k w (GetNamespace ob) = Inr nsLabels
        \<and> (\<exists>s \<in> set nss. \<exists>f. k_Selector k s = Inr f \<and> f nsLabels))"
proof -
  have "length fs = length nss"
    using assms by (auto simp: namespace_selectors_Ok_iff dest: list_all2_lengthD)
  then show ?thesis
    by (cases "k_GetNamespace k w (GetNamespace ob)")
      (simp_all add: MatchesAnyNamespaceSelector_def namespace_selectors_Ok_ex [OF assms])
qed

lemma resource_watched_Ok_True_iff:
  "resource_watched k w ob nss ls nms = Ok True \<longleftrightarrow>
     selectors_valid k nss ls \<and> criteria_hold k w ob nss ls nms"
proof -
  have "resource_watched k w ob nss ls nms = Ok True \<longleftrightarrow>
     (\<exists>fs. namespace_selectors k nss = Ok fs \<and> MatchesAnyNamespaceSelector k w ob fs = Ok True)
     \<and> (\<forall>s. ls = Some s \<longrightarrow> (\<exists>f. k_Selector k s = Inr f \<and> f (GetLabels ob)))
     \<and> (nms = [] \<or> GetName ob \<in> set nms)"
    unfolding resource_watched_steps label_selector_match [symmetric]
    by (auto simp: IsNameInList_def)
  also have "\<dots> \<longleftrightarrow> selectors_valid k nss ls \<and> criteria_hold k w ob nss ls nms"
  proof (cases "\<exists>fs. namespace_selectors k nss = Ok fs")
    case True
    then obtain fs where fs: "namespace_selectors k nss = Ok fs" by blast
    then have one: "(\<exists>fs. namespace_selectors k nss = Ok fs \<and> MatchesAnyNamespaceSelector k w ob fs = Ok True)
      \<longleftrightarrow> MatchesAnyNamespaceSelector k w ob fs = Ok True" by simp
    have "\<forall>s \<in> set nss. \<exists>f. k_Selector k s = Inr f"
      using True namespace_selectors_valid [of k nss] by blast
    then show ?thesis
      unfolding one namespace_selector_match [OF fs] selectors_valid_def criteria_hold_def by metis
  next
    case False
    with namespace_selectors_valid [of k nss] show ?thesis
      unfolding selectors_valid_def by blast
  qed
  finally show ?thesis .
qed

lemma filter_watched_eq:
  "(\<And>x. x \<in> set xs \<Longrightarrow> returns (f x)) \<Longrightarrow> filter_watched f xs = Ok (filter (\<lambda>x. f x = Ok True) xs)"
proof (induction xs)
  case Nil
  show ?case by simp
next
  case (Cons x xs)
  then have "returns (f x)" by simp
  then show ?case using Cons by (cases rule: returns_cases) auto
qed

end
