(* ===== verification/DeploymentHandler.thy ===== *)
theory DeploymentHandler
  imports Handlers Fixture
begin

text \<open>
  The Deployment destination (\<^verbatim>\<open>internal/handler/deployment\<close>): which Deployments a destination
  selects, when one references a secret, the annotation patch that triggers a rollout, and the
  loop that waits for the rollout. The wait is given a number of timer wake-ups
  (\<open>fuel\<close>); it is \<open>Blocked\<close> only while that many wake-ups have brought neither the timeout nor a
  result, and \<open>waitFor_returns\<close> says how many are enough.
\<close>

section \<open>Filter\<close>

definition deployment_isResourceWatched ::
  "'w kube \<Rightarrow> 'w \<Rightarrow> Deployment \<Rightarrow> DestinationToWatch \<Rightarrow> bool result" where
  "deployment_isResourceWatched k w deployment dest =
     (case dw_Deployment dest of
        None \<Rightarrow> Err (errors_New ''watch type is not deployment'')
      | Some watchCriteria \<Rightarrow>
          resource_watched k w (ODeployment deployment) (dd_NamespaceSelectors watchCriteria)
            (dd_LabelSelectors watchCriteria) (dd_Names watchCriteria))"

definition deployment_Filter ::
  "'w kube \<Rightarrow> DestinationToWatch \<Rightarrow> DestinationToWatch \<Rightarrow> SecretRotationEvent \<Rightarrow> 'w \<Rightarrow> Object list result" where
  "deployment_Filter k destinationCache destination event w =
     (case dw_Deployment destination of
        None \<Rightarrow> Err (errors_New ''destination isn't type Deployment'')
      | Some _ \<Rightarrow>
          (let opts = (if ev_Namespace event \<noteq> [] then Some (ev_Namespace event) else None) in
           rbind (map_err (Wrapf ''failed to list Deployments:%w'' []) (lift (k_ListDeployments k w opts)))
             (\<lambda>items. rbind (filter_watched (\<lambda>d. deployment_isResourceWatched k w d destinationCache) items)
                (\<lambda>objs. Ok (map ODeployment objs)))))"

section \<open>Apply\<close>

text \<open>The two annotations on the pod template; a nil annotation map is allocated first.\<close>

definition reloaded_annotations :: "SecretRotationEvent \<Rightarrow> labels option \<Rightarrow> labels" where
  "reloaded_annotations event anns =
     (let annotations = (case anns of None \<Rightarrow> Map.empty | Some a \<Rightarrow> a) in
      annotations(''reloader.external-secrets.io/last-reloaded'' \<mapsto> ev_RotationTimestamp event,
                  ''reloader.external-secrets.io/trigger-source'' \<mapsto> ev_TriggerSource event))"

definition mark_deployment :: "SecretRotationEvent \<Rightarrow> Deployment \<Rightarrow> Deployment" where
  "mark_deployment event deployment =
     (let tpl = dep_Template deployment;
          annotations = reloaded_annotations event (pts_Annotations tpl)
      in deployment\<lparr>dep_Template := tpl\<lparr>pts_Annotations := Some annotations\<rparr>\<rparr>)"

definition deployment_apply ::
  "'w kube \<Rightarrow> Object \<Rightarrow> SecretRotationEvent \<Rightarrow> 'w \<Rightarrow> Object result \<times> 'w" where
  "deployment_apply k ob event w =
     (case ob of
        ODeployment deployment \<Rightarrow>
          (let deployment' = ODeployment (mark_deployment event deployment) in
           case k_Update k w deployment' of
             (Some e, w') \<Rightarrow> (Err (Wrapf ''failed to update Deployment:%w'' [] e), w')
           | (None, w') \<Rightarrow> (Ok deployment', w'))
      | _ \<Rightarrow> (Err (errors_New ''obj isn't type Deployment''), w))"

section \<open>WaitFor\<close>

definition isDeploymentRolloutComplete :: "Deployment \<Rightarrow> bool" where
  "isDeploymentRolloutComplete deployment =
     (if om_Generation (dep_Meta deployment) \<noteq> dep_ObservedGeneration deployment then False
      else if dep_Paused deployment then False
      else list_ex (\<lambda>condition.
        dc_Type condition = ''Progressing'' \<and> dc_Status condition = ''True''
        \<and> dc_Reason condition = ''NewReplicaSetAvailable''
        \<and> (case dep_Replicas deployment of
             None \<Rightarrow> False
           | Some replicas \<Rightarrow>
               dep_UpdatedReplicas deployment = replicas
               \<and> dep_AvailableReplicas deployment = replicas
               \<and> dep_ReadyReplicas deployment = replicas)) (dep_Conditions deployment))"

fun waitFor_loop :: "'w kube \<Rightarrow> nat \<Rightarrow> Deployment \<Rightarrow> 'w \<Rightarrow> unit result \<times> 'w" where
  "waitFor_loop k 0 deployment w = (Blocked, w)"
| "waitFor_loop k (Suc fuel) deployment w =
     (case k_Wake k w of
        (TimeoutFired, w') \<Rightarrow>
          (Err (Errorf ''timeout waiting for deployment %s/%s rollout to complete''
             [StrArg (om_Namespace (dep_Meta deployment)), StrArg (om_Name (dep_Meta deployment))]), w')
      | (TickerFired, w') \<Rightarrow>
          (case k_GetDeployment k w' (NamespacedName (om_Namespace (dep_Meta deployment)) (om_Name (dep_Meta deployment))) of
             Inl e \<Rightarrow> (Err (Wrapf ''failed to get deployment: %w'' [] e), w')
           | Inr currentDeployment \<Rightarrow>
               (if isDeploymentRolloutComplete currentDeployment then (Ok (), w')
                else waitFor_loop k fuel deployment w')))"

definition deployment_waitFor :: "'w kube \<Rightarrow> nat \<Rightarrow> Object \<Rightarrow> 'w \<Rightarrow> unit result \<times> 'w" where
  "deployment_waitFor k fuel ob w =
     (case ob of
        ODeployment deployment \<Rightarrow> waitFor_loop k fuel deployment w
      | _ \<Rightarrow> (Err (errors_New ''object is not a Deployment''), w))"

section \<open>References\<close>

definition containsKey :: "Container \<Rightarrow> string \<Rightarrow> bool" where
  "containsKey container identifier =
     (list_ex (\<lambda>valueFrom.
        (case valueFrom of None \<Rightarrow> False | Some src \<Rightarrow> evs_SecretKeyRef src = Some identifier)
        \<or> (case valueFrom of None \<Rightarrow> False | Some src \<Rightarrow> evs_ConfigMapKeyRef src = Some identifier))
        (con_Env container)
      \<or> list_ex (\<lambda>envFrom. efs_SecretRef envFrom = Some identifier \<or> efs_ConfigMapRef envFrom = Some identifier)
        (con_EnvFrom container))"

definition deployment_references :: "Object \<Rightarrow> string \<Rightarrow> bool result" where
  "deployment_references ob identifier =
     (case ob of
        ODeployment deployment \<Rightarrow>
          Ok (list_ex (\<lambda>container. containsKey container identifier) (pts_Containers (dep_Template deployment)))
      | _ \<Rightarrow> Err (errors_New ''obj isn't type Deployment''))"

section \<open>NewHandler\<close>

definition deployment_NewHandler :: "'w kube \<Rightarrow> nat \<Rightarrow> DestinationToWatch \<Rightarrow> 'w Handler" where
  "deployment_NewHandler k fuel cache =
     \<lparr>h_Filter = deployment_Filter k cache,
      h_applyFn = deployment_apply k,
      h_referenceFn = deployment_references,
      h_waitForFn = deployment_waitFor k fuel\<rparr>"

section \<open>The contract holds\<close>

lemma deployment_Filter_eq:
  assumes "dw_Deployment dest = Some crit"
  shows "deployment_Filter k dest dest event w =
    map_err (Wrapf ''failed to list Deployments:%w'' [])
      (rbind (lift (k_ListDeployments k w (if ev_Namespace event \<noteq> [] then Some (ev_Namespace event) else None)))
        (\<lambda>items. Ok (map ODeployment
          (filter (\<lambda>d. selectors_valid k (dd_NamespaceSelectors crit) (dd_LabelSelectors crit)
             \<and> criteria_hold k w (ODeployment d) (dd_NamespaceSelectors crit) (dd_LabelSelectors crit) (dd_Names crit))
             items))))"
  using assms
  by (cases "k_ListDeployments k w (if ev_Namespace event \<noteq> [] then Some (ev_Namespace event) else None)")
    (simp_all add: deployment_Filter_def Let_def deployment_isResourceWatched_def filter_watched_eq
      resource_watched_Ok_True_iff)

lemma returns_deployment_isResourceWatched [simp]: "returns (deployment_isResourceWatched k w d dest)"
  by (simp add: deployment_isResourceWatched_def split: option.split)

lemma deployment_Filter_returns: "returns (deployment_Filter k cache dest event w)"
  by (auto simp: deployment_Filter_def Let_def filter_watched_eq intro!: returns_rbind split: option.split)

lemma deployment_Filter_kind:
  "deployment_Filter k cache dest event w = Ok objs \<Longrightarrow> ob \<in> set objs \<Longrightarrow> \<exists>d. ob = ODeployment d"
  by (auto simp: deployment_Filter_def Let_def filter_watched_eq go_simps split: option.splits)

lemma waitFor_loop_path: "world_path k {} w (snd (waitFor_loop k fuel d w))"
proof (induction k fuel d w rule: waitFor_loop.induct)
  case (1 k d w)
  show ?case by (simp add: world_path.path_refl)
next
  case (2 k fuel d w)
  obtain e w' where wake: "k_Wake k w = (e, w')" by (cases "k_Wake k w")
  then have one: "world_path k {} w w'"
    using world_path.path_wake [OF world_path.path_refl, of k "{}" w] by simp
  show ?case
  proof (cases e)
    case TimeoutFired
    with wake one show ?thesis by simp
  next
    case TickerFired
    show ?thesis
      using 2 [OF wake [symmetric] TickerFired] wake TickerFired one
      by (auto split: sum.split intro: world_path_trans)
  qed
qed

interpretation deployment_handler: destination_handler k "deployment_NewHandler k fuel cache"
  "\<lambda>ob. \<exists>d. ob = ODeployment d"
  "\<lambda>ev ob. case ob of ODeployment d \<Rightarrow> ODeployment (mark_deployment ev d) | _ \<Rightarrow> ob"
proof unfold_locales
  show "world_path k {} w (snd (WaitFor (deployment_NewHandler k fuel cache) ob w))" for w ob
    by (auto simp: WaitFor_def deployment_NewHandler_def deployment_waitFor_def waitFor_loop_path
        intro: world_path.path_refl split: Object.split)
qed (auto simp: deployment_NewHandler_def References_def Apply_def deployment_references_def
    deployment_apply_def deployment_Filter_returns dest: deployment_Filter_kind)

section \<open>The rollout wait\<close>

text \<open>The world after \<open>n\<close> timer events.\<close>

definition after_wakes :: "'w kube \<Rightarrow> nat \<Rightarrow> 'w \<Rightarrow> 'w" where
  "after_wakes k n w = ((\<lambda>v. snd (k_Wake k v)) ^^ n) w"

definition dep_key :: "Deployment \<Rightarrow> NamespacedName" where
  "dep_key d = NamespacedName (om_Namespace (dep_Meta d)) (om_Name (dep_Meta d))"

lemma after_wakes_simps [simp]:
  "after_wakes k 0 w = w" "after_wakes k (Suc n) w = after_wakes k n (snd (k_Wake k w))"
  by (simp_all add: after_wakes_def funpow_Suc_right del: funpow.simps(2))

lemma waitFor_loop_Ok:
  "waitFor_loop k fuel d w = (Ok (), w') \<Longrightarrow>
     \<exists>i < fuel. w' = after_wakes k (Suc i) w
       \<and> (\<forall>j \<le> i. fst (k_Wake k (after_wakes k j w)) = TickerFired)
       \<and> (\<exists>cur. k_GetDeployment k w' (dep_key d) = Inr cur \<and> isDeploymentRolloutComplete cur)"
proof (induction k fuel d w rule: waitFor_loop.induct)
  case (1 k d w)
  then show ?case by simp
next
  case (2 k fuel d w)
  obtain v where wake: "k_Wake k w = (TickerFired, v)"
    using "2.prems" by (cases "k_Wake k w"; cases "fst (k_Wake k w)") auto
  obtain cur where cur: "k_GetDeployment k v (dep_key d) = Inr cur"
    using "2.prems" wake by (cases "k_GetDeployment k v (dep_key d)") (auto simp: dep_key_def)
  show ?case
  proof (cases "isDeploymentRolloutComplete cur")
    case True
    with "2.prems" wake cur have "w' = v" by (simp add: dep_key_def)
    with True wake cur show ?thesis by (intro exI [of _ 0]) auto
  next
    case False
    with "2.prems" wake cur have "waitFor_loop k fuel d v = (Ok (), w')" by (simp add: dep_key_def)
    with "2.IH" [OF wake [symmetric] refl] cur False obtain i where
      i: "i < fuel" "w' = after_wakes k (Suc i) v"
        "\<forall>j \<le> i. fst (k_Wake k (after_wakes k j v)) = TickerFired"
        "\<exists>cur. k_GetDeployment k w' (dep_key d) = Inr cur \<and> isDeploymentRolloutComplete cur"
      by (auto simp: dep_key_def)
    have "fst (k_Wake k (after_wakes k j w)) = TickerFired" if "j \<le> Suc i" for j
      using that i(3) wake by (cases j) auto
    with i wake show ?thesis
      by (intro exI [of _ "Suc i"]) simp
  qed
qed

lemma waitFor_loop_timeout:
  "fst (k_Wake k (after_wakes k n w)) = TimeoutFired \<Longrightarrow> n < fuel \<Longrightarrow>
     returns (fst (waitFor_loop k fuel d w)) \<and> waitFor_loop k fuel d w = waitFor_loop k (Suc n) d w"
proof (induction fuel arbitrary: n w)
  case 0
  then show ?case by simp
next
  case (Suc fuel)
  obtain e v where wake: "k_Wake k w = (e, v)" by (cases "k_Wake k w")
  show ?case
  proof (cases n)
    case 0
    with Suc.prems wake show ?thesis by simp
  next
    case (Suc m)
    with Suc.prems wake have "returns (fst (waitFor_loop k fuel d v))
        \<and> waitFor_loop k fuel d v = waitFor_loop k (Suc m) d v"
      by (intro Suc.IH) simp_all
    with Suc wake show ?thesis
      by (cases e) (auto split: sum.split simp del: waitFor_loop.simps(2) simp: waitFor_loop.simps(2) [of k _ d w])
  qed
qed

text \<open>
  C31: \<^verbatim>\<open>WaitFor\<close> on a Deployment reports success only after a ticker event at which the server
  returned the Deployment of that name with its rollout complete, and only if the timeout had
  not fired before.
\<close>

theorem waitFor_success:
  assumes "deployment_waitFor k fuel (ODeployment d) w = (Ok (), w')"
  shows "\<exists>i < fuel. w' = after_wakes k (Suc i) w
       \<and> (\<forall>j \<le> i. fst (k_Wake k (after_wakes k j w)) = TickerFired)
       \<and> (\<exists>cur. k_GetDeployment k w' (dep_key d) = Inr cur \<and> isDeploymentRolloutComplete cur)"
  using assms by (intro waitFor_loop_Ok) (simp add: deployment_waitFor_def)

lemma fixture_waitFor:
  "deployment_waitFor (fixture_kube [fixture_deployment ''app'' ''db'' True] [] [] [] Map.empty) 3
     (ODeployment (fixture_deployment ''app'' ''db'' True)) fixture_start
   = (Ok (), fixture_start\<lparr>fw_clock := 1\<rparr>)"
  by (simp add: deployment_waitFor_def fixture_defs isDeploymentRolloutComplete_def numeral_3_eq_3)

theorem waitFor_success_witness:
  "\<exists>i < 3. fixture_start\<lparr>fw_clock := 1\<rparr> =
       after_wakes (fixture_kube [fixture_deployment ''app'' ''db'' True] [] [] [] Map.empty) (Suc i) fixture_start"
  using waitFor_success [OF fixture_waitFor] by blast

text \<open>
  C32: the wait ends. If the timeout is what the select wakes up on after \<open>n\<close> earlier timer
  events, the wait returns, with success or an error, within \<open>n + 1\<close> wake-ups, and any larger
  number of wake-ups gives the same outcome.
\<close>

theorem waitFor_returns:
  assumes "fst (k_Wake k (after_wakes k n w)) = TimeoutFired" and "n < fuel"
  shows "returns (fst (deployment_waitFor k fuel (ODeployment d) w))
    \<and> deployment_waitFor k fuel (ODeployment d) w = deployment_waitFor k (Suc n) (ODeployment d) w"
  using waitFor_loop_timeout [OF assms, of d] unfolding deployment_waitFor_def Object.case .

theorem waitFor_returns_witness:
  "returns (fst (deployment_waitFor (fixture_kube [fixture_deployment ''app'' ''db'' False] [] [] [] Map.empty) 6001
     (ODeployment (fixture_deployment ''app'' ''db'' False)) fixture_start))"
proof -
  let ?k = "fixture_kube [fixture_deployment ''app'' ''db'' False] [] [] [] Map.empty"
  have "fst (k_Wake ?k (after_wakes ?k 1 fixture_start)) = TimeoutFired"
    by (simp add: fixture_defs)
  then show ?thesis
    by (rule conjunct1 [OF waitFor_returns]) simp
qed

section \<open>References and the patch\<close>

definition deployment_mentions :: "Deployment \<Rightarrow> string \<Rightarrow> bool" where
  "deployment_mentions d ident \<longleftrightarrow>
     (\<exists>c \<in> set (pts_Containers (dep_Template d)).
        (\<exists>src. Some src \<in> set (con_Env c) \<and> ident \<in> set_option (evs_SecretKeyRef src) \<union> set_option (evs_ConfigMapKeyRef src))
      \<or> (\<exists>src \<in> set (con_EnvFrom c). ident \<in> set_option (efs_SecretRef src) \<union> set_option (efs_ConfigMapRef src)))"

lemma containsKey_iff:
  "containsKey c ident \<longleftrightarrow>
     (\<exists>src. Some src \<in> set (con_Env c) \<and> (evs_SecretKeyRef src = Some ident \<or> evs_ConfigMapKeyRef src = Some ident))
   \<or> (\<exists>src \<in> set (con_EnvFrom c). efs_SecretRef src = Some ident \<or> efs_ConfigMapRef src = Some ident)"
  unfolding containsKey_def list_ex_iff by (auto split: option.splits)

lemma reloaded_annotations_frame:
  "reloaded_annotations ev anns ''reloader.external-secrets.io/last-reloaded'' = Some (ev_RotationTimestamp ev)"
  "reloaded_annotations ev anns ''reloader.external-secrets.io/trigger-source'' = Some (ev_TriggerSource ev)"
  "reloaded_annotations ev anns |` (- {''reloader.external-secrets.io/last-reloaded'', ''reloader.external-secrets.io/trigger-source''})
     = (case anns of None \<Rightarrow> Map.empty | Some old \<Rightarrow> old)
       |` (- {''reloader.external-secrets.io/last-reloaded'', ''reloader.external-secrets.io/trigger-source''})"
  by (auto simp: reloaded_annotations_def Let_def restrict_map_def)

text \<open>
  C33: a Deployment is taken to reference an identifier exactly when a variable or an
  \<^verbatim>\<open>envFrom\<close> entry of one of its containers names a Secret or ConfigMap of that name; the event
  patch changes neither that, nor anything of the Deployment but the two annotations of the
  pod template.
\<close>

theorem deployment_patch_frame:
  "deployment_references (ODeployment d) ident = Ok (deployment_mentions d ident)
   \<and> deployment_references (ODeployment (mark_deployment ev d)) ident = deployment_references (ODeployment d) ident
   \<and> (mark_deployment ev d)\<lparr>dep_Template := dep_Template d\<rparr> = d
   \<and> (\<exists>a. pts_Annotations (dep_Template (mark_deployment ev d)) = Some a
        \<and> a ''reloader.external-secrets.io/last-reloaded'' = Some (ev_RotationTimestamp ev)
        \<and> a ''reloader.external-secrets.io/trigger-source'' = Some (ev_TriggerSource ev)
        \<and> a |` (- {''reloader.external-secrets.io/last-reloaded'', ''reloader.external-secrets.io/trigger-source''})
          = (case pts_Annotations (dep_Template d) of None \<Rightarrow> Map.empty | Some old \<Rightarrow> old)
            |` (- {''reloader.external-secrets.io/last-reloaded'', ''reloader.external-secrets.io/trigger-source''}))"
proof -
  have "deployment_references (ODeployment d) ident = Ok (deployment_mentions d ident)"
    by (auto simp: deployment_references_def deployment_mentions_def list_ex_iff containsKey_iff)
  moreover have "deployment_references (ODeployment (mark_deployment ev d)) ident = deployment_references (ODeployment d) ident"
    by (simp add: deployment_references_def mark_deployment_def Let_def)
  moreover have "(mark_deployment ev d)\<lparr>dep_Template := dep_Template d\<rparr> = d"
    by (simp add: mark_deployment_def Let_def)
  moreover have "pts_Annotations (dep_Template (mark_deployment ev d))
      = Some (reloaded_annotations ev (pts_Annotations (dep_Template d)))"
    by (simp add: mark_deployment_def Let_def)
  ultimately show ?thesis
    by (simp add: reloaded_annotations_frame)
qed

end
