(* ===== verification/SecretHandlers.thy ===== *)
theory SecretHandlers
  imports Handlers
begin

text \<open>
  The ExternalSecret, PushSecret and WorkflowRunTemplate destinations
  (\<^verbatim>\<open>internal/handler/externalsecret\<close>, \<^verbatim>\<open>pushsecret\<close>, \<^verbatim>\<open>workflow\<close>). All three annotate the object
  itself and do not wait; they differ in how an object references a secret. The regular
  expression of an ExternalSecret is compiled with \<^verbatim>\<open>regexp.MustCompile\<close>, which panics when it
  does not parse.
\<close>

section \<open>The common annotation patch\<close>

definition rotated_annotations :: "SecretRotationEvent \<Rightarrow> labels option \<Rightarrow> labels" where
  "rotated_annotations event anns =
     (let annotations = (case anns of None \<Rightarrow> Map.empty | Some a \<Rightarrow> a) in
      annotations(''reloader/last-rotated'' \<mapsto> ev_RotationTimestamp event,
                  ''reloader/trigger-source'' \<mapsto> ev_TriggerSource event))"

definition mark_rotated :: "SecretRotationEvent \<Rightarrow> Object \<Rightarrow> Object" where
  "mark_rotated event ob = SetAnnotations (rotated_annotations event (GetAnnotations ob)) ob"

section \<open>ExternalSecret\<close>

definition externalsecret_isResourceWatched ::
  "'w kube \<Rightarrow> 'w \<Rightarrow> ExternalSecret \<Rightarrow> DestinationToWatch \<Rightarrow> bool result" where
  "externalsecret_isResourceWatched k w es dest =
     (case dw_ExternalSecret dest of
        None \<Rightarrow> Err (errors_New ''watch type is not externalSecret'')
      | Some watchCriteria \<Rightarrow>
          resource_watched k w (OExternalSecret es) (esd_NamespaceSelectors watchCriteria)
            (esd_LabelSelectors watchCriteria) (esd_Names watchCriteria))"

definition externalsecret_Filter ::
  "'w kube \<Rightarrow> DestinationToWatch \<Rightarrow> DestinationToWatch \<Rightarrow> SecretRotationEvent \<Rightarrow> 'w \<Rightarrow> Object list result" where
  "externalsecret_Filter k destinationCache destination event w =
     (case dw_ExternalSecret destination of
        None \<Rightarrow> Err (errors_New ''destination isn't type ExternalSecret'')
      | Some _ \<Rightarrow>
          rbind (map_err (Wrapf ''failed to list ExternalSecrets:%w'' []) (lift (k_ListExternalSecrets k w)))
            (\<lambda>items. rbind (filter_watched (\<lambda>es. externalsecret_isResourceWatched k w es destinationCache) items)
               (\<lambda>objs. Ok (map OExternalSecret objs))))"

definition externalsecret_apply ::
  "'w kube \<Rightarrow> Object \<Rightarrow> SecretRotationEvent \<Rightarrow> 'w \<Rightarrow> Object result \<times> 'w" where
  "externalsecret_apply k es event w =
     (let es' = mark_rotated event es in
      case k_Update k w es' of
        (Some e, w') \<Rightarrow> (Err (Wrapf ''failed to update ExternalSecret:%w'' [] e), w')
      | (None, w') \<Rightarrow> (Ok es', w'))"

definition externalsecret_waitFor :: "Object \<Rightarrow> 'w \<Rightarrow> unit result \<times> 'w" where
  "externalsecret_waitFor ob w = (Ok (), w)"

text \<open>The loop over \<^verbatim>\<open>Spec.DataFrom\<close>: equality on \<^verbatim>\<open>Extract.Key\<close>, then the regular expression.\<close>

fun dataFrom_references :: "'w kube \<Rightarrow> string \<Rightarrow> ExternalSecretDataFrom list \<Rightarrow> bool result" where
  "dataFrom_references k secretIdentifier [] = Ok False"
| "dataFrom_references k secretIdentifier (dataFrom # rest) =
     (if esf_ExtractKey dataFrom = Some secretIdentifier then Ok True
      else
        (case esf_FindNameRegExp dataFrom of
           Some (Some expr) \<Rightarrow>
             (case k_Regexp k expr of
                None \<Rightarrow> Panic ''regexp: Compile''
              | Some matchString \<Rightarrow>
                  (if matchString secretIdentifier then Ok True
                   else dataFrom_references k secretIdentifier rest))
         | _ \<Rightarrow> dataFrom_references k secretIdentifier rest))"

definition template_references :: "string \<Rightarrow> TemplateFrom list option \<Rightarrow> bool" where
  "template_references secretIdentifier tmpl =
     (case tmpl of
        None \<Rightarrow> False
      | Some tfs \<Rightarrow>
          list_ex (\<lambda>tf. tf_ConfigMap tf = Some secretIdentifier \<or> tf_Secret tf = Some secretIdentifier) tfs)"

definition externalsecret_references :: "'w kube \<Rightarrow> Object \<Rightarrow> string \<Rightarrow> bool result" where
  "externalsecret_references k ob secretIdentifier =
     (case ob of
        OExternalSecret es \<Rightarrow>
          (if list_ex (\<lambda>key. key = secretIdentifier) (es_DataRemoteKeys es) then Ok True
           else rbind (dataFrom_references k secretIdentifier (es_DataFrom es))
             (\<lambda>found. if found then Ok True
                else Ok (template_references secretIdentifier (es_TargetTemplate es))))
      | _ \<Rightarrow> Err (errors_New ''obj isn't type ExternalSecret''))"

definition externalsecret_NewHandler :: "'w kube \<Rightarrow> DestinationToWatch \<Rightarrow> 'w Handler" where
  "externalsecret_NewHandler k cache =
     \<lparr>h_Filter = externalsecret_Filter k cache,
      h_applyFn = externalsecret_apply k,
      h_referenceFn = externalsecret_references k,
      h_waitForFn = externalsecret_waitFor\<rparr>"

section \<open>PushSecret\<close>

definition pushsecret_isResourceWatched ::
  "'w kube \<Rightarrow> 'w \<Rightarrow> PushSecret \<Rightarrow> DestinationToWatch \<Rightarrow> bool result" where
  "pushsecret_isResourceWatched k w ps dest =
     (case dw_PushSecret dest of
        None \<Rightarrow> Err (errors_New ''watch type is not pushSecret'')
      | Some watchCriteria \<Rightarrow>
          resource_watched k w (OPushSecret ps) (psd_NamespaceSelectors watchCriteria)
            (psd_LabelSelectors watchCriteria) (psd_Names watchCriteria))"

definition pushsecret_Filter ::
  "'w kube \<Rightarrow> DestinationToWatch \<Rightarrow> DestinationToWatch \<Rightarrow> SecretRotationEvent \<Rightarrow> 'w \<Rightarrow> Object list result" where
  "pushsecret_Filter k destinationCache destination event w =
     (case dw_PushSecret destination of
        None \<Rightarrow> Err (errors_New ''destination isn't type PushSecret'')
      | Some _ \<Rightarrow>
          rbind (map_err (Wrapf ''failed to list PushSecrets:%w'' []) (lift (k_ListPushSecrets k w)))
            (\<lambda>items. rbind (filter_watched (\<lambda>ps. pushsecret_isResourceWatched k w ps destinationCache) items)
               (\<lambda>objs. Ok (map OPushSecret objs))))"

definition pushsecret_apply ::
  "'w kube \<Rightarrow> Object \<Rightarrow> SecretRotationEvent \<Rightarrow> 'w \<Rightarrow> Object result \<times> 'w" where
  "pushsecret_apply k ps event w =
     (let ps' = mark_rotated event ps in
      case k_Update k w ps' of
        (Some e, w') \<Rightarrow> (Err (Wrapf ''failed to update PushSecret:%w'' [] e), w')
      | (None, w') \<Rightarrow> (Ok ps', w'))"

definition pushsecret_waitFor :: "Object \<Rightarrow> 'w \<Rightarrow> unit result \<times> 'w" where
  "pushsecret_waitFor ob w = (Ok (), w)"

definition pushsecret_references :: "Object \<Rightarrow> string \<Rightarrow> bool result" where
  "pushsecret_references ob secretIdentifier =
     (case ob of
        OPushSecret ps \<Rightarrow>
          (if ps_SelectorSecret ps = Some secretIdentifier then Ok True
           else Ok (list_ex (\<lambda>remoteKey. remoteKey = secretIdentifier) (ps_DataRemoteKeys ps)))
      | _ \<Rightarrow> Err (errors_New ''obj isn't type PushSecret''))"

definition pushsecret_NewHandler :: "'w kube \<Rightarrow> DestinationToWatch \<Rightarrow> 'w Handler" where
  "pushsecret_NewHandler k cache =
     \<lparr>h_Filter = pushsecret_Filter k cache,
      h_applyFn = pushsecret_apply k,
      h_referenceFn = pushsecret_references,
      h_waitForFn = pushsecret_waitFor\<rparr>"

section \<open>WorkflowRunTemplate\<close>

definition workflow_isResourceWatched ::
  "'w kube \<Rightarrow> 'w \<Rightarrow> Unstructured \<Rightarrow> DestinationToWatch \<Rightarrow> bool result" where
  "workflow_isResourceWatched k w wft dest =
     (case dw_WorkflowRunTemplate dest of
        None \<Rightarrow> Err (errors_New ''watch type is not Workflow'')
      | Some watchCriteria \<Rightarrow>
          resource_watched k w (OUnstructured wft) (wrd_NamespaceSelectors watchCriteria)
            (wrd_LabelSelectors watchCriteria) (wrd_Names watchCriteria))"

definition workflow_Filter ::
  "'w kube \<Rightarrow> DestinationToWatch \<Rightarrow> DestinationToWatch \<Rightarrow> SecretRotationEvent \<Rightarrow> 'w \<Rightarrow> Object list result" where
  "workflow_Filter k destinationCache destination event w =
     (case dw_WorkflowRunTemplate destination of
        None \<Rightarrow> Err (errors_New ''destination isn't type Workflow'')
      | Some _ \<Rightarrow>
          rbind (map_err (Wrapf ''failed to list Workflows: %w'' []) (lift (k_ListWorkflows k w)))
            (\<lambda>items. rbind (filter_watched (\<lambda>wft. workflow_isResourceWatched k w wft destinationCache) items)
               (\<lambda>objs. Ok (map OUnstructured objs))))"

definition workflow_apply ::
  "'w kube \<Rightarrow> Object \<Rightarrow> SecretRotationEvent \<Rightarrow> 'w \<Rightarrow> Object result \<times> 'w" where
  "workflow_apply k es event w =
     (let es' = mark_rotated event es in
      case k_Update k w es' of
        (Some e, w') \<Rightarrow> (Err (Wrapf ''failed to update WorkflowRunTemplate:%w'' [] e), w')
      | (None, w') \<Rightarrow> (Ok es', w'))"

definition workflow_waitFor :: "Object \<Rightarrow> 'w \<Rightarrow> unit result \<times> 'w" where
  "workflow_waitFor ob w = (Ok (), w)"

definition workflow_references :: "Object \<Rightarrow> string \<Rightarrow> bool result" where
  "workflow_references ob secretIdentifier = Ok True"

definition workflow_NewHandler :: "'w kube \<Rightarrow> DestinationToWatch \<Rightarrow> 'w Handler" where
  "workflow_NewHandler k cache =
     \<lparr>h_Filter = workflow_Filter k cache,
      h_applyFn = workflow_apply k,
      h_referenceFn = workflow_references,
      h_waitForFn = workflow_waitFor\<rparr>"

section \<open>The contract holds for all three\<close>

lemmas handler_iface_defs = References_def Apply_def WaitFor_def

lemma returns_externalsecret_isResourceWatched [simp]: "returns (externalsecret_isResourceWatched k w d dest)"
  by (simp add: externalsecret_isResourceWatched_def split: option.split)

lemma externalsecret_Filter_returns: "returns (externalsecret_Filter k cache dest event w)"
  by (auto simp: externalsecret_Filter_def filter_watched_eq intro!: returns_rbind split: option.split)

lemma externalsecret_Filter_kind:
  "externalsecret_Filter k cache dest event w = Ok objs \<Longrightarrow> ob \<in> set objs \<Longrightarrow> \<exists>d. ob = OExternalSecret d"
  by (auto simp: externalsecret_Filter_def filter_watched_eq go_simps split: option.splits)

lemma returns_pushsecret_isResourceWatched [simp]: "returns (pushsecret_isResourceWatched k w d dest)"
  by (simp add: pushsecret_isResourceWatched_def split: option.split)

lemma pushsecret_Filter_returns: "returns (pushsecret_Filter k cache dest event w)"
  by (auto simp: pushsecret_Filter_def filter_watched_eq intro!: returns_rbind split: option.split)

lemma pushsecret_Filter_kind:
  "pushsecret_Filter k cache dest event w = Ok objs \<Longrightarrow> ob \<in> set objs \<Longrightarrow> \<exists>d. ob = OPushSecret d"
  by (auto simp: pushsecret_Filter_def filter_watched_eq go_simps split: option.splits)

lemma returns_workflow_isResourceWatched [simp]: "returns (workflow_isResourceWatched k w d dest)"
  by (simp add: workflow_isResourceWatched_def split: option.split)

lemma workflow_Filter_returns: "returns (workflow_Filter k cache dest event w)"
  by (auto simp: workflow_Filter_def filter_watched_eq intro!: returns_rbind split: option.split)

lemma workflow_Filter_kind:
  "workflow_Filter k cache dest event w = Ok objs \<Longrightarrow> ob \<in> set objs \<Longrightarrow> \<exists>d. ob = OUnstructured d"
  by (auto simp: workflow_Filter_def filter_watched_eq go_simps split: option.splits)

lemma dataFrom_references_no_error: "dataFrom_references k ident dfs \<noteq> Err e"
  by (induction dfs) (auto split: option.splits)

lemma externalsecret_references_no_error: "externalsecret_references k (OExternalSecret es) ident \<noteq> Err e"
  using dataFrom_references_no_error [of k ident "es_DataFrom es"]
  by (cases "dataFrom_references k ident (es_DataFrom es)") (auto simp: externalsecret_references_def)

interpretation externalsecret_handler: destination_handler k "externalsecret_NewHandler k cache"
  "\<lambda>ob. \<exists>d. ob = OExternalSecret d" mark_rotated
  by unfold_locales
    (auto simp: externalsecret_NewHandler_def handler_iface_defs externalsecret_apply_def
      externalsecret_waitFor_def externalsecret_Filter_returns externalsecret_references_no_error
      dest: externalsecret_Filter_kind intro: world_path.path_refl)

interpretation pushsecret_handler: destination_handler k "pushsecret_NewHandler k cache"
  "\<lambda>ob. \<exists>d. ob = OPushSecret d" mark_rotated
  by unfold_locales
    (auto simp: pushsecret_NewHandler_def handler_iface_defs pushsecret_apply_def
      pushsecret_waitFor_def pushsecret_Filter_returns pushsecret_references_def
      dest: pushsecret_Filter_kind intro: world_path.path_refl split: if_splits)

interpretation workflow_handler: destination_handler k "workflow_NewHandler k cache"
  "\<lambda>ob. \<exists>d. ob = OUnstructured d" mark_rotated
  by unfold_locales
    (auto simp: workflow_NewHandler_def handler_iface_defs workflow_apply_def
      workflow_waitFor_def workflow_Filter_returns workflow_references_def
      dest: workflow_Filter_kind intro: world_path.path_refl)

section \<open>References\<close>

text \<open>Every regular expression of the ExternalSecret compiles.\<close>

definition regexps_valid :: "'w kube \<Rightarrow> ExternalSecret \<Rightarrow> bool" where
  "regexps_valid k es \<longleftrightarrow>
     list_all (\<lambda>df. case esf_FindNameRegExp df of Some (Some expr) \<Rightarrow> k_Regexp k expr \<noteq> None | _ \<Rightarrow> True)
       (es_DataFrom es)"

text \<open>What it means for an ExternalSecret to reference an identifier.\<close>

definition es_mentions :: "'w kube \<Rightarrow> ExternalSecret \<Rightarrow> string \<Rightarrow> bool" where
  "es_mentions k es ident \<longleftrightarrow>
     ident \<in> set (es_DataRemoteKeys es)
   \<or> (\<exists>df \<in> set (es_DataFrom es). esf_ExtractKey df = Some ident
        \<or> (\<exists>expr f. esf_FindNameRegExp df = Some (Some expr) \<and> k_Regexp k expr = Some f \<and> f ident))
   \<or> (\<exists>tfs. es_TargetTemplate es = Some tfs
        \<and> (\<exists>tf \<in> set tfs. tf_ConfigMap tf = Some ident \<or> tf_Secret tf = Some ident))"

lemma dataFrom_references_valid:
  "list_all (\<lambda>df. case esf_FindNameRegExp df of Some (Some expr) \<Rightarrow> k_Regexp k expr \<noteq> None | _ \<Rightarrow> True) dfs \<Longrightarrow>
   dataFrom_references k ident dfs =
     Ok (\<exists>df \<in> set dfs. esf_ExtractKey df = Some ident
        \<or> (\<exists>expr f. esf_FindNameRegExp df = Some (Some expr) \<and> k_Regexp k expr = Some f \<and> f ident))"
  by (induction dfs) (auto split: option.splits)

lemma externalsecret_references_valid:
  "regexps_valid k es \<Longrightarrow> externalsecret_references k (OExternalSecret es) ident = Ok (es_mentions k es ident)"
  by (auto simp: externalsecret_references_def regexps_valid_def es_mentions_def dataFrom_references_valid
      template_references_def list_ex_iff split: option.split)

end
