(* ===== verification/Processor.thy ===== *)
theory Processor
  imports DeploymentHandler SecretHandlers Fixture
begin

text \<open>
  The event processor (\<^verbatim>\<open>internal/handler/processor.go\<close>): the cache of destinations and
  \<^verbatim>\<open>HandleEvent\<close>, which walks the destinations, filters and checks the objects of each, and
  applies the update. The lemmas about the walk over the objects of one destination are
  proved once, for any \<open>destination_handler\<close>; the theorems about \<^verbatim>\<open>HandleEvent\<close> with the four
  registered handlers rest on the four interpretations.
\<close>

section \<open>State\<close>

record EventHandler =
  eh_cache :: "DestinationToWatch list"

type_synonym 'w provider = "DestinationToWatch \<Rightarrow> 'w Handler"

definition NewEventHandler :: EventHandler where
  "NewEventHandler = \<lparr>eh_cache = []\<rparr>"

definition UpdateDestinationsToWatch :: "DestinationToWatch list \<Rightarrow> EventHandler \<Rightarrow> EventHandler" where
  "UpdateDestinationsToWatch watch h = h\<lparr>eh_cache := watch\<rparr>"

section \<open>HandleEvent\<close>

text \<open>The inner loop: check, apply and wait, object by object.\<close>

fun process_objects :: "'w Handler \<Rightarrow> SecretRotationEvent \<Rightarrow> Object list \<Rightarrow> 'w \<Rightarrow> unit result \<times> 'w" where
  "process_objects h event [] w = (Ok (), w)"
| "process_objects h event (ob # objs) w =
     (case References h ob (ev_SecretIdentifier event) of
        Err e \<Rightarrow> (Err (Wrapf ''failed to check if object is referenced:%w'' [] e), w)
      | Panic p \<Rightarrow> (Panic p, w)
      | Blocked \<Rightarrow> (Blocked, w)
      | Ok isReferenced \<Rightarrow>
          (if \<not> isReferenced then process_objects h event objs w
           else
             (case Apply h ob event w of
                (Err e, w') \<Rightarrow> process_objects h event objs w'
              | (Panic p, w') \<Rightarrow> (Panic p, w')
              | (Blocked, w') \<Rightarrow> (Blocked, w')
              | (Ok ob', w') \<Rightarrow>
                  (case WaitFor h ob' w' of
                     (Err e, w'') \<Rightarrow> (Err (Wrapf ''failed to wait for object:%w'' [] e), w'')
                   | (Panic p, w'') \<Rightarrow> (Panic p, w'')
                   | (Blocked, w'') \<Rightarrow> (Blocked, w'')
                   | (Ok _, w'') \<Rightarrow> process_objects h event objs w''))))"

text \<open>One iteration of the outer loop: \<open>Inl\<close> returns from the function, \<open>Inr\<close> continues.\<close>

definition handle_destination ::
  "'w provider sync_map \<Rightarrow> DestinationToWatch \<Rightarrow> SecretRotationEvent \<Rightarrow> 'w \<Rightarrow> unit result \<times> 'w" where
  "handle_destination reg watchCriteria event w =
     (case handler_GetProvider reg (dw_Type watchCriteria) of
        None \<Rightarrow> (Ok (), w)
      | Some prov \<Rightarrow>
          (let h = prov watchCriteria in
           case h_Filter h watchCriteria event w of
             Err e \<Rightarrow> (Err (Wrapf ''failed to filter objects:%w'' [] e), w)
           | Panic p \<Rightarrow> (Panic p, w)
           | Blocked \<Rightarrow> (Blocked, w)
           | Ok objs \<Rightarrow> process_objects h event objs w))"

fun handle_cache ::
  "'w provider sync_map \<Rightarrow> DestinationToWatch list \<Rightarrow> SecretRotationEvent \<Rightarrow> 'w \<Rightarrow> unit result \<times> 'w" where
  "handle_cache reg [] event w = (Ok (), w)"
| "handle_cache reg (watchCriteria # rest) event w =
     (case handle_destination reg watchCriteria event w of
        (Ok _, w') \<Rightarrow> handle_cache reg rest event w'
      | (r, w') \<Rightarrow> (r, w'))"

definition HandleEvent ::
  "'w provider sync_map \<Rightarrow> EventHandler \<Rightarrow> SecretRotationEvent \<Rightarrow> 'w \<Rightarrow> unit result \<times> 'w" where
  "HandleEvent reg eh event w = handle_cache reg (eh_cache eh) event w"

text \<open>The registry after the \<^verbatim>\<open>init\<close> functions of the four handler packages have run.\<close>

definition handler_providers :: "'w kube \<Rightarrow> nat \<Rightarrow> (string \<times> 'w provider) list" where
  "handler_providers k fuel =
     [(DEPLOYMENT, deployment_NewHandler k fuel),
      (EXTERNAL_SECRET, externalsecret_NewHandler k),
      (PUSH_SECRET, pushsecret_NewHandler k),
      (WORKFLOW, workflow_NewHandler k)]"

definition handler_registry :: "'w kube \<Rightarrow> nat \<Rightarrow> 'w provider sync_map" where
  "handler_registry k fuel =
     register_all handler_RegisterProvider (handler_providers k fuel) Map.empty"

section \<open>The objects an event reaches\<close>

text \<open>
  What an event does to one object of a destination: \<open>touched\<close> are the objects, as they are
  sent to the server, that some destination of the cache selects and that reference the
  secret of the event.
\<close>

definition mark_object :: "SecretRotationEvent \<Rightarrow> Object \<Rightarrow> Object" where
  "mark_object event ob =
     (case ob of ODeployment d \<Rightarrow> ODeployment (mark_deployment event d) | _ \<Rightarrow> mark_rotated event ob)"

definition touched ::
  "'w provider sync_map \<Rightarrow> DestinationToWatch list \<Rightarrow> SecretRotationEvent \<Rightarrow> Object set" where
  "touched reg cache event =
     {mark_object event ob | ob. \<exists>d prov w objs. d \<in> set cache
        \<and> handler_GetProvider reg (dw_Type d) = Some prov
        \<and> h_Filter (prov d) d event w = Ok objs \<and> ob \<in> set objs
        \<and> References (prov d) ob (ev_SecretIdentifier event) = Ok True}"

text \<open>The effect of one referenced object on the world: the update, then the wait.\<close>

definition object_step ::
  "'w kube \<Rightarrow> 'w Handler \<Rightarrow> (SecretRotationEvent \<Rightarrow> Object \<Rightarrow> Object) \<Rightarrow> SecretRotationEvent \<Rightarrow> Object \<Rightarrow> 'w \<Rightarrow> 'w" where
  "object_step k h mark ev ob w =
     (case k_Update k w (mark ev ob) of
        (None, w') \<Rightarrow> snd (WaitFor h (mark ev ob) w')
      | (Some e, w') \<Rightarrow> w')"

section \<open>The walk over the objects, for any handler\<close>

context destination_handler
begin

lemma process_objects_path:
  assumes "\<And>ob. ob \<in> set objs \<Longrightarrow> kind ob"
  shows "world_path k {mark ev ob | ob. ob \<in> set objs \<and> References h ob (ev_SecretIdentifier ev) = Ok True} w
    (snd (process_objects h ev objs w))"
  using assms
proof (induction objs arbitrary: w)
  case Nil
  show ?case by (simp add: world_path.path_refl)
next
  case (Cons ob objs)
  let ?S = "\<lambda>os. {mark ev ob | ob. ob \<in> set os \<and> References h ob (ev_SecretIdentifier ev) = Ok True}"
  have IH: "world_path k (?S (ob # objs)) v (snd (process_objects h ev objs v))" for v
    by (rule world_path_mono [OF Cons.IH]) (use Cons.prems in auto)
  have kind: "kind ob" using Cons.prems by simp
  show ?case
  proof (cases "References h ob (ev_SecretIdentifier ev) = Ok True")
    case True
    obtain r w' where ap: "Apply h ob ev w = (r, w')" by (cases "Apply h ob ev w")
    have step: "world_path k (?S (ob # objs)) w w'"
      using world_path.path_update [OF world_path.path_refl, of "mark ev ob" "?S (ob # objs)" k w]
        apply_world [OF kind, of ev w] True ap by auto
    have wait: "world_path k (?S (ob # objs)) w (snd (WaitFor h ob' w'))" for ob'
      by (rule world_path_trans [OF world_path_mono [OF wait_path] step]) simp
    have rest: "world_path k (?S (ob # objs)) w (snd (process_objects h ev objs (snd (WaitFor h ob' w'))))" for ob'
      by (rule world_path_trans [OF IH wait])
    show ?thesis
    proof (cases r)
      case (Ok ob')
      then show ?thesis
        using True ap wait [of ob'] rest [of ob']
        by (cases "WaitFor h ob' w'"; cases "fst (WaitFor h ob' w')") auto
    next
      case (Err e)
      then show ?thesis using True ap world_path_trans [OF IH step] by auto
    qed (use True ap step in auto)
  next
    case False
    then show ?thesis using IH world_path.path_refl
      by (cases "References h ob (ev_SecretIdentifier ev)") auto
  qed
qed

text \<open>
  When the reference checks answer and no wait fails, every referenced object gets its
  update, in order, also those after an object whose update failed.
\<close>

lemma process_objects_all:
  assumes "\<And>ob. ob \<in> set objs \<Longrightarrow> kind ob"
    and "\<And>ob. ob \<in> set objs \<Longrightarrow> is_ok (References h ob (ev_SecretIdentifier ev))"
    and "\<And>ob v. ob \<in> set objs \<Longrightarrow> fst (WaitFor h (mark ev ob) v) = Ok ()"
  shows "process_objects h ev objs w =
    (Ok (), fold (object_step k h mark ev) (filter (\<lambda>ob. References h ob (ev_SecretIdentifier ev) = Ok True) objs) w)"
  using assms
proof (induction objs arbitrary: w)
  case Nil
  show ?case by simp
next
  case (Cons ob objs)
  note IH = Cons.IH [OF Cons.prems(1) Cons.prems(2) Cons.prems(3)]
  have kind: "kind ob" using Cons.prems(1) by simp
  obtain b where b: "References h ob (ev_SecretIdentifier ev) = Ok b"
    using Cons.prems(2) [of ob] by (auto simp: is_ok_iff)
  obtain r w' where up: "k_Update k w (mark ev ob) = (r, w')" by (cases "k_Update k w (mark ev ob)")
  obtain w'' where wait: "WaitFor h (mark ev ob) w' = (Ok (), w'')"
    using Cons.prems(3) [of ob w'] by (cases "WaitFor h (mark ev ob) w'") auto
  show ?case
  proof (cases r)
    case None
    then show ?thesis
      using b apply_Ok [OF kind] up wait IH by (simp add: object_step_def)
  next
    case (Some e)
    then obtain e' where "Apply h ob ev w = (Err e', w')" using apply_Err [OF kind] up by blast
    then show ?thesis using b Some up IH by (simp add: object_step_def)
  qed
qed

text \<open>The contract does not depend on what \<open>mark\<close> does to objects of another kind.\<close>

lemma mark_cong:
  assumes "\<And>ev ob. kind ob \<Longrightarrow> mark' ev ob = mark ev ob"
  shows "destination_handler k h kind mark'"
  by unfold_locales
    (auto simp: assms filter_returns references_no_error wait_path apply_Ok
      dest: filter_kind apply_Err)

text \<open>Which outcomes the walk can have.\<close>

lemma process_objects_outcome:
  assumes "\<And>ob. ob \<in> set objs \<Longrightarrow> kind ob"
  shows "fst (process_objects h ev objs w) = Ok ()
    \<or> (\<exists>ob \<in> set objs. \<exists>v. \<not> is_ok (fst (WaitFor h (mark ev ob) v)))
    \<or> (\<exists>ob \<in> set objs. \<not> is_ok (References h ob (ev_SecretIdentifier ev)))"
  using assms
proof (induction objs arbitrary: w)
  case Nil
  show ?case by simp
next
  case (Cons ob objs)
  have kind: "kind ob" using Cons.prems by simp
  note IH = Cons.IH [OF Cons.prems]
  show ?case
  proof (cases "References h ob (ev_SecretIdentifier ev)")
    case (Ok b)
    obtain r w' where up: "k_Update k w (mark ev ob) = (r, w')" by (cases "k_Update k w (mark ev ob)")
    show ?thesis
    proof (cases r)
      case None
      obtain x w'' where wait: "WaitFor h (mark ev ob) w' = (x, w'')" by (cases "WaitFor h (mark ev ob) w'")
      have ap: "Apply h ob ev w = (Ok (mark ev ob), w')" using apply_Ok [OF kind] up None by simp
      show ?thesis
      proof (cases "is_ok x")
        case True
        then show ?thesis
          using Ok ap wait IH [of w] IH [of w''] by (cases b; cases x) auto
      next
        case False
        with wait have "\<not> is_ok (fst (WaitFor h (mark ev ob) w'))" by simp
        then show ?thesis by auto
      qed
    next
      case (Some e)
      then obtain e' where "Apply h ob ev w = (Err e', w')" using apply_Err [OF kind] up by blast
      then show ?thesis using Ok IH [of w] IH [of w'] by auto
    qed
  qed (use references_no_error [OF kind] in auto)
qed

end

section \<open>The registered handlers\<close>

lemma handler_registry_get:
  "handler_GetProvider (handler_registry k fuel) n = map_of (handler_providers k fuel) n"
  unfolding handler_registry_def by (rule handler_reg.get_register_all_empty)

lemma handler_registry_cases:
  assumes "handler_GetProvider (handler_registry k fuel) n = Some prov"
  obtains (deployment) "n = DEPLOYMENT" "prov = deployment_NewHandler k fuel"
  | (externalsecret) "n = EXTERNAL_SECRET" "prov = externalsecret_NewHandler k"
  | (pushsecret) "n = PUSH_SECRET" "prov = pushsecret_NewHandler k"
  | (workflow) "n = WORKFLOW" "prov = workflow_NewHandler k"
  using assms by (auto simp: handler_registry_get handler_providers_def split: if_splits)

lemma registry_handler:
  assumes "handler_GetProvider (handler_registry k fuel) n = Some prov"
  shows "\<exists>kind. destination_handler k (prov d) kind mark_object"
  using assms
proof (cases rule: handler_registry_cases)
  case deployment
  have "destination_handler k (deployment_NewHandler k fuel d) (\<lambda>ob. \<exists>x. ob = ODeployment x) mark_object"
    by (rule deployment_handler.mark_cong) (auto simp: mark_object_def)
  with deployment show ?thesis by blast
next
  case externalsecret
  have "destination_handler k (externalsecret_NewHandler k d) (\<lambda>ob. \<exists>x. ob = OExternalSecret x) mark_object"
    by (rule externalsecret_handler.mark_cong) (auto simp: mark_object_def)
  with externalsecret show ?thesis by blast
next
  case pushsecret
  have "destination_handler k (pushsecret_NewHandler k d) (\<lambda>ob. \<exists>x. ob = OPushSecret x) mark_object"
    by (rule pushsecret_handler.mark_cong) (auto simp: mark_object_def)
  with pushsecret show ?thesis by blast
next
  case workflow
  have "destination_handler k (workflow_NewHandler k d) (\<lambda>ob. \<exists>x. ob = OUnstructured x) mark_object"
    by (rule workflow_handler.mark_cong) (auto simp: mark_object_def)
  with workflow show ?thesis by blast
qed

section \<open>Properties of HandleEvent\<close>

lemma touchedI:
  assumes "d \<in> set cache" and "handler_GetProvider reg (dw_Type d) = Some prov"
    and "h_Filter (prov d) d ev w = Ok objs"
  shows "{mark_object ev ob | ob. ob \<in> set objs \<and> References (prov d) ob (ev_SecretIdentifier ev) = Ok True}
    \<subseteq> touched reg cache ev"
  unfolding touched_def using assms by blast

lemma handle_destination_path:
  assumes "d \<in> set cache"
  shows "world_path k (touched (handler_registry k fuel) cache ev) w
    (snd (handle_destination (handler_registry k fuel) d ev w))"
proof (cases "handler_GetProvider (handler_registry k fuel) (dw_Type d)")
  case None
  then show ?thesis by (simp add: handle_destination_def world_path.path_refl)
next
  case (Some prov)
  then obtain kind where dh: "destination_handler k (prov d) kind mark_object"
    using registry_handler by blast
  show ?thesis
  proof (cases "h_Filter (prov d) d ev w")
    case (Ok objs)
    have "world_path k {mark_object ev ob | ob. ob \<in> set objs
        \<and> References (prov d) ob (ev_SecretIdentifier ev) = Ok True} w
      (snd (process_objects (prov d) ev objs w))"
      by (rule destination_handler.process_objects_path [OF dh])
        (rule destination_handler.filter_kind [OF dh Ok])
    then have "world_path k (touched (handler_registry k fuel) cache ev) w
      (snd (process_objects (prov d) ev objs w))"
      by (rule world_path_mono) (rule touchedI [OF assms Some Ok])
    with Some Ok show ?thesis by (simp add: handle_destination_def)
  qed (use Some in \<open>simp_all add: handle_destination_def world_path.path_refl\<close>)
qed

lemma handle_cache_path:
  assumes "set ds \<subseteq> set cache"
  shows "world_path k (touched (handler_registry k fuel) cache ev) w
    (snd (handle_cache (handler_registry k fuel) ds ev w))"
  using assms
proof (induction ds arbitrary: w)
  case Nil
  show ?case by (simp add: world_path.path_refl)
next
  case (Cons d ds)
  obtain r w' where hd: "handle_destination (handler_registry k fuel) d ev w = (r, w')"
    by (cases "handle_destination (handler_registry k fuel) d ev w")
  have "world_path k (touched (handler_registry k fuel) cache ev) w w'"
    using handle_destination_path [of d cache k fuel ev w] hd Cons.prems by simp
  then show ?case
    using Cons.IH [of w'] Cons.prems hd by (cases r) (auto intro: world_path_trans)
qed

text \<open>
  C2: handling an event writes nothing to the cluster but \<^verbatim>\<open>Update\<close> calls on objects that a
  destination of the cache selects and that reference the secret of the event, each carrying
  the annotations of that event and no other change.
\<close>

theorem HandleEvent_writes:
  "world_path k (touched (handler_registry k fuel) (eh_cache eh) ev) w
    (snd (HandleEvent (handler_registry k fuel) eh ev w))"
  unfolding HandleEvent_def by (rule handle_cache_path) simp

text \<open>
  An undisturbed event: every list call succeeds, every reference check answers, every rollout
  completes. Updates may still fail.
\<close>

definition undisturbed ::
  "'w provider sync_map \<Rightarrow> DestinationToWatch list \<Rightarrow> SecretRotationEvent \<Rightarrow> bool" where
  "undisturbed reg cache ev \<longleftrightarrow>
     (\<forall>d \<in> set cache. \<forall>prov. handler_GetProvider reg (dw_Type d) = Some prov \<longrightarrow>
        (\<forall>w. \<exists>objs. h_Filter (prov d) d ev w = Ok objs
           \<and> (\<forall>ob \<in> set objs. is_ok (References (prov d) ob (ev_SecretIdentifier ev))
                \<and> (\<forall>v. fst (WaitFor (prov d) (mark_object ev ob) v) = Ok ()))))"

text \<open>What one destination does to the world then: all its referenced objects, in order.\<close>

definition destination_effect ::
  "'w kube \<Rightarrow> 'w provider sync_map \<Rightarrow> SecretRotationEvent \<Rightarrow> DestinationToWatch \<Rightarrow> 'w \<Rightarrow> 'w" where
  "destination_effect k reg ev d w =
     (case handler_GetProvider reg (dw_Type d) of
        None \<Rightarrow> w
      | Some prov \<Rightarrow>
          (case h_Filter (prov d) d ev w of
             Ok objs \<Rightarrow> fold (object_step k (prov d) mark_object ev)
               (filter (\<lambda>ob. References (prov d) ob (ev_SecretIdentifier ev) = Ok True) objs) w
           | _ \<Rightarrow> w))"

lemma handle_destination_all:
  assumes "undisturbed (handler_registry k fuel) cache ev" and "d \<in> set cache"
  shows "handle_destination (handler_registry k fuel) d ev w =
    (Ok (), destination_effect k (handler_registry k fuel) ev d w)"
proof (cases "handler_GetProvider (handler_registry k fuel) (dw_Type d)")
  case None
  then show ?thesis by (simp add: handle_destination_def destination_effect_def)
next
  case (Some prov)
  then obtain kind where dh: "destination_handler k (prov d) kind mark_object"
    using registry_handler by blast
  obtain objs where objs: "h_Filter (prov d) d ev w = Ok objs"
    and ok: "\<And>ob. ob \<in> set objs \<Longrightarrow> is_ok (References (prov d) ob (ev_SecretIdentifier ev))"
    and wait: "\<And>ob v. ob \<in> set objs \<Longrightarrow> fst (WaitFor (prov d) (mark_object ev ob) v) = Ok ()"
    using assms Some unfolding undisturbed_def by blast
  have "process_objects (prov d) ev objs w = (Ok (), fold (object_step k (prov d) mark_object ev)
      (filter (\<lambda>ob. References (prov d) ob (ev_SecretIdentifier ev) = Ok True) objs) w)"
    using destination_handler.filter_kind [OF dh objs] ok wait
    by (rule destination_handler.process_objects_all [OF dh])
  with Some objs show ?thesis by (simp add: handle_destination_def destination_effect_def Let_def)
qed

lemma handle_cache_all:
  "undisturbed (handler_registry k fuel) cache ev \<Longrightarrow> set ds \<subseteq> set cache \<Longrightarrow>
     handle_cache (handler_registry k fuel) ds ev w =
       (Ok (), fold (destination_effect k (handler_registry k fuel) ev) ds w)"
  by (induction ds arbitrary: w) (simp_all add: handle_destination_all)

text \<open>
  C8: when nothing disturbs an event, \<^verbatim>\<open>HandleEvent\<close> succeeds and every object that a destination
  selects and that references the secret gets its update, destination by destination and
  object by object, no matter which of the updates fail; a destination of unknown type is
  skipped.
\<close>

theorem HandleEvent_complete:
  assumes "undisturbed (handler_registry k fuel) (eh_cache eh) ev"
  shows "HandleEvent (handler_registry k fuel) eh ev w =
    (Ok (), fold (destination_effect k (handler_registry k fuel) ev) (eh_cache eh) w)"
  unfolding HandleEvent_def using assms by (rule handle_cache_all) simp

lemma fixture_externalsecret_undisturbed:
  "undisturbed (handler_registry (fixture_kube ds [fixture_es ''es'' [''db''] []] ps ws secs) fuel)
     [fixture_destination ''ExternalSecret'', fixture_destination ''Other''] ev"
  unfolding undisturbed_def handler_registry_get
  by (auto simp: handler_providers_def DEPLOYMENT_def EXTERNAL_SECRET_def PUSH_SECRET_def WORKFLOW_def
      fixture_defs externalsecret_NewHandler_def externalsecret_Filter_def
      externalsecret_isResourceWatched_def resource_watched_def MatchesAnyNamespaceSelector_def
      label_selector_def MatchesLabelSelectors_def IsNameInList_def externalsecret_references_def
      externalsecret_waitFor_def template_references_def handler_iface_defs)

theorem HandleEvent_complete_witness:
  "undisturbed (handler_registry (fixture_kube [] [fixture_es ''es'' [''db''] []] [] [] Map.empty) 0)
     [fixture_destination ''ExternalSecret'', fixture_destination ''Other''] (fixture_event ''db'')
   \<and> fst (HandleEvent (handler_registry (fixture_kube [] [fixture_es ''es'' [''db''] []] [] [] Map.empty) 0)
       \<lparr>eh_cache = [fixture_destination ''ExternalSecret'', fixture_destination ''Other'']\<rparr>
       (fixture_event ''db'') fixture_start) = Ok ()"
  using HandleEvent_complete [of "fixture_kube [] [fixture_es ''es'' [''db''] []] [] [] Map.empty" 0
      "\<lparr>eh_cache = [fixture_destination ''ExternalSecret'', fixture_destination ''Other'']\<rparr>"
      "fixture_event ''db''" fixture_start]
    fixture_externalsecret_undisturbed by simp

lemma references_answer:
  assumes "\<And>expr. k_Regexp k expr \<noteq> None"
    and "handler_GetProvider (handler_registry k fuel) (dw_Type d) = Some prov"
    and "h_Filter (prov d) d ev w = Ok objs" and "ob \<in> set objs"
  shows "is_ok (References (prov d) ob ident)"
  using assms(2)
proof (cases rule: handler_registry_cases)
  case deployment
  with assms(3,4) deployment_Filter_kind show ?thesis
    by (fastforce simp: deployment_NewHandler_def References_def deployment_references_def)
next
  case externalsecret
  with assms(3,4) obtain es where "ob = OExternalSecret es"
    by (auto simp: externalsecret_NewHandler_def dest: externalsecret_Filter_kind)
  moreover have "regexps_valid k es"
    by (auto simp: regexps_valid_def list_all_iff assms(1) split: option.split)
  ultimately show ?thesis
    using externalsecret by (simp add: externalsecret_NewHandler_def References_def externalsecret_references_valid)
next
  case pushsecret
  with assms(3,4) pushsecret_Filter_kind show ?thesis
    by (fastforce simp: pushsecret_NewHandler_def References_def pushsecret_references_def)
next
  case workflow
  then show ?thesis by (simp add: workflow_NewHandler_def References_def workflow_references_def)
qed

lemma non_deployment_wait:
  assumes "handler_GetProvider (handler_registry k fuel) n = Some prov" and "n \<noteq> DEPLOYMENT"
  shows "WaitFor (prov d) ob v = (Ok (), v)"
  using assms(1)
  by (cases rule: handler_registry_cases)
    (use assms(2) in \<open>simp_all add: WaitFor_def externalsecret_NewHandler_def externalsecret_waitFor_def
      pushsecret_NewHandler_def pushsecret_waitFor_def workflow_NewHandler_def workflow_waitFor_def\<close>)

lemma handle_destination_outcome:
  assumes "\<And>expr. k_Regexp k expr \<noteq> None" and "dw_Type d \<noteq> DEPLOYMENT"
  shows "fst (handle_destination (handler_registry k fuel) d ev w) = Ok ()
    \<or> (\<exists>e. handle_destination (handler_registry k fuel) d ev w = (Err (Wrapf ''failed to filter objects:%w'' [] e), w))"
proof (cases "handler_GetProvider (handler_registry k fuel) (dw_Type d)")
  case None
  then show ?thesis by (simp add: handle_destination_def)
next
  case (Some prov)
  then obtain kind where dh: "destination_handler k (prov d) kind mark_object"
    using registry_handler by blast
  from destination_handler.filter_returns [OF dh, of d ev w] show ?thesis
  proof (cases rule: returns_cases)
    case (Ok objs)
    have "fst (process_objects (prov d) ev objs w) = Ok ()"
      using destination_handler.process_objects_outcome [OF dh destination_handler.filter_kind [OF dh Ok], of _ ev w]
        references_answer [OF assms(1) Some Ok] non_deployment_wait [OF Some assms(2)] by auto
    with Some Ok show ?thesis by (simp add: handle_destination_def Let_def)
  next
    case (Err e)
    with Some show ?thesis by (simp add: handle_destination_def Let_def)
  qed
qed

lemma handle_cache_outcome:
  assumes "\<And>expr. k_Regexp k expr \<noteq> None" and "\<forall>d \<in> set ds. dw_Type d \<noteq> DEPLOYMENT"
  shows "fst (handle_cache (handler_registry k fuel) ds ev w) = Ok ()
    \<or> (\<exists>e. fst (handle_cache (handler_registry k fuel) ds ev w) = Err (Wrapf ''failed to filter objects:%w'' [] e))"
  using assms(2)
proof (induction ds arbitrary: w)
  case Nil
  show ?case by simp
next
  case (Cons d ds)
  obtain r w' where hd: "handle_destination (handler_registry k fuel) d ev w = (r, w')"
    by (cases "handle_destination (handler_registry k fuel) d ev w")
  with handle_destination_outcome [OF assms(1), of d fuel ev w] Cons show ?case
    by (cases r) auto
qed

section \<open>Regular expressions that do not parse\<close>

text \<open>
  A reference check that comes to an expression that does not parse: the key is not among the ones
  that are read directly, and no \<^verbatim>\<open>dataFrom\<close> entry before that of the expression matches it.
\<close>

definition entry_matches :: "'w kube \<Rightarrow> string \<Rightarrow> ExternalSecretDataFrom \<Rightarrow> bool" where
  "entry_matches k ident df \<longleftrightarrow> esf_ExtractKey df = Some ident
     \<or> (\<exists>expr f. esf_FindNameRegExp df = Some (Some expr) \<and> k_Regexp k expr = Some f \<and> f ident)"

definition entry_invalid :: "'w kube \<Rightarrow> ExternalSecretDataFrom \<Rightarrow> bool" where
  "entry_invalid k df \<longleftrightarrow> (\<exists>expr. esf_FindNameRegExp df = Some (Some expr) \<and> k_Regexp k expr = None)"

definition reaches_invalid :: "'w kube \<Rightarrow> string \<Rightarrow> ExternalSecret \<Rightarrow> bool" where
  "reaches_invalid k ident es \<longleftrightarrow> ident \<notin> set (es_DataRemoteKeys es)
     \<and> (\<exists>before df after. es_DataFrom es = before @ df # after \<and> (\<forall>df' \<in> set (before @ [df]). \<not> entry_matches k ident df')
          \<and> entry_invalid k df)"

lemma dataFrom_invalid:
  "(\<And>df'. df' \<in> set (before @ [df]) \<Longrightarrow> \<not> entry_matches k ident df') \<Longrightarrow> entry_invalid k df \<Longrightarrow>
     dataFrom_references k ident (before @ df # after) = Panic ''regexp: Compile''"
proof (induction before)
  case Nil
  then show ?case by (auto simp: entry_matches_def entry_invalid_def)
next
  case (Cons df' before)
  then have "\<not> entry_matches k ident df'" "dataFrom_references k ident (before @ df # after) = Panic ''regexp: Compile''" by simp_all
  then show ?case by (auto simp: entry_matches_def split: option.split)
qed

lemma references_invalid:
  "reaches_invalid k ident es \<Longrightarrow> externalsecret_references k (OExternalSecret es) ident = Panic ''regexp: Compile''"
  using dataFrom_invalid by (fastforce simp: reaches_invalid_def externalsecret_references_def list_ex_iff)

lemma dataFrom_references_outcome: "is_ok (dataFrom_references k ident dfs) \<or> dataFrom_references k ident dfs = Panic ''regexp: Compile''"
  by (induction dfs) (auto split: option.split)

lemma externalsecret_references_outcome:
  "is_ok (externalsecret_references k (OExternalSecret es) ident)
     \<or> externalsecret_references k (OExternalSecret es) ident = Panic ''regexp: Compile''"
  using dataFrom_references_outcome [of k ident "es_DataFrom es"]
  by (auto simp: externalsecret_references_def is_ok_iff split: if_splits)

lemma process_objects_append:
  "process_objects h ev (xs @ ys) w =
     (case process_objects h ev xs w of (Ok _, w') \<Rightarrow> process_objects h ev ys w' | (r, w') \<Rightarrow> (r, w'))"
  by (induction xs arbitrary: w) (auto split: result.split prod.split)

lemma handle_cache_append:
  "handle_cache reg (xs @ ys) ev w =
     (case handle_cache reg xs ev w of (Ok _, w') \<Rightarrow> handle_cache reg ys ev w' | (r, w') \<Rightarrow> (r, w'))"
  by (induction xs arbitrary: w) (auto split: result.split prod.split)

lemma externalsecret_walk:
  assumes "externalsecret_Filter k d d ev w0 = Ok objs" and "set xs \<subseteq> set objs"
    and "\<And>ob. ob \<in> set xs \<Longrightarrow> is_ok (externalsecret_references k ob (ev_SecretIdentifier ev))"
  shows "fst (process_objects (externalsecret_NewHandler k d) ev xs w) = Ok ()"
proof -
  have "\<exists>es. ob = OExternalSecret es" if "ob \<in> set xs" for ob
    using externalsecret_Filter_kind [OF assms(1)] assms(2) that by auto
  then show ?thesis
    using externalsecret_handler.process_objects_outcome [of xs k d ev w] assms(3)
    by (auto simp: WaitFor_def References_def externalsecret_NewHandler_def externalsecret_waitFor_def)
qed



section \<open>When HandleEvent returns\<close>

text \<open>
  With no Deployment destination and regular expressions that parse, handling an event
  always returns: with success, or because listing the objects of a destination failed. The
  type assertions of the handlers and the reference check never fail.
\<close>

theorem HandleEvent_returns:
  assumes "\<And>expr. k_Regexp k expr \<noteq> None" and "\<forall>d \<in> set (eh_cache eh). dw_Type d \<noteq> DEPLOYMENT"
  shows "fst (HandleEvent (handler_registry k fuel) eh ev w) = Ok ()
    \<or> (\<exists>e. fst (HandleEvent (handler_registry k fuel) eh ev w) = Err (Wrapf ''failed to filter objects:%w'' [] e))"
  unfolding HandleEvent_def using assms by (rule handle_cache_outcome)

theorem HandleEvent_returns_witness:
  "fst (HandleEvent (handler_registry ((fixture_kube [] [fixture_es ''es'' [''db''] []] [] [] Map.empty)
       \<lparr>k_Regexp := \<lambda>e. Some (\<lambda>t. t = e)\<rparr>) 0)
     \<lparr>eh_cache = [fixture_destination ''ExternalSecret'']\<rparr> (fixture_event ''db'') fixture_start) = Ok ()
   \<or> (\<exists>e. fst (HandleEvent (handler_registry ((fixture_kube [] [fixture_es ''es'' [''db''] []] [] [] Map.empty)
       \<lparr>k_Regexp := \<lambda>e. Some (\<lambda>t. t = e)\<rparr>) 0)
     \<lparr>eh_cache = [fixture_destination ''ExternalSecret'']\<rparr> (fixture_event ''db'') fixture_start)
       = Err (Wrapf ''failed to filter objects:%w'' [] e))"
  by (rule HandleEvent_returns) (simp_all add: fixture_defs DEPLOYMENT_def)

end
