(* ===== verification/Controller.thy ===== *)
theory Controller
  imports Manager Processor
begin

text \<open>
  The controller (\<^verbatim>\<open>internal/controller/reloader_controller.go\<close>): \<^verbatim>\<open>Reconcile\<close>, which follows the
  \<^verbatim>\<open>Config\<close> resources, and \<^verbatim>\<open>processEvents\<close>, which takes the events of all listeners from the
  buffered channel and hands each to the event handler on a goroutine of its own. The second is
  a step relation over the channel.
\<close>

section \<open>Reconcile\<close>

text \<open>
  The client for \<^verbatim>\<open>Config\<close> objects, the finalizer functions of \<^verbatim>\<open>controllerutil\<close> and the clock
  formatted as RFC 3339.
\<close>

record 'w config_api =
  ca_Get :: "'w \<Rightarrow> NamespacedName \<Rightarrow> error + Config"
  ca_Update :: "'w \<Rightarrow> Config \<Rightarrow> error option \<times> 'w"
  ca_ContainsFinalizer :: "Config \<Rightarrow> string \<Rightarrow> bool"
  ca_AddFinalizer :: "Config \<Rightarrow> string \<Rightarrow> Config"
  ca_RemoveFinalizer :: "Config \<Rightarrow> string \<Rightarrow> Config"
  ca_Now :: "'w \<Rightarrow> string"

record 'l ReloaderReconciler =
  rr_listenerManager :: "'l Manager"
  rr_eventHandler :: EventHandler

text \<open>\<^verbatim>\<open>ctrl.Result\<close> (its \<^verbatim>\<open>Requeue\<close> field) and the error.\<close>

type_synonym reconcile_result = "bool \<times> unit result"

definition ProcessedAnnotation :: string where "ProcessedAnnotation = ''reloader/processed''"
definition reloaderFinalizer :: string where "reloaderFinalizer = ''reloader.external-secrets.io/finalizer''"
definition eventChannelBufferSize :: nat where "eventChannelBufferSize = 256"

definition NewReloaderReconciler :: "'l ReloaderReconciler" where
  "NewReloaderReconciler = \<lparr>rr_listenerManager = NewListenerManager, rr_eventHandler = NewEventHandler\<rparr>"

fun IsNotFound :: "error \<Rightarrow> bool" where
  "IsNotFound (NotFound s) = True"
| "IsNotFound (Wrapf f args e) = IsNotFound e"
| "IsNotFound (ErrJoin es) = list_ex IsNotFound es"
| "IsNotFound _ = False"

definition isResourceNew :: "Config \<Rightarrow> bool" where
  "isResourceNew cfg =
     (case om_Annotations (cfg_Meta cfg) of
        None \<Rightarrow> True
      | Some annotations \<Rightarrow> annotations ProcessedAnnotation = None)"

definition annotate :: "Config \<Rightarrow> string \<Rightarrow> Config" where
  "annotate cfg t =
     cfg\<lparr>cfg_Meta := (cfg_Meta cfg)\<lparr>om_Annotations :=
       Some ((case om_Annotations (cfg_Meta cfg) of None \<Rightarrow> Map.empty | Some a \<Rightarrow> a)(ProcessedAnnotation \<mapsto> t))\<rparr>\<rparr>"

text \<open>The call of \<^verbatim>\<open>ManageListeners\<close> on the reconciler's manager.\<close>

definition manage ::
  "('l, 'w) listener_env \<Rightarrow> (string list \<Rightarrow> string list) \<Rightarrow> (string list \<Rightarrow> string list) \<Rightarrow> NamespacedName
    \<Rightarrow> NotificationSource list option \<Rightarrow> 'l ReloaderReconciler \<Rightarrow> 'w \<Rightarrow> unit result \<times> 'l ReloaderReconciler \<times> 'w" where
  "manage env ord1 ord2 manifestName sources r w =
     (case ManageListeners env ord1 ord2 manifestName sources (rr_listenerManager r) w of
        (x, lm, w') \<Rightarrow> (x, r\<lparr>rr_listenerManager := lm\<rparr>, w'))"

text \<open>The end of the function: take over the destinations, manage the listeners.\<close>

definition sync_config ::
  "('l, 'w) listener_env \<Rightarrow> (string list \<Rightarrow> string list) \<Rightarrow> (string list \<Rightarrow> string list) \<Rightarrow> NamespacedName
    \<Rightarrow> Config \<Rightarrow> 'l ReloaderReconciler \<Rightarrow> 'w \<Rightarrow> reconcile_result \<times> 'l ReloaderReconciler \<times> 'w" where
  "sync_config env ord1 ord2 manifestName cfg r w =
     (let r' = r\<lparr>rr_eventHandler := UpdateDestinationsToWatch (cs_DestinationsToWatch (cfg_Spec cfg)) (rr_eventHandler r)\<rparr> in
      case manage env ord1 ord2 manifestName (Some (cs_NotificationSources (cfg_Spec cfg))) r' w of
        (x, r'', w') \<Rightarrow> ((False, x), r'', w'))"

definition Reconcile ::
  "'w config_api \<Rightarrow> ('l, 'w) listener_env \<Rightarrow> (string list \<Rightarrow> string list) \<Rightarrow> (string list \<Rightarrow> string list)
    \<Rightarrow> NamespacedName \<Rightarrow> 'l ReloaderReconciler \<Rightarrow> 'w \<Rightarrow> reconcile_result \<times> 'l ReloaderReconciler \<times> 'w" where
  "Reconcile api env ord1 ord2 req r w =
     (case ca_Get api w req of
        Inl e \<Rightarrow>
          (if IsNotFound e then
             (case manage env ord1 ord2 req None r w of (x, r', w') \<Rightarrow> ((False, x), r', w'))
           else ((False, Err e), r, w))
      | Inr cfg \<Rightarrow>
          (if om_DeletionTimestamp (cfg_Meta cfg) \<noteq> None \<and> ca_ContainsFinalizer api cfg reloaderFinalizer then
             (case manage env ord1 ord2 req (Some []) r w of
                (Ok _, r', w') \<Rightarrow>
                  (case ca_Update api w' (ca_RemoveFinalizer api cfg reloaderFinalizer) of
                     (Some e, w'') \<Rightarrow> ((False, Err (Wrapf ''could not update finalizers: %w'' [] e)), r', w'')
                   | (None, w'') \<Rightarrow> ((False, Ok ()), r', w''))
              | (x, r', w') \<Rightarrow> ((False, x), r', w'))
           else if \<not> ca_ContainsFinalizer api cfg reloaderFinalizer then
             (case ca_Update api w (ca_AddFinalizer api cfg reloaderFinalizer) of
                (Some e, w') \<Rightarrow> ((False, Err (Wrapf ''could not update finalizers: %w'' [] e)), r, w')
              | (None, w') \<Rightarrow> ((False, Ok ()), r, w'))
           else if isResourceNew cfg then
             (let processedAnnotation =
                (case om_Annotations (cfg_Meta cfg) of None \<Rightarrow> [] | Some a \<Rightarrow>
                  (case a ProcessedAnnotation of None \<Rightarrow> [] | Some s \<Rightarrow> s)) in
              if processedAnnotation = [] then
                (let cfg' = annotate cfg (ca_Now api w) in
                 case ca_Update api w cfg' of
                   (Some e, w') \<Rightarrow> ((True, Err e), r, w')
                 | (None, w') \<Rightarrow> sync_config env ord1 ord2 req cfg' r w')
              else sync_config env ord1 ord2 req cfg r w)
           else sync_config env ord1 ord2 req cfg r w))"

section \<open>processEvents and the event channel\<close>

text \<open>
  The channel with its buffer, the event goroutines that have been started and not finished,
  the state of the controller's context and of the pump; \<open>pm_sent\<close> and \<open>pm_dispatched\<close> record
  the events listeners have sent and the pump has taken, in order.
\<close>

record pump =
  pm_buffer :: "SecretRotationEvent list"
  pm_active :: "SecretRotationEvent list"
  pm_cancelled :: bool
  pm_running :: bool
  pm_sent :: "SecretRotationEvent list"
  pm_dispatched :: "SecretRotationEvent list"

definition pump_init :: pump where
  "pump_init = \<lparr>pm_buffer = [], pm_active = [], pm_cancelled = False, pm_running = True, pm_sent = [], pm_dispatched = []\<rparr>"

text \<open>The event taken from the channel is handed to a goroutine of its own; a goroutine ends.\<close>

definition start_handler :: "SecretRotationEvent \<Rightarrow> pump \<Rightarrow> pump" where
  "start_handler event p =
     p\<lparr>pm_buffer := tl (pm_buffer p), pm_active := event # pm_active p, pm_dispatched := pm_dispatched p @ [event]\<rparr>"

definition end_handler :: "SecretRotationEvent \<Rightarrow> pump \<Rightarrow> pump" where
  "end_handler event p = p\<lparr>pm_active := remove1 event (pm_active p)\<rparr>"

lemma start_handler_simps [simp]:
  "pm_buffer (start_handler e p) = tl (pm_buffer p)" "pm_active (start_handler e p) = e # pm_active p"
  "pm_dispatched (start_handler e p) = pm_dispatched p @ [e]" "pm_sent (start_handler e p) = pm_sent p"
  "pm_cancelled (start_handler e p) = pm_cancelled p" "pm_running (start_handler e p) = pm_running p"
  by (simp_all add: start_handler_def)

lemma end_handler_simps [simp]:
  "pm_buffer (end_handler e p) = pm_buffer p" "pm_active (end_handler e p) = remove1 e (pm_active p)"
  "pm_dispatched (end_handler e p) = pm_dispatched p" "pm_sent (end_handler e p) = pm_sent p"
  "pm_cancelled (end_handler e p) = pm_cancelled p" "pm_running (end_handler e p) = pm_running p"
  by (simp_all add: end_handler_def)

inductive pump_step :: "pump \<Rightarrow> pump \<Rightarrow> bool" where
  send: "length (pm_buffer p) < eventChannelBufferSize \<Longrightarrow>
    pump_step p (p\<lparr>pm_buffer := pm_buffer p @ [e], pm_sent := pm_sent p @ [e]\<rparr>)"
| receive: "pm_running p \<Longrightarrow> pm_buffer p = e # rest \<Longrightarrow>
    pump_step p (start_handler e p)"
| finish: "e \<in> set (pm_active p) \<Longrightarrow> pump_step p (end_handler e p)"
| cancel: "pump_step p (p\<lparr>pm_cancelled := True\<rparr>)"
| leave: "pm_cancelled p \<Longrightarrow> pump_step p (p\<lparr>pm_running := False\<rparr>)"

inductive_cases pump_stepE: "pump_step p q"

abbreviation pump_steps :: "pump \<Rightarrow> pump \<Rightarrow> bool" where
  "pump_steps \<equiv> pump_step\<^sup>*\<^sup>*"

text \<open>The invariant: nothing is lost, duplicated or reordered, and the buffer is bounded.\<close>

definition pump_ok :: "pump \<Rightarrow> bool" where
  "pump_ok p \<longleftrightarrow> pm_sent p = pm_dispatched p @ pm_buffer p \<and> length (pm_buffer p) \<le> eventChannelBufferSize
     \<and> mset (pm_active p) \<subseteq># mset (pm_dispatched p) \<and> (pm_running p \<or> pm_cancelled p)"

lemma pump_ok_init: "pump_ok pump_init"
  by (simp add: pump_ok_def pump_init_def)

lemma pump_ok_step: "pump_step p q \<Longrightarrow> pump_ok p \<Longrightarrow> pump_ok q"
proof (induction rule: pump_step.induct)
  case (finish e p)
  then show ?case unfolding pump_ok_def
    by (auto intro: subset_mset.order_trans [OF diff_subset_eq_self])
qed (auto simp: pump_ok_def)

lemma pump_ok_steps: "pump_steps p q \<Longrightarrow> pump_ok p \<Longrightarrow> pump_ok q"
  by (induction rule: rtranclp_induct) (auto intro: pump_ok_step)

text \<open>While the pump runs, what is in the buffer gets dispatched by its own steps alone.\<close>

lemma pump_drains:
  "pm_running p \<Longrightarrow> \<exists>q. pump_steps p q \<and> pm_buffer q = [] \<and> pm_dispatched q = pm_dispatched p @ pm_buffer p \<and> pm_sent q = pm_sent p"
proof (induction "pm_buffer p" arbitrary: p)
  case Nil
  then show ?case by (intro exI [of _ p]) simp
next
  case (Cons e rest)
  let ?p = "start_handler e p"
  have step: "pump_step p ?p" using Cons.prems Cons.hyps(2) [symmetric] by (rule pump_step.receive)
  obtain q where "pump_steps ?p q" "pm_buffer q = []" "pm_dispatched q = pm_dispatched ?p @ pm_buffer ?p" "pm_sent q = pm_sent ?p"
    using Cons.hyps(1) [of ?p] Cons.prems Cons.hyps(2) [symmetric] by auto
  then show ?case
    using step Cons.hyps(2) [symmetric] by (intro exI [of _ q]) (auto intro: converse_rtranclp_into_rtranclp)
qed

definition fixture_pump :: pump where
  "fixture_pump = pump_init\<lparr>pm_buffer := [fixture_event ''b''], pm_active := [fixture_event ''a''],
     pm_sent := [fixture_event ''a'', fixture_event ''b''], pm_dispatched := [fixture_event ''a'']\<rparr>"

definition fixture_pump1 :: pump where
  "fixture_pump1 = pump_init\<lparr>pm_buffer := [fixture_event ''a''], pm_sent := [fixture_event ''a'']\<rparr>"

definition fixture_pump2 :: pump where
  "fixture_pump2 = pump_init\<lparr>pm_buffer := [fixture_event ''a'', fixture_event ''b''],
     pm_sent := [fixture_event ''a'', fixture_event ''b'']\<rparr>"

lemma fixture_pump_reachable: "pump_steps pump_init fixture_pump"
proof -
  have "pump_step pump_init fixture_pump1"
    using pump_step.send [of pump_init "fixture_event ''a''"]
    by (simp add: fixture_pump1_def pump_init_def eventChannelBufferSize_def)
  moreover have "pump_step fixture_pump1 fixture_pump2"
    using pump_step.send [of fixture_pump1 "fixture_event ''b''"]
    by (simp add: fixture_pump1_def fixture_pump2_def pump_init_def eventChannelBufferSize_def)
  moreover have "pump_step fixture_pump2 fixture_pump"
    using pump_step.receive [of fixture_pump2 "fixture_event ''a''" "[fixture_event ''b'']"]
    by (simp add: fixture_pump2_def pump_init_def fixture_pump_def start_handler_def)
  ultimately show ?thesis by (blast intro: converse_rtranclp_into_rtranclp)
qed

text \<open>
  As long as the controller has not been shut down, the pump can always go on, and by
  its own steps alone it dispatches every buffered event, in the order they were sent.
\<close>

theorem pump_dispatches_all:
  assumes "pump_steps pump_init p" and "pm_running p"
  shows "\<exists>q. pump_steps p q \<and> pm_buffer q = [] \<and> pm_dispatched q = pm_sent p"
  using pump_drains [OF assms(2)] pump_ok_steps [OF assms(1) pump_ok_init] by (auto simp: pump_ok_def)

theorem pump_dispatches_all_witness:
  "\<exists>q. pump_steps fixture_pump q \<and> pm_dispatched q = [fixture_event ''a'', fixture_event ''b'']"
  using pump_dispatches_all [OF fixture_pump_reachable] by (auto simp: fixture_pump_def pump_init_def)

section \<open>Properties of Reconcile\<close>

lemma manage_eq:
  "ManageListeners env ord1 ord2 m sources (rr_listenerManager r) w = (x, lm, w') \<Longrightarrow>
     manage env ord1 ord2 m sources r w = (x, r\<lparr>rr_listenerManager := lm\<rparr>, w')"
  by (simp add: manage_def)

lemma manage_isolated:
  assumes "manage env ord1 ord2 m sources r w = (x, r', w')"
  shows "rr_eventHandler r' = rr_eventHandler r"
    and "n \<noteq> m \<Longrightarrow> map_of (lm_listeners (rr_listenerManager r')) n = map_of (lm_listeners (rr_listenerManager r)) n"
    and "manager_ok (rr_listenerManager r) \<Longrightarrow> manager_ok (rr_listenerManager r')"
proof -
  obtain lm where lm: "ManageListeners env ord1 ord2 m sources (rr_listenerManager r) w = (x, lm, w')"
    "r' = r\<lparr>rr_listenerManager := lm\<rparr>"
    using assms by (auto simp: manage_def split: prod.splits)
  from lm(2) ManageListeners_isolated [OF lm(1)]
  show "rr_eventHandler r' = rr_eventHandler r"
    and "n \<noteq> m \<Longrightarrow> map_of (lm_listeners (rr_listenerManager r')) n = map_of (lm_listeners (rr_listenerManager r)) n"
    and "manager_ok (rr_listenerManager r) \<Longrightarrow> manager_ok (rr_listenerManager r')"
    by auto
qed

lemma sync_config_isolated:
  assumes "sync_config env ord1 ord2 m cfg r w = (x, r', w')"
  shows "eh_cache (rr_eventHandler r') = cs_DestinationsToWatch (cfg_Spec cfg)"
    and "n \<noteq> m \<Longrightarrow> map_of (lm_listeners (rr_listenerManager r')) n = map_of (lm_listeners (rr_listenerManager r)) n"
    and "manager_ok (rr_listenerManager r) \<Longrightarrow> manager_ok (rr_listenerManager r')"
  using assms by (auto simp: sync_config_def Let_def UpdateDestinationsToWatch_def split: prod.splits dest: manage_isolated)

lemma annotate_spec [simp]: "cfg_Spec (annotate cfg t) = cfg_Spec cfg"
  by (simp add: annotate_def)

text \<open>
  The rest of the function for a Config that exists, carries the finalizer and is not being deleted:
  it is annotated if it is new, and then its destinations and listeners are taken over.
\<close>

definition annotated :: "'w config_api \<Rightarrow> Config \<Rightarrow> 'w \<Rightarrow> error option \<times> Config \<times> 'w" where
  "annotated api cfg w =
     (if isResourceNew cfg then
        (let cfg' = annotate cfg (ca_Now api w) in case ca_Update api w cfg' of (e, w') \<Rightarrow> (e, cfg', w'))
      else (None, cfg, w))"

lemma annotated_spec: "annotated api cfg w = (e, cfg', w') \<Longrightarrow> cfg_Spec cfg' = cfg_Spec cfg"
  by (auto simp: annotated_def Let_def split: if_splits prod.splits)

lemma Reconcile_claimed:
  assumes "ca_Get api w req = Inr cfg" and "om_DeletionTimestamp (cfg_Meta cfg) = None" and "ca_ContainsFinalizer api cfg reloaderFinalizer"
  shows "Reconcile api env ord1 ord2 req r w =
    (case annotated api cfg w of
       (Some e, _, w') \<Rightarrow> ((True, Err e), r, w')
     | (None, cfg', w') \<Rightarrow> sync_config env ord1 ord2 req cfg' r w')"
proof -
  have "(case om_Annotations (cfg_Meta cfg) of None \<Rightarrow> [] | Some a \<Rightarrow>
      (case a ProcessedAnnotation of None \<Rightarrow> [] | Some s \<Rightarrow> s)) = []" if "isResourceNew cfg"
    using that by (auto simp: isResourceNew_def split: option.splits)
  then show ?thesis
    using assms by (auto simp: Reconcile_def annotated_def Let_def split: prod.split option.split)
qed

lemma Reconcile_unclaimed:
  assumes "ca_Get api w req = Inr cfg" and "\<not> ca_ContainsFinalizer api cfg reloaderFinalizer"
  shows "Reconcile api env ord1 ord2 req r w =
    (case ca_Update api w (ca_AddFinalizer api cfg reloaderFinalizer) of
       (Some e, w') \<Rightarrow> ((False, Err (Wrapf ''could not update finalizers: %w'' [] e)), r, w')
     | (None, w') \<Rightarrow> ((False, Ok ()), r, w'))"
  using assms by (simp add: Reconcile_def)

lemma Reconcile_deleted:
  assumes "ca_Get api w req = Inr cfg" and "om_DeletionTimestamp (cfg_Meta cfg) \<noteq> None" and "ca_ContainsFinalizer api cfg reloaderFinalizer"
    and "manage env ord1 ord2 req (Some []) r w = (x, r', w')"
  shows "Reconcile api env ord1 ord2 req r w =
    (if x = Ok () then
       (case ca_Update api w' (ca_RemoveFinalizer api cfg reloaderFinalizer) of
          (Some e, w'') \<Rightarrow> ((False, Err (Wrapf ''could not update finalizers: %w'' [] e)), r', w'')
        | (None, w'') \<Rightarrow> ((False, Ok ()), r', w''))
     else ((False, x), r', w'))"
  using assms by (cases x) (simp_all add: Reconcile_def)

text \<open>The Config whose destinations the event handler takes over.\<close>

definition taken_over :: "'w config_api \<Rightarrow> NamespacedName \<Rightarrow> 'w \<Rightarrow> Config option" where
  "taken_over api req w =
     (case ca_Get api w req of
        Inl e \<Rightarrow> None
      | Inr cfg \<Rightarrow>
          (if om_DeletionTimestamp (cfg_Meta cfg) = None \<and> ca_ContainsFinalizer api cfg reloaderFinalizer
             \<and> (isResourceNew cfg \<longrightarrow> fst (ca_Update api w (annotate cfg (ca_Now api w))) = None)
           then Some cfg else None))"

lemma manage_keeps:
  "manage env ord1 ord2 m sources r w = (x, r', w') \<Longrightarrow> rr_eventHandler r' = rr_eventHandler r
     \<and> (\<forall>n. n = m \<or> map_of (lm_listeners (rr_listenerManager r')) n = map_of (lm_listeners (rr_listenerManager r)) n)"
  by (metis manage_isolated(1,2))

text \<open>
  C17: reconciling one Config never starts, stops or replaces a listener of another one. The
  destinations the event handler watches become exactly those of this Config if it exists, carries
  the finalizer, is not being deleted and, when it is new, could be annotated, whatever managing
  its listeners results in; the destinations of every Config reconciled before are dropped then. In
  all other cases, a deleted Config included, the watched destinations stay as they are.
\<close>

theorem Reconcile_isolation:
  "\<exists>x r' w'. Reconcile api env ord1 ord2 req r w = (x, r', w')
    \<and> (\<forall>n. n = req \<or> map_of (lm_listeners (rr_listenerManager r')) n = map_of (lm_listeners (rr_listenerManager r)) n)
    \<and> eh_cache (rr_eventHandler r') =
        (case taken_over api req w of
           Some cfg \<Rightarrow> cs_DestinationsToWatch (cfg_Spec cfg)
         | None \<Rightarrow> eh_cache (rr_eventHandler r))"
proof -
  obtain x r' w' where R: "Reconcile api env ord1 ord2 req r w = (x, r', w')" by (cases "Reconcile api env ord1 ord2 req r w")
  have "(\<forall>n. n = req \<or> map_of (lm_listeners (rr_listenerManager r')) n = map_of (lm_listeners (rr_listenerManager r)) n)
    \<and> eh_cache (rr_eventHandler r') =
        (case taken_over api req w of Some cfg \<Rightarrow> cs_DestinationsToWatch (cfg_Spec cfg) | None \<Rightarrow> eh_cache (rr_eventHandler r))"
  proof (cases "ca_Get api w req")
    case (Inl e)
    obtain y r1 w1 where m: "manage env ord1 ord2 req None r w = (y, r1, w1)" by (cases "manage env ord1 ord2 req None r w")
    from manage_keeps [OF m] m Inl R show ?thesis by (auto simp: Reconcile_def taken_over_def split: if_splits)
  next
    case (Inr cfg)
    consider (add) "\<not> ca_ContainsFinalizer api cfg reloaderFinalizer"
      | (del) "om_DeletionTimestamp (cfg_Meta cfg) \<noteq> None" "ca_ContainsFinalizer api cfg reloaderFinalizer"
      | (run) "om_DeletionTimestamp (cfg_Meta cfg) = None" "ca_ContainsFinalizer api cfg reloaderFinalizer" by blast
    then show ?thesis
    proof cases
      case add
      have "taken_over api req w = None" using add Inr by (simp add: taken_over_def)
      with R show ?thesis unfolding Reconcile_unclaimed [OF Inr add] by (auto split: prod.splits option.splits)
    next
      case del
      obtain y r1 w1 where m: "manage env ord1 ord2 req (Some []) r w = (y, r1, w1)" by (cases "manage env ord1 ord2 req (Some []) r w")
      have "taken_over api req w = None" using del Inr by (simp add: taken_over_def)
      with R manage_keeps [OF m] show ?thesis
        unfolding Reconcile_deleted [OF Inr del m] by (auto split: if_splits prod.splits option.splits)
    next
      case run
      obtain e cfg' w1 where a: "annotated api cfg w = (e, cfg', w1)" by (cases "annotated api cfg w")
      have taken: "taken_over api req w = (if e = None then Some cfg else None)"
        using a run Inr by (auto simp: taken_over_def annotated_def Let_def split: if_splits prod.splits)
      show ?thesis
      proof (cases e)
        case None
        then have "sync_config env ord1 ord2 req cfg' r w1 = (x, r', w')" using R a unfolding Reconcile_claimed [OF Inr run] by simp
        from sync_config_isolated [OF this] annotated_spec [OF a] taken None show ?thesis by auto
      next
        case (Some err)
        with R a taken show ?thesis unfolding Reconcile_claimed [OF Inr run] by simp
      qed
    qed
  qed
  with R show ?thesis by blast
qed

end
