(* ===== verification/Lifecycle.thy ===== *)
theory Lifecycle
  imports Manager
begin

text \<open>
  Every listener the manager holds can be stopped. The \<^verbatim>\<open>Stop\<close> methods of some listeners panic
  when the listener was never started, so this is an invariant of the manager's state that
  rests on the order in which it creates, starts and enters listeners. The interface
  \<open>managed_listeners\<close> states what it takes: a creator makes a new listener, a started one can be
  stopped, and no operation on another listener takes that away.
\<close>

section \<open>An invariant rule for the manager\<close>

text \<open>
  What holds of a Config's listeners and the world, and is kept when a listener is stopped and
  removed and by one round of the adding loop, is kept by \<^verbatim>\<open>ManageListeners\<close>.
\<close>

lemma stop_unwanted_rule:
  assumes stop: "\<And>key l cur w x w'. P cur w \<Longrightarrow> map_of cur key = Some l \<Longrightarrow> le_Stop env l w = (x, w') \<Longrightarrow>
      P (if returns x then AList.delete key cur else cur) w'"
  shows "P cur w \<Longrightarrow> stop_unwanted env W keys cur w = (r, cur', w') \<Longrightarrow> P cur' w'"
proof (induction keys arbitrary: cur w)
  case (Cons key keys)
  show ?case
  proof (cases "key \<in> W \<or> map_of cur key = None")
    case True
    then have "stop_unwanted env W keys cur w = (r, cur', w')" using Cons.prems(2) by (auto split: if_splits)
    then show ?thesis using Cons by blast
  next
    case False
    then obtain l where l: "key \<notin> W" "map_of cur key = Some l" by auto
    obtain x w1 where x: "le_Stop env l w = (x, w1)" by (cases "le_Stop env l w")
    note step = stop [OF Cons.prems(1) l(2) x]
    show ?thesis using Cons.prems(2) l x step Cons.IH [of "AList.delete key cur" w1] by (cases x) auto
  qed
qed auto

lemma add_listeners_rule:
  assumes add: "\<And>key source cur w x cur' w'. P cur w \<Longrightarrow> map_of desired key = Some source \<Longrightarrow>
      add_listener env c n key source cur w = (x, cur', w') \<Longrightarrow> P cur' w'"
  shows "P cur w \<Longrightarrow> add_listeners env c n desired keys cur w = (r, cur', w') \<Longrightarrow> P cur' w'"
proof (induction keys arbitrary: cur w)
  case (Cons key keys)
  show ?case
  proof (cases "map_of desired key")
    case None
    with Cons show ?thesis by simp
  next
    case (Some source)
    obtain x cur1 w1 where one: "add_listener env c n key source cur w = (x, cur1, w1)"
      by (cases "add_listener env c n key source cur w")
    note step = add [OF Cons.prems(1) Some one]
    show ?thesis using Cons.prems(2) Some one step Cons.IH [of cur1 w1] by (cases x) auto
  qed
qed auto

lemma ManageListeners_rule:
  assumes run: "ManageListeners env ord1 ord2 m sources lm w = (r, lm', w')" and init: "P (listeners_of lm m) w"
    and stop: "\<And>key l cur w x w'. P cur w \<Longrightarrow> map_of cur key = Some l \<Longrightarrow> le_Stop env l w = (x, w') \<Longrightarrow>
      P (if returns x then AList.delete key cur else cur) w'"
    and add: "\<And>key source cur w x cur' w'. P cur w \<Longrightarrow> generateListenerKey source = Ok key \<Longrightarrow>
      add_listener env (nn_Name m) (webhook_count (desired_of sources)) key source cur w = (x, cur', w') \<Longrightarrow> P cur' w'"
  shows "\<exists>cur'. P cur' w' \<and> (\<forall>n. listeners_of lm' n = (if n = m then cur' else listeners_of lm n))"
proof (cases "sources_valid sources")
  case False
  with run ManageListeners_invalid [OF False, of env ord1 ord2 m lm w] init show ?thesis by auto
next
  case True
  obtain r1 cur1 w1 r2 cur2 w2 where
    s: "stop_unwanted env (fst ` set (desired_of sources)) (ord1 (map fst (listeners_of lm m))) (listeners_of lm m) w = (r1, cur1, w1)"
    and a: "add_listeners env (nn_Name m) (webhook_count (desired_of sources)) (desired_of sources)
      (ord2 (map fst (desired_of sources))) cur1 w1 = (r2, cur2, w2)"
    and eq: "ManageListeners env ord1 ord2 m sources lm w =
      (if r1 \<noteq> Ok () then (r1, set_listeners m cur1 lm, w1)
       else (r2, if r2 = Ok () \<and> cur2 = [] then lm\<lparr>lm_listeners := AList.delete m (lm_listeners lm)\<rparr>
                 else set_listeners m cur2 lm, w2))"
    by (rule manage_steps [OF True])
  have 1: "P cur1 w1" by (rule stop_unwanted_rule [where P = P, OF stop init s])
  have "P cur' w'" if "P cur w" "map_of (desired_of sources) key = Some source"
      "add_listener env (nn_Name m) (webhook_count (desired_of sources)) key source cur w = (x, cur', w')" for key source cur w x cur' w'
    using add [OF that(1) _ that(3)] desired_sound [OF that(2)] by simp
  then have "P cur2 w2" by (rule add_listeners_rule [where P = P, OF _ 1 a])
  with 1 eq run show ?thesis by (cases "r1 = Ok ()") (auto intro!: exI [of _ "if r1 = Ok () then cur2 else cur1"])
qed

text \<open>Stopping all listeners of a Config is the same loop in both places.\<close>

lemma stop_listeners_unwanted:
  "stop_listeners env cur keys errs w = (Ok errs', cur', w') \<Longrightarrow> stop_unwanted env {} keys cur w = (Ok (), cur', w')"
proof (induction keys arbitrary: cur errs w)
  case (Cons key keys)
  show ?case
  proof (cases "map_of cur key")
    case None
    with Cons show ?thesis by simp
  next
    case (Some l)
    obtain x w1 where stop: "le_Stop env l w = (x, w1)" by (cases "le_Stop env l w")
    with Cons Some show ?thesis by (cases x) auto
  qed
qed simp

text \<open>What every stop keeps, \<^verbatim>\<open>StopAll\<close> keeps.\<close>

lemma stop_listeners_rule:
  assumes "\<And>l w x w'. Q w \<Longrightarrow> le_Stop env l w = (x, w') \<Longrightarrow> Q w'"
  shows "Q w \<Longrightarrow> stop_listeners env cur keys errs w = (r, cur', w') \<Longrightarrow> Q w'"
proof (induction keys arbitrary: cur errs w)
  case (Cons key keys)
  show ?case
  proof (cases "map_of cur key")
    case None
    with Cons show ?thesis by simp
  next
    case (Some l)
    obtain x w1 where stop: "le_Stop env l w = (x, w1)" by (cases "le_Stop env l w")
    note Q1 = assms [OF Cons.prems(1) stop]
    show ?thesis using Cons.prems(2) Some stop Q1 Cons.IH [OF Q1] by (cases x) auto
  qed
qed auto

lemma stop_manifests_rule:
  assumes "\<And>l w x w'. Q w \<Longrightarrow> le_Stop env l w = (x, w') \<Longrightarrow> Q w'"
  shows "Q w \<Longrightarrow> stop_manifests env ord ms errs lm w = (r, lm', w') \<Longrightarrow> Q w'"
proof (induction ms arbitrary: errs lm w)
  case (Cons m ms)
  obtain x cur w1 where one: "stop_listeners env (listeners_of lm m) (ord (map fst (listeners_of lm m))) errs w = (x, cur, w1)"
    by (cases "stop_listeners env (listeners_of lm m) (ord (map fst (listeners_of lm m))) errs w")
  have Q1: "Q w1" by (rule stop_listeners_rule [where Q = Q, OF assms Cons.prems(1) one])
  show ?case using Cons.prems(2) one Q1 Cons.IH [OF Q1] by (cases x) auto
qed auto

lemma StopAll_rule:
  assumes "\<And>l w x w'. Q w \<Longrightarrow> le_Stop env l w = (x, w') \<Longrightarrow> Q w'" and "Q w" and "StopAll env ord1 ord2 lm w = (r, lm', w')"
  shows "Q w'"
proof -
  obtain x lm1 w1 where "stop_manifests env ord2 (ord1 (map fst (lm_listeners lm))) [] lm w = (x, lm1, w1)"
    by (cases "stop_manifests env ord2 (ord1 (map fst (lm_listeners lm))) [] lm w")
  with stop_manifests_rule [where Q = Q, OF assms(1,2) this] assms(3) show ?thesis
    by (auto simp: StopAll_def split: result.splits)
qed

text \<open>
  One round of the adding loop: nothing is done, a creator is called and fails, or a webhook
  listener or a created one is started under a key that is free.
\<close>

lemma add_listener_cases:
  assumes "add_listener env c n key source cur w = (r, cur', w')"
  obtains (none) "cur' = cur" "w' = w"
    | (hook) new rk where "le_hook env = Some new" "ns_Type source = WEBHOOK" "map_of cur key = None"
        "start_and_enter env key (new rk (case ns_Webhook source of None \<Rightarrow> empty_webhook_config | Some cfg \<Rightarrow> cfg)) cur w = (r, cur', w')"
    | (failed) create x where "listener_GetProvider (le_providers env) (ns_Type source) = Some create"
        "create source w = (x, w')" "cur' = cur"
    | (created) create l w1 where "listener_GetProvider (le_providers env) (ns_Type source) = Some create"
        "create source w = (Ok l, w1)" "map_of cur key = None" "start_and_enter env key l cur w1 = (r, cur', w')"
  using assms unfolding add_listener_def
  by (auto simp: Let_def split: if_splits option.splits prod.splits result.splits)

lemma start_and_enter_outcome:
  assumes "start_and_enter env key l cur w = (r, cur', w')"
  obtains x where "le_Start env l w = (x, w')" "cur' = (if x = Ok () then AList.update key l cur else cur)"
  using assms by (auto simp: start_and_enter_def split: prod.splits result.splits)

section \<open>Listeners that can be stopped\<close>

locale managed_listeners =
  fixes env :: "('l, 'w) listener_env" and running :: "'w \<Rightarrow> 'l set" and slot :: "'l \<Rightarrow> 's" and stoppable :: "'w \<Rightarrow> 'l \<Rightarrow> bool"
  assumes create_new: "listener_GetProvider (le_providers env) t = Some create \<Longrightarrow> create source w = (rc, w') \<Longrightarrow>
      (stoppable w x \<longrightarrow> stoppable w' x) \<and> (rc = Ok l \<longrightarrow> \<not> stoppable w l)"
    and start_Ok: "le_Start env l w = (Ok u, w') \<Longrightarrow> stoppable w' l"
    and start_keeps: "le_Start env l w = (r, w') \<Longrightarrow> stoppable w x \<Longrightarrow> x \<noteq> l \<Longrightarrow> stoppable w' x"
    and hook_stoppable: "le_hook env = Some new \<Longrightarrow> stoppable w (new rk cfg)"
    and stop_returns: "stoppable w l \<Longrightarrow> le_Stop env l w = (r, w') \<Longrightarrow> returns r"
    and stop_running: "stoppable w l \<Longrightarrow> le_Stop env l w = (r, w') \<Longrightarrow> running w' = {x \<in> running w. slot x \<noteq> slot l}"
    and stop_keeps: "stoppable w l \<Longrightarrow> le_Stop env l w = (r, w') \<Longrightarrow> stoppable w x \<Longrightarrow> stoppable w' x"
begin

definition keeps :: "'w \<Rightarrow> 'w \<Rightarrow> bool" where
  "keeps w w' \<longleftrightarrow> (\<forall>x. stoppable w x \<longrightarrow> stoppable w' x)"

definition live :: "(string, 'l) gomap \<Rightarrow> 'w \<Rightarrow> bool" where
  "live cur w \<longleftrightarrow> (\<forall>k l. map_of cur k = Some l \<longrightarrow> stoppable w l)"

definition manager_live :: "'l Manager \<Rightarrow> 'w \<Rightarrow> bool" where
  "manager_live lm w \<longleftrightarrow> (\<forall>m. live (listeners_of lm m) w)"

lemma keeps_refl [simp]: "keeps w w"
  by (simp add: keeps_def)

lemma keeps_trans: "keeps w w1 \<Longrightarrow> keeps w1 w2 \<Longrightarrow> keeps w w2"
  by (simp add: keeps_def)

lemma live_keeps: "live cur w \<Longrightarrow> keeps w w' \<Longrightarrow> live cur w'"
  by (auto simp: live_def keeps_def)

lemma live_delete: "live cur w \<Longrightarrow> live (AList.delete k cur) w"
  by (simp add: live_def)

lemma live_update: "live cur w \<Longrightarrow> stoppable w l \<Longrightarrow> live (AList.update k l cur) w"
  by (simp add: live_def)

text \<open>Adding listeners: what is entered was started, and what was there can still be stopped.\<close>

lemma start_and_enter_live:
  assumes "start_and_enter env key l cur w1 = (r, cur', w')" and "live cur w" and "keeps w w1" and "stoppable w l \<Longrightarrow> stoppable w' l"
  shows "live cur' w' \<and> keeps w w'"
proof -
  from assms(1) obtain x where st: "le_Start env l w1 = (x, w')" and cur': "cur' = (if x = Ok () then AList.update key l cur else cur)"
    by (rule start_and_enter_outcome)
  have "stoppable w' y" if "stoppable w y" for y
    using that start_keeps [OF st, of y] assms(3,4) by (cases "y = l") (auto simp: keeps_def)
  then have k: "keeps w w'" by (simp add: keeps_def)
  then show ?thesis unfolding cur' using live_update [OF live_keeps [OF assms(2) k]] live_keeps [OF assms(2) k] start_Ok st by auto
qed

lemma add_listener_live:
  assumes "live cur w" and "add_listener env c n key source cur w = (r, cur', w')"
  shows "live cur' w' \<and> keeps w w'"
  using assms(2)
proof (cases rule: add_listener_cases)
  case none
  then show ?thesis using assms(1) by simp
next
  case (hook new rk)
  from start_and_enter_live [OF hook(4) assms(1) keeps_refl] hook_stoppable [OF hook(1)] show ?thesis by blast
next
  case (failed create x)
  then have "keeps w w'" using create_new [OF failed(1,2)] by (simp add: keeps_def)
  with failed live_keeps [OF assms(1)] show ?thesis by blast
next
  case (created create l w1)
  have "keeps w w1" "\<not> stoppable w l" using create_new [OF created(1,2)] by (auto simp: keeps_def)
  with start_and_enter_live [OF created(4) assms(1)] show ?thesis by blast
qed

lemma stop_live:
  assumes "live cur w" and "map_of cur key = Some l" and "le_Stop env l w = (x, w')"
  shows "returns x \<and> live (AList.delete key cur) w' \<and> keeps w w'"
proof -
  have s: "stoppable w l" using assms(1,2) by (auto simp: live_def)
  have "keeps w w'" using stop_keeps [OF s assms(3)] by (simp add: keeps_def)
  with live_keeps [OF live_delete [OF assms(1)]] stop_returns [OF s assms(3)] show ?thesis by blast
qed

lemma manager_live_set:
  assumes "manager_live lm w" and "keeps w w'" and "live cur w'" and "\<forall>n. listeners_of lm' n = (if n = m then cur else listeners_of lm n)"
  shows "manager_live lm' w'"
  using assms by (auto simp: manager_live_def live_def keeps_def)

lemma ManageListeners_live:
  assumes "manager_live lm w" and "ManageListeners env ord1 ord2 m sources lm w = (r, lm', w')"
  shows "manager_live lm' w'"
proof -
  have "\<exists>cur'. (live cur' w' \<and> keeps w w') \<and> (\<forall>n. listeners_of lm' n = (if n = m then cur' else listeners_of lm n))"
  proof (rule ManageListeners_rule [OF assms(2), where P = "\<lambda>cur v. live cur v \<and> keeps w v"], goal_cases)
    case 1
    then show ?case using assms(1) by (simp add: manager_live_def)
  next
    case (2 key l cur v x v')
    then show ?case using stop_live [of cur v key l x v'] keeps_trans by auto
  next
    case (3 key source cur v x cur' v')
    then show ?case using add_listener_live keeps_trans by blast
  qed
  with manager_live_set [OF assms(1)] show ?thesis by blast
qed

text \<open>Stopping everything.\<close>

lemma stop_listeners_live:
  "live cur w \<Longrightarrow> \<exists>errs' cur' w'. stop_listeners env cur keys errs w = (Ok errs', cur', w') \<and> keeps w w'
     \<and> map_of cur' = (\<lambda>k. if k \<in> set keys then None else map_of cur k)
     \<and> running w' = {x \<in> running w. \<forall>k \<in> set keys. \<forall>l. map_of cur k = Some l \<longrightarrow> slot x \<noteq> slot l}"
proof (induction keys arbitrary: cur errs w)
  case (Cons key keys)
  show ?case
  proof (cases "map_of cur key")
    case None
    obtain errs' cur' w' where "stop_listeners env cur keys errs w = (Ok errs', cur', w')" "keeps w w'"
      "map_of cur' = (\<lambda>k. if k \<in> set keys then None else map_of cur k)"
      "running w' = {x \<in> running w. \<forall>k \<in> set keys. \<forall>l. map_of cur k = Some l \<longrightarrow> slot x \<noteq> slot l}"
      using Cons by blast
    with None show ?thesis by (intro exI [of _ errs'] exI [of _ cur'] exI [of _ w']) (auto simp: fun_eq_iff)
  next
    case (Some l)
    obtain x w1 where stop: "le_Stop env l w = (x, w1)" by (cases "le_Stop env l w")
    have s: "stoppable w l" using Cons.prems Some by (auto simp: live_def)
    have k: "keeps w w1" using stop_keeps [OF s stop] by (simp add: keeps_def)
    obtain errs1 where step: "stop_listeners env cur (key # keys) errs w = stop_listeners env (AList.delete key cur) keys errs1 w1"
      using stop_returns [OF s stop] Some stop by (cases rule: returns_cases) auto
    obtain errs' cur' w' where "stop_listeners env (AList.delete key cur) keys errs1 w1 = (Ok errs', cur', w')" "keeps w1 w'"
      "map_of cur' = (\<lambda>k. if k \<in> set keys then None else map_of (AList.delete key cur) k)"
      "running w' = {x \<in> running w1. \<forall>k \<in> set keys. \<forall>l. map_of (AList.delete key cur) k = Some l \<longrightarrow> slot x \<noteq> slot l}"
      using Cons.IH [OF live_keeps [OF live_delete [OF Cons.prems] k]] by blast
    moreover have "running w1 = {x \<in> running w. slot x \<noteq> slot l}" by (rule stop_running [OF s stop])
    ultimately show ?thesis
      unfolding step using Some k keeps_trans
      by (intro exI [of _ errs'] exI [of _ cur'] exI [of _ w']) (auto simp: fun_eq_iff split: if_splits)
  qed
qed auto

lemma stop_all_live:
  assumes "range_order ord" and "live cur w"
  shows "\<exists>errs' w'. stop_listeners env cur (ord (map fst cur)) errs w = (Ok errs', [], w') \<and> keeps w w'
    \<and> running w' = {x \<in> running w. \<forall>k l. map_of cur k = Some l \<longrightarrow> slot x \<noteq> slot l}"
proof -
  obtain errs1 cur1 w1 where one: "stop_listeners env cur (ord (map fst cur)) errs w = (Ok errs1, cur1, w1)" "keeps w w1"
    "map_of cur1 = (\<lambda>k. if k \<in> set (ord (map fst cur)) then None else map_of cur k)"
    "running w1 = {x \<in> running w. \<forall>k \<in> set (ord (map fst cur)). \<forall>l. map_of cur k = Some l \<longrightarrow> slot x \<noteq> slot l}"
    using stop_listeners_live [OF assms(2)] by blast
  have dom: "k \<in> set (ord (map fst cur)) \<longleftrightarrow> map_of cur k \<noteq> None" for k
    using assms(1) by (simp add: map_of_eq_None_iff)
  have "map_of cur1 = Map.empty" using one(3) dom by auto
  then have "cur1 = []" by simp
  moreover have "running w1 = {x \<in> running w. \<forall>k l. map_of cur k = Some l \<longrightarrow> slot x \<noteq> slot l}"
    unfolding one(4) using dom by blast
  ultimately show ?thesis using one(1,2) by blast
qed

lemma stop_unwanted_live: "live cur w \<Longrightarrow> \<exists>cur' w'. stop_unwanted env W keys cur w = (Ok (), cur', w')"
proof (induction keys arbitrary: cur w)
  case (Cons key keys)
  show ?case
  proof (cases "key \<in> W \<or> map_of cur key = None")
    case True
    with Cons show ?thesis by (auto split: option.split)
  next
    case False
    then obtain l where l: "key \<notin> W" "map_of cur key = Some l" by auto
    obtain x w1 where stop: "le_Stop env l w = (x, w1)" by (cases "le_Stop env l w")
    note live = stop_live [OF Cons.prems l(2) stop]
    then have x: "returns x" and "live (AList.delete key cur) w1" by simp_all
    with Cons.IH [of "AList.delete key cur" w1] l stop show ?thesis by (cases x) auto
  qed
qed simp

text \<open>Reconciling a Config without sources: all its listeners are stopped, it is forgotten, and nothing else stops.\<close>

lemma teardown_live:
  assumes "range_order ord1" and "manager_live lm w" and "sources \<in> {None, Some []}"
  shows "\<exists>w'. ManageListeners env ord1 ord2 m sources lm w = (Ok (), lm\<lparr>lm_listeners := AList.delete m (lm_listeners lm)\<rparr>, w')
    \<and> keeps w w' \<and> running w' = {x \<in> running w. \<forall>k l. map_of (listeners_of lm m) k = Some l \<longrightarrow> slot x \<noteq> slot l}"
proof -
  have "live (listeners_of lm m) w" using assms(2) by (simp add: manager_live_def)
  from stop_all_live [OF assms(1) this] obtain errs w' where stop:
    "stop_listeners env (listeners_of lm m) (ord1 (map fst (listeners_of lm m))) [] w = (Ok errs, [], w')" "keeps w w'"
    "running w' = {x \<in> running w. \<forall>k l. map_of (listeners_of lm m) k = Some l \<longrightarrow> slot x \<noteq> slot l}" by blast
  have desired: "sources_valid sources" "desired_of sources = []" using assms(3) by (auto simp: sources_valid_def source_list_def)
  have add: "add_listeners env c n [] keys [] v = (Ok (), [], v)" for c n keys and v :: 'w
    by (induction keys) simp_all
  have "stop_unwanted env (fst ` set (desired_of sources)) (ord1 (map fst (listeners_of lm m))) (listeners_of lm m) w = (Ok (), [], w')"
    using stop_listeners_unwanted [OF stop(1)] desired(2) by simp
  moreover have "add_listeners env (nn_Name m) (webhook_count (desired_of sources)) (desired_of sources)
      (ord2 (map fst (desired_of sources))) [] w' = (Ok (), [], w')"
    by (simp add: desired(2) add)
  ultimately show ?thesis
    using ManageListeners_run [where ?ord1.0 = ord1 and ?ord2.0 = ord2, OF desired(1)] stop(2,3) by fastforce
qed

lemma stop_manifests_live:
  assumes "range_order ord"
  shows "manager_live lm w \<Longrightarrow> \<exists>errs' lm' w'. stop_manifests env ord ms errs lm w = (Ok errs', lm', w')
    \<and> (\<forall>m. listeners_of lm' m = (if m \<in> set ms then [] else listeners_of lm m))
    \<and> running w' = {x \<in> running w. \<forall>m \<in> set ms. \<forall>k l. map_of (listeners_of lm m) k = Some l \<longrightarrow> slot x \<noteq> slot l}"
proof (induction ms arbitrary: errs lm w)
  case (Cons m ms)
  let ?cur = "listeners_of lm m"
  have "live ?cur w" using Cons.prems by (simp add: manager_live_def)
  from stop_all_live [OF assms this] obtain errs1 w1 where one:
    "stop_listeners env ?cur (ord (map fst ?cur)) errs w = (Ok errs1, [], w1)" "keeps w w1"
    "running w1 = {x \<in> running w. \<forall>k l. map_of ?cur k = Some l \<longrightarrow> slot x \<noteq> slot l}" by blast
  have "manager_live (set_listeners m [] lm) w1" by (rule manager_live_set [OF Cons.prems one(2), of "[]" _ m]) (simp_all add: live_def)
  from Cons.IH [OF this] obtain errs' lm' w' where rest:
    "stop_manifests env ord ms errs1 (set_listeners m [] lm) w1 = (Ok errs', lm', w')"
    "\<forall>n. listeners_of lm' n = (if n \<in> set ms then [] else listeners_of (set_listeners m [] lm) n)"
    "running w' = {x \<in> running w1. \<forall>n \<in> set ms. \<forall>k l. map_of (listeners_of (set_listeners m [] lm) n) k = Some l \<longrightarrow> slot x \<noteq> slot l}"
    by blast
  define P where "P n x \<longleftrightarrow> (\<forall>k l. map_of (listeners_of lm n) k = Some l \<longrightarrow> slot x \<noteq> slot l)" for n x
  have "running w' = {x \<in> running w. P m x \<and> (\<forall>n \<in> set ms. n = m \<or> P n x)}"
    unfolding rest(3) one(3) P_def by auto
  then have "running w' = {x \<in> running w. \<forall>n \<in> set (m # ms). P n x}" by auto
  with one(1) rest(1,2) show ?case
    unfolding P_def by (intro exI [of _ errs'] exI [of _ lm'] exI [of _ w']) simp
qed auto

lemma StopAll_live:
  assumes "range_order ord1" "range_order ord2" and "manager_live lm w"
  shows "\<exists>r lm' w'. StopAll env ord1 ord2 lm w = (r, lm', w') \<and> returns r \<and> (\<forall>m. listeners_of lm' m = [])
    \<and> running w' = {x \<in> running w. \<forall>m k l. map_of (listeners_of lm m) k = Some l \<longrightarrow> slot x \<noteq> slot l}"
proof -
  let ?ms = "ord1 (map fst (lm_listeners lm))"
  have none: "listeners_of lm m = []" if "m \<notin> set ?ms" for m
    using that assms(1) by (simp add: listeners_of_def map_of_eq_None_iff [symmetric])
  obtain errs lm' w' where run: "stop_manifests env ord2 ?ms [] lm w = (Ok errs, lm', w')"
    "\<forall>m. listeners_of lm' m = (if m \<in> set ?ms then [] else listeners_of lm m)"
    "running w' = {x \<in> running w. \<forall>m \<in> set ?ms. \<forall>k l. map_of (listeners_of lm m) k = Some l \<longrightarrow> slot x \<noteq> slot l}"
    using stop_manifests_live [OF assms(2,3)] by blast
  have "(\<forall>m \<in> set ?ms. P m) \<longleftrightarrow> (\<forall>m. P m)" if "\<And>m. listeners_of lm m = [] \<Longrightarrow> P m" for P using that none by blast
  then have "running w' = {x \<in> running w. \<forall>m k l. map_of (listeners_of lm m) k = Some l \<longrightarrow> slot x \<noteq> slot l}"
    unfolding run(3) by fastforce
  moreover have "\<forall>m. listeners_of lm' m = []" using run(2) none by simp
  ultimately show ?thesis using run(1) by (auto simp: StopAll_def)
qed

end

text \<open>
  The manager loses no listener. When creating a listener starts nothing and a start that fails
  leaves nothing behind, every running listener is one the manager holds.
\<close>

locale tracked_listeners = managed_listeners env running slot stoppable
  for env :: "('l, 'w) listener_env" and running :: "'w \<Rightarrow> 'l set" and slot :: "'l \<Rightarrow> 's" and stoppable :: "'w \<Rightarrow> 'l \<Rightarrow> bool" +
  assumes create_running: "listener_GetProvider (le_providers env) t = Some create \<Longrightarrow> create source w = (rc, w') \<Longrightarrow>
      running w' \<subseteq> running w"
    and start_running: "le_Start env l w = (r, w') \<Longrightarrow> running w' \<subseteq> running w \<union> {x. x = l \<and> r = Ok ()}"
begin

definition held :: "'l Manager \<Rightarrow> 'l set" where
  "held lm = (\<Union>m. ran (map_of (listeners_of lm m)))"

definition tracked :: "'l Manager \<Rightarrow> 'w \<Rightarrow> bool" where
  "tracked lm w \<longleftrightarrow> manager_live lm w \<and> running w \<subseteq> held lm"

lemma ran_delete: "map_of cur k = Some l \<Longrightarrow> ran (map_of cur) \<subseteq> insert l (ran (map_of (AList.delete k cur)))"
proof
  fix y
  assume "map_of cur k = Some l" "y \<in> ran (map_of cur)"
  moreover from this(2) obtain k' where "map_of cur k' = Some y" by (auto simp: ran_def)
  ultimately show "y \<in> insert l (ran (map_of (AList.delete k cur)))" by (cases "k' = k") (auto intro: ranI [of _ k'])
qed

text \<open>\<open>A\<close> stands for the listeners of the other Configs.\<close>

lemma stop_tracked:
  assumes "live cur w" and "running w \<subseteq> A \<union> ran (map_of cur)" and "map_of cur key = Some l" and "le_Stop env l w = (x, w')"
  shows "running w' \<subseteq> A \<union> ran (map_of (AList.delete key cur))"
proof -
  have "stoppable w l" using assms(1,3) by (auto simp: live_def)
  from stop_running [OF this assms(4)] show ?thesis using assms(2) ran_delete [OF assms(3)] by auto
qed

lemma start_and_enter_tracked:
  assumes "running w \<subseteq> A \<union> ran (map_of cur)" and "map_of cur key = None" and "start_and_enter env key l cur w = (r, cur', w')"
  shows "running w' \<subseteq> A \<union> ran (map_of cur')"
proof -
  from assms(3) obtain x where st: "le_Start env l w = (x, w')" and cur': "cur' = (if x = Ok () then AList.update key l cur else cur)"
    by (rule start_and_enter_outcome)
  show ?thesis unfolding cur' using start_running [OF st] assms(1,2) by (auto simp: update_conv' ran_map_upd)
qed

lemma add_listener_tracked:
  assumes "running w \<subseteq> A \<union> ran (map_of cur)" and "add_listener env c n key source cur w = (r, cur', w')"
  shows "running w' \<subseteq> A \<union> ran (map_of cur')"
  using assms(2)
proof (cases rule: add_listener_cases)
  case none
  with assms(1) show ?thesis by simp
next
  case (hook new rk)
  from start_and_enter_tracked [OF assms(1) hook(3,4)] show ?thesis .
next
  case (failed create x)
  with create_running [OF failed(1,2)] assms(1) show ?thesis by auto
next
  case (created create l w1)
  from create_running [OF created(1,2)] assms(1) have "running w1 \<subseteq> A \<union> ran (map_of cur)" by blast
  from start_and_enter_tracked [OF this created(3,4)] show ?thesis .
qed

lemma ManageListeners_tracked:
  assumes "tracked lm w" and "ManageListeners env ord1 ord2 m sources lm w = (r, lm', w')"
  shows "tracked lm' w'"
proof -
  let ?A = "\<Union>n \<in> - {m}. ran (map_of (listeners_of lm n))"
  have live: "manager_live lm w" using assms(1) by (simp add: tracked_def)
  have "\<exists>cur'. (live cur' w' \<and> running w' \<subseteq> ?A \<union> ran (map_of cur')) \<and> (\<forall>n. listeners_of lm' n = (if n = m then cur' else listeners_of lm n))"
  proof (rule ManageListeners_rule [OF assms(2), where P = "\<lambda>cur v. live cur v \<and> running v \<subseteq> ?A \<union> ran (map_of cur)"], goal_cases)
    case 1
    then show ?case using assms(1) by (auto simp: tracked_def held_def manager_live_def)
  next
    case (2 key l cur v x v')
    then show ?case using stop_live [of cur v key l x v'] stop_tracked [of cur v ?A key l x v'] by auto
  next
    case (3 key source cur v x cur' v')
    then show ?case using add_listener_live [OF _ 3(3)] add_listener_tracked [OF _ 3(3)] by (auto simp only:)
  qed
  then obtain cur' where "running w' \<subseteq> ?A \<union> ran (map_of cur')" "\<forall>n. listeners_of lm' n = (if n = m then cur' else listeners_of lm n)"
    by blast
  moreover from this(2) have "held lm' = ?A \<union> ran (map_of cur')" unfolding held_def by (auto split: if_splits)
  ultimately show ?thesis using ManageListeners_live [OF live assms(2)] by (simp add: tracked_def)
qed

lemma StopAll_tracked:
  assumes "range_order ord1" "range_order ord2" and "tracked lm w"
  shows "\<exists>r lm' w'. StopAll env ord1 ord2 lm w = (r, lm', w') \<and> returns r \<and> (\<forall>m. listeners_of lm' m = []) \<and> running w' = {}"
proof -
  obtain r lm' w' where stop: "StopAll env ord1 ord2 lm w = (r, lm', w')" "returns r" "\<forall>m. listeners_of lm' m = []"
    "running w' = {x \<in> running w. \<forall>m k l. map_of (listeners_of lm m) k = Some l \<longrightarrow> slot x \<noteq> slot l}"
    using StopAll_live [OF assms(1,2)] assms(3) unfolding tracked_def by blast
  moreover have "running w' = {}"
  proof -
    have "\<exists>m k. map_of (listeners_of lm m) k = Some x" if "x \<in> running w" for x
    proof -
      from that assms(3) have "x \<in> held lm" by (auto simp: tracked_def)
      then show ?thesis by (auto simp: held_def ran_def)
    qed
    with stop(4) show ?thesis by blast
  qed
  ultimately show ?thesis by blast
qed

end

section \<open>Listeners and their sources\<close>

text \<open>
  Every listener stays the listener of the source it was made for: \<open>serves w l source\<close> says that
  \<open>l\<close> is a listener of the type of \<open>source\<close> with its configuration.
\<close>

locale typed_listeners =
  fixes env :: "('l, 'w) listener_env" and serves :: "'w \<Rightarrow> 'l \<Rightarrow> NotificationSource \<Rightarrow> bool"
  assumes create_serves: "listener_GetProvider (le_providers env) (ns_Type source) = Some create \<Longrightarrow> create source w = (rc, w') \<Longrightarrow>
      (serves w x src \<longrightarrow> serves w' x src) \<and> (rc = Ok l \<longrightarrow> serves w' l source)"
    and hook_serves: "le_hook env = Some new \<Longrightarrow> ns_Type source = WEBHOOK \<Longrightarrow>
      serves w (new rk (case ns_Webhook source of None \<Rightarrow> empty_webhook_config | Some cfg \<Rightarrow> cfg)) source"
    and start_serves: "le_Start env l w = (r, w') \<Longrightarrow> serves w x src \<Longrightarrow> serves w' x src"
    and stop_serves: "le_Stop env l w = (r, w') \<Longrightarrow> serves w x src \<Longrightarrow> serves w' x src"
begin

definition sourced :: "'w \<Rightarrow> (string, 'l) gomap \<Rightarrow> bool" where
  "sourced w cur \<longleftrightarrow> (\<forall>k l. map_of cur k = Some l \<longrightarrow> (\<exists>source. generateListenerKey source = Ok k \<and> serves w l source))"

definition evolves :: "'w \<Rightarrow> 'w \<Rightarrow> bool" where
  "evolves w w' \<longleftrightarrow> (\<forall>l source. serves w l source \<longrightarrow> serves w' l source)"

lemma evolves_refl [simp]: "evolves w w"
  by (simp add: evolves_def)

lemma evolves_trans: "evolves w w1 \<Longrightarrow> evolves w1 w2 \<Longrightarrow> evolves w w2"
  by (simp add: evolves_def)

lemma evolves_start: "le_Start env l w = (r, w') \<Longrightarrow> evolves w w'"
  using start_serves by (auto simp: evolves_def)

lemma evolves_stop: "le_Stop env l w = (r, w') \<Longrightarrow> evolves w w'"
  using stop_serves by (auto simp: evolves_def)

lemma sourced_evolves: "sourced w cur \<Longrightarrow> evolves w w' \<Longrightarrow> sourced w' cur"
  unfolding sourced_def evolves_def by blast

lemma sourced_delete: "sourced w cur \<Longrightarrow> sourced w (AList.delete k cur)"
  by (simp add: sourced_def)

lemma start_and_enter_sourced:
  assumes "start_and_enter env key l cur w = (r, cur', w')" and "sourced w cur" and "generateListenerKey source = Ok key" and "serves w l source"
  shows "sourced w' cur' \<and> evolves w w'"
proof -
  from assms(1) obtain x where st: "le_Start env l w = (x, w')" and cur': "cur' = (if x = Ok () then AList.update key l cur else cur)"
    by (rule start_and_enter_outcome)
  note e = evolves_start [OF st]
  from sourced_evolves [OF assms(2) e] have "sourced w' cur" .
  moreover from assms(4) e have "serves w' l source" by (auto simp: evolves_def)
  ultimately show ?thesis unfolding cur' using e assms(3) by (auto simp: sourced_def)
qed

lemma add_listener_sourced:
  assumes "sourced w cur" and "generateListenerKey source = Ok key" and "add_listener env c n key source cur w = (r, cur', w')"
  shows "sourced w' cur' \<and> evolves w w'"
  using assms(3)
proof (cases rule: add_listener_cases)
  case none
  with assms(1) show ?thesis by simp
next
  case (hook new rk)
  from start_and_enter_sourced [OF hook(4) assms(1,2)] hook_serves [OF hook(1,2)] show ?thesis by blast
next
  case (failed create x)
  then have "evolves w w'" using create_serves [OF failed(1,2)] by (auto simp: evolves_def)
  with failed(3) sourced_evolves [OF assms(1)] show ?thesis by blast
next
  case (created create l w1)
  have e: "evolves w w1" "serves w1 l source" using create_serves [OF created(1,2)] by (auto simp: evolves_def)
  from start_and_enter_sourced [OF created(4) sourced_evolves [OF assms(1) e(1)] assms(2) e(2)] evolves_trans [OF e(1)] show ?thesis by blast
qed

lemma ManageListeners_sourced:
  assumes "ManageListeners env ord1 ord2 m sources lm w = (r, lm', w')" and "\<forall>n. sourced w (listeners_of lm n)"
  shows "\<forall>n. sourced w' (listeners_of lm' n)"
proof -
  have "\<exists>cur'. (sourced w' cur' \<and> evolves w w') \<and> (\<forall>n. listeners_of lm' n = (if n = m then cur' else listeners_of lm n))"
  proof (rule ManageListeners_rule [OF assms(1), where P = "\<lambda>cur v. sourced v cur \<and> evolves w v"], goal_cases)
    case 1
    then show ?case using assms(2) by simp
  next
    case (2 key l cur v x v')
    then show ?case using evolves_stop [of l v x v'] sourced_evolves [of v _ v'] sourced_delete evolves_trans by auto
  next
    case (3 key source cur v x cur' v')
    then show ?case using add_listener_sourced evolves_trans by blast
  qed
  with assms(2) sourced_evolves show ?thesis by metis
qed

end

end
