(* ===== verification/Publish.thy ===== *)
theory Publish
  imports Runtime
begin

text \<open>
  How the notification sources hand their events over: the \<^verbatim>\<open>select\<close> between \<^verbatim>\<open>eventChan\<close> and the
  source's context, the plain send that ignores the context, and the loop that processes a
  list of messages. The interface \<open>event_source\<close> states what the loops need of the function that
  processes one message; every source that parses messages is an interpretation of it.
\<close>

section \<open>Definitions\<close>

text \<open>
  \<^verbatim>\<open>select { case eventChan <- event: ... case <-ctx.Done(): ... }\<close>: \<open>Ok Ready\<close> when the event was
  taken, \<open>Ok DoneCase\<close> when the context ended the wait.
\<close>

definition publish :: "SecretRotationEvent \<Rightarrow> rt \<Rightarrow> select_case result \<times> rt" where
  "publish event st =
     (case select_or_done chan_ready st of
        (Ok Ready, st') \<Rightarrow> (Ok Ready, st'\<lparr>rt_out := rt_out st' @ [event]\<rparr>)
      | (r, st') \<Rightarrow> (r, st'))"

text \<open>\<^verbatim>\<open>eventChan <- event\<close> on its own waits until somebody receives.\<close>

fun send_loop :: "SecretRotationEvent \<Rightarrow> sched list \<Rightarrow> rt \<Rightarrow> unit result \<times> rt" where
  "send_loop event [] st = (Blocked, st\<lparr>rt_sched := []\<rparr>)"
| "send_loop event (s # ss) st =
     (let st' = resume s ss st in
      if sc_ready s then (Ok (), st'\<lparr>rt_out := rt_out st' @ [event]\<rparr>) else send_loop event ss st')"

definition send :: "SecretRotationEvent \<Rightarrow> rt \<Rightarrow> unit result \<times> rt" where
  "send event st = send_loop event (rt_sched st) st"

text \<open>A call that lets the environment run: a blocking read, an accept, a sleep.\<close>

definition block :: "rt \<Rightarrow> unit result \<times> rt" where
  "block st = (case rt_sched st of [] \<Rightarrow> (Blocked, st) | s # ss \<Rightarrow> (Ok (), resume s ss st))"

text \<open>The loop over the messages of a batch: an error is logged, the next message follows.\<close>

fun for_each :: "('m \<Rightarrow> rt \<Rightarrow> unit result \<times> rt) \<Rightarrow> 'm list \<Rightarrow> rt \<Rightarrow> unit result \<times> rt" where
  "for_each f [] st = (Ok (), st)"
| "for_each f (m # ms) st =
     (case f m st of
        (Panic p, st') \<Rightarrow> (Panic p, st')
      | (Blocked, st') \<Rightarrow> (Blocked, st')
      | (_, st') \<Rightarrow> for_each f ms st')"

section \<open>Outcomes\<close>

lemma publish_cases:
  obtains (Sent) st' where "publish ev st = (Ok Ready, st')" "rt_out st' = rt_out st @ [ev]" "rt_retry st' = rt_retry st"
      "rt_done st \<Longrightarrow> rt_done st'"
  | (Cancelled) st' where "publish ev st = (Ok DoneCase, st')" "rt_out st' = rt_out st" "rt_retry st' = rt_retry st" "rt_done st'"
  | (Waits) st' where "publish ev st = (Blocked, st')" "rt_out st' = rt_out st" "rt_retry st' = rt_retry st"
      "rt_done st \<Longrightarrow> rt_done st'"
proof -
  obtain x st' where sel: "select_or_done chan_ready st = (x, st')" by (cases "select_or_done chan_ready st")
  note frame = select_frame [OF sel]
  from select_outcome [of chan_ready st] sel consider "x = Ok Ready" | "x = Ok DoneCase" | "x = Blocked" by auto
  then show thesis
  proof cases
    case 1
    then show thesis using frame sel by (intro Sent [of "st'\<lparr>rt_out := rt_out st' @ [ev]\<rparr>"]) (auto simp: publish_def)
  next
    case 2
    then show thesis using frame sel by (intro Cancelled [of st']) (auto simp: publish_def)
  next
    case 3
    then show thesis using frame sel by (intro Waits [of st']) (auto simp: publish_def)
  qed
qed

lemma send_loop_cases:
  "(\<exists>st'. send_loop ev ss st = (Ok (), st') \<and> rt_out st' = rt_out st @ [ev] \<and> rt_retry st' = rt_retry st \<and> (rt_done st \<longrightarrow> rt_done st'))
   \<or> (\<exists>st'. send_loop ev ss st = (Blocked, st') \<and> rt_out st' = rt_out st \<and> rt_retry st' = rt_retry st \<and> (rt_done st \<longrightarrow> rt_done st'))"
proof (induction ev ss st rule: send_loop.induct)
  case (2 ev s ss st)
  show ?case
  proof (cases "sc_ready s")
    case False
    with 2 [OF refl False] show ?thesis by (auto simp: Let_def)
  qed (auto simp: Let_def)
qed auto

lemma send_cases:
  obtains (Sent) st' where "send ev st = (Ok (), st')" "rt_out st' = rt_out st @ [ev]" "rt_retry st' = rt_retry st"
      "rt_done st \<Longrightarrow> rt_done st'"
  | (Waits) st' where "send ev st = (Blocked, st')" "rt_out st' = rt_out st" "rt_retry st' = rt_retry st"
      "rt_done st \<Longrightarrow> rt_done st'"
  using send_loop_cases [of ev "rt_sched st" st] unfolding send_def by blast

lemma block_cases:
  obtains (Resumed) s ss where "rt_sched st = s # ss" "block st = (Ok (), resume s ss st)"
  | (Waits) "rt_sched st = []" "block st = (Blocked, st)"
  by (cases "rt_sched st") (auto simp: block_def)

section \<open>Sources of events\<close>

text \<open>
  \<open>ident m\<close> is the secret a message announces, if it announces one; \<open>trigger\<close> is the name the
  source signs its events with.
\<close>

locale event_source =
  fixes process :: "'m \<Rightarrow> rt \<Rightarrow> unit result \<times> rt" and ident :: "'m \<Rightarrow> string option" and trigger :: string
  assumes process_out: "process m st = (r, st') \<Longrightarrow> rt_out st' = rt_out st
      \<or> (\<exists>ev. rt_out st' = rt_out st @ [ev] \<and> ident m = Some (ev_SecretIdentifier ev) \<and> ev_TriggerSource ev = trigger)"
    and process_all: "process m st = (r, st') \<Longrightarrow> returns r \<Longrightarrow> ident m \<noteq> None \<Longrightarrow> \<not> rt_done st' \<Longrightarrow> rt_out st' \<noteq> rt_out st"
    and process_done: "process m st = (r, st') \<Longrightarrow> rt_done st \<Longrightarrow> rt_done st'"
    and process_retry: "process m st = (r, st') \<Longrightarrow> rt_retry st' = rt_retry st"
begin

text \<open>A batch publishes only what its messages announce, in their order, and signs it.\<close>

lemma for_each_sound:
  "for_each process ms st = (r, st') \<Longrightarrow>
     \<exists>evs. rt_out st' = rt_out st @ evs \<and> subseq (map ev_SecretIdentifier evs) (List.map_filter ident ms)
       \<and> (\<forall>ev \<in> set evs. ev_TriggerSource ev = trigger)"
proof (induction ms arbitrary: st)
  case Nil
  then show ?case by (intro exI [of _ "[]"]) simp
next
  case (Cons m ms)
  obtain x st1 where one: "process m st = (x, st1)" by (cases "process m st")
  obtain evs1 where evs1: "rt_out st1 = rt_out st @ evs1" "subseq (map ev_SecretIdentifier evs1) (List.map_filter ident [m])"
    "\<forall>ev \<in> set evs1. ev_TriggerSource ev = trigger"
  proof -
    from process_out [OF one] consider "rt_out st1 = rt_out st"
      | ev where "rt_out st1 = rt_out st @ [ev]" "ident m = Some (ev_SecretIdentifier ev)" "ev_TriggerSource ev = trigger" by blast
    then show thesis
      by cases (use that [of "[]"] that [of "[_]"] in \<open>auto simp: map_filter_simps\<close>)
  qed
  have split: "List.map_filter ident (m # ms) = List.map_filter ident [m] @ List.map_filter ident ms"
    by (simp add: map_filter_simps split: option.split)
  show ?case
  proof (cases "returns x")
    case True
    then have "for_each process ms st1 = (r, st')" using Cons.prems one by (cases rule: returns_cases) auto
    from Cons.IH [OF this] obtain evs2 where evs2: "rt_out st' = rt_out st1 @ evs2"
      "subseq (map ev_SecretIdentifier evs2) (List.map_filter ident ms)" "\<forall>ev \<in> set evs2. ev_TriggerSource ev = trigger" by blast
    with evs1 show ?thesis
      unfolding split by (intro exI [of _ "evs1 @ evs2"]) (auto intro: list_emb_append_mono)
  next
    case False
    with Cons.prems one have "st' = st1" by (cases x) auto
    moreover have "subseq (map ev_SecretIdentifier evs1) (List.map_filter ident (m # ms))"
      unfolding split using evs1(2) by (meson subseq_order.trans subseq_rev_drop_many subseq_order.refl)
    ultimately show ?thesis using evs1 by blast
  qed
qed

lemma for_each_done: "for_each process ms st = (r, st') \<Longrightarrow> rt_done st \<Longrightarrow> rt_done st'"
proof (induction ms arbitrary: st)
  case (Cons m ms)
  obtain x st1 where one: "process m st = (x, st1)" by (cases "process m st")
  then have "rt_done st1" using process_done Cons.prems(2) by blast
  with Cons one show ?case by (cases x) auto
qed simp

text \<open>When the batch is processed to its end and the source was not stopped, all of it is published.\<close>

lemma for_each_complete:
  "for_each process ms st = (Ok (), st') \<Longrightarrow> \<not> rt_done st' \<Longrightarrow>
     \<exists>evs. rt_out st' = rt_out st @ evs \<and> map ev_SecretIdentifier evs = List.map_filter ident ms
       \<and> (\<forall>ev \<in> set evs. ev_TriggerSource ev = trigger)"
proof (induction ms arbitrary: st)
  case Nil
  then show ?case by (intro exI [of _ "[]"]) (simp add: map_filter_simps)
next
  case (Cons m ms)
  obtain x st1 where one: "process m st = (x, st1)" by (cases "process m st")
  from Cons.prems one have x: "returns x" and rest: "for_each process ms st1 = (Ok (), st')" by (cases x; simp)+
  from Cons.IH [OF rest Cons.prems(2)] obtain evs2 where evs2: "rt_out st' = rt_out st1 @ evs2"
    "map ev_SecretIdentifier evs2 = List.map_filter ident ms" "\<forall>ev \<in> set evs2. ev_TriggerSource ev = trigger" by blast
  have nd: "\<not> rt_done st1" using for_each_done [OF rest] Cons.prems(2) by blast
  show ?case
  proof (cases "rt_out st1 = rt_out st")
    case True
    then have "ident m = None" using process_all [OF one x] nd by blast
    with True evs2 show ?thesis by (intro exI [of _ evs2]) (simp add: map_filter_simps)
  next
    case False
    with process_out [OF one] obtain ev where "rt_out st1 = rt_out st @ [ev]" "ident m = Some (ev_SecretIdentifier ev)"
      "ev_TriggerSource ev = trigger" by blast
    with evs2 show ?thesis by (intro exI [of _ "ev # evs2"]) (simp add: map_filter_simps)
  qed
qed

end

section \<open>Progress\<close>

text \<open>
  An environment that lets the goroutine go on: the source is not stopped, the other side of
  the channel keeps receiving, and there are at least \<open>n\<close> more wake-ups.
\<close>

definition steady :: "nat \<Rightarrow> rt \<Rightarrow> bool" where
  "steady n st \<longleftrightarrow> \<not> rt_done st \<and> n \<le> length (rt_sched st) \<and> (\<forall>s \<in> set (rt_sched st). sc_ready s \<and> \<not> sc_cancel s)"

lemma steady_mono: "steady n st \<Longrightarrow> m \<le> n \<Longrightarrow> steady m st"
  by (simp add: steady_def)

lemma steady_not_done: "steady n st \<Longrightarrow> \<not> rt_done st"
  by (simp add: steady_def)

lemma steady_resume:
  assumes "steady (Suc n) st"
  obtains s ss where "rt_sched st = s # ss" "sc_ready s" "\<not> sc_cancel s" "steady n (resume s ss st)"
  using assms by (cases "rt_sched st") (auto simp: steady_def)

lemma steady_publish: "steady (Suc n) st \<Longrightarrow> \<exists>st'. publish ev st = (Ok Ready, st') \<and> steady n st'"
  by (erule steady_resume)
    (auto simp: publish_def select_or_done_def Let_def chan_ready_def steady_def)

lemma steady_send: "steady (Suc n) st \<Longrightarrow> \<exists>st'. send ev st = (Ok (), st') \<and> steady n st'"
  by (erule steady_resume) (auto simp: send_def Let_def steady_def)

lemma steady_block: "steady (Suc n) st \<Longrightarrow> \<exists>st'. block st = (Ok (), st') \<and> steady n st' \<and> rt_out st' = rt_out st"
  by (erule steady_resume) (auto simp: block_def)

text \<open>Sources that process every safe message to its end.\<close>

locale live_event_source = event_source +
  fixes safe :: "'a \<Rightarrow> bool"
  assumes process_live: "safe m \<Longrightarrow> steady (Suc n) st \<Longrightarrow> \<exists>r st'. process m st = (r, st') \<and> returns r \<and> steady n st'"
begin

lemma for_each_live:
  "\<forall>m \<in> set ms. safe m \<Longrightarrow> steady (length ms + n) st \<Longrightarrow> \<exists>st'. for_each process ms st = (Ok (), st') \<and> steady n st'"
proof (induction ms arbitrary: st)
  case (Cons m ms)
  then obtain r st1 where "process m st = (r, st1)" "returns r" "steady (length ms + n) st1"
    using process_live [of m "length ms + n" st] by auto
  with Cons show ?case by (cases r) auto
qed auto

text \<open>Under a steady environment a batch of safe messages is published completely.\<close>

lemma for_each_publishes:
  assumes "\<forall>m \<in> set ms. safe m" and "steady (length ms + n) st"
  shows "\<exists>st' evs. for_each process ms st = (Ok (), st') \<and> steady n st' \<and> rt_out st' = rt_out st @ evs
    \<and> map ev_SecretIdentifier evs = List.map_filter ident ms \<and> (\<forall>ev \<in> set evs. ev_TriggerSource ev = trigger)"
  using for_each_live [OF assms] for_each_complete steady_not_done by blast

end

end
