(* ===== verification/TcpSource.thy ===== *)
theory TcpSource
  imports Publish Json
begin

text \<open>
  The TCP source (\<^verbatim>\<open>internal/listener/tcp\<close>): the accept loop, the reader of one connection, which
  splits what a single read returns at newlines, and the default processing of a message.
  \<^verbatim>\<open>gjson\<close> and the formatted wall clock are the record \<open>tcp_env\<close>, the operating system's sockets
  the record \<open>net\<close> over a world \<open>'n\<close>.
\<close>

section \<open>Environment and state\<close>

text \<open>What \<^verbatim>\<open>gjson.Result.Value()\<close> returns, as far as the type switch tells values apart.\<close>

datatype gvalue = GString string | GOther

text \<open>
  \<open>te_Valid\<close> is \<^verbatim>\<open>gjson.Valid\<close>, \<open>te_Get msg path\<close> is \<^verbatim>\<open>gjson.Get\<close> (\<open>None\<close>: the result does not
  exist), \<open>te_Format\<close> the clock in the layout \<^verbatim>\<open>2006-01-02-15-04-05.000\<close>.
\<close>

record tcp_env =
  te_Valid :: "string \<Rightarrow> bool"
  te_Get :: "string \<Rightarrow> string \<Rightarrow> gvalue option"
  te_Format :: "int \<Rightarrow> string"

text \<open>\<^verbatim>\<open>net.Listen("tcp", addr)\<close> and \<^verbatim>\<open>Listener.Close\<close>: the error, if any, and the new world.\<close>

record 'n net =
  nt_Listen :: "string \<Rightarrow> 'n \<Rightarrow> error option \<times> 'n"
  nt_Close :: "string \<Rightarrow> 'n \<Rightarrow> error option \<times> 'n"

text \<open>The method values the program stores as message handlers, and the nil function.\<close>

datatype ProcessFn = NilProcessFn | DefaultProcessFn | VaultProcessFn

text \<open>
  \<open>ts_listener\<close> is the open listener by its address, \<open>None\<close> being nil; \<open>ts_done\<close> says that the
  context is cancelled, \<open>ts_accepting\<close> that the accept loop was started.
\<close>

record TCPSocket =
  ts_config :: "TCPSocketConfig option"
  ts_done :: bool
  ts_processFn :: ProcessFn
  ts_listener :: "string option"
  ts_accepting :: bool

definition TCP_SOCKET :: string where "TCP_SOCKET = ''TCPSocket''"

section \<open>Creating, starting, stopping\<close>

definition SetProcessFn :: "ProcessFn \<Rightarrow> TCPSocket \<Rightarrow> TCPSocket" where
  "SetProcessFn p h = h\<lparr>ts_processFn := p\<rparr>"

definition NewTCPSocketListener :: "bool \<Rightarrow> TCPSocketConfig option \<Rightarrow> TCPSocket result" where
  "NewTCPSocketListener ctx_done config =
     Ok (SetProcessFn DefaultProcessFn
       \<lparr>ts_config = config, ts_done = ctx_done, ts_processFn = NilProcessFn, ts_listener = None, ts_accepting = False\<rparr>)"

definition tcp_CreateListener :: "bool \<Rightarrow> NotificationSource option \<Rightarrow> TCPSocket result" where
  "tcp_CreateListener ctx_done source =
     (case source of
        None \<Rightarrow> Err (errors_New ''tcp socket config is nil'')
      | Some src \<Rightarrow>
          (case ns_TCPSocket src of
             None \<Rightarrow> Err (errors_New ''tcp socket config is nil'')
           | Some config \<Rightarrow>
               Ok (SetProcessFn DefaultProcessFn
                 \<lparr>ts_config = Some config, ts_done = ctx_done, ts_processFn = NilProcessFn, ts_listener = None, ts_accepting = False\<rparr>)))"

text \<open>\<^verbatim>\<open>fmt.Sprintf("%v:%v", host, port)\<close>.\<close>

definition socket_addr :: "string \<Rightarrow> int32 \<Rightarrow> string" where
  "socket_addr host port = host @ '':'' @ itoa (sint port)"

definition tcp_Start :: "'n net \<Rightarrow> TCPSocket \<Rightarrow> 'n \<Rightarrow> unit result \<times> TCPSocket \<times> 'n" where
  "tcp_Start nt h n =
     (case ts_config h of
        None \<Rightarrow> (Err (errors_New ''config is nil''), h, n)
      | Some config \<Rightarrow>
          (let addr = socket_addr (tcp_Host config) (tcp_Port config) in
           case nt_Listen nt addr n of
             (Some err, n') \<Rightarrow> (Err err, h\<lparr>ts_listener := None\<rparr>, n')
           | (None, n') \<Rightarrow> (Ok (), h\<lparr>ts_listener := Some addr, ts_accepting := True\<rparr>, n')))"

text \<open>\<^verbatim>\<open>Stop\<close> on a socket that was never opened calls a method of a nil interface.\<close>

definition tcp_Stop :: "'n net \<Rightarrow> TCPSocket \<Rightarrow> 'n \<Rightarrow> unit result \<times> TCPSocket \<times> 'n" where
  "tcp_Stop nt h n =
     (let h' = h\<lparr>ts_done := True\<rparr> in
      case ts_listener h of
        None \<Rightarrow> (Panic ''nil pointer dereference'', h', n)
      | Some addr \<Rightarrow>
          (case nt_Close nt addr n of
             (Some err, n') \<Rightarrow> (Err err, h', n')
           | (None, n') \<Rightarrow> (Ok (), h', n')))"

section \<open>The accept loop\<close>

text \<open>
  What a call of \<^verbatim>\<open>Accept\<close> returns, once the environment lets it return: a connection, the
  deadline of one second, or another error. The loop looks at the context before every call;
  an error makes it try again unless the context is done. The result is the list of
  connections for which a reader was started.
\<close>

text \<open>
  A connection delivers segments; a read returns what is there, at most as much as the buffer
  holds. Then the other side closes it (\<open>cn_end\<close>) or stays silent.
\<close>

record conn =
  cn_segs :: "string list"
  cn_end :: "error option"

datatype accepted = Conn conn | Timeout | AcceptError error

fun handleConnection :: "accepted list \<Rightarrow> rt \<Rightarrow> unit result \<times> conn list \<times> rt" where
  "handleConnection [] st = (if rt_done st then (Ok (), [], st) else (Blocked, [], st))"
| "handleConnection (a # as) st =
     (if rt_done st then (Ok (), [], st)
      else
        (case block st of
           (Ok _, st1) \<Rightarrow>
             (case a of
                Conn c \<Rightarrow> (case handleConnection as st1 of (r, cs, st2) \<Rightarrow> (r, c # cs, st2))
              | Timeout \<Rightarrow> handleConnection as st1
              | AcceptError e \<Rightarrow> if rt_done st1 then (Ok (), [], st1) else handleConnection as st1)
         | (Err e, st1) \<Rightarrow> (Err e, [], st1)
         | (Panic p, st1) \<Rightarrow> (Panic p, [], st1)
         | (Blocked, st1) \<Rightarrow> (Blocked, [], st1)))"

section \<open>Reading messages\<close>

definition bufsize :: nat where "bufsize = 4096"

text \<open>\<^verbatim>\<open>conn.Read(buf)\<close>.\<close>

fun conn_Read :: "conn \<Rightarrow> string result \<times> conn" where
  "conn_Read c =
     (case cn_segs c of
        [] \<Rightarrow> (case cn_end c of None \<Rightarrow> (Blocked, c) | Some e \<Rightarrow> (Err e, c))
      | s # ss \<Rightarrow>
          (Ok (take bufsize s), c\<lparr>cn_segs := (if length s \<le> bufsize then ss else drop bufsize s # ss)\<rparr>))"

definition newline :: string where "newline = [CHR 0x0A]"

text \<open>The messages of one read: the non-empty pieces between newlines.\<close>

definition messages_of :: "string \<Rightarrow> string list" where
  "messages_of chunk = filter (\<lambda>m. length m > 0) (Split chunk newline)"

definition conn_size :: "conn \<Rightarrow> nat" where
  "conn_size c = sum_list (map (Suc \<circ> length) (cn_segs c))"

lemma conn_Read_size: "conn_Read c = (Ok chunk, c') \<Longrightarrow> conn_size c' < conn_size c"
  by (auto simp: conn_size_def bufsize_def split: list.splits option.splits if_splits)

text \<open>The reader of a connection; \<open>None\<close> is a nil connection.\<close>

function readMessage :: "(string \<Rightarrow> rt \<Rightarrow> unit result \<times> rt) \<Rightarrow> conn option \<Rightarrow> rt \<Rightarrow> unit result \<times> rt" where
  "readMessage processFn conn st =
     (if rt_done st then (Ok (), st)
      else
        (case conn of
           None \<Rightarrow> (Ok (), st)
         | Some c \<Rightarrow>
             (case block st of
                (Ok _, st1) \<Rightarrow>
                  (case conn_Read c of
                     (Ok chunk, c') \<Rightarrow>
                       (case (if length chunk > 0 then for_each processFn (messages_of chunk) st1 else (Ok (), st1)) of
                          (Ok _, st2) \<Rightarrow> readMessage processFn (Some c') st2
                        | (r, st2) \<Rightarrow> (r, st2))
                   | (Err e, c') \<Rightarrow> (Ok (), st1)
                   | (Panic p, c') \<Rightarrow> (Panic p, st1)
                   | (Blocked, c') \<Rightarrow> (Blocked, st1))
              | (r, st1) \<Rightarrow> (r, st1))))"
  by pat_completeness auto
termination readMessage
  by (relation "measure (\<lambda>(f, conn, st). case conn of None \<Rightarrow> 0 | Some c \<Rightarrow> conn_size c)")
    (auto dest!: sym [of "(_, _)"] conn_Read_size simp del: conn_Read.simps)

declare readMessage.simps [simp del] conn_Read.simps [simp del]

section \<open>Processing a message\<close>

definition tcp_event :: "tcp_env \<Rightarrow> string \<Rightarrow> int \<Rightarrow> SecretRotationEvent" where
  "tcp_event te v now =
     \<lparr>ev_SecretIdentifier = v, ev_RotationTimestamp = te_Format te now, ev_TriggerSource = TCP_SOCKET, ev_Namespace = []\<rparr>"

text \<open>The end of a processing function that publishes: being cancelled only drops the event.\<close>

definition publish_or_drop :: "SecretRotationEvent \<Rightarrow> rt \<Rightarrow> unit result \<times> rt" where
  "publish_or_drop event st =
     (case publish event st of
        (Ok _, st') \<Rightarrow> (Ok (), st')
      | (Err e, st') \<Rightarrow> (Err e, st')
      | (Panic p, st') \<Rightarrow> (Panic p, st')
      | (Blocked, st') \<Rightarrow> (Blocked, st'))"

text \<open>The configuration is dereferenced only for a message that is valid JSON.\<close>

definition defaultProcess :: "tcp_env \<Rightarrow> TCPSocketConfig option \<Rightarrow> string \<Rightarrow> rt \<Rightarrow> unit result \<times> rt" where
  "defaultProcess te config message st =
     (if \<not> te_Valid te message then (Ok (), st)
      else
        (case config of
           None \<Rightarrow> (Panic ''nil pointer dereference'', st)
         | Some cfg \<Rightarrow>
             (case te_Get te message (tcp_SecretIdentifierOnPayload cfg) of
                None \<Rightarrow> (Ok (), st)
              | Some val \<Rightarrow>
                  (case val of
                     GString v \<Rightarrow> publish_or_drop (tcp_event te v (rt_now st)) st
                   | GOther \<Rightarrow> (Ok (), st)))))"

section \<open>The default processing is a source of events\<close>

text \<open>The secret a message announces: the string at the configured path of a valid JSON text.\<close>

definition tcp_ident :: "tcp_env \<Rightarrow> TCPSocketConfig \<Rightarrow> string \<Rightarrow> string option" where
  "tcp_ident te cfg message =
     (if te_Valid te message then
        (case te_Get te message (tcp_SecretIdentifierOnPayload cfg) of Some (GString v) \<Rightarrow> Some v | _ \<Rightarrow> None)
      else None)"

lemma publish_or_drop_out:
  assumes "publish_or_drop ev st = (r, st')"
  shows "rt_out st' = rt_out st \<or> rt_out st' = rt_out st @ [ev]" "rt_retry st' = rt_retry st" "rt_done st \<Longrightarrow> rt_done st'"
    "returns r \<Longrightarrow> \<not> rt_done st' \<Longrightarrow> rt_out st' = rt_out st @ [ev]"
proof -
  have "(rt_out st' = rt_out st \<or> rt_out st' = rt_out st @ [ev]) \<and> rt_retry st' = rt_retry st \<and> (rt_done st \<longrightarrow> rt_done st')
    \<and> (returns r \<longrightarrow> \<not> rt_done st' \<longrightarrow> rt_out st' = rt_out st @ [ev])"
    using assms by (cases rule: publish_cases [of ev st]) (auto simp: publish_or_drop_def)
  then show "rt_out st' = rt_out st \<or> rt_out st' = rt_out st @ [ev]" "rt_retry st' = rt_retry st" "rt_done st \<Longrightarrow> rt_done st'"
    "returns r \<Longrightarrow> \<not> rt_done st' \<Longrightarrow> rt_out st' = rt_out st @ [ev]" by auto
qed

lemma publish_or_drop_live: "steady (Suc n) st \<Longrightarrow> \<exists>st'. publish_or_drop ev st = (Ok (), st') \<and> steady n st'"
  using steady_publish [of n st ev] by (auto simp: publish_or_drop_def)

lemma defaultProcess_ident:
  "defaultProcess te (Some cfg) m st =
     (case tcp_ident te cfg m of Some v \<Rightarrow> publish_or_drop (tcp_event te v (rt_now st)) st | None \<Rightarrow> (Ok (), st))"
  by (simp add: defaultProcess_def tcp_ident_def split: option.split gvalue.split)

section \<open>What a connection publishes\<close>

text \<open>The reads of a segment and the messages of a connection.\<close>

function pieces :: "string \<Rightarrow> string list" where
  "pieces s = (if length s \<le> bufsize then [s] else take bufsize s # pieces (drop bufsize s))"
  by pat_completeness auto
termination pieces
  by (relation "measure length") (auto simp: bufsize_def)

declare pieces.simps [simp del]

definition conn_messages :: "string list \<Rightarrow> string list" where
  "conn_messages segs = concat (map messages_of (concat (map pieces segs)))"

lemma pieces_short: "length s \<le> bufsize \<Longrightarrow> pieces s = [s]"
  by (simp add: pieces.simps)

lemma conn_messages_Cons:
  "conn_messages (s # segs) =
     messages_of (take bufsize s) @ conn_messages (if length s \<le> bufsize then segs else drop bufsize s # segs)"
  by (simp add: conn_messages_def pieces.simps [of s])

lemma messages_of_Nil [simp]: "messages_of [] = []"
  by (simp add: messages_of_def newline_def)

lemma readMessage_step:
  assumes "\<not> rt_done st" and "block st = (Ok (), st1)" and "cn_segs c = s # segs"
  shows "readMessage f (Some c) st =
    (case for_each f (messages_of (take bufsize s)) st1 of
       (Ok _, st2) \<Rightarrow> readMessage f (Some (c\<lparr>cn_segs := if length s \<le> bufsize then segs else drop bufsize s # segs\<rparr>)) st2
     | (r, st2) \<Rightarrow> (r, st2))"
  using assms by (subst readMessage.simps) (simp add: conn_Read.simps)

text \<open>How many wake-ups a reader needs: one per read and message, and one for the end.\<close>

definition conn_wakes :: "string list \<Rightarrow> nat" where
  "conn_wakes segs = length (concat (map pieces segs)) + length (conn_messages segs)"

lemma conn_wakes_Cons:
  "conn_wakes (s # segs) = Suc (length (messages_of (take bufsize s))
     + conn_wakes (if length s \<le> bufsize then segs else drop bufsize s # segs))"
  unfolding conn_wakes_def conn_messages_Cons by (simp add: pieces.simps [of s])

text \<open>Sources whose messages are lines of text that arrive on connections.\<close>

locale line_source = live_event_source process ident trigger safe
  for process :: "string \<Rightarrow> rt \<Rightarrow> unit result \<times> rt" and ident trigger safe
begin

text \<open>A reader publishes the messages of its connection, one by one and in order.\<close>

lemma readMessage_publishes:
  assumes "cn_end c = Some e" and "steady (Suc (conn_wakes (cn_segs c))) st" and "\<forall>m \<in> set (conn_messages (cn_segs c)). safe m"
  shows "\<exists>st' evs. readMessage process (Some c) st = (Ok (), st') \<and> rt_out st' = rt_out st @ evs
    \<and> map ev_SecretIdentifier evs = List.map_filter ident (conn_messages (cn_segs c)) \<and> (\<forall>ev \<in> set evs. ev_TriggerSource ev = trigger)"
  using assms
proof (induction "conn_size c" arbitrary: c st rule: less_induct)
  case less
  obtain st1 where st1: "block st = (Ok (), st1)" "steady (conn_wakes (cn_segs c)) st1" "rt_out st1 = rt_out st"
    using steady_block [OF less.prems(2)] by blast
  have nd: "\<not> rt_done st" using less.prems(2) by (rule steady_not_done)
  show ?case
  proof (cases "cn_segs c")
    case Nil
    then show ?thesis
      using nd st1 less.prems(1) by (subst readMessage.simps) (simp add: conn_Read.simps conn_messages_def map_filter_simps)
  next
    case (Cons s segs)
    let ?segs = "if length s \<le> bufsize then segs else drop bufsize s # segs"
    let ?c = "c\<lparr>cn_segs := ?segs\<rparr>"
    let ?ms = "messages_of (take bufsize s)"
    have all: "conn_messages (cn_segs c) = ?ms @ conn_messages ?segs" by (simp add: Cons conn_messages_Cons)
    have "steady (length ?ms + Suc (conn_wakes ?segs)) st1"
      using st1(2) by (rule steady_mono) (simp add: Cons conn_wakes_Cons)
    then obtain st2 evs1 where one: "for_each process ?ms st1 = (Ok (), st2)" "steady (Suc (conn_wakes ?segs)) st2"
      "rt_out st2 = rt_out st1 @ evs1" "map ev_SecretIdentifier evs1 = List.map_filter ident ?ms"
      "\<forall>ev \<in> set evs1. ev_TriggerSource ev = trigger"
      using for_each_publishes [of ?ms "Suc (conn_wakes ?segs)" st1] less.prems(3) all by (metis Un_iff set_append)
    have "conn_Read c = (Ok (take bufsize s), ?c)" by (simp add: conn_Read.simps Cons)
    then have size: "conn_size ?c < conn_size c" by (rule conn_Read_size)
    have "\<exists>st' evs. readMessage process (Some ?c) st2 = (Ok (), st') \<and> rt_out st' = rt_out st2 @ evs
      \<and> map ev_SecretIdentifier evs = List.map_filter ident (conn_messages ?segs) \<and> (\<forall>ev \<in> set evs. ev_TriggerSource ev = trigger)"
      using less.hyps [OF size, of st2] less.prems(1,3) one(2) all by simp
    then obtain st' evs2 where "readMessage process (Some ?c) st2 = (Ok (), st')" "rt_out st' = rt_out st2 @ evs2"
      "map ev_SecretIdentifier evs2 = List.map_filter ident (conn_messages ?segs)" "\<forall>ev \<in> set evs2. ev_TriggerSource ev = trigger"
      by blast
    with one st1 show ?thesis
      unfolding readMessage_step [OF nd st1(1) Cons] all
      by (intro exI [of _ st'] exI [of _ "evs1 @ evs2"]) (auto simp: map_filter_def)
  qed
qed

end

text \<open>
  Framing: when every read but the last ends with a newline, the messages are the non-empty lines
  of the whole stream.
\<close>

definition conn_reads :: "string list \<Rightarrow> string list" where
  "conn_reads segs = concat (map pieces segs)"

lemma concat_pieces: "concat (pieces s) = s"
  by (induction s rule: pieces.induct) (subst pieces.simps, simp)

lemma concat_reads: "concat (conn_reads segs) = concat segs"
  by (induction segs) (simp_all add: conn_reads_def concat_pieces)

lemma messages_of_append: "messages_of (x @ CHR 0x0A # y) = messages_of x @ messages_of y"
  by (simp add: messages_of_def newline_def Split_append)

lemma messages_of_line: "last x = CHR 0x0A \<Longrightarrow> x \<noteq> [] \<Longrightarrow> messages_of (x @ y) = messages_of x @ messages_of y"
proof -
  assume "last x = CHR 0x0A" "x \<noteq> []"
  then have x: "x = butlast x @ [CHR 0x0A]" by (metis append_butlast_last_id)
  have "messages_of (butlast x @ CHR 0x0A # y) = messages_of (butlast x) @ messages_of y"
    "messages_of (butlast x @ CHR 0x0A # []) = messages_of (butlast x) @ messages_of []"
    by (rule messages_of_append)+
  then show ?thesis by (subst (1 2) x) simp
qed

lemma messages_of_lines:
  "(\<And>x. x \<in> set (butlast xs) \<Longrightarrow> x \<noteq> [] \<and> last x = CHR 0x0A) \<Longrightarrow> concat (map messages_of xs) = messages_of (concat xs)"
proof (induction xs)
  case (Cons x xs)
  then show ?case using messages_of_line [of x "concat xs"] by (cases "xs = []") simp_all
qed simp

interpretation tcp_source: line_source "defaultProcess te (Some cfg)" "tcp_ident te cfg" TCP_SOCKET "\<lambda>_. True"
proof unfold_locales
  fix m st n
  assume "steady (Suc n) st"
  then show "\<exists>r st'. defaultProcess te (Some cfg) m st = (r, st') \<and> returns r \<and> steady n st'"
    using publish_or_drop_live [of n st] steady_mono [of "Suc n" st n] by (fastforce simp: defaultProcess_ident split: option.split)
qed (auto simp: defaultProcess_ident tcp_event_def dest: publish_or_drop_out split: option.splits)


section \<open>Properties\<close>


definition fixture_tcp_env :: tcp_env where
  "fixture_tcp_env =
     \<lparr>te_Valid = (\<lambda>m. prefix ''{'' m), te_Get = (\<lambda>m path. if path = ''name'' then Some (GString (drop 1 m)) else None),
      te_Format = (\<lambda>_. ''2024-01-01-00-00-00.000'')\<rparr>"

definition fixture_steady :: rt where
  "fixture_steady =
     \<lparr>rt_done = False, rt_now = 0,
      rt_sched = replicate 8 \<lparr>sc_cancel = False, sc_ready = True, sc_pick = True, sc_elapse = 1\<rparr>,
      rt_out = [], rt_retry = []\<rparr>"

text \<open>One whole line, then a line that arrives in two reads.\<close>

definition fixture_conn :: conn where
  "fixture_conn = \<lparr>cn_segs = [''{a'' @ [CHR 0x0A], ''{b'', ''c'' @ [CHR 0x0A]], cn_end = Some (errors_New ''EOF'')\<rparr>"


end
