(* ===== verification/JsonParse.thy ===== *)
theory JsonParse
  imports Json
begin

text \<open>
  \<^verbatim>\<open>json.Unmarshal\<close> of \<^verbatim>\<open>encoding/json\<close>: the scanner, which accepts a text or rejects it as a whole,
  and the typed decoder, which stores the scanned value into a Go value. Like the library the
  scanner keeps the literals as they are written: strings are unquoted and numbers converted
  only where they are stored, and \<^verbatim>\<open>json.RawMessage\<close> is a scanned value. The decoder is built
  from one combinator per kind of Go type. A value that does not fit its type is an error; the
  callers drop the partly filled value then, so the model stops at the first one.
\<close>

section \<open>Scanner\<close>

datatype raw =
    RNull
  | RBool bool
  | RNum string
  | RStr string
  | RArr "raw list"
  | RObj "(string \<times> raw) list"

abbreviation dquote :: char where "dquote \<equiv> CHR 0x22"
abbreviation backslash :: char where "backslash \<equiv> CHR 0x5C"

definition is_ws :: "char \<Rightarrow> bool" where
  "is_ws c = (c \<in> set (bytes [9, 10, 13, 32]))"

definition skip_ws :: "string \<Rightarrow> string" where
  "skip_ws s = dropWhile is_ws s"

definition is_digit :: "char \<Rightarrow> bool" where
  "is_digit c = (48 \<le> (of_char c :: nat) \<and> (of_char c :: nat) \<le> 57)"

definition hex_val :: "char \<Rightarrow> nat option" where
  "hex_val c =
     (let n = of_char c :: nat in
      if 48 \<le> n \<and> n \<le> 57 then Some (n - 48)
      else if 65 \<le> n \<and> n \<le> 70 then Some (n - 55)
      else if 97 \<le> n \<and> n \<le> 102 then Some (n - 87)
      else None)"

text \<open>A string literal after its opening quote: the text up to the closing quote, and the rest.\<close>

fun scan_string :: "string \<Rightarrow> (string \<times> string) option" where
  "scan_string [] = None"
| "scan_string (c # s) =
     (if c = dquote then Some ([], s)
      else if c = backslash then
        (case s of
           [] \<Rightarrow> None
         | e # s1 \<Rightarrow>
             (if e \<in> set (dquote # backslash # ''/bfnrt'') then map_option (\<lambda>(a, r). (c # e # a, r)) (scan_string s1)
              else if e = CHR ''u'' then
                (case s1 of
                   h1 # h2 # h3 # h4 # s2 \<Rightarrow>
                     (if list_all (\<lambda>h. hex_val h \<noteq> None) [h1, h2, h3, h4]
                      then map_option (\<lambda>(a, r). (c # e # h1 # h2 # h3 # h4 # a, r)) (scan_string s2) else None)
                 | _ \<Rightarrow> None)
              else None))
      else if (of_char c :: nat) < 32 then None
      else map_option (\<lambda>(a, r). (c # a, r)) (scan_string s))"

text \<open>The fraction and the exponent of a number literal; both may be missing.\<close>

definition scan_digits :: "string \<Rightarrow> string \<times> string" where
  "scan_digits s = (takeWhile is_digit s, dropWhile is_digit s)"

definition scan_frac :: "string \<Rightarrow> (string \<times> string) option" where
  "scan_frac s =
     (case s of
        c # s' \<Rightarrow>
          (if c = CHR ''.'' then
             (case scan_digits s' of (ds, r) \<Rightarrow> if ds = [] then None else Some (c # ds, r))
           else Some ([], s))
      | [] \<Rightarrow> Some ([], []))"

definition scan_exp :: "string \<Rightarrow> (string \<times> string) option" where
  "scan_exp s =
     (case s of
        c # s' \<Rightarrow>
          (if c \<in> set ''eE'' then
             (let sgn = (case s' of d # s1 \<Rightarrow> if d \<in> set ''+-'' then [d] else [] | [] \<Rightarrow> []) in
              case scan_digits (drop (length sgn) s') of (ds, r) \<Rightarrow> if ds = [] then None else Some (c # sgn @ ds, r))
           else Some ([], s))
      | [] \<Rightarrow> Some ([], []))"

text \<open>The integer part: a single zero, or digits that do not start with one.\<close>

definition scan_int :: "string \<Rightarrow> (string \<times> string) option" where
  "scan_int s =
     (case s of
        [] \<Rightarrow> None
      | c # s' \<Rightarrow>
          (if c = CHR ''0'' then Some ([c], s')
           else if is_digit c then Some (scan_digits s)
           else None))"

definition scan_number :: "string \<Rightarrow> (string \<times> string) option" where
  "scan_number s =
     (let sgn = (case s of c # s' \<Rightarrow> if c = CHR ''-'' then [c] else [] | [] \<Rightarrow> []) in
      Option.bind (scan_int (drop (length sgn) s)) (\<lambda>(i, r1).
      Option.bind (scan_frac r1) (\<lambda>(f, r2).
      map_option (\<lambda>(e, r3). (sgn @ i @ f @ e, r3)) (scan_exp r2))))"

text \<open>
  The elements of an array and the members of an object, up to the closing bracket. The
  parser \<open>p\<close> of a value is an argument; a value that uses up no input is not one.
\<close>

function scan_elems :: "(string \<Rightarrow> (raw \<times> string) option) \<Rightarrow> string \<Rightarrow> (raw list \<times> string) option" where
  "scan_elems p s =
     (case p s of
        None \<Rightarrow> None
      | Some (v, r) \<Rightarrow>
          (case skip_ws r of
             [] \<Rightarrow> None
           | c # r' \<Rightarrow>
               (if c = CHR '']'' then Some ([v], r')
                else if c = CHR '','' \<and> length r' < length s then map_option (\<lambda>(vs, t). (v # vs, t)) (scan_elems p r')
                else None)))"
  by pat_completeness auto
termination scan_elems
  by (relation "measure (\<lambda>(p, s). length s)") auto

definition scan_key :: "string \<Rightarrow> (string \<times> string) option" where
  "scan_key s =
     (case skip_ws s of
        [] \<Rightarrow> None
      | c # s1 \<Rightarrow>
          (if c = dquote then
             Option.bind (scan_string s1) (\<lambda>(k, r).
               (case skip_ws r of [] \<Rightarrow> None | d # r' \<Rightarrow> if d = CHR '':'' then Some (k, r') else None))
           else None))"

function scan_members :: "(string \<Rightarrow> (raw \<times> string) option) \<Rightarrow> string \<Rightarrow> ((string \<times> raw) list \<times> string) option" where
  "scan_members p s =
     (case scan_key s of
        None \<Rightarrow> None
      | Some (k, s1) \<Rightarrow>
          (case p s1 of
             None \<Rightarrow> None
           | Some (v, r) \<Rightarrow>
               (case skip_ws r of
                  [] \<Rightarrow> None
                | c # r' \<Rightarrow>
                    (if c = CHR ''}'' then Some ([(k, v)], r')
                     else if c = CHR '','' \<and> length r' < length s then map_option (\<lambda>(ms, t). ((k, v) # ms, t)) (scan_members p r')
                     else None))))"
  by pat_completeness auto
termination scan_members
  by (relation "measure (\<lambda>(p, s). length s)") auto

declare scan_elems.simps [simp del] scan_members.simps [simp del]

text \<open>A value; the first argument is the number of brackets that may still be opened.\<close>

definition scan_lit :: "string \<Rightarrow> 'a \<Rightarrow> string \<Rightarrow> ('a \<times> string) option" where
  "scan_lit l v s = (if prefix l s then Some (v, drop (length l) s) else None)"

fun scan_value :: "nat \<Rightarrow> string \<Rightarrow> (raw \<times> string) option" where
  "scan_value d s =
     (case skip_ws s of
        [] \<Rightarrow> None
      | c # s1 \<Rightarrow>
          (if c = dquote then map_option (\<lambda>(a, r). (RStr a, r)) (scan_string s1)
           else if c = CHR ''n'' then scan_lit ''null'' RNull (c # s1)
           else if c = CHR ''t'' then scan_lit ''true'' (RBool True) (c # s1)
           else if c = CHR ''f'' then scan_lit ''false'' (RBool False) (c # s1)
           else if c = CHR ''['' then
             (if d = 0 then None
              else if prefix '']'' (skip_ws s1) then Some (RArr [], tl (skip_ws s1))
              else map_option (\<lambda>(vs, r). (RArr vs, r)) (scan_elems (scan_value (d - 1)) s1))
           else if c = CHR ''{'' then
             (if d = 0 then None
              else if prefix ''}'' (skip_ws s1) then Some (RObj [], tl (skip_ws s1))
              else map_option (\<lambda>(ms, r). (RObj ms, r)) (scan_members (scan_value (d - 1)) s1))
           else map_option (\<lambda>(l, r). (RNum l, r)) (scan_number (c # s1))))"

declare scan_value.simps [simp del]

definition maxNestingDepth :: nat where "maxNestingDepth = 10000"

text \<open>A whole text: one value between white space.\<close>

definition scan :: "string \<Rightarrow> raw option" where
  "scan s = (case scan_value maxNestingDepth s of Some (v, r) \<Rightarrow> if skip_ws r = [] then Some v else None | None \<Rightarrow> None)"

section \<open>Literals\<close>

text \<open>The UTF-8 form of a code point (\<^verbatim>\<open>utf8.EncodeRune\<close>); a surrogate becomes U+FFFD.\<close>

definition encode_rune :: "nat \<Rightarrow> string" where
  "encode_rune r =
     (if r < 128 then bytes [r]
      else if r < 2048 then bytes [192 + r div 64, 128 + r mod 64]
      else if 55296 \<le> r \<and> r < 57344 \<or> 1114112 \<le> r then bytes [239, 191, 189]
      else if r < 65536 then bytes [224 + r div 4096, 128 + r div 64 mod 64, 128 + r mod 64]
      else bytes [240 + r div 262144, 128 + r div 4096 mod 64, 128 + r div 64 mod 64, 128 + r mod 64])"

text \<open>\<^verbatim>\<open>getu4\<close>: the code of an escape \<^verbatim>\<open>\uXXXX\<close> at the head of the text.\<close>

definition getu4 :: "string \<Rightarrow> nat option" where
  "getu4 s =
     (case s of
        a # b # h1 # h2 # h3 # h4 # _ \<Rightarrow>
          (if a = backslash \<and> b = CHR ''u'' then
             Option.bind (hex_val h1) (\<lambda>x1. Option.bind (hex_val h2) (\<lambda>x2. Option.bind (hex_val h3) (\<lambda>x3.
               map_option (\<lambda>x4. ((x1 * 16 + x2) * 16 + x3) * 16 + x4) (hex_val h4))))
           else None)
      | _ \<Rightarrow> None)"

text \<open>
  One escape at the head of a scanned string: what it stands for and the number of bytes it
  takes. A surrogate pair is one character, a lone surrogate the replacement character.
\<close>

definition surrogate :: "nat \<Rightarrow> bool" where
  "surrogate r = (55296 \<le> r \<and> r < 57344)"

definition unescape :: "string \<Rightarrow> string \<times> nat" where
  "unescape s =
     (case getu4 s of
        Some r \<Rightarrow>
          (if surrogate r then
             (case getu4 (drop 6 s) of
                Some r2 \<Rightarrow>
                  (if r < 56320 \<and> 56320 \<le> r2 \<and> r2 < 57344
                   then (encode_rune ((r - 55296) * 1024 + (r2 - 56320) + 65536), 12)
                   else (encode_rune 65533, 6))
              | None \<Rightarrow> (encode_rune 65533, 6))
           else (encode_rune r, 6))
      | None \<Rightarrow>
          (case drop 1 s of
             [] \<Rightarrow> ([], 1)
           | e # _ \<Rightarrow>
               ((if e = CHR ''b'' then bytes [8] else if e = CHR ''f'' then bytes [12]
                 else if e = CHR ''n'' then bytes [10] else if e = CHR ''r'' then bytes [13]
                 else if e = CHR ''t'' then bytes [9] else [e]), 2)))"

lemma unescape_pos: "0 < snd (unescape s)"
  by (auto simp: unescape_def split: option.splits list.splits)

text \<open>\<^verbatim>\<open>unquote\<close> of a scanned string: escapes are resolved, bytes that are no UTF-8 replaced.\<close>

function unquote :: "string \<Rightarrow> string" where
  "unquote s =
     (case s of
        [] \<Rightarrow> []
      | c # s' \<Rightarrow>
          (let n = rune_len (map of_char (take 4 s)) in
           if c = backslash then fst (unescape s) @ unquote (drop (snd (unescape s)) s)
           else if (of_char c :: nat) < 128 then c # unquote s'
           else if n = 1 then bytes [239, 191, 189] @ unquote s'
           else take n s @ unquote (drop n s)))"
  by pat_completeness auto
termination unquote
  by (relation "measure length") (auto simp: unescape_pos rune_len_pos)

declare unquote.simps [simp del]

text \<open>\<^verbatim>\<open>strconv.ParseInt\<close> of a number literal; a literal with a fraction or an exponent is not one.\<close>

definition digits_val :: "string \<Rightarrow> nat" where
  "digits_val ds = foldl (\<lambda>n c. 10 * n + (of_char c - 48)) 0 ds"

definition ParseInt :: "string \<Rightarrow> int option" where
  "ParseInt l =
     (let neg = prefix ''-'' l; ds = (if neg then tl l else l) in
      if ds \<noteq> [] \<and> list_all is_digit ds then Some (if neg then - int (digits_val ds) else int (digits_val ds)) else None)"

text \<open>
  Does \<^verbatim>\<open>strconv.ParseFloat\<close> convert the literal: its absolute value must be below the number
  half a unit above the largest \<^verbatim>\<open>float64\<close>, \<open>2 ^ 1024 - 2 ^ 970\<close>.
\<close>

definition float_ok :: "string \<Rightarrow> bool" where
  "float_ok l =
     (let ab = (if prefix ''-'' l then tl l else l);
          mant = takeWhile (\<lambda>c. c \<notin> set ''eE'') ab;
          ex = drop (Suc (length mant)) ab;
          ip = takeWhile is_digit mant;
          fp = drop (Suc (length ip)) mant;
          e10 = (if ex = [] then 0
                 else if prefix ''-'' ex then - int (digits_val (tl ex))
                 else if prefix ''+'' ex then int (digits_val (tl ex)) else int (digits_val ex)) - int (length fp);
          m = digits_val (ip @ fp);
          bound = 2 ^ 1024 - 2 ^ 970 :: nat
      in if 0 \<le> e10 then m * 10 ^ nat e10 < bound else m < bound * 10 ^ nat (- e10))"

section \<open>Typed decoding\<close>

text \<open>A decoder stores a scanned value into a Go value of its type; \<^verbatim>\<open>null\<close> leaves most types alone.\<close>

type_synonym 'a decoder = "raw \<Rightarrow> 'a \<Rightarrow> 'a result"

definition mismatch :: "string \<Rightarrow> 'a result" where
  "mismatch t = Err (Errorf ''json: cannot unmarshal into Go value of type %s'' [StrArg t])"

definition dec_string :: "string decoder" where
  "dec_string v cur = (case v of RNull \<Rightarrow> Ok cur | RStr a \<Rightarrow> Ok (unquote a) | _ \<Rightarrow> mismatch ''string'')"

definition dec_bool :: "bool decoder" where
  "dec_bool v cur = (case v of RNull \<Rightarrow> Ok cur | RBool b \<Rightarrow> Ok b | _ \<Rightarrow> mismatch ''bool'')"

text \<open>Integers of the word length: a literal out of range does not fit.\<close>

definition dec_int :: "'n::len word decoder" where
  "dec_int v cur =
     (case v of
        RNull \<Rightarrow> Ok cur
      | RNum l \<Rightarrow>
          (case ParseInt l of
             Some i \<Rightarrow> (if sint (word_of_int i :: 'n word) = i then Ok (word_of_int i) else mismatch ''int'')
           | None \<Rightarrow> mismatch ''int'')
      | _ \<Rightarrow> mismatch ''int'')"

definition dec_ptr :: "'a \<Rightarrow> 'a decoder \<Rightarrow> 'a option decoder" where
  "dec_ptr zero d v cur =
     (case v of
        RNull \<Rightarrow> Ok None
      | _ \<Rightarrow> rbind (d v (case cur of None \<Rightarrow> zero | Some x \<Rightarrow> x)) (\<lambda>x. Ok (Some x)))"

text \<open>Slices: element \<open>i\<close> is stored into the old element \<open>i\<close>, if the slice had one.\<close>

fun dec_elems :: "'a \<Rightarrow> 'a decoder \<Rightarrow> raw list \<Rightarrow> 'a list \<Rightarrow> 'a list result" where
  "dec_elems zero d [] cur = Ok []"
| "dec_elems zero d (v # vs) cur =
     rbind (d v (case cur of [] \<Rightarrow> zero | x # _ \<Rightarrow> x)) (\<lambda>y.
     rbind (dec_elems zero d vs (tl cur)) (\<lambda>ys. Ok (y # ys)))"

definition dec_slice :: "'a \<Rightarrow> 'a decoder \<Rightarrow> 'a list decoder" where
  "dec_slice zero d v cur =
     (case v of RNull \<Rightarrow> Ok [] | RArr vs \<Rightarrow> dec_elems zero d vs cur | _ \<Rightarrow> mismatch ''slice'')"

text \<open>Maps with string keys: every member is stored into a new element.\<close>

fun dec_entries :: "'a \<Rightarrow> 'a decoder \<Rightarrow> (string \<times> raw) list \<Rightarrow> (string, 'a) gomap \<Rightarrow> (string, 'a) gomap result" where
  "dec_entries zero d [] m = Ok m"
| "dec_entries zero d ((k, v) # ms) m =
     rbind (d v zero) (\<lambda>x. dec_entries zero d ms (AList.update (unquote k) x m))"

definition dec_map :: "'a \<Rightarrow> 'a decoder \<Rightarrow> (string, 'a) gomap decoder" where
  "dec_map zero d v cur =
     (case v of RNull \<Rightarrow> Ok [] | RObj ms \<Rightarrow> dec_entries zero d ms cur | _ \<Rightarrow> mismatch ''map'')"

text \<open>\<^verbatim>\<open>interface{}\<close>: any value fits unless a number in it is out of the range of \<^verbatim>\<open>float64\<close>.\<close>

fun floats_ok :: "raw \<Rightarrow> bool" where
  "floats_ok (RNum l) = float_ok l"
| "floats_ok (RArr vs) = (\<forall>v \<in> set vs. floats_ok v)"
| "floats_ok (RObj ms) = (\<forall>m \<in> set ms. floats_ok (snd m))"
| "floats_ok _ = True"

definition dec_interface :: "raw decoder" where
  "dec_interface v cur = (if floats_ok v then Ok v else mismatch ''float64'')"

text \<open>
  Structs: a member goes to the field of its name, or else to one whose name equals it under
  case folding; other members are skipped.
\<close>

type_synonym 'a field = "string \<times> 'a decoder"

definition field_at :: "string \<Rightarrow> ('a \<Rightarrow> 'b) \<Rightarrow> (('b \<Rightarrow> 'b) \<Rightarrow> 'a \<Rightarrow> 'a) \<Rightarrow> 'b decoder \<Rightarrow> 'a field" where
  "field_at nm get upd d = (nm, \<lambda>v x. rbind (d v (get x)) (\<lambda>y. Ok (upd (\<lambda>_. y) x)))"

definition find_field :: "'a field list \<Rightarrow> string \<Rightarrow> 'a field option" where
  "find_field fs k =
     (case find (\<lambda>f. fst f = k) fs of
        Some f \<Rightarrow> Some f
      | None \<Rightarrow> find (\<lambda>f. EqualFold k (fst f)) fs)"

fun dec_fields :: "'a field list \<Rightarrow> (string \<times> raw) list \<Rightarrow> 'a \<Rightarrow> 'a result" where
  "dec_fields fs [] x = Ok x"
| "dec_fields fs ((k, v) # ms) x =
     (case find_field fs (unquote k) of
        None \<Rightarrow> dec_fields fs ms x
      | Some (nm, d) \<Rightarrow> rbind (d v x) (dec_fields fs ms))"

definition dec_struct :: "'a field list \<Rightarrow> 'a decoder" where
  "dec_struct fs v cur =
     (case v of RNull \<Rightarrow> Ok cur | RObj ms \<Rightarrow> dec_fields fs ms cur | _ \<Rightarrow> mismatch ''struct'')"

definition Unmarshal :: "'a decoder \<Rightarrow> string \<Rightarrow> 'a \<Rightarrow> 'a result" where
  "Unmarshal d data zero =
     (case scan data of None \<Rightarrow> Err (errors_New ''invalid JSON'') | Some v \<Rightarrow> d v zero)"

section \<open>Scanning what the encoder writes\<close>

text \<open>A piece of a string literal: scanning passes over it whatever follows.\<close>

definition lit_piece :: "string \<Rightarrow> bool" where
  "lit_piece a \<longleftrightarrow> (\<forall>t. scan_string (a @ t) = map_option (\<lambda>(x, r). (a @ x, r)) (scan_string t))"

lemma char_eq_nat: "c = d \<longleftrightarrow> (of_char c :: nat) = of_char d"
  by simp

lemma lit_piece_Nil [simp]: "lit_piece []"
  by (auto simp: lit_piece_def case_prod_unfold option.map_ident)

lemma lit_piece_append: "lit_piece a \<Longrightarrow> lit_piece b \<Longrightarrow> lit_piece (a @ b)"
  by (simp add: lit_piece_def option.map_comp comp_def case_prod_unfold)

lemma lit_piece_char:
  "32 \<le> (of_char c :: nat) \<Longrightarrow> (of_char c :: nat) \<noteq> 34 \<Longrightarrow> (of_char c :: nat) \<noteq> 92 \<Longrightarrow> lit_piece [c]"
  by (auto simp: lit_piece_def)

lemma lit_piece_plain:
  "list_all (\<lambda>c. 32 \<le> (of_char c :: nat) \<and> of_char c \<noteq> (34 :: nat) \<and> of_char c \<noteq> (92 :: nat)) a \<Longrightarrow> lit_piece a"
proof (induction a)
  case (Cons c a)
  then show ?case using lit_piece_append [OF lit_piece_char, of c a] by simp
qed simp

lemma lit_piece_simple: "e \<in> set (dquote # backslash # ''/bfnrt'') \<Longrightarrow> lit_piece [backslash, e]"
  by (auto simp: lit_piece_def)

lemma lit_piece_u:
  "list_all (\<lambda>h. hex_val h \<noteq> None) [h1, h2, h3, h4] \<Longrightarrow> lit_piece [backslash, CHR ''u'', h1, h2, h3, h4]"
  unfolding lit_piece_def append_Cons append_Nil by (rule allI, subst scan_string.simps(2)) (simp del: scan_string.simps)

lemma of_char_of_small: "n < 256 \<Longrightarrow> of_char (char_of n) = (n :: nat)"
  by (simp add: of_char_of)

lemma hex_val_hex_digit: "n < 16 \<Longrightarrow> hex_val (hex_digit n) = Some n"
  by (cases "n < 10") (simp_all add: hex_val_def hex_digit_def of_char_of_small Let_def)

lemma hex_val_zero: "hex_val (CHR ''0'') = Some 0"
  by (simp add: hex_val_def)

lemma lit_piece_escape_byte: "b < 128 \<Longrightarrow> lit_piece (escape_byte b)"
proof -
  assume b: "b < 128"
  have hex: "list_all (\<lambda>h. hex_val h \<noteq> None) [CHR ''0'', CHR ''0'', hex_digit (b div 16), hex_digit (b mod 16)]"
    using b by (simp add: hex_val_hex_digit hex_val_zero)
  have plain: "lit_piece [char_of b]" if "32 \<le> b" "b \<noteq> 34" "b \<noteq> 92"
    using that b by (intro lit_piece_char) (simp_all add: of_char_of)
  have quoted: "lit_piece [backslash, char_of b]" if "b = 34 \<or> b = 92"
    using that by (intro lit_piece_simple) (auto simp: char_of_eq_iff)
  have simple: "lit_piece [backslash, CHR ''b'']" "lit_piece [backslash, CHR ''f'']" "lit_piece [backslash, CHR ''n'']"
    "lit_piece [backslash, CHR ''r'']" "lit_piece [backslash, CHR ''t'']"
    by (simp_all add: lit_piece_simple)
  show ?thesis
    unfolding escape_byte_def escape_u_def
    using quoted simple lit_piece_u [OF hex] plain by (auto simp: not_less split: if_split simp del: scan_string.simps)
qed

lemma rune_len_high:
  assumes "rune_len bs \<noteq> 1"
  shows "\<forall>b \<in> set (take (rune_len bs) bs). 128 \<le> b" and "rune_len bs \<le> length bs" and "rune_len bs \<le> 4"
proof -
  have "(\<forall>b \<in> set (take (rune_len bs) bs). 128 \<le> b) \<and> rune_len bs \<le> length bs \<and> rune_len bs \<le> 4"
    using assms by (induction bs rule: rune_len.induct) (auto simp: cont_byte_def split: if_splits)
  then show "\<forall>b \<in> set (take (rune_len bs) bs). 128 \<le> b" "rune_len bs \<le> length bs" "rune_len bs \<le> 4" by auto
qed

lemma lit_piece_rune:
  assumes "rune_len (map of_char (take 4 s)) = n" "n \<noteq> 1"
  shows "lit_piece (take n s)"
proof (rule lit_piece_plain)
  have n: "n \<le> 4" and "\<forall>b \<in> set (take n (map of_char (take 4 s))). (128 :: nat) \<le> b"
    using rune_len_high [of "map of_char (take 4 s)"] assms by simp_all
  then have "\<forall>b \<in> set (map of_char (take n s)). (128 :: nat) \<le> b"
    by (simp add: take_map min_absorb1)
  then show "list_all (\<lambda>c. 32 \<le> (of_char c :: nat) \<and> of_char c \<noteq> (34 :: nat) \<and> of_char c \<noteq> (92 :: nat)) (take n s)"
    by (fastforce simp: list_all_iff)
qed

lemma lit_piece_escape: "lit_piece (escape_string s)"
proof (induction s rule: escape_string.induct)
  case (1 s)
  show ?case
  proof (cases s)
    case Nil
    then show ?thesis by (simp add: escape_string.simps)
  next
    case (Cons c s')
    let ?n = "rune_len (map of_char (take 4 s))"
    note IH = 1 [OF Cons refl refl]
    have u: "lit_piece (backslash # ''ufffd'')" "lit_piece (backslash # ''u2028'')" "lit_piece (backslash # ''u2029'')"
      by (simp_all add: lit_piece_u hex_val_def)
    have piece: "lit_piece (take ?n s)" if "?n \<noteq> 1"
      using that by (rule lit_piece_rune [OF refl])
    have "escape_string s =
        (let b = of_char c :: nat in
         if b < 128 then escape_byte b @ escape_string s'
         else if ?n = 1 then (backslash # ''ufffd'') @ escape_string s'
         else if take 3 s = bytes [226, 128, 168] then (backslash # ''u2028'') @ escape_string (drop ?n s)
         else if take 3 s = bytes [226, 128, 169] then (backslash # ''u2029'') @ escape_string (drop ?n s)
         else take ?n s @ escape_string (drop ?n s))"
      by (subst escape_string.simps) (simp add: Cons Let_def)
    then show ?thesis
      using IH piece by (auto simp: Let_def simp del: append_Cons intro!: lit_piece_append lit_piece_escape_byte u)
  qed
qed

lemma scan_string_escape: "scan_string (escape_string s @ dquote # r) = Some (escape_string s, r)"
  using lit_piece_escape [of s] by (simp add: lit_piece_def)

text \<open>Well-formed UTF-8.\<close>

function utf8_valid :: "string \<Rightarrow> bool" where
  "utf8_valid s =
     (case s of
        [] \<Rightarrow> True
      | c # s' \<Rightarrow>
          (let n = rune_len (map of_char (take 4 s)) in
           if (of_char c :: nat) < 128 then utf8_valid s' else n \<noteq> 1 \<and> utf8_valid (drop n s)))"
  by pat_completeness auto
termination utf8_valid
  by (relation "measure length") (auto simp: rune_len_pos)

declare utf8_valid.simps [simp del]

lemma unquote_ascii: "(of_char c :: nat) < 128 \<Longrightarrow> c \<noteq> backslash \<Longrightarrow> unquote (c # t) = c # unquote t"
  by (subst unquote.simps) (simp add: Let_def)

lemma unquote_escape: "unquote (backslash # t) = fst (unescape (backslash # t)) @ unquote (drop (snd (unescape (backslash # t))) (backslash # t))"
  by (subst unquote.simps) simp

lemma unescape_simple: "e \<noteq> CHR ''u'' \<Longrightarrow> unescape (backslash # e # t) =
    ((if e = CHR ''b'' then bytes [8] else if e = CHR ''f'' then bytes [12] else if e = CHR ''n'' then bytes [10]
      else if e = CHR ''r'' then bytes [13] else if e = CHR ''t'' then bytes [9] else [e]), 2)"
  by (auto simp: unescape_def getu4_def split: list.splits)

lemma unescape_u:
  assumes "hex_val h1 = Some x1" "hex_val h2 = Some x2" "hex_val h3 = Some x3" "hex_val h4 = Some x4"
    and "\<not> surrogate (((x1 * 16 + x2) * 16 + x3) * 16 + x4)"
  shows "unescape (backslash # CHR ''u'' # h1 # h2 # h3 # h4 # t) = (encode_rune (((x1 * 16 + x2) * 16 + x3) * 16 + x4), 6)"
  using assms by (simp add: unescape_def getu4_def)

lemma bytes_simps [simp]: "bytes [] = []" "bytes (b # bs) = char_of b # bytes bs"
  by (simp_all add: bytes_def)

lemma unquote_escape_byte:
  assumes "b < 128"
  shows "unquote (escape_byte b @ t) = char_of b # unquote t"
proof -
  have u: "unquote (escape_u b @ t) = char_of b # unquote t"
  proof -
    have "unescape (escape_u b @ t) = (encode_rune b, 6)"
      using assms unescape_u [OF hex_val_zero hex_val_zero hex_val_hex_digit hex_val_hex_digit, of "b div 16" "b mod 16" t]
      by (simp add: escape_u_def surrogate_def)
    then show ?thesis
      using assms unquote_escape [of "tl (escape_u b @ t)"] by (simp add: escape_u_def encode_rune_def)
  qed
  have quoted: "unquote (backslash # char_of b # t) = char_of b # unquote t" if "b = 34 \<or> b = 92"
    using that by (auto simp: unquote_escape unescape_simple char_of_eq_iff)
  have simple: "unquote (backslash # CHR ''b'' # t) = char_of (8 :: nat) # unquote t" "unquote (backslash # CHR ''f'' # t) = char_of (12 :: nat) # unquote t"
    "unquote (backslash # CHR ''n'' # t) = char_of (10 :: nat) # unquote t" "unquote (backslash # CHR ''r'' # t) = char_of (13 :: nat) # unquote t"
    "unquote (backslash # CHR ''t'' # t) = char_of (9 :: nat) # unquote t"
    by (simp_all add: unquote_escape unescape_simple)
  have plain: "unquote (char_of b # t) = char_of b # unquote t" if "b \<noteq> 92"
    using that assms of_char_of_small [of b] by (intro unquote_ascii) (auto dest: arg_cong [of _ _ "of_char :: char \<Rightarrow> nat"])
  show ?thesis
    unfolding escape_byte_def using quoted simple u plain by (auto split: if_split)
qed

lemma rune_len_take:
  "rune_len bs = n \<Longrightarrow> n \<noteq> 1 \<Longrightarrow> rune_len (take n bs @ t) = n"
proof (induction bs rule: rune_len.induct)
  case (1 a b c d r)
  then show ?case by (cases t; cases "tl t") (auto simp: cont_byte_def split: if_splits)
next
  case (2 a b c)
  then show ?case by (cases t; cases "tl t") (auto simp: cont_byte_def split: if_splits)
next
  case (3 a b)
  then show ?case by (cases t; cases "tl t") (auto simp: cont_byte_def split: if_splits)
qed auto

lemma rune_len_map_take:
  assumes "rune_len (map of_char (take 4 s)) = n" "n \<noteq> 1"
  shows "rune_len (map of_char (take 4 (take n s @ t))) = n"
proof -
  have n: "n \<le> 4" using rune_len_high(3) [of "map of_char (take 4 s)"] assms by simp
  have len: "n \<le> length s" using rune_len_high(2) [of "map of_char (take 4 s)"] assms by simp
  have "(map of_char (take 4 (take n s @ t)) :: nat list) = take n (map of_char (take 4 s)) @ map of_char (take (4 - n) t)"
    using n len by (simp add: take_map min_def)
  then show ?thesis using rune_len_take [OF assms] by (simp only:)
qed

lemma rune_head:
  assumes "rune_len (map of_char (take 4 s)) = n" "n \<noteq> 1"
  obtains c s' where "s = c # s'" and "128 \<le> (of_char c :: nat)" and "take n s = c # take (n - 1) s'" and "n \<le> length s"
proof -
  have len: "n \<le> length s" and "0 < n" using rune_len_high(2) [of "map of_char (take 4 s)"] assms rune_len_pos by auto
  then obtain c s' where s: "s = c # s'" by (cases s) auto
  moreover have "128 \<le> (of_char c :: nat)"
    using rune_len_high(1) [of "map of_char (take 4 s)"] assms \<open>0 < n\<close> s by (cases n) auto
  ultimately show thesis using that len \<open>0 < n\<close> by (cases n) auto
qed

lemma unquote_multi:
  assumes "s = c # s'" "\<not> (of_char c :: nat) < 128" "c \<noteq> backslash" "rune_len (map of_char (take 4 s)) = n" "n \<noteq> 1"
  shows "unquote s = take n s @ unquote (drop n s)"
  using assms by (subst unquote.simps) (simp add: Let_def)

lemma unquote_rune:
  assumes "rune_len (map of_char (take 4 s)) = n" "n \<noteq> 1"
  shows "unquote (take n s @ t) = take n s @ unquote t"
proof -
  obtain c s' where s: "s = c # s'" "128 \<le> (of_char c :: nat)" "take n s = c # take (n - 1) s'" "n \<le> length s"
    using rune_head [OF assms] .
  then have "c \<noteq> backslash" by auto
  moreover have "rune_len (map of_char (take 4 (take n s @ t))) = n" by (rule rune_len_map_take [OF assms])
  ultimately have "unquote (take n s @ t) = take n (take n s @ t) @ unquote (drop n (take n s @ t))"
    using s(2,3) assms(2) by (intro unquote_multi [of _ c]) auto
  then show ?thesis using s(4) by simp
qed

lemma escape_string_rune:
  assumes "s = c # s'" "\<not> (of_char c :: nat) < 128" "rune_len (map of_char (take 4 s)) = n" "n \<noteq> 1"
  shows "escape_string s =
    (if take 3 s = bytes [226, 128, 168] then backslash # ''u2028'' @ escape_string (drop n s)
     else if take 3 s = bytes [226, 128, 169] then backslash # ''u2029'' @ escape_string (drop n s)
     else take n s @ escape_string (drop n s))"
  using assms by (subst escape_string.simps) (simp add: Let_def)

lemma unquote_escape_string: "utf8_valid s \<Longrightarrow> unquote (escape_string s) = s"
proof (induction s rule: escape_string.induct)
  case (1 s)
  show ?case
  proof (cases s)
    case Nil
    then show ?thesis by (simp add: escape_string.simps unquote.simps)
  next
    case (Cons c s')
    let ?n = "rune_len (map of_char (take 4 s))"
    note IH = "1.IH" [OF Cons refl refl]
    show ?thesis
    proof (cases "(of_char c :: nat) < 128")
      case True
      moreover have "utf8_valid s'" using "1.prems" True by (subst (asm) utf8_valid.simps) (simp add: Cons Let_def)
      ultimately show ?thesis
        using IH(1) by (subst escape_string.simps) (simp add: Cons Let_def unquote_escape_byte)
    next
      case False
      with "1.prems" have n: "?n \<noteq> 1" and valid: "utf8_valid (drop ?n s)"
        by (subst (asm) utf8_valid.simps, simp add: Cons Let_def)+
      have sep: "take ?n s = bytes [226, 128, b]" if "take 3 s = bytes [226, 128, b]" "b = 168 \<or> b = 169" for b
      proof -
        have "map of_char (take 3 s) = [226, 128, b]" using that by (auto simp: of_char_of)
        then obtain y z r where "s = c # y # z # r" "of_char c = (226 :: nat)" "of_char y = (128 :: nat)" "of_char z = b"
          using Cons by (cases s'; cases "tl s'") auto
        then have "?n = 3" using that(2) by (cases r) (auto simp: cont_byte_def)
        with that(1) show ?thesis by simp
      qed
      have u: "unquote (backslash # ''u2028'' @ t) = bytes [226, 128, 168] @ unquote t"
        "unquote (backslash # ''u2029'' @ t) = bytes [226, 128, 169] @ unquote t" for t
        by (simp_all add: unquote_escape unescape_def getu4_def hex_val_def surrogate_def encode_rune_def)
      show ?thesis
        unfolding escape_string_rune [OF Cons False refl n]
        using IH(3-5) [OF False n] valid append_take_drop_id [of ?n s] unquote_rune [OF refl n] sep u
        by (auto simp del: append_Cons bytes_simps append_take_drop_id)
    qed
  qed
qed

text \<open>Numbers.\<close>

lemma is_digit_char_of: "n < 10 \<Longrightarrow> is_digit (char_of (48 + n :: nat))"
  by (simp add: is_digit_def of_char_of_small)

lemma digits_all: "list_all is_digit (digits n)"
  by (induction n rule: digits.induct) (subst digits.simps, auto simp: is_digit_char_of)

lemma digits_not_Nil [simp]: "digits n \<noteq> []"
  by (subst digits.simps) simp

lemma digits_head: "n \<noteq> 0 \<Longrightarrow> hd (digits n) \<noteq> CHR ''0''"
proof (induction n rule: digits.induct)
  case (1 n)
  show ?case
  proof (cases "n < 10")
    case True
    then have "of_char (char_of (48 + n)) \<noteq> (48 :: nat)" using "1.prems" by (simp add: of_char_of_small)
    then have "char_of (48 + n) \<noteq> CHR ''0''" by (auto dest: arg_cong [of _ _ "of_char :: char \<Rightarrow> nat"])
    then show ?thesis using True by (subst digits.simps) simp
  next
    case False
    then show ?thesis using 1 by (subst digits.simps) simp
  qed
qed

lemma digits_val_digits: "digits_val (digits n) = n"
proof (induction n rule: digits.induct)
  case (1 n)
  then show ?case
    by (subst digits.simps) (auto simp: digits_val_def of_char_of_small)
qed

lemma itoa_not_minus: "hd (digits n) \<noteq> CHR ''-''"
  using digits_all [of n] digits_not_Nil [of n] by (cases "digits n") (auto simp: is_digit_def)

lemma ParseInt_itoa: "ParseInt (itoa i) = Some i"
proof (cases "i < 0")
  case True
  then show ?thesis by (simp add: ParseInt_def itoa_def digits_all digits_val_digits)
next
  case False
  then have "\<not> prefix ''-'' (digits (nat i))"
    using itoa_not_minus [of "nat i"] digits_not_Nil [of "nat i"] by (cases "digits (nat i)") auto
  with False show ?thesis by (simp add: ParseInt_def itoa_def digits_all digits_val_digits)
qed

definition num_end :: "string \<Rightarrow> bool" where
  "num_end r = (case r of [] \<Rightarrow> True | c # _ \<Rightarrow> \<not> is_digit c \<and> c \<notin> set ''.eE'')"

lemma scan_digits_append:
  "list_all is_digit ds \<Longrightarrow> num_end r \<Longrightarrow> scan_digits (ds @ r) = (ds, r)"
  by (cases r) (auto simp: scan_digits_def num_end_def list_all_iff takeWhile_append2 dropWhile_append2)

lemma scan_tail: "num_end r \<Longrightarrow> scan_frac r = Some ([], r) \<and> scan_exp r = Some ([], r)"
  by (cases r) (auto simp: num_end_def scan_frac_def scan_exp_def)

lemma scan_int_digits: "num_end r \<Longrightarrow> scan_int (digits n @ r) = Some (digits n, r)"
proof (cases "n = 0")
  case True
  then show ?thesis by (simp add: scan_int_def digits.simps char_of_eq_iff)
next
  case False
  moreover assume "num_end r"
  ultimately show ?thesis
    using digits_head [of n] digits_all [of n] digits_not_Nil [of n] scan_digits_append [of "digits n" r]
    by (cases "digits n") (auto simp: scan_int_def)
qed

lemma scan_number_itoa:
  assumes "num_end r"
  shows "scan_number (itoa i @ r) = Some (itoa i, r)"
proof (cases "i < 0")
  case True
  then show ?thesis
    using assms by (simp add: scan_number_def itoa_def Let_def scan_int_digits scan_tail)
next
  case False
  obtain c t where ds: "digits (nat i) = c # t" using digits_not_Nil by (cases "digits (nat i)") auto
  then have "c \<noteq> CHR ''-''" using itoa_not_minus [of "nat i"] by simp
  then show ?thesis
    using False assms scan_int_digits [OF assms, of "nat i"] ds
    by (simp add: scan_number_def itoa_def Let_def scan_tail)
qed

text \<open>Values.\<close>

fun raw_of :: "json \<Rightarrow> raw" where
  "raw_of JNull = RNull"
| "raw_of (JBool b) = RBool b"
| "raw_of (JNum i) = RNum (itoa i)"
| "raw_of (JStr s) = RStr (escape_string s)"
| "raw_of (JArr xs) = RArr (map raw_of xs)"
| "raw_of (JObj fs) = RObj (map (\<lambda>(k, v). (escape_string k, raw_of v)) fs)"

text \<open>The value opens at most \<open>d\<close> nested brackets.\<close>

fun fits :: "nat \<Rightarrow> json \<Rightarrow> bool" where
  "fits d (JArr xs) = (d \<noteq> 0 \<and> (\<forall>x \<in> set xs. fits (d - 1) x))"
| "fits d (JObj fs) = (d \<noteq> 0 \<and> (\<forall>f \<in> set fs. fits (d - 1) (snd f)))"
| "fits d _ = True"

definition value_head :: "char \<Rightarrow> bool" where
  "value_head c \<longleftrightarrow> c \<in> set (dquote # ''ntf-[{'') \<or> is_digit c"

lemma itoa_head: "\<exists>c t. itoa i = c # t \<and> (c = CHR ''-'' \<or> is_digit c)"
  using digits_all [of "nat i"] digits_not_Nil [of "nat i"] by (cases "digits (nat i)") (auto simp: itoa_def)

lemma json_encode_head: "\<exists>c t. json_encode j = c # t \<and> value_head c"
proof (cases j)
  case (JNum i)
  then show ?thesis using itoa_head [of i] by (auto simp: value_head_def)
qed (auto simp: value_head_def quote_json_def)

lemma value_head_ws: "value_head c \<Longrightarrow> \<not> is_ws c \<and> c \<noteq> CHR '']'' \<and> c \<noteq> CHR ''}''"
  by (auto simp: value_head_def is_ws_def is_digit_def char_eq_nat of_char_of_small)

lemma skip_ws_encode [simp]: "skip_ws (json_encode j @ r) = json_encode j @ r"
  using json_encode_head [of j] by (auto simp: skip_ws_def dest: value_head_ws)

lemma skip_ws_Cons: "\<not> is_ws c \<Longrightarrow> skip_ws (c # s) = c # s"
  by (simp add: skip_ws_def)

lemma not_ws [simp]: "\<not> is_ws (CHR '','')" "\<not> is_ws (CHR '']'')" "\<not> is_ws (CHR ''}'')" "\<not> is_ws (CHR '':'')"
  "\<not> is_ws dquote" "\<not> is_ws (CHR ''['')" "\<not> is_ws (CHR ''{'')"
  by (simp_all add: is_ws_def char_eq_nat of_char_of_small)

lemma num_end_simps [simp]: "num_end []" "num_end (CHR '','' # s)" "num_end (CHR '']'' # s)" "num_end (CHR ''}'' # s)"
  by (simp_all add: num_end_def is_digit_def)

definition elem_ok :: "(string \<Rightarrow> (raw \<times> string) option) \<Rightarrow> json \<Rightarrow> bool" where
  "elem_ok p j \<longleftrightarrow> (\<forall>r. num_end r \<longrightarrow> p (json_encode j @ r) = Some (raw_of j, r))"

lemma scan_elems_encode:
  "xs \<noteq> [] \<Longrightarrow> \<forall>x \<in> set xs. elem_ok p x \<Longrightarrow>
     scan_elems p (Join (map json_encode xs) '','' @ CHR '']'' # r) = Some (map raw_of xs, r)"
proof (induction xs)
  case (Cons x xs)
  show ?case
  proof (cases "xs = []")
    case True
    then show ?thesis
      using Cons.prems(2) by (subst scan_elems.simps) (simp add: elem_ok_def skip_ws_Cons)
  next
    case False
    let ?t = "Join (map json_encode xs) '','' @ CHR '']'' # r"
    have "Join (map json_encode (x # xs)) '','' @ CHR '']'' # r = json_encode x @ CHR '','' # ?t"
      using False by (simp add: Join_Cons)
    moreover have "scan_elems p ?t = Some (map raw_of xs, r)" using False Cons by simp
    ultimately show ?thesis
      using Cons.prems(2) by (subst scan_elems.simps) (simp add: elem_ok_def skip_ws_Cons)
  qed
qed simp

lemma scan_key_quote: "scan_key (quote_json k @ CHR '':'' # t) = Some (escape_string k, t)"
  by (simp add: scan_key_def quote_json_def skip_ws_Cons scan_string_escape)

lemma scan_members_encode:
  "fs \<noteq> [] \<Longrightarrow> \<forall>f \<in> set fs. elem_ok p (snd f) \<Longrightarrow>
     scan_members p (Join (map (\<lambda>(k, v). quote_json k @ '':'' @ json_encode v) fs) '','' @ CHR ''}'' # r)
       = Some (map (\<lambda>(k, v). (escape_string k, raw_of v)) fs, r)"
proof (induction fs)
  case (Cons f fs)
  obtain k v where f: "f = (k, v)" by (cases f)
  show ?case
  proof (cases "fs = []")
    case True
    then show ?thesis
      using Cons.prems(2) by (subst scan_members.simps) (simp add: f scan_key_quote elem_ok_def skip_ws_Cons)
  next
    case False
    let ?t = "Join (map (\<lambda>(k, v). quote_json k @ '':'' @ json_encode v) fs) '','' @ CHR ''}'' # r"
    have "Join (map (\<lambda>(k, v). quote_json k @ '':'' @ json_encode v) (f # fs)) '','' @ CHR ''}'' # r
        = quote_json k @ CHR '':'' # json_encode v @ CHR '','' # ?t"
      using False by (simp add: Join_Cons f)
    moreover have "scan_members p ?t = Some (map (\<lambda>(k, v). (escape_string k, raw_of v)) fs, r)" using False Cons by simp
    ultimately show ?thesis
      using Cons.prems(2) by (subst scan_members.simps) (simp add: f scan_key_quote elem_ok_def skip_ws_Cons)
  qed
qed simp

lemma Join_head: "xs \<noteq> [] \<Longrightarrow> hd xs \<noteq> [] \<Longrightarrow> \<exists>t. Join xs sep = hd (hd xs) # t"
  by (cases xs; cases "hd xs"; cases "tl xs") auto

lemma skip_ws_array:
  assumes "xs \<noteq> []"
  shows "\<not> prefix '']'' (skip_ws (Join (map json_encode xs) '','' @ r))"
proof -
  obtain c t where "json_encode (hd xs) = c # t" and c: "value_head c" using json_encode_head by blast
  then obtain u where "Join (map json_encode xs) '','' = c # u"
    using assms Join_head [of "map json_encode xs" "'',''"] by (auto simp: hd_map)
  with value_head_ws [OF c] show ?thesis by (auto simp: skip_ws_Cons)
qed

lemma skip_ws_object:
  assumes "fs \<noteq> []"
  shows "\<not> prefix ''}'' (skip_ws (Join (map (\<lambda>(k, v). quote_json k @ '':'' @ json_encode v) fs) '','' @ r))"
proof -
  let ?f = "\<lambda>(k, v). quote_json k @ '':'' @ json_encode v"
  have "?f (hd fs) \<noteq> [] \<and> hd (?f (hd fs)) = dquote" by (auto simp: quote_json_def split: prod.split)
  then obtain u where "Join (map ?f fs) '','' = dquote # u"
    using assms Join_head [of "map ?f fs" "'',''"] by (auto simp: hd_map)
  then show ?thesis by (simp add: skip_ws_Cons)
qed

lemma scan_value_number:
  assumes "num_end r"
  shows "scan_value d (itoa i @ r) = Some (RNum (itoa i), r)"
proof -
  obtain c t where c: "itoa i = c # t" "c = CHR ''-'' \<or> is_digit c" using itoa_head by blast
  then have "\<not> is_ws c" "c \<notin> set (dquote # ''ntf[{'')"
    by (auto simp: is_ws_def is_digit_def char_eq_nat of_char_of_small)
  with c(1) show ?thesis
    using scan_number_itoa [OF assms, of i] by (subst scan_value.simps) (simp add: skip_ws_Cons)
qed

lemma scan_value_encode: "fits d j \<Longrightarrow> num_end r \<Longrightarrow> scan_value d (json_encode j @ r) = Some (raw_of j, r)"
proof (induction j arbitrary: d r)
  case (JBool b)
  then show ?case
    by (subst scan_value.simps) (cases b; simp add: skip_ws_def is_ws_def scan_lit_def char_eq_nat of_char_of_small)
next
  case (JNum i)
  then show ?case by (simp add: scan_value_number)
next
  case (JStr s)
  then show ?case
    by (subst scan_value.simps) (simp add: quote_json_def skip_ws_Cons scan_string_escape)
next
  case (JArr xs)
  show ?case
  proof (cases "xs = []")
    case False
    have "\<forall>x \<in> set xs. elem_ok (scan_value (d - 1)) x" using JArr unfolding elem_ok_def by simp
    then have "scan_elems (scan_value (d - 1)) (Join (map json_encode xs) '','' @ CHR '']'' # r) = Some (map raw_of xs, r)"
      using False by (rule scan_elems_encode [rotated])
    then show ?thesis
      using JArr.prems(1) skip_ws_array [OF False, of "CHR '']'' # r"] by (subst scan_value.simps) (simp add: skip_ws_Cons)
  qed (use JArr.prems in \<open>subst scan_value.simps, simp add: skip_ws_Cons\<close>)
next
  case (JObj fs)
  show ?case
  proof (cases "fs = []")
    case False
    have "\<forall>f \<in> set fs. elem_ok (scan_value (d - 1)) (snd f)"
      using JObj unfolding elem_ok_def by (auto simp: prod_set_defs)
    then have "scan_members (scan_value (d - 1)) (Join (map (\<lambda>(k, v). quote_json k @ '':'' @ json_encode v) fs) '','' @ CHR ''}'' # r)
        = Some (map (\<lambda>(k, v). (escape_string k, raw_of v)) fs, r)"
      using False by (rule scan_members_encode [rotated])
    then show ?thesis
      using JObj.prems(1) skip_ws_object [OF False, of "CHR ''}'' # r"] by (subst scan_value.simps) (simp add: skip_ws_Cons)
  qed (use JObj.prems in \<open>subst scan_value.simps, simp add: skip_ws_Cons\<close>)
qed (subst scan_value.simps, auto simp: skip_ws_def is_ws_def scan_lit_def char_eq_nat of_char_of_small)

lemma scan_encode: "fits maxNestingDepth j \<Longrightarrow> scan (json_encode j) = Some (raw_of j)"
  using scan_value_encode [of maxNestingDepth j "[]"] by (simp add: scan_def skip_ws_def)

lemma Unmarshal_encode: "fits maxNestingDepth j \<Longrightarrow> Unmarshal d (json_encode j) zero = d (raw_of j) zero"
  by (simp add: Unmarshal_def scan_encode)

text \<open>The JSON value a scanned value stands for; a number that is no integer has none here.\<close>

fun value_of :: "raw \<Rightarrow> json option" where
  "value_of RNull = Some JNull"
| "value_of (RBool b) = Some (JBool b)"
| "value_of (RNum l) = map_option JNum (ParseInt l)"
| "value_of (RStr a) = Some (JStr (unquote a))"
| "value_of (RArr vs) = map_option JArr (those (map value_of vs))"
| "value_of (RObj ms) = map_option JObj (those (map (\<lambda>m. map_option (Pair (unquote (fst m))) (value_of (snd m))) ms))"

fun utf8_json :: "json \<Rightarrow> bool" where
  "utf8_json (JStr s) = utf8_valid s"
| "utf8_json (JArr xs) = (\<forall>x \<in> set xs. utf8_json x)"
| "utf8_json (JObj fs) = (\<forall>f \<in> set fs. utf8_valid (fst f) \<and> utf8_json (snd f))"
| "utf8_json _ = True"

lemma those_map_Some: "(\<And>x. x \<in> set xs \<Longrightarrow> f x = Some (g x)) \<Longrightarrow> those (map f xs) = Some (map g xs)"
  by (induction xs) auto

lemma value_of_raw_of: "utf8_json j \<Longrightarrow> value_of (raw_of j) = Some j"
proof (induction j)
  case (JArr xs)
  then have "those (map (\<lambda>x. value_of (raw_of x)) xs) = Some (map (\<lambda>x. x) xs)" by (intro those_map_Some) auto
  then show ?case by (simp add: comp_def)
next
  case (JObj fs)
  then have "those (map (\<lambda>f. map_option (Pair (unquote (escape_string (fst f)))) (value_of (raw_of (snd f)))) fs) = Some (map (\<lambda>f. f) fs)"
    by (intro those_map_Some) (auto simp: unquote_escape_string prod_set_defs)
  then show ?case by (simp add: comp_def case_prod_unfold)
qed (simp_all add: ParseInt_itoa unquote_escape_string)


section \<open>Decoding what the encoder writes\<close>

lemma utf8_ascii: "list_all (\<lambda>c. (of_char c :: nat) < 128) s \<Longrightarrow> utf8_valid s"
proof (induction s)
  case Nil
  then show ?case by (simp add: utf8_valid.simps)
next
  case (Cons c s)
  then show ?case by (subst utf8_valid.simps) simp
qed

lemma unquote_ascii_string: "list_all (\<lambda>c. (of_char c :: nat) < 128) s \<Longrightarrow> unquote (escape_string s) = s"
  by (simp add: unquote_escape_string utf8_ascii)

lemma dec_string_encode: "utf8_valid s \<Longrightarrow> dec_string (raw_of (JStr s)) cur = Ok s"
  by (simp add: dec_string_def unquote_escape_string)

lemma dec_int_encode: "dec_int (raw_of (JNum (sint (i :: 'n::len word)))) cur = Ok i"
  by (simp add: dec_int_def ParseInt_itoa)

lemma dec_ptr_encode:
  assumes "raw_of j \<noteq> RNull"
  shows "dec_ptr zero d (raw_of j) None = rbind (d (raw_of j) zero) (\<lambda>x. Ok (Some x))"
  using assms by (simp add: dec_ptr_def split: raw.split)

lemma dec_strings_encode:
  "list_all utf8_valid xs \<Longrightarrow> dec_elems [] dec_string (map (\<lambda>s. raw_of (JStr s)) xs) [] = Ok xs"
  by (induction xs) (simp_all add: dec_string_encode del: raw_of.simps)

text \<open>The equations that decode an encoded object member by member.\<close>

lemma dec_escaped: "utf8_valid s \<Longrightarrow> dec_string (RStr (escape_string s)) cur = Ok s"
  using dec_string_encode [of s cur] by simp

lemma dec_itoa: "dec_int (RNum (itoa (sint (i :: 'n::len word)))) cur = Ok i"
  using dec_int_encode [of i cur] by simp

lemmas decode_members = dec_struct_def unquote_ascii_string find_field_def field_at_def dec_escaped dec_itoa

section \<open>Decoding is total\<close>

text \<open>A decoder that returns a value or an error on every scanned value.\<close>

definition total_dec :: "'a decoder \<Rightarrow> bool" where
  "total_dec d \<longleftrightarrow> (\<forall>v x. returns (d v x))"

lemma total_dec_basic [simp]:
  "total_dec dec_string" "total_dec dec_bool" "total_dec dec_int" "total_dec dec_interface"
  by (auto simp: total_dec_def dec_string_def dec_bool_def dec_int_def dec_interface_def mismatch_def
      split: raw.split option.split)

lemma total_dec_ptr [simp]: "total_dec d \<Longrightarrow> total_dec (dec_ptr zero d)"
  by (auto simp: total_dec_def dec_ptr_def intro!: returns_rbind split: raw.split)

lemma total_dec_slice [simp]: "total_dec d \<Longrightarrow> total_dec (dec_slice zero d)"
proof -
  assume d: "total_dec d"
  have "returns (dec_elems zero d vs cur)" for vs cur
    using d by (induction zero d vs cur rule: dec_elems.induct) (auto simp: total_dec_def intro!: returns_rbind)
  then show ?thesis by (auto simp: total_dec_def dec_slice_def mismatch_def split: raw.split)
qed

lemma total_dec_map [simp]: "total_dec d \<Longrightarrow> total_dec (dec_map zero d)"
proof -
  assume d: "total_dec d"
  have "returns (dec_entries zero d ms m)" for ms m
    using d by (induction zero d ms m rule: dec_entries.induct) (auto simp: total_dec_def intro!: returns_rbind)
  then show ?thesis by (auto simp: total_dec_def dec_map_def mismatch_def split: raw.split)
qed

lemma total_field_at [simp]: "total_dec d \<Longrightarrow> total_dec (snd (field_at nm get upd d))"
  by (auto simp: total_dec_def field_at_def intro!: returns_rbind)

lemma find_field_set: "find_field fs k = Some f \<Longrightarrow> f \<in> set fs"
  by (auto simp: find_field_def find_Some_iff split: option.splits)

lemma total_dec_struct [simp]: "list_all (\<lambda>f. total_dec (snd f)) fs \<Longrightarrow> total_dec (dec_struct fs)"
proof -
  assume fs: "list_all (\<lambda>f. total_dec (snd f)) fs"
  have "returns (dec_fields fs ms x)" for ms x
  proof (induction ms arbitrary: x)
    case (Cons m ms)
    then show ?case
      using fs by (cases m)
        (force simp: total_dec_def list_all_iff intro!: returns_rbind dest: find_field_set split: option.split)
  qed simp
  then show ?thesis by (auto simp: total_dec_def dec_struct_def mismatch_def split: raw.split)
qed

lemma returns_Unmarshal: "total_dec d \<Longrightarrow> returns (Unmarshal d data zero)"
  by (simp add: Unmarshal_def total_dec_def split: option.split)

end
