(* ===== verification/GoTime.thy ===== *)
theory GoTime
  imports JsonParse
begin

text \<open>
  Go's \<^verbatim>\<open>time.Time\<close> as far as the messages of the cloud services carry one: reading it from JSON
  (\<^verbatim>\<open>Time.UnmarshalJSON\<close>, which is \<^verbatim>\<open>time.Parse\<close> with the layout of RFC 3339 on the text between the
  quotes) and printing it with \<^verbatim>\<open>Time.String\<close>. A time is kept as the reading of the calendar and
  the clock in its zone. The zone of the process is the argument \<open>loc\<close>: the offset in seconds
  and the abbreviation that are in force at an instant of Unix time.
\<close>

section \<open>Times\<close>

record Time =
  tm_year :: nat
  tm_month :: nat
  tm_day :: nat
  tm_hour :: nat
  tm_min :: nat
  tm_sec :: nat
  tm_nsec :: nat
  tm_offset :: int
  tm_zone :: string

definition zero_Time :: Time where
  "zero_Time = \<lparr>tm_year = 1, tm_month = 1, tm_day = 1, tm_hour = 0, tm_min = 0, tm_sec = 0, tm_nsec = 0,
     tm_offset = 0, tm_zone = ''UTC''\<rparr>"

type_synonym location = "int \<Rightarrow> int \<times> string"

definition isLeap :: "nat \<Rightarrow> bool" where
  "isLeap year = (year mod 4 = 0 \<and> (year mod 100 \<noteq> 0 \<or> year mod 400 = 0))"

definition daysIn :: "nat \<Rightarrow> nat \<Rightarrow> nat" where
  "daysIn month year =
     (if month = 2 then (if isLeap year then 29 else 28) else if month \<in> {4, 6, 9, 11} then 30 else 31)"

text \<open>The instant of a calendar and clock reading in UTC, in seconds since 1970.\<close>

definition unixSec :: "Time \<Rightarrow> int" where
  "unixSec t =
     (let y = int (tm_year t) - 1;
          days = 365 * y + y div 4 - y div 100 + y div 400
            + int (sum_list (map (\<lambda>m. daysIn m (tm_year t)) [1 ..< tm_month t])) + int (tm_day t) - 719163
      in ((days * 24 + int (tm_hour t)) * 60 + int (tm_min t)) * 60 + int (tm_sec t))"

section \<open>time.Parse with the layout RFC3339\<close>

text \<open>\<^verbatim>\<open>getnum\<close>: two digits; one is enough when the number is not fixed.\<close>

fun getnum :: "bool \<Rightarrow> string \<Rightarrow> (nat \<times> string) option" where
  "getnum fixed (a # b # s) =
     (if \<not> is_digit a then None
      else if is_digit b then Some (digits_val [a, b], s)
      else if fixed then None else Some (digits_val [a], b # s))"
| "getnum fixed [a] = (if is_digit a \<and> \<not> fixed then Some (digits_val [a], []) else None)"
| "getnum fixed [] = None"

definition skip_char :: "char \<Rightarrow> string \<Rightarrow> string option" where
  "skip_char c s = (case s of [] \<Rightarrow> None | d # s' \<Rightarrow> if d = c then Some s' else None)"

definition parse_year :: "string \<Rightarrow> (nat \<times> string) option" where
  "parse_year s = (if 4 \<le> length s \<and> list_all is_digit (take 4 s) then Some (digits_val (take 4 s), drop 4 s) else None)"

text \<open>A fraction of a second, cut off after nine digits; there need not be one.\<close>

definition parse_nanos :: "string \<Rightarrow> nat \<times> string" where
  "parse_nanos s =
     (case s of
        c # d # _ \<Rightarrow>
          (if c \<in> set ''.,'' \<and> is_digit d then
             (let ds = takeWhile is_digit (tl s); kept = take 9 ds in
              (digits_val kept * 10 ^ (9 - length kept), drop (length ds) (tl s)))
           else (0, s))
      | _ \<Rightarrow> (0, s))"

text \<open>The zone: \<open>Inl ()\<close> for \<^verbatim>\<open>Z\<close>, otherwise an offset in seconds; nothing may follow it.\<close>

definition parse_zone :: "string \<Rightarrow> (unit + int) option" where
  "parse_zone s =
     (case s of
        [c] \<Rightarrow> (if c = CHR ''Z'' then Some (Inl ()) else None)
      | [sg, h1, h2, col, m1, m2] \<Rightarrow>
          (if col = CHR '':'' then
             Option.bind (getnum True [h1, h2]) (\<lambda>(hr, _).
             Option.bind (getnum True [m1, m2]) (\<lambda>(mm, _).
               if 24 < hr \<or> 60 < mm then None
               else if sg = CHR ''+'' then Some (Inr (int ((hr * 60 + mm) * 60)))
               else if sg = CHR ''-'' then Some (Inr (- int ((hr * 60 + mm) * 60)))
               else None))
           else None)
      | _ \<Rightarrow> None)"

text \<open>The zone of the process is used when it has the same offset at that instant.\<close>

definition set_zone :: "location \<Rightarrow> unit + int \<Rightarrow> Time \<Rightarrow> Time" where
  "set_zone loc z t =
     (case z of
        Inl _ \<Rightarrow> t\<lparr>tm_offset := 0, tm_zone := ''UTC''\<rparr>
      | Inr off \<Rightarrow>
          (case loc (unixSec t - off) of (local_off, nm) \<Rightarrow>
             t\<lparr>tm_offset := off, tm_zone := (if local_off = off then nm else [])\<rparr>))"

definition Parse_RFC3339 :: "location \<Rightarrow> string \<Rightarrow> Time option" where
  "Parse_RFC3339 loc s =
     Option.bind (parse_year s) (\<lambda>(year, s).
     Option.bind (skip_char (CHR ''-'') s) (\<lambda>s.
     Option.bind (getnum True s) (\<lambda>(month, s).
     Option.bind (skip_char (CHR ''-'') s) (\<lambda>s.
     Option.bind (getnum True s) (\<lambda>(day, s).
     Option.bind (skip_char (CHR ''T'') s) (\<lambda>s.
     Option.bind (getnum False s) (\<lambda>(hour, s).
     Option.bind (skip_char (CHR '':'') s) (\<lambda>s.
     Option.bind (getnum True s) (\<lambda>(minute, s).
     Option.bind (skip_char (CHR '':'') s) (\<lambda>s.
     Option.bind (getnum True s) (\<lambda>(second, s).
       (case parse_nanos s of (nsec, s) \<Rightarrow>
     Option.bind (parse_zone s) (\<lambda>z.
       if month < 1 \<or> 12 < month \<or> 24 \<le> hour \<or> 60 \<le> minute \<or> 60 \<le> second \<or> day < 1 \<or> daysIn month year < day then None
       else Some (set_zone loc z
         \<lparr>tm_year = year, tm_month = month, tm_day = day, tm_hour = hour, tm_min = minute, tm_sec = second,
          tm_nsec = nsec, tm_offset = 0, tm_zone = ''UTC''\<rparr>))))))))))))))"

text \<open>\<^verbatim>\<open>Time.UnmarshalJSON\<close>: the text between the quotes as it is written, escapes not resolved.\<close>

definition dec_time :: "location \<Rightarrow> Time decoder" where
  "dec_time loc v cur =
     (case v of
        RNull \<Rightarrow> Ok cur
      | RStr a \<Rightarrow>
          (case Parse_RFC3339 loc a of
             Some t \<Rightarrow> Ok t
           | None \<Rightarrow> Err (Errorf ''parsing time %q as RFC 3339'' [QuotedArg a]))
      | _ \<Rightarrow> Err (errors_New ''Time.UnmarshalJSON: input is not a JSON string''))"

section \<open>Time.String\<close>

text \<open>A number with at least \<open>w\<close> digits.\<close>

definition appendInt :: "nat \<Rightarrow> nat \<Rightarrow> string" where
  "appendInt w n = (let ds = digits n in replicate (w - length ds) (CHR ''0'') @ ds)"

definition format_nanos :: "nat \<Rightarrow> string" where
  "format_nanos ns =
     (let ds = rev (dropWhile (\<lambda>c. c = CHR ''0'') (rev (appendInt 9 ns))) in if ds = [] then [] else CHR ''.'' # ds)"

definition format_offset :: "int \<Rightarrow> string" where
  "format_offset off =
     (let zone = nat \<bar>off\<bar> div 60 in
      (if off < 0 \<and> zone \<noteq> 0 then ''-'' else ''+'') @ appendInt 2 (zone div 60) @ appendInt 2 (zone mod 60))"

definition Time_String :: "Time \<Rightarrow> string" where
  "Time_String t =
     appendInt 4 (tm_year t) @ ''-'' @ appendInt 2 (tm_month t) @ ''-'' @ appendInt 2 (tm_day t) @ '' ''
       @ appendInt 2 (tm_hour t) @ '':'' @ appendInt 2 (tm_min t) @ '':'' @ appendInt 2 (tm_sec t)
       @ format_nanos (tm_nsec t) @ '' '' @ format_offset (tm_offset t) @ '' ''
       @ (if tm_zone t \<noteq> [] then tm_zone t else format_offset (tm_offset t))"

lemma total_dec_time [simp]: "total_dec (dec_time loc)"
  by (auto simp: total_dec_def dec_time_def split: raw.split option.split)

end
