(* ===== verification/VaultSource.thy ===== *)
theory VaultSource
  imports TcpSource GoTime
begin

text \<open>
  The HashiCorp Vault source (\<^verbatim>\<open>internal/listener/hashivault\<close>, \<^verbatim>\<open>pkg/models/vault\<close>): a TCP socket whose
  lines are Vault audit log entries. The entry's type with all fields is decoded, since a
  field of the wrong type rejects the whole entry; what an entry publishes depends on its
  type, the mount, the path and the operation.
\<close>

section \<open>Audit log entries (pkg/models/vault)\<close>

record GrantingPolicy =
  gp_Name :: string
  gp_NamespaceId :: string
  gp_Type :: string

record PolicyResults =
  pr_Allowed :: bool
  pr_GrantingPolicies :: "GrantingPolicy list"

record Auth =
  au_Accessor :: string
  au_DisplayName :: string
  au_Policies :: "string list"
  au_PolicyResults :: "PolicyResults option"
  au_ClientToken :: string
  au_TokenPolicies :: "string list"
  au_TokenIssueTime :: Time
  au_TokenType :: string

record VaultNamespace =
  vn_Id :: string

record AuthRequest =
  ar_ClientId :: string
  ar_ClientToken :: string
  ar_ClientTokenAccessor :: string
  ar_Data :: "(string, raw) gomap"
  ar_Id :: string
  ar_MountAccessor :: string
  ar_MountClass :: string
  ar_MountPoint :: string
  ar_MountRunningVersion :: string
  ar_MountType :: string
  ar_Namespace :: "VaultNamespace option"
  ar_Operation :: string
  ar_Path :: string
  ar_RemoteAddress :: string
  ar_RemotePort :: int64
  ar_RequestUri :: string

record AuthResponse =
  as_Data :: "(string, raw) gomap"
  as_MountAccessor :: string
  as_MountClass :: string
  as_MountPoint :: string
  as_MountRunningPluginVersion :: string
  as_MountType :: string

record AuditLog =
  al_Auth :: "Auth option"
  al_AuthRequest :: "AuthRequest option"
  al_AuthResponse :: "AuthResponse option"
  al_Time :: Time
  al_AuthType :: string

definition ValidMessage :: "AuditLog \<Rightarrow> bool" where
  "ValidMessage m =
     (al_AuthType m = ''response''
      \<and> (case al_AuthResponse m of None \<Rightarrow> False | Some r \<Rightarrow> as_MountType r = ''kv''))"

section \<open>Decoding\<close>

definition zero_GrantingPolicy :: GrantingPolicy where
  "zero_GrantingPolicy = \<lparr>gp_Name = [], gp_NamespaceId = [], gp_Type = []\<rparr>"

definition dec_GrantingPolicy :: "GrantingPolicy decoder" where
  "dec_GrantingPolicy = dec_struct
     [field_at ''name'' gp_Name gp_Name_update dec_string,
      field_at ''namespace_id'' gp_NamespaceId gp_NamespaceId_update dec_string,
      field_at ''type'' gp_Type gp_Type_update dec_string]"

definition zero_PolicyResults :: PolicyResults where
  "zero_PolicyResults = \<lparr>pr_Allowed = False, pr_GrantingPolicies = []\<rparr>"

definition dec_PolicyResults :: "PolicyResults decoder" where
  "dec_PolicyResults = dec_struct
     [field_at ''allowed'' pr_Allowed pr_Allowed_update dec_bool,
      field_at ''granting_policies'' pr_GrantingPolicies pr_GrantingPolicies_update
        (dec_slice zero_GrantingPolicy dec_GrantingPolicy)]"

definition zero_Auth :: Auth where
  "zero_Auth =
     \<lparr>au_Accessor = [], au_DisplayName = [], au_Policies = [], au_PolicyResults = None, au_ClientToken = [],
      au_TokenPolicies = [], au_TokenIssueTime = zero_Time, au_TokenType = []\<rparr>"

definition dec_Auth :: "location \<Rightarrow> Auth decoder" where
  "dec_Auth loc = dec_struct
     [field_at ''accessor'' au_Accessor au_Accessor_update dec_string,
      field_at ''display_name'' au_DisplayName au_DisplayName_update dec_string,
      field_at ''policies'' au_Policies au_Policies_update (dec_slice [] dec_string),
      field_at ''policy_results'' au_PolicyResults au_PolicyResults_update (dec_ptr zero_PolicyResults dec_PolicyResults),
      field_at ''client_token'' au_ClientToken au_ClientToken_update dec_string,
      field_at ''token_policies'' au_TokenPolicies au_TokenPolicies_update (dec_slice [] dec_string),
      field_at ''token_issue_time'' au_TokenIssueTime au_TokenIssueTime_update (dec_time loc),
      field_at ''token_type'' au_TokenType au_TokenType_update dec_string]"

definition zero_AuthRequest :: AuthRequest where
  "zero_AuthRequest =
     \<lparr>ar_ClientId = [], ar_ClientToken = [], ar_ClientTokenAccessor = [], ar_Data = [], ar_Id = [], ar_MountAccessor = [],
      ar_MountClass = [], ar_MountPoint = [], ar_MountRunningVersion = [], ar_MountType = [], ar_Namespace = None,
      ar_Operation = [], ar_Path = [], ar_RemoteAddress = [], ar_RemotePort = 0, ar_RequestUri = []\<rparr>"

definition dec_AuthRequest :: "AuthRequest decoder" where
  "dec_AuthRequest = dec_struct
     [field_at ''client_id'' ar_ClientId ar_ClientId_update dec_string,
      field_at ''client_token'' ar_ClientToken ar_ClientToken_update dec_string,
      field_at ''client_token_accessor'' ar_ClientTokenAccessor ar_ClientTokenAccessor_update dec_string,
      field_at ''data'' ar_Data ar_Data_update (dec_map RNull dec_interface),
      field_at ''id'' ar_Id ar_Id_update dec_string,
      field_at ''mount_accessor'' ar_MountAccessor ar_MountAccessor_update dec_string,
      field_at ''mount_class'' ar_MountClass ar_MountClass_update dec_string,
      field_at ''mount_point'' ar_MountPoint ar_MountPoint_update dec_string,
      field_at ''mount_running_version'' ar_MountRunningVersion ar_MountRunningVersion_update dec_string,
      field_at ''mount_type'' ar_MountType ar_MountType_update dec_string,
      field_at ''namespace'' ar_Namespace ar_Namespace_update
        (dec_ptr \<lparr>vn_Id = []\<rparr> (dec_struct [field_at ''id'' vn_Id vn_Id_update dec_string])),
      field_at ''operation'' ar_Operation ar_Operation_update dec_string,
      field_at ''path'' ar_Path ar_Path_update dec_string,
      field_at ''remote_address'' ar_RemoteAddress ar_RemoteAddress_update dec_string,
      field_at ''remote_port'' ar_RemotePort ar_RemotePort_update dec_int,
      field_at ''request_uri'' ar_RequestUri ar_RequestUri_update dec_string]"

definition zero_AuthResponse :: AuthResponse where
  "zero_AuthResponse =
     \<lparr>as_Data = [], as_MountAccessor = [], as_MountClass = [], as_MountPoint = [], as_MountRunningPluginVersion = [],
      as_MountType = []\<rparr>"

definition dec_AuthResponse :: "AuthResponse decoder" where
  "dec_AuthResponse = dec_struct
     [field_at ''data'' as_Data as_Data_update (dec_map RNull dec_interface),
      field_at ''mount_accessor'' as_MountAccessor as_MountAccessor_update dec_string,
      field_at ''mount_class'' as_MountClass as_MountClass_update dec_string,
      field_at ''mount_point'' as_MountPoint as_MountPoint_update dec_string,
      field_at ''mount_running_plugin_version'' as_MountRunningPluginVersion as_MountRunningPluginVersion_update dec_string,
      field_at ''mount_type'' as_MountType as_MountType_update dec_string]"

definition zero_AuditLog :: AuditLog where
  "zero_AuditLog =
     \<lparr>al_Auth = None, al_AuthRequest = None, al_AuthResponse = None, al_Time = zero_Time, al_AuthType = []\<rparr>"

definition dec_AuditLog :: "location \<Rightarrow> AuditLog decoder" where
  "dec_AuditLog loc = dec_struct
     [field_at ''auth'' al_Auth al_Auth_update (dec_ptr zero_Auth (dec_Auth loc)),
      field_at ''request'' al_AuthRequest al_AuthRequest_update (dec_ptr zero_AuthRequest dec_AuthRequest),
      field_at ''response'' al_AuthResponse al_AuthResponse_update (dec_ptr zero_AuthResponse dec_AuthResponse),
      field_at ''time'' al_Time al_Time_update (dec_time loc),
      field_at ''type'' al_AuthType al_AuthType_update dec_string]"

section \<open>The listener (internal/listener/hashivault)\<close>

definition HASHICORP_VAULT :: string where "HASHICORP_VAULT = ''HashicorpVault''"

record HashicorpVault =
  vs_config :: HashicorpVaultConfig
  vs_done :: bool
  vs_tcpSocket :: TCPSocket

definition vault_CreateListener :: "bool \<Rightarrow> NotificationSource option \<Rightarrow> HashicorpVault result" where
  "vault_CreateListener ctx_done source =
     (case source of
        None \<Rightarrow> Err (errors_New ''HashicorpVault config is nil'')
      | Some src \<Rightarrow>
          (case ns_HashicorpVault src of
             None \<Rightarrow> Err (errors_New ''HashicorpVault config is nil'')
           | Some config \<Rightarrow>
               (let sockConfig = \<lparr>tcp_Host = hv_Host config, tcp_Port = hv_Port config, tcp_SecretIdentifierOnPayload = []\<rparr> in
                rbind (NewTCPSocketListener ctx_done (Some sockConfig)) (\<lambda>sock.
                  Ok \<lparr>vs_config = config, vs_done = ctx_done, vs_tcpSocket = SetProcessFn VaultProcessFn sock\<rparr>))))"

definition vault_Start :: "'n net \<Rightarrow> HashicorpVault \<Rightarrow> 'n \<Rightarrow> unit result \<times> HashicorpVault \<times> 'n" where
  "vault_Start nt h n =
     (case tcp_Start nt (vs_tcpSocket h) n of (r, sock, n') \<Rightarrow> (r, h\<lparr>vs_tcpSocket := sock\<rparr>, n'))"

text \<open>The socket's context is a child of the listener's, so cancelling cancels both.\<close>

definition vault_Stop :: "'n net \<Rightarrow> HashicorpVault \<Rightarrow> 'n \<Rightarrow> unit result \<times> HashicorpVault \<times> 'n" where
  "vault_Stop nt h n =
     (let h' = h\<lparr>vs_done := True, vs_tcpSocket := (vs_tcpSocket h)\<lparr>ts_done := True\<rparr>\<rparr> in
      case tcp_Stop nt (vs_tcpSocket h') n of (r, sock, n') \<Rightarrow> (r, h'\<lparr>vs_tcpSocket := sock\<rparr>, n'))"

text \<open>
  Processing an entry. The request is a pointer that is dereferenced without a check, and the
  path must contain the mount point; otherwise the goroutine panics.
\<close>

definition vault_event :: "(int \<Rightarrow> string) \<Rightarrow> string \<Rightarrow> int \<Rightarrow> SecretRotationEvent" where
  "vault_event format path now =
     \<lparr>ev_SecretIdentifier = path, ev_RotationTimestamp = format now, ev_TriggerSource = HASHICORP_VAULT, ev_Namespace = []\<rparr>"

definition vault_path :: "AuditLog \<Rightarrow> string result" where
  "vault_path msg =
     rbind (deref (al_AuthResponse msg)) (\<lambda>resp.
     rbind (deref (al_AuthRequest msg)) (\<lambda>req.
     rbind (slice_at (Split (ar_Path req) (as_MountPoint resp)) 1) (\<lambda>piece.
       Ok (TrimPrefix piece ''data/''))))"

definition vault_processFn :: "location \<Rightarrow> (int \<Rightarrow> string) \<Rightarrow> string \<Rightarrow> rt \<Rightarrow> unit result \<times> rt" where
  "vault_processFn loc format message st =
     (case Unmarshal (dec_AuditLog loc) message zero_AuditLog of
        Err e \<Rightarrow> (Ok (), st)
      | Panic p \<Rightarrow> (Panic p, st)
      | Blocked \<Rightarrow> (Blocked, st)
      | Ok msg \<Rightarrow>
          (if \<not> ValidMessage msg then (Ok (), st)
           else
             (case rbind (vault_path msg) (\<lambda>path. rbind (deref (al_AuthRequest msg)) (\<lambda>req. Ok (path, ar_Operation req))) of
                Ok (path, operation) \<Rightarrow>
                  (if operation = ''create'' then (Ok (), st)
                   else if operation = ''update'' then publish_or_drop (vault_event format path (rt_now st)) st
                   else (Ok (), st))
              | Err e \<Rightarrow> (Err e, st)
              | Panic p \<Rightarrow> (Panic p, st)
              | Blocked \<Rightarrow> (Blocked, st))))"

section \<open>What an entry announces\<close>

definition vault_entry :: "location \<Rightarrow> string \<Rightarrow> AuditLog option" where
  "vault_entry loc message =
     (case Unmarshal (dec_AuditLog loc) message zero_AuditLog of
        Ok msg \<Rightarrow> (if ValidMessage msg then Some msg else None)
      | _ \<Rightarrow> None)"

definition vault_operation :: "AuditLog \<Rightarrow> string" where
  "vault_operation msg = (case al_AuthRequest msg of None \<Rightarrow> [] | Some req \<Rightarrow> ar_Operation req)"

text \<open>An entry the listener survives, and the secret it announces: only updates announce one.\<close>

definition vault_safe :: "location \<Rightarrow> string \<Rightarrow> bool" where
  "vault_safe loc message = (case vault_entry loc message of None \<Rightarrow> True | Some msg \<Rightarrow> is_ok (vault_path msg))"

definition vault_ident :: "location \<Rightarrow> string \<Rightarrow> string option" where
  "vault_ident loc message =
     (case vault_entry loc message of
        None \<Rightarrow> None
      | Some msg \<Rightarrow>
          (case vault_path msg of
             Ok path \<Rightarrow> (if vault_operation msg = ''update'' then Some path else None)
           | _ \<Rightarrow> None))"

lemma vault_path_outcome: "(\<exists>p. vault_path msg = Ok p) \<or> (\<exists>p. vault_path msg = Panic p)"
  by (auto simp: vault_path_def deref_def slice_at_def split: option.splits)

lemma vault_path_request: "vault_path msg = Ok p \<Longrightarrow> \<exists>req. al_AuthRequest msg = Some req"
  by (auto simp: vault_path_def go_simps)

lemma total_AuditLog [simp]: "total_dec (dec_AuditLog loc)"
  by (simp add: dec_AuditLog_def dec_Auth_def dec_PolicyResults_def dec_GrantingPolicy_def dec_AuthRequest_def
      dec_AuthResponse_def total_dec_time)

lemma vault_processFn_eq:
  "vault_processFn loc format m st =
     (case vault_entry loc m of
        None \<Rightarrow> (Ok (), st)
      | Some msg \<Rightarrow>
          (case vault_path msg of
             Ok path \<Rightarrow>
               (if vault_operation msg = ''update'' then publish_or_drop (vault_event format path (rt_now st)) st else (Ok (), st))
           | _ \<Rightarrow> (Panic (case vault_path msg of Panic p \<Rightarrow> p | _ \<Rightarrow> []), st)))"
proof -
  have "returns (Unmarshal (dec_AuditLog loc) m zero_AuditLog)" by (rule returns_Unmarshal) simp
  then show ?thesis
  proof (cases rule: returns_cases)
    case (Ok msg)
    then show ?thesis
      using vault_path_outcome [of msg] vault_path_request [of msg]
      by (auto simp: vault_processFn_def vault_entry_def vault_operation_def)
  next
    case (Err e)
    then show ?thesis by (simp add: vault_processFn_def vault_entry_def)
  qed
qed

interpretation vault_source: line_source "vault_processFn loc format" "vault_ident loc" HASHICORP_VAULT "vault_safe loc"
proof unfold_locales
  fix m st n
  assume "steady (Suc n) st" and "vault_safe loc m"
  then show "\<exists>r st'. vault_processFn loc format m st = (r, st') \<and> returns r \<and> steady n st'"
    using publish_or_drop_live [of n st] steady_mono [of "Suc n" st n]
    by (fastforce simp: vault_processFn_eq vault_safe_def go_simps split: option.splits result.splits)
qed (auto simp: vault_processFn_eq vault_ident_def vault_event_def dest: publish_or_drop_out split: option.splits result.splits if_splits)

section \<open>Entries of a key/value mount\<close>

text \<open>The members of an entry the listener looks at.\<close>

definition audit_entry :: "string \<Rightarrow> string \<Rightarrow> string \<Rightarrow> json" where
  "audit_entry operation mount path =
     JObj [(''type'', JStr ''response''),
       (''request'', JObj [(''operation'', JStr operation), (''path'', JStr path)]),
       (''response'', JObj [(''mount_type'', JStr ''kv''), (''mount_point'', JStr mount)])]"

lemma decode_entry:
  assumes "utf8_valid operation" "utf8_valid mount" "utf8_valid path"
  shows "Unmarshal (dec_AuditLog loc) (json_encode (audit_entry operation mount path)) zero_AuditLog =
    Ok (zero_AuditLog\<lparr>al_AuthType := ''response'',
      al_AuthRequest := Some (zero_AuthRequest\<lparr>ar_Operation := operation, ar_Path := path\<rparr>),
      al_AuthResponse := Some (zero_AuthResponse\<lparr>as_MountType := ''kv'', as_MountPoint := mount\<rparr>)\<rparr>)"
proof -
  have fits: "fits maxNestingDepth (audit_entry operation mount path)"
    by (simp add: audit_entry_def maxNestingDepth_def)
  have req: "dec_AuthRequest (RObj [(escape_string ''operation'', RStr (escape_string operation)), (escape_string ''path'', RStr (escape_string path))]) zero_AuthRequest
      = Ok (zero_AuthRequest\<lparr>ar_Operation := operation, ar_Path := path\<rparr>)"
    using assms by (simp add: dec_AuthRequest_def decode_members)
  have resp: "dec_AuthResponse (RObj [(escape_string ''mount_type'', RStr (escape_string ''kv'')), (escape_string ''mount_point'', RStr (escape_string mount))]) zero_AuthResponse
      = Ok (zero_AuthResponse\<lparr>as_MountType := ''kv'', as_MountPoint := mount\<rparr>)"
    using assms by (simp add: dec_AuthResponse_def decode_members utf8_ascii)
  show ?thesis
    unfolding Unmarshal_encode [OF fits]
    by (simp add: audit_entry_def dec_AuditLog_def decode_members utf8_ascii
        dec_ptr_def req resp zero_AuditLog_def)
qed

text \<open>The piece of a path after the mount point, up to where the mount point occurs again.\<close>

definition below_mount :: "string \<Rightarrow> string \<Rightarrow> string" where
  "below_mount mount rest = (case Cut rest mount of None \<Rightarrow> rest | Some (piece, again) \<Rightarrow> piece)"

lemma Split_below_mount:
  assumes "mount \<noteq> []"
  shows "\<exists>pieces. Split (mount @ rest) mount = [] # below_mount mount rest # pieces"
proof -
  have "Cut (mount @ rest) mount = Some ([], rest)" using assms by (cases mount) auto
  then have "Split (mount @ rest) mount = [] # Split rest mount" using assms by (subst Split.simps) simp
  moreover have "\<exists>pieces. Split rest mount = below_mount mount rest # pieces"
    using assms by (subst Split.simps) (auto simp: below_mount_def split: option.split)
  ultimately show ?thesis by auto
qed

lemma below_mount_all: "mount \<noteq> [] \<Longrightarrow> \<not> sublist mount rest \<Longrightarrow> below_mount mount rest = rest"
  using Cut_None_iff [of mount rest] by (simp add: below_mount_def)

text \<open>
  C22: an audit log entry for an update of a secret in a key/value mount makes the source publish
  one event. It names the piece of the request's path after the mount point, without the \<^verbatim>\<open>data/\<close>
  of the second version of the engine: that is the name of the secret, except when the mount
  point occurs in it again; then the name is cut off there. Entries for any other operation,
  creation included, publish nothing.
\<close>

theorem vault_publishes_updates:
  assumes "utf8_valid operation" "utf8_valid mount" "utf8_valid (mount @ rest)" and "mount \<noteq> []" and "steady (Suc n) st"
  shows "\<exists>st'. vault_processFn loc format (json_encode (audit_entry operation mount (mount @ rest))) st = (Ok (), st')
    \<and> rt_out st' = rt_out st
        @ (if operation = ''update'' then [vault_event format (TrimPrefix (below_mount mount rest) ''data/'') (rt_now st)] else [])
    \<and> (\<not> sublist mount rest \<longrightarrow> below_mount mount rest = rest)"
proof -
  let ?m = "json_encode (audit_entry operation mount (mount @ rest))" and ?name = "TrimPrefix (below_mount mount rest) ''data/''"
  obtain msg where msg: "vault_entry loc ?m = Some msg" "vault_path msg = Ok ?name" "vault_operation msg = operation"
    using decode_entry [OF assms(1-3), of loc] Split_below_mount [OF assms(4), of rest]
    by (auto simp: vault_entry_def vault_operation_def ValidMessage_def vault_path_def slice_at_def)
  obtain st' where st': "publish_or_drop ev st = (Ok (), st' ev) \<and> steady n (st' ev)" for ev
    using publish_or_drop_live [OF assms(5)] by metis
  then have "rt_out (st' ev) = rt_out st @ [ev]" for ev
    using publish_or_drop_out(4) [of ev st "Ok ()" "st' ev"] steady_not_done by auto
  with msg st' below_mount_all [OF assms(4), of rest] show ?thesis by (auto simp: vault_processFn_eq)
qed

text \<open>A secret, and one whose name contains the mount point.\<close>

theorem vault_publishes_updates_witness:
  "\<exists>st' st''. vault_processFn (\<lambda>_. (0, ''UTC'')) (\<lambda>_. ''now'') (json_encode (audit_entry ''update'' ''secret/'' (''secret/'' @ ''data/db''))) fixture_steady = (Ok (), st')
    \<and> map ev_SecretIdentifier (rt_out st') = [''db'']
    \<and> vault_processFn (\<lambda>_. (0, ''UTC'')) (\<lambda>_. ''now'') (json_encode (audit_entry ''update'' ''secret/'' (''secret/'' @ ''data/my-secret/db''))) fixture_steady = (Ok (), st'')
    \<and> map ev_SecretIdentifier (rt_out st'') = [''my-'']"
proof -
  have st: "steady (Suc 7) fixture_steady" "rt_out fixture_steady = []" by (simp_all add: fixture_steady_def steady_def)
  have "below_mount ''secret/'' ''data/db'' = ''data/db''" "below_mount ''secret/'' ''data/my-secret/db'' = ''data/my-''"
    by (simp_all add: below_mount_def)
  with st vault_publishes_updates [of "''update''" "''secret/''" "''data/db''" 7 fixture_steady "\<lambda>_. (0, ''UTC'')" "\<lambda>_. ''now''"]
    vault_publishes_updates [of "''update''" "''secret/''" "''data/my-secret/db''" 7 fixture_steady "\<lambda>_. (0, ''UTC'')" "\<lambda>_. ''now''"]
  show ?thesis by (auto simp: utf8_ascii vault_event_def TrimPrefix_def)
qed

text \<open>
  C35: an entry of a key/value mount whose request is missing, or whose path does not contain
  the mount point, makes the reading goroutine panic; nothing in the source recovers, so one
  line on the socket ends the program.
\<close>

theorem vault_entry_panics:
  assumes "vault_entry loc m = Some msg"
    and "al_AuthRequest msg = None
      \<or> (\<exists>req resp. al_AuthRequest msg = Some req \<and> al_AuthResponse msg = Some resp
          \<and> as_MountPoint resp \<noteq> [] \<and> \<not> sublist (as_MountPoint resp) (ar_Path req))"
  shows "\<exists>p. vault_processFn loc format m st = (Panic p, st)"
proof -
  obtain resp where "al_AuthResponse msg = Some resp"
    using assms(1) by (auto simp: vault_entry_def ValidMessage_def split: result.splits if_splits option.splits)
  then have "\<exists>p. vault_path msg = Panic p"
    using assms(2) by (auto simp: vault_path_def deref_def slice_at_def Split_no_sublist)
  with assms(1) show ?thesis by (auto simp: vault_processFn_eq)
qed

theorem vault_entry_panics_witness:
  "\<exists>p. vault_processFn (\<lambda>_. (0, ''UTC'')) (\<lambda>_. ''now'') (json_encode (audit_entry ''read'' ''secret/'' ''sys/mounts'')) fixture_steady
    = (Panic p, fixture_steady)"
proof -
  let ?loc = "\<lambda>_. (0, ''UTC'')"
  obtain msg where "vault_entry ?loc (json_encode (audit_entry ''read'' ''secret/'' ''sys/mounts'')) = Some msg"
    "al_AuthRequest msg = Some (zero_AuthRequest\<lparr>ar_Operation := ''read'', ar_Path := ''sys/mounts''\<rparr>)"
    "al_AuthResponse msg = Some (zero_AuthResponse\<lparr>as_MountType := ''kv'', as_MountPoint := ''secret/''\<rparr>)"
    using decode_entry [of "''read''" "''secret/''" "''sys/mounts''" ?loc] by (auto simp: vault_entry_def ValidMessage_def utf8_ascii)
  then show ?thesis
    by (intro vault_entry_panics) (auto simp: sublist_Cons_right)
qed

end
