(* ===== verification/AwsAuth.thy ===== *)
theory AwsAuth
  imports Secrets JsonParse
begin

text \<open>
  AWS authentication of the SQS source: the configuration types of \<^verbatim>\<open>pkg/models/aws\<close>, the
  conversion of the API's configuration into them through JSON
  (\<^verbatim>\<open>internal/util/mapper\<close>), the service account tokens of \<^verbatim>\<open>internal/util/token_retriever.go\<close> and
  the choice of credentials in \<^verbatim>\<open>pkg/auth/aws\<close>. The AWS SDK's \<^verbatim>\<open>config.LoadDefaultConfig\<close> is the
  argument \<open>load\<close>, the token endpoint of the API server the argument \<open>create_token\<close>.
\<close>

section \<open>pkg/models/aws\<close>

record modelServiceAccountSelector =
  msa_Name :: string
  msa_Namespace :: string
  msa_Audiences :: "string list"

record modelSecretKeySelector =
  msk_Name :: string
  msk_Key :: string
  msk_Namespace :: string

record modelAWSSDKSecretRef =
  msr_AccessKeyId :: modelSecretKeySelector
  msr_SecretAccessKey :: modelSecretKeySelector

record modelAWSSDKAuth =
  mau_AuthMethod :: string
  mau_Region :: string
  mau_ServiceAccount :: "modelServiceAccountSelector option"
  mau_SecretRef :: "modelAWSSDKSecretRef option"

record modelAWSSQSConfig =
  mq_QueueURL :: string
  mq_Auth :: modelAWSSDKAuth
  mq_MaxNumberOfMessages :: int32
  mq_WaitTimeSeconds :: int32
  mq_VisibilityTimeout :: int32

section \<open>Decoding them\<close>

definition zero_msa :: modelServiceAccountSelector where
  "zero_msa = \<lparr>msa_Name = [], msa_Namespace = [], msa_Audiences = []\<rparr>"

definition zero_msk :: modelSecretKeySelector where
  "zero_msk = \<lparr>msk_Name = [], msk_Key = [], msk_Namespace = []\<rparr>"

definition zero_msr :: modelAWSSDKSecretRef where
  "zero_msr = \<lparr>msr_AccessKeyId = zero_msk, msr_SecretAccessKey = zero_msk\<rparr>"

definition zero_mau :: modelAWSSDKAuth where
  "zero_mau = \<lparr>mau_AuthMethod = [], mau_Region = [], mau_ServiceAccount = None, mau_SecretRef = None\<rparr>"

definition zero_mq :: modelAWSSQSConfig where
  "zero_mq = \<lparr>mq_QueueURL = [], mq_Auth = zero_mau, mq_MaxNumberOfMessages = 0, mq_WaitTimeSeconds = 0, mq_VisibilityTimeout = 0\<rparr>"

definition dec_msa :: "modelServiceAccountSelector decoder" where
  "dec_msa = dec_struct
     [field_at ''name'' msa_Name msa_Name_update dec_string,
      field_at ''namespace'' msa_Namespace msa_Namespace_update dec_string,
      field_at ''audiences'' msa_Audiences msa_Audiences_update (dec_slice [] dec_string)]"

definition dec_msk :: "modelSecretKeySelector decoder" where
  "dec_msk = dec_struct
     [field_at ''name'' msk_Name msk_Name_update dec_string,
      field_at ''key'' msk_Key msk_Key_update dec_string,
      field_at ''namespace'' msk_Namespace msk_Namespace_update dec_string]"

definition dec_msr :: "modelAWSSDKSecretRef decoder" where
  "dec_msr = dec_struct
     [field_at ''accessKeyIdSecretRef'' msr_AccessKeyId msr_AccessKeyId_update dec_msk,
      field_at ''secretAccessKeySecretRef'' msr_SecretAccessKey msr_SecretAccessKey_update dec_msk]"

definition dec_mau :: "modelAWSSDKAuth decoder" where
  "dec_mau = dec_struct
     [field_at ''authMethod'' mau_AuthMethod mau_AuthMethod_update dec_string,
      field_at ''region'' mau_Region mau_Region_update dec_string,
      field_at ''serviceAccountRef'' mau_ServiceAccount mau_ServiceAccount_update (dec_ptr zero_msa dec_msa),
      field_at ''secretRef'' mau_SecretRef mau_SecretRef_update (dec_ptr zero_msr dec_msr)]"

definition dec_mq :: "modelAWSSQSConfig decoder" where
  "dec_mq = dec_struct
     [field_at ''queueURL'' mq_QueueURL mq_QueueURL_update dec_string,
      field_at ''auth'' mq_Auth mq_Auth_update dec_mau,
      field_at ''numberOfMessages'' mq_MaxNumberOfMessages mq_MaxNumberOfMessages_update dec_int,
      field_at ''waitTimeSeconds'' mq_WaitTimeSeconds mq_WaitTimeSeconds_update dec_int,
      field_at ''visibilityTimeout'' mq_VisibilityTimeout mq_VisibilityTimeout_update dec_int]"

section \<open>internal/util/mapper\<close>

text \<open>\<^verbatim>\<open>TransformConfig\<close>: the target type is given by its decoder and zero value.\<close>

definition TransformConfig :: "('d \<Rightarrow> json) \<Rightarrow> 't decoder \<Rightarrow> 't \<Rightarrow> 'd \<Rightarrow> 't result" where
  "TransformConfig marshal d zero providerConfig =
     (let configBytes = json_encode (marshal providerConfig) in
      map_err (Wrapf ''error unmarshaling to target config: %w'' []) (Unmarshal d configBytes zero))"

section \<open>internal/util/token_retriever.go\<close>

record TokenRetriever =
  tr_serviceAccountName :: string
  tr_serviceAccountNamespace :: string
  tr_audiences :: "string list"

definition NewTokenRetriever :: "string \<Rightarrow> string \<Rightarrow> TokenRetriever" where
  "NewTokenRetriever serviceAccountName serviceAccountNamespace =
     \<lparr>tr_serviceAccountName = serviceAccountName, tr_serviceAccountNamespace = serviceAccountNamespace,
      tr_audiences = [''sts.amazonaws.com'']\<rparr>"

text \<open>\<open>create_token sa audiences\<close> is \<^verbatim>\<open>SubResource("token").Create\<close>: the token of the response.\<close>

definition GetServiceAccountToken :: "(NamespacedName \<Rightarrow> string list \<Rightarrow> error + string) \<Rightarrow> TokenRetriever \<Rightarrow> string result" where
  "GetServiceAccountToken create_token tr =
     map_err (Wrapf ''error creating service account token: %w'' [])
       (lift (create_token (NamespacedName (tr_serviceAccountNamespace tr) (tr_serviceAccountName tr)) (tr_audiences tr)))"

definition GetIdentityToken :: "(NamespacedName \<Rightarrow> string list \<Rightarrow> error + string) \<Rightarrow> TokenRetriever \<Rightarrow> string result" where
  "GetIdentityToken create_token tr = rbind (GetServiceAccountToken create_token tr) (\<lambda>token. Ok token)"

section \<open>pkg/auth/aws\<close>

definition AuthMethodStatic :: string where "AuthMethodStatic = ''static''"
definition AuthMethodIRSA :: string where "AuthMethodIRSA = ''irsa''"

text \<open>
  The credentials provider handed to the SDK: fixed keys with a session token, or a web
  identity role assumed through the token service of a region.
\<close>

datatype credentials =
    StaticCredentials (cr_id: string) (cr_secret: string) (cr_session: string)
  | WebIdentityRole (cr_sts_region: string) (cr_role: string) (cr_retriever: TokenRetriever)

type_synonym 'c aws_load = "string \<Rightarrow> credentials \<Rightarrow> error + 'c"

definition secret_data :: "'w kube \<Rightarrow> 'w \<Rightarrow> modelSecretKeySelector \<Rightarrow> string result" where
  "secret_data k w sel =
     rbind (GetSecret k w (msk_Name sel) (msk_Namespace sel)) (\<lambda>secret.
       (case map_of (sec_Data secret) (msk_Key sel) of
          None \<Rightarrow> Err (Errorf ''key not found in secret %s'' [StrArg (msk_Name sel)])
        | Some data \<Rightarrow> Ok data))"

definition loadConfigWithSecret :: "'w kube \<Rightarrow> 'c aws_load \<Rightarrow> 'w \<Rightarrow> modelAWSSDKAuth \<Rightarrow> 'c result" where
  "loadConfigWithSecret k load w authConfig =
     rbind (deref (mau_SecretRef authConfig)) (\<lambda>secretRef.
     rbind (secret_data k w (msr_AccessKeyId secretRef)) (\<lambda>accessKeyIDBytes.
     rbind (secret_data k w (msr_SecretAccessKey secretRef)) (\<lambda>secretAccessKeyBytes.
       lift (load (mau_Region authConfig) (StaticCredentials accessKeyIDBytes secretAccessKeyBytes [])))))"

definition getRoleARN :: "'w kube \<Rightarrow> 'w \<Rightarrow> string \<Rightarrow> string \<Rightarrow> string result" where
  "getRoleARN k w serviceAccountName ns =
     rbind (map_err (Wrapf ''failed to get service account: %w'' []) (lift (k_GetServiceAccount k w (NamespacedName ns serviceAccountName))))
       (\<lambda>serviceAccount.
         (case sa_Annotations serviceAccount of
            None \<Rightarrow> Err (Errorf ''no annotations found on service account %s'' [StrArg serviceAccountName])
          | Some annotations \<Rightarrow>
              (case annotations ''eks.amazonaws.com/role-arn'' of
                 None \<Rightarrow> Err (Errorf ''role ARN annotation not found on service account %s'' [StrArg serviceAccountName])
               | Some roleARN \<Rightarrow> Ok roleARN)))"

definition createAWSSessionWithWebIdentity :: "'c aws_load \<Rightarrow> TokenRetriever \<Rightarrow> string \<Rightarrow> string \<Rightarrow> 'c result" where
  "createAWSSessionWithWebIdentity load retriever roleARN region =
     lift (load region (WebIdentityRole region roleARN retriever))"

definition loadConfigWithServiceAccount :: "'w kube \<Rightarrow> 'c aws_load \<Rightarrow> 'w \<Rightarrow> modelAWSSDKAuth \<Rightarrow> 'c result" where
  "loadConfigWithServiceAccount k load w authConfig =
     rbind (deref (mau_ServiceAccount authConfig)) (\<lambda>sa.
       (let tokenRetriever = NewTokenRetriever (msa_Name sa) (msa_Namespace sa) in
        rbind (getRoleARN k w (msa_Name sa) (msa_Namespace sa)) (\<lambda>roleARN.
          createAWSSessionWithWebIdentity load tokenRetriever roleARN (mau_Region authConfig))))"

definition CreateAWSSDKConfig :: "'w kube \<Rightarrow> 'c aws_load \<Rightarrow> 'w \<Rightarrow> modelAWSSDKAuth \<Rightarrow> 'c result" where
  "CreateAWSSDKConfig k load w config =
     (if mau_AuthMethod config = AuthMethodStatic then loadConfigWithSecret k load w config
      else if mau_AuthMethod config = AuthMethodIRSA then loadConfigWithServiceAccount k load w config
      else Err (Errorf ''unsupported authentication method: %s'' [StrArg (mau_AuthMethod config)]))"

section \<open>The conversion keeps every field\<close>

definition model_sas :: "ServiceAccountSelector \<Rightarrow> modelServiceAccountSelector" where
  "model_sas s = \<lparr>msa_Name = sas_Name s, msa_Namespace = sas_Namespace s, msa_Audiences = sas_Audiences s\<rparr>"

definition model_sks :: "SecretKeySelector \<Rightarrow> modelSecretKeySelector" where
  "model_sks s = \<lparr>msk_Name = sks_Name s, msk_Key = sks_Key s, msk_Namespace = sks_Namespace s\<rparr>"

definition model_ref :: "AWSSDKSecretRef \<Rightarrow> modelAWSSDKSecretRef" where
  "model_ref r = \<lparr>msr_AccessKeyId = model_sks (asr_AccessKeyId r), msr_SecretAccessKey = model_sks (asr_SecretAccessKey r)\<rparr>"

definition model_auth :: "AWSSDKAuth \<Rightarrow> modelAWSSDKAuth" where
  "model_auth a =
     \<lparr>mau_AuthMethod = asa_AuthMethod a, mau_Region = asa_Region a,
      mau_ServiceAccount = map_option model_sas (asa_ServiceAccount a), mau_SecretRef = map_option model_ref (asa_SecretRef a)\<rparr>"

definition model_sqs :: "AWSSQSConfig \<Rightarrow> modelAWSSQSConfig" where
  "model_sqs c =
     \<lparr>mq_QueueURL = sqs_QueueURL c, mq_Auth = model_auth (sqs_Auth c), mq_MaxNumberOfMessages = sqs_MaxNumberOfMessages c,
      mq_WaitTimeSeconds = sqs_WaitTimeSeconds c, mq_VisibilityTimeout = sqs_VisibilityTimeout c\<rparr>"

lemma dec_msk_encode:
  "utf8_json (marshal_SecretKeySelector s) \<Longrightarrow> dec_msk (raw_of (marshal_SecretKeySelector s)) x = Ok (model_sks s)"
  by (cases x) (simp add: marshal_SecretKeySelector_def dec_msk_def decode_members model_sks_def)

lemma dec_msa_encode:
  "utf8_json (marshal_ServiceAccountSelector s) \<Longrightarrow> dec_msa (raw_of (marshal_ServiceAccountSelector s)) zero_msa = Ok (model_sas s)"
  using dec_strings_encode [of "sas_Audiences s"]
  by (auto simp: marshal_ServiceAccountSelector_def dec_msa_def decode_members model_sas_def zero_msa_def opt_strs_def
      dec_slice_def list_all_iff comp_def)

lemma dec_msr_encode:
  "utf8_json (marshal_AWSSDKSecretRef r) \<Longrightarrow> dec_msr (raw_of (marshal_AWSSDKSecretRef r)) x = Ok (model_ref r)"
  by (cases x) (simp add: marshal_AWSSDKSecretRef_def dec_msr_def decode_members dec_msk_encode model_ref_def)

lemma raw_of_structs [simp]:
  "raw_of (marshal_ServiceAccountSelector s) \<noteq> RNull" "raw_of (marshal_AWSSDKSecretRef r) \<noteq> RNull"
  by (simp_all add: marshal_ServiceAccountSelector_def marshal_AWSSDKSecretRef_def)

lemma dec_mau_encode:
  "utf8_json (marshal_AWSSDKAuth a) \<Longrightarrow> dec_mau (raw_of (marshal_AWSSDKAuth a)) zero_mau = Ok (model_auth a)"
  by (cases "asa_ServiceAccount a"; cases "asa_SecretRef a")
    (simp_all add: marshal_AWSSDKAuth_def dec_mau_def decode_members opt_ptr_def zero_mau_def dec_ptr_encode
      dec_msa_encode dec_msr_encode model_auth_def)

lemma dec_mq_encode:
  "utf8_json (marshal_AWSSQSConfig c) \<Longrightarrow> dec_mq (raw_of (marshal_AWSSQSConfig c)) zero_mq = Ok (model_sqs c)"
  by (simp add: marshal_AWSSQSConfig_def dec_mq_def decode_members zero_mq_def dec_mau_encode model_sqs_def)

lemma fits_AWSSQSConfig: "fits maxNestingDepth (marshal_AWSSQSConfig c)"
  by (auto simp: marshal_AWSSQSConfig_def marshal_AWSSDKAuth_def marshal_ServiceAccountSelector_def marshal_AWSSDKSecretRef_def
      marshal_SecretKeySelector_def opt_ptr_def opt_strs_def maxNestingDepth_def split: option.splits)

lemma transform_sqs:
  "utf8_json (marshal_AWSSQSConfig c) \<Longrightarrow> TransformConfig marshal_AWSSQSConfig dec_mq zero_mq c = Ok (model_sqs c)"
  by (simp add: TransformConfig_def Unmarshal_encode fits_AWSSQSConfig dec_mq_encode Let_def)

text \<open>
  C38: converting the SQS configuration of the API through its JSON form into the type of the
  AWS package succeeds and keeps the value of every field, present or absent, of a
  configuration whose strings are valid UTF-8 (which the API server guarantees).
\<close>

theorem TransformConfig_roundtrip:
  assumes "utf8_json (marshal_AWSSQSConfig c)"
  shows "TransformConfig marshal_AWSSQSConfig dec_mq zero_mq c = Ok (model_sqs c)"
  using assms by (rule transform_sqs)

definition fixture_sqs_config :: AWSSQSConfig where
  "fixture_sqs_config =
     \<lparr>sqs_QueueURL = ''https://sqs/q'',
      sqs_Auth = \<lparr>asa_AuthMethod = ''static'', asa_Region = ''eu-west-1'', asa_ServiceAccount = None,
        asa_SecretRef = Some \<lparr>asr_AccessKeyId = \<lparr>sks_Name = ''aws'', sks_Key = ''id'', sks_Namespace = ''default''\<rparr>,
          asr_SecretAccessKey = \<lparr>sks_Name = ''aws'', sks_Key = ''key'', sks_Namespace = ''default''\<rparr>\<rparr>\<rparr>,
      sqs_MaxNumberOfMessages = 10, sqs_WaitTimeSeconds = 20, sqs_VisibilityTimeout = - 1\<rparr>"

lemma fixture_sqs_utf8: "utf8_json (marshal_AWSSQSConfig fixture_sqs_config)"
  by (simp add: fixture_sqs_config_def marshal_AWSSQSConfig_def marshal_AWSSDKAuth_def marshal_AWSSDKSecretRef_def
      marshal_SecretKeySelector_def opt_ptr_def utf8_ascii)

theorem TransformConfig_roundtrip_witness:
  "\<exists>m. TransformConfig marshal_AWSSQSConfig dec_mq zero_mq fixture_sqs_config = Ok m
     \<and> mq_VisibilityTimeout m = - 1 \<and> mau_ServiceAccount (mq_Auth m) = None"
  using TransformConfig_roundtrip [OF fixture_sqs_utf8] by (simp add: model_sqs_def model_auth_def fixture_sqs_config_def)

section \<open>Which credentials are used\<close>

interpretation secret_data: secret_resolver k "\<lambda>w sel. secret_data k w (model_sks sel)"
  by unfold_locales
    (auto simp: secret_data_def model_sks_def secret_value_def GetSecret_Ok_iff go_simps intro!: returns_rbind
      split: option.splits sum.splits)

text \<open>The annotation that names the role of a service account.\<close>

definition role_of :: "'w kube \<Rightarrow> 'w \<Rightarrow> ServiceAccountSelector \<Rightarrow> string option" where
  "role_of k w sa =
     (case k_GetServiceAccount k w (NamespacedName (sas_Namespace sa) (sas_Name sa)) of
        Inl e \<Rightarrow> None
      | Inr acc \<Rightarrow> Option.bind (sa_Annotations acc) (\<lambda>as. as ''eks.amazonaws.com/role-arn''))"

lemma getRoleARN_iff: "getRoleARN k w (sas_Name sa) (sas_Namespace sa) = Ok r \<longleftrightarrow> role_of k w sa = Some r"
  by (auto simp: getRoleARN_def role_of_def go_simps split: sum.splits option.splits)

lemma returns_getRoleARN [simp]: "returns (getRoleARN k w nm ns)"
  by (auto simp: getRoleARN_def intro!: returns_rbind split: option.splits)

text \<open>
  C39: an AWS session is created in exactly two ways. With the method \<^verbatim>\<open>static\<close> the SDK gets the
  access key and the secret key stored under the two references and no session token; with
  \<^verbatim>\<open>irsa\<close> it gets the role of the service account's annotation, assumed in the configured region
  with tokens of that service account for the audience \<^verbatim>\<open>sts.amazonaws.com\<close>. In every other case,
  a missing Secret, key, account or annotation included, there is no session. So the methods that
  \<^verbatim>\<open>docs/sources/aws-sqs.md\<close> names, \<^verbatim>\<open>credentials\<close> (with an optional session token) and
  \<^verbatim>\<open>serviceAccount\<close>, give none.
\<close>

theorem CreateAWSSDKConfig_iff:
  "CreateAWSSDKConfig k load w (model_auth a) = Ok c \<longleftrightarrow>
     (asa_AuthMethod a = ''static'' \<and> (\<exists>ref key_id key. asa_SecretRef a = Some ref
        \<and> secret_value k w (asr_AccessKeyId ref) = Some key_id \<and> secret_value k w (asr_SecretAccessKey ref) = Some key
        \<and> load (asa_Region a) (StaticCredentials key_id key []) = Inr c))
     \<or> (asa_AuthMethod a = ''irsa'' \<and> (\<exists>sa role. asa_ServiceAccount a = Some sa \<and> role_of k w sa = Some role
        \<and> load (asa_Region a) (WebIdentityRole (asa_Region a) role
             \<lparr>tr_serviceAccountName = sas_Name sa, tr_serviceAccountNamespace = sas_Namespace sa,
              tr_audiences = [''sts.amazonaws.com'']\<rparr>) = Inr c))"
  by (auto simp: CreateAWSSDKConfig_def AuthMethodStatic_def AuthMethodIRSA_def model_auth_def loadConfigWithSecret_def
      loadConfigWithServiceAccount_def createAWSSessionWithWebIdentity_def NewTokenRetriever_def model_ref_def model_sas_def
      secret_data.resolve_value getRoleARN_iff go_simps Let_def)

end
