(* ===== verification/SqsSource.thy ===== *)
theory SqsSource
  imports Publish AwsAuth
begin

text \<open>
  The AWS SQS source (\<^verbatim>\<open>internal/listener/sqs\<close>, \<^verbatim>\<open>pkg/listener/aws\<close>): a goroutine polls the queue
  and hands the received batches over an unbuffered channel to a second goroutine, which parses
  the messages and publishes their events. The SQS client of the AWS SDK is the record \<open>sqs\<close>
  over a world \<open>'s\<close>. The two goroutines share nothing but the channels, so each is a function of
  its own schedule: the poller yields the batches it sent and the errors it offered, the
  consumer takes any interleaving of them.
\<close>

section \<open>Messages and the SQS client\<close>

record Message =
  mg_Body :: "string option"
  mg_MessageId :: "string option"
  mg_ReceiptHandle :: "string option"

record ReceiveMessageInput =
  ri_QueueUrl :: string
  ri_MaxNumberOfMessages :: int32
  ri_WaitTimeSeconds :: int32
  ri_VisibilityTimeout :: int32

record 's sqs =
  sq_ReceiveMessage :: "ReceiveMessageInput \<Rightarrow> 's \<Rightarrow> (error + Message list) \<times> 's"
  sq_DeleteMessage :: "string \<Rightarrow> string option \<Rightarrow> 's \<Rightarrow> error option \<times> 's"

section \<open>pkg/listener/aws\<close>

text \<open>\<open>sl_client\<close> is the SDK client made of the session, \<open>sl_done\<close> says that \<^verbatim>\<open>Stop\<close> was called.\<close>

record 'c AWSSQSPoller =
  sl_config :: modelAWSSQSConfig
  sl_client :: 'c
  sl_done :: bool

definition NewAWSSQSListener ::
  "'w kube \<Rightarrow> 'c aws_load \<Rightarrow> 'w \<Rightarrow> bool \<Rightarrow> modelAWSSQSConfig \<Rightarrow> 'c AWSSQSPoller result" where
  "NewAWSSQSListener k load w ctx_done config =
     rbind (map_err (Wrapf ''failed to create AWS config: %w'' []) (CreateAWSSDKConfig k load w (mq_Auth config)))
       (\<lambda>awsConfig. Ok \<lparr>sl_config = config, sl_client = awsConfig, sl_done = ctx_done\<rparr>)"

definition SetSQSClient :: "'c \<Rightarrow> 'c AWSSQSPoller \<Rightarrow> unit result \<times> 'c AWSSQSPoller" where
  "SetSQSClient sqsClient h = (Ok (), h\<lparr>sl_client := sqsClient\<rparr>)"

text \<open>Deleting what was received: a failure is logged with the identifier of the message.\<close>

fun delete_messages :: "'s sqs \<Rightarrow> string \<Rightarrow> Message list \<Rightarrow> 's \<Rightarrow> unit result \<times> 's" where
  "delete_messages sq url [] s = (Ok (), s)"
| "delete_messages sq url (message # messages) s =
     (case sq_DeleteMessage sq url (mg_ReceiptHandle message) s of
        (None, s') \<Rightarrow> delete_messages sq url messages s'
      | (Some err, s') \<Rightarrow>
          (case mg_MessageId message of
             None \<Rightarrow> (Panic ''nil pointer dereference'', s')
           | Some _ \<Rightarrow> delete_messages sq url messages s'))"

definition PollMessages :: "'s sqs \<Rightarrow> modelAWSSQSConfig \<Rightarrow> 's \<Rightarrow> Message list result \<times> 's" where
  "PollMessages sq config s =
     (case sq_ReceiveMessage sq
        \<lparr>ri_QueueUrl = mq_QueueURL config, ri_MaxNumberOfMessages = mq_MaxNumberOfMessages config,
         ri_WaitTimeSeconds = mq_WaitTimeSeconds config, ri_VisibilityTimeout = mq_VisibilityTimeout config\<rparr> s of
        (Inl err, s1) \<Rightarrow> (Err (Wrapf ''failed to receive messages from SQS: %w'' [] err), s1)
      | (Inr messages, s1) \<Rightarrow>
          (case delete_messages sq (mq_QueueURL config) messages s1 of
             (Ok _, s2) \<Rightarrow> (Ok messages, s2)
           | (Err e, s2) \<Rightarrow> (Err e, s2)
           | (Panic p, s2) \<Rightarrow> (Panic p, s2)
           | (Blocked, s2) \<Rightarrow> (Blocked, s2)))"

definition poll_pause :: int where "poll_pause = 5 * 1000000000"

text \<open>
  The polling goroutine. Receiving waits for the service, so the environment runs then. After
  an error it offers the error to the error channel, which drops it when it is full, and pauses;
  a batch waits for the consumer; both waits end when the context is done. The result: the
  batches the consumer took, the errors offered.
\<close>

function poll_loop :: "'s sqs \<Rightarrow> modelAWSSQSConfig \<Rightarrow> rt \<Rightarrow> 's \<Rightarrow> unit result \<times> Message list list \<times> error list \<times> rt \<times> 's" where
  "poll_loop sq config st s =
     (if rt_done st then (Ok (), [], [], st, s)
      else
        (case block st of
           (Ok _, st1) \<Rightarrow>
             (case PollMessages sq config s of
                (Err err, s1) \<Rightarrow>
                  (case select_or_done (timer_ready (rt_now st1 + poll_pause)) st1 of
                     (Ok Ready, st2) \<Rightarrow>
                       (case poll_loop sq config st2 s1 of (r, bs, es, st', s') \<Rightarrow> (r, bs, err # es, st', s'))
                   | (Ok DoneCase, st2) \<Rightarrow> (Ok (), [], [err], st2, s1)
                   | (Err e, st2) \<Rightarrow> (Err e, [], [err], st2, s1)
                   | (Panic p, st2) \<Rightarrow> (Panic p, [], [err], st2, s1)
                   | (Blocked, st2) \<Rightarrow> (Blocked, [], [err], st2, s1))
              | (Ok messages, s1) \<Rightarrow>
                  (if length messages > 0 then
                     (case select_or_done chan_ready st1 of
                        (Ok Ready, st2) \<Rightarrow>
                          (case poll_loop sq config st2 s1 of (r, bs, es, st', s') \<Rightarrow> (r, messages # bs, es, st', s'))
                      | (Ok DoneCase, st2) \<Rightarrow> (Ok (), [], [], st2, s1)
                      | (Err e, st2) \<Rightarrow> (Err e, [], [], st2, s1)
                      | (Panic p, st2) \<Rightarrow> (Panic p, [], [], st2, s1)
                      | (Blocked, st2) \<Rightarrow> (Blocked, [], [], st2, s1))
                   else poll_loop sq config st1 s1)
              | (Panic p, s1) \<Rightarrow> (Panic p, [], [], st1, s1)
              | (Blocked, s1) \<Rightarrow> (Blocked, [], [], st1, s1))
         | (Err e, st1) \<Rightarrow> (Err e, [], [], st1, s)
         | (Panic p, st1) \<Rightarrow> (Panic p, [], [], st1, s)
         | (Blocked, st1) \<Rightarrow> (Blocked, [], [], st1, s)))"
  by pat_completeness auto

lemma block_sched: "block st = (Ok u, st') \<Longrightarrow> length (rt_sched st') < length (rt_sched st)"
  by (auto simp: block_def split: list.splits)

termination poll_loop
  by (relation "measure (\<lambda>(sq, config, st, s). length (rt_sched st))")
    (auto dest!: sym [of "(_, _)"] block_sched dest: select_frame(5))

declare poll_loop.simps [simp del]

text \<open>\<^verbatim>\<open>Stop\<close> cancels the poller's context; the wait that follows is over at once.\<close>

definition poller_Stop :: "'c AWSSQSPoller \<Rightarrow> unit result \<times> 'c AWSSQSPoller" where
  "poller_Stop h = (Ok (), h\<lparr>sl_done := True\<rparr>)"

section \<open>internal/listener/sqs\<close>

definition AWS_SQS :: string where "AWS_SQS = ''AwsSqs''"

record RequestParameters =
  rqp_SecretId :: string

record SecretMessageDetail =
  smd_EventTime :: string
  smd_RequestParameters :: RequestParameters

record SecretMessage =
  sm_Detail :: SecretMessageDetail

definition zero_SecretMessage :: SecretMessage where
  "zero_SecretMessage = \<lparr>sm_Detail = \<lparr>smd_EventTime = [], smd_RequestParameters = \<lparr>rqp_SecretId = []\<rparr>\<rparr>\<rparr>"

definition dec_SecretMessage :: "SecretMessage decoder" where
  "dec_SecretMessage = dec_struct
     [field_at ''detail'' sm_Detail sm_Detail_update
        (dec_struct
           [field_at ''eventTime'' smd_EventTime smd_EventTime_update dec_string,
            field_at ''requestParameters'' smd_RequestParameters smd_RequestParameters_update
              (dec_struct [field_at ''secretId'' rqp_SecretId rqp_SecretId_update dec_string])])]"

definition parseEvent :: "string \<Rightarrow> SecretRotationEvent result" where
  "parseEvent jsonData =
     rbind (Unmarshal dec_SecretMessage jsonData zero_SecretMessage) (\<lambda>event.
       Ok \<lparr>ev_SecretIdentifier = rqp_SecretId (smd_RequestParameters (sm_Detail event)),
           ev_RotationTimestamp = smd_EventTime (sm_Detail event), ev_TriggerSource = AWS_SQS, ev_Namespace = []\<rparr>)"

text \<open>\<open>rt_done\<close> is the context the manager gave, which \<^verbatim>\<open>Stop\<close> does not cancel.\<close>

definition sqs_processMessage :: "Message \<Rightarrow> rt \<Rightarrow> unit result \<times> rt" where
  "sqs_processMessage message st =
     (case mg_Body message of
        None \<Rightarrow> (Err (errors_New ''received message with empty body''), st)
      | Some body \<Rightarrow>
          (case parseEvent body of
             Err e \<Rightarrow> (Err (errors_New ''failed to parse message body''), st)
           | Panic p \<Rightarrow> (Panic p, st)
           | Blocked \<Rightarrow> (Blocked, st)
           | Ok event \<Rightarrow>
               (case publish event st of
                  (Ok Ready, st') \<Rightarrow> (Ok (), st')
                | (Ok DoneCase, st') \<Rightarrow> (Err Canceled, st')
                | (Err e, st') \<Rightarrow> (Err e, st')
                | (Panic p, st') \<Rightarrow> (Panic p, st')
                | (Blocked, st') \<Rightarrow> (Blocked, st'))))"

text \<open>What the consumer's \<^verbatim>\<open>select\<close> receives, until one of the channels is found closed.\<close>

datatype delivery = Batch "Message list" | PollError error

fun consume :: "delivery list \<Rightarrow> rt \<Rightarrow> unit result \<times> rt" where
  "consume [] st = (Ok (), st)"
| "consume (Batch messages # ds) st =
     (case for_each sqs_processMessage messages st of
        (Ok _, st') \<Rightarrow> consume ds st'
      | (r, st') \<Rightarrow> (r, st'))"
| "consume (PollError e # ds) st = consume ds st"

record 'c AWSSQSListener =
  sqsl_done :: bool
  sqsl_listener :: "'c AWSSQSPoller"
  sqsl_running :: bool

definition sqs_CreateListener ::
  "'w kube \<Rightarrow> 'c aws_load \<Rightarrow> bool \<Rightarrow> NotificationSource option \<Rightarrow> 'w \<Rightarrow> 'c AWSSQSListener result" where
  "sqs_CreateListener k load ctx_done source w =
     (case source of
        None \<Rightarrow> Err (errors_New ''aws sqs config is nil'')
      | Some src \<Rightarrow>
          (case ns_AwsSqs src of
             None \<Rightarrow> Err (errors_New ''aws sqs config is nil'')
           | Some config \<Rightarrow>
               rbind (map_err (Wrapf ''failed to parse config: %w'' []) (TransformConfig marshal_AWSSQSConfig dec_mq zero_mq config)) (\<lambda>parsedConfig.
               rbind (map_err (Wrapf ''failed to create SQS Listener: %w'' []) (NewAWSSQSListener k load w ctx_done parsedConfig)) (\<lambda>listener.
                 Ok \<lparr>sqsl_done = ctx_done, sqsl_listener = listener, sqsl_running = False\<rparr>))))"

text \<open>\<^verbatim>\<open>Start\<close> starts the two goroutines and returns.\<close>

definition sqs_Start :: "'c AWSSQSListener \<Rightarrow> unit result \<times> 'c AWSSQSListener" where
  "sqs_Start h = (Ok (), h\<lparr>sqsl_running := True\<rparr>)"

definition sqs_Stop :: "'c AWSSQSListener \<Rightarrow> unit result \<times> 'c AWSSQSListener" where
  "sqs_Stop h = (case poller_Stop (sqsl_listener h) of (r, l) \<Rightarrow> (r, h\<lparr>sqsl_listener := l\<rparr>))"

section \<open>The consumer publishes what the batches announce\<close>

definition sqs_event :: "Message \<Rightarrow> SecretRotationEvent option" where
  "sqs_event message =
     (case mg_Body message of
        None \<Rightarrow> None
      | Some body \<Rightarrow> (case parseEvent body of Ok ev \<Rightarrow> Some ev | _ \<Rightarrow> None))"

lemma total_SecretMessage [simp]: "total_dec dec_SecretMessage"
  by (simp add: dec_SecretMessage_def)

lemma returns_parseEvent: "returns (parseEvent b)"
  unfolding parseEvent_def by (rule returns_rbind) (simp_all add: returns_Unmarshal)

lemma sqs_processMessage_eq:
  "sqs_processMessage m st =
     (case sqs_event m of
        None \<Rightarrow> (Err (errors_New (if mg_Body m = None then ''received message with empty body'' else ''failed to parse message body'')), st)
      | Some ev \<Rightarrow>
          (case publish ev st of
             (Ok Ready, st') \<Rightarrow> (Ok (), st') | (Ok DoneCase, st') \<Rightarrow> (Err Canceled, st')
           | (Err e, st') \<Rightarrow> (Err e, st') | (Panic p, st') \<Rightarrow> (Panic p, st') | (Blocked, st') \<Rightarrow> (Blocked, st')))"
proof (cases "mg_Body m")
  case (Some b)
  from returns_parseEvent [of b] show ?thesis
    by (cases rule: returns_cases) (simp_all add: sqs_processMessage_def sqs_event_def Some)
qed (simp add: sqs_processMessage_def sqs_event_def)

lemma sqs_event_trigger: "sqs_event m = Some ev \<Longrightarrow> ev_TriggerSource ev = AWS_SQS"
  by (auto simp: sqs_event_def parseEvent_def go_simps split: option.splits result.splits)

interpretation sqs_source: live_event_source sqs_processMessage "\<lambda>m. map_option ev_SecretIdentifier (sqs_event m)" AWS_SQS "\<lambda>_. True"
proof unfold_locales
  fix m st n
  assume "steady (Suc n) st"
  then show "\<exists>r st'. sqs_processMessage m st = (r, st') \<and> returns r \<and> steady n st'"
  proof (cases "sqs_event m")
    case (Some ev)
    with steady_publish [OF \<open>steady (Suc n) st\<close>, of ev] show ?thesis by (auto simp: sqs_processMessage_eq)
  qed (use steady_mono [of "Suc n" st n] in \<open>auto simp: sqs_processMessage_eq\<close>)
next
  fix m st r st'
  assume run: "sqs_processMessage m st = (r, st')"
  have "(rt_out st' = rt_out st \<or> (\<exists>ev. sqs_event m = Some ev \<and> rt_out st' = rt_out st @ [ev]))
    \<and> (returns r \<longrightarrow> sqs_event m \<noteq> None \<longrightarrow> \<not> rt_done st' \<longrightarrow> rt_out st' \<noteq> rt_out st)
    \<and> (rt_done st \<longrightarrow> rt_done st') \<and> rt_retry st' = rt_retry st"
  proof (cases "sqs_event m")
    case (Some ev)
    with run show ?thesis by (cases rule: publish_cases [of ev st]) (auto simp: sqs_processMessage_eq)
  qed (use run in \<open>auto simp: sqs_processMessage_eq\<close>)
  then show "rt_out st' = rt_out st \<or> (\<exists>ev. rt_out st' = rt_out st @ [ev]
      \<and> map_option ev_SecretIdentifier (sqs_event m) = Some (ev_SecretIdentifier ev) \<and> ev_TriggerSource ev = AWS_SQS)"
    and "returns r \<Longrightarrow> map_option ev_SecretIdentifier (sqs_event m) \<noteq> None \<Longrightarrow> \<not> rt_done st' \<Longrightarrow> rt_out st' \<noteq> rt_out st"
    and "rt_done st \<Longrightarrow> rt_done st'" and "rt_retry st' = rt_retry st"
    using sqs_event_trigger by auto
qed

lemma sqs_for_each:
  "steady (length ms + n) st \<Longrightarrow> \<exists>st' evs. for_each sqs_processMessage ms st = (Ok (), st') \<and> steady n st' \<and> rt_out st' = rt_out st @ evs
    \<and> map ev_SecretIdentifier evs = List.map_filter (\<lambda>m. map_option ev_SecretIdentifier (sqs_event m)) ms
    \<and> (\<forall>ev \<in> set evs. ev_TriggerSource ev = AWS_SQS)"
  by (rule sqs_source.for_each_publishes) simp_all

text \<open>The batches among the deliveries.\<close>

fun batches :: "delivery list \<Rightarrow> Message list list" where
  "batches [] = []"
| "batches (Batch ms # ds) = ms # batches ds"
| "batches (PollError e # ds) = batches ds"

lemma consume_publishes:
  "steady (length (concat (batches ds)) + n) st \<Longrightarrow>
     \<exists>st' evs. consume ds st = (Ok (), st') \<and> steady n st' \<and> rt_out st' = rt_out st @ evs
       \<and> map ev_SecretIdentifier evs = List.map_filter (\<lambda>m. map_option ev_SecretIdentifier (sqs_event m)) (concat (batches ds))
       \<and> (\<forall>ev \<in> set evs. ev_TriggerSource ev = AWS_SQS)"
proof (induction ds arbitrary: st rule: batches.induct)
  case (2 ms ds)
  then have "steady (length ms + (length (concat (batches ds)) + n)) st" by (simp add: add.assoc)
  from sqs_for_each [OF this] obtain st1 evs1 where one: "for_each sqs_processMessage ms st = (Ok (), st1)"
    "steady (length (concat (batches ds)) + n) st1" "rt_out st1 = rt_out st @ evs1"
    "map ev_SecretIdentifier evs1 = List.map_filter (\<lambda>m. map_option ev_SecretIdentifier (sqs_event m)) ms"
    "\<forall>ev \<in> set evs1. ev_TriggerSource ev = AWS_SQS" by blast
  from "2.IH" [OF one(2)] obtain st2 evs2 where "consume ds st1 = (Ok (), st2)" "steady n st2" "rt_out st2 = rt_out st1 @ evs2"
    "map ev_SecretIdentifier evs2 = List.map_filter (\<lambda>m. map_option ev_SecretIdentifier (sqs_event m)) (concat (batches ds))"
    "\<forall>ev \<in> set evs2. ev_TriggerSource ev = AWS_SQS" by blast
  with one show ?case by (intro exI [of _ st2] exI [of _ "evs1 @ evs2"]) (auto simp: map_filter_def)
qed (auto simp: map_filter_simps)

section \<open>The poller hands over what it received\<close>

text \<open>
  The outcomes of the first \<open>n\<close> polls and what they leave of the service, and the batches and
  the errors among the outcomes.
\<close>

fun polls :: "'s sqs \<Rightarrow> modelAWSSQSConfig \<Rightarrow> nat \<Rightarrow> 's \<Rightarrow> Message list result list \<times> 's" where
  "polls sq config 0 s = ([], s)"
| "polls sq config (Suc n) s =
     (case PollMessages sq config s of (r, s1) \<Rightarrow> (case polls sq config n s1 of (rs, s') \<Rightarrow> (r # rs, s')))"

definition received :: "Message list result list \<Rightarrow> Message list list" where
  "received rs = filter (\<lambda>ms. ms \<noteq> []) (List.map_filter (\<lambda>r. case r of Ok ms \<Rightarrow> Some ms | _ \<Rightarrow> None) rs)"

definition poll_errors :: "Message list result list \<Rightarrow> error list" where
  "poll_errors rs = List.map_filter (\<lambda>r. case r of Err e \<Rightarrow> Some e | _ \<Rightarrow> None) rs"

lemma received_simps [simp]:
  "received [] = []" "received (Ok ms # rs) = (if ms = [] then received rs else ms # received rs)"
  "received (Err e # rs) = received rs" "received (Panic p # rs) = received rs" "received (Blocked # rs) = received rs"
  by (simp_all add: received_def map_filter_simps)

lemma poll_errors_simps [simp]:
  "poll_errors [] = []" "poll_errors (Err e # rs) = e # poll_errors rs"
  "poll_errors (Ok ms # rs) = poll_errors rs" "poll_errors (Panic p # rs) = poll_errors rs" "poll_errors (Blocked # rs) = poll_errors rs"
  by (simp_all add: poll_errors_def map_filter_simps)

text \<open>
  One round of the poller: it ends without a poll; it polls and ends, losing the batch it holds, if
  any, because it is done or still waiting; or it polls and goes on.
\<close>

lemma poll_loop_round:
  assumes run: "poll_loop sq config st s = (r, bs, es, st', s')"
  obtains (End) "bs = []" "es = []" "s' = s"
  | (Last) p where "PollMessages sq config s = (p, s')" "bs = []" "es = poll_errors [p]" "received [p] \<noteq> [] \<longrightarrow> rt_done st' \<or> r = Blocked"
  | (Next) p s1 st0 bs' es' where "PollMessages sq config s = (p, s1)" "poll_loop sq config st0 s1 = (r, bs', es', st', s')"
      "length (rt_sched st0) < length (rt_sched st)" "bs = received [p] @ bs'" "es = poll_errors [p] @ es'"
proof (cases "rt_done st \<or> fst (block st) \<noteq> Ok ()")
  case True
  then have "bs = [] \<and> es = [] \<and> s' = s"
    using run by (subst (asm) poll_loop.simps) (auto split: prod.splits result.splits if_splits)
  with End show thesis by blast
next
  case False
  then obtain st1 where b: "block st = (Ok (), st1)" "\<not> rt_done st" by (cases "block st") auto
  then have sched1: "length (rt_sched st1) < length (rt_sched st)" by (intro block_sched)
  obtain p s1 where p: "PollMessages sq config s = (p, s1)" by (cases "PollMessages sq config s")
  define P where "P = (case p of Ok _ \<Rightarrow> chan_ready | _ \<Rightarrow> timer_ready (rt_now st1 + poll_pause))"
  obtain x st2 where sel: "select_or_done P st1 = (x, st2)" by (cases "select_or_done P st1")
  have sched2: "length (rt_sched st2) < length (rt_sched st)" using select_frame(5) [OF sel] sched1 by linarith
  have x: "x = Ok Ready \<or> x = Ok DoneCase \<or> x = Blocked" using select_outcome [of P st1] sel by simp
  show thesis
  proof (cases p)
    case (Ok ms)
    then have P: "P = chan_ready" by (simp add: P_def)
    show thesis
      using x run b p Ok sel select_frame(7) [OF sel] Last [of p] Next [OF p _ sched1] Next [OF p _ sched2]
      by (subst (asm) poll_loop.simps) (auto simp: P split: prod.splits if_splits)
  next
    case (Err e)
    then have P: "P = timer_ready (rt_now st1 + poll_pause)" by (simp add: P_def)
    show thesis
      using x run b p Err sel Last [of p] Next [OF p _ sched2]
      by (subst (asm) poll_loop.simps) (auto simp: P split: prod.splits)
  qed (use run b p Last [of p] in \<open>(subst (asm) poll_loop.simps, simp)+\<close>)
qed

lemma poll_loop_batches:
  "poll_loop sq config st s = (r, bs, es, st', s') \<Longrightarrow>
     \<exists>n rs lost. polls sq config n s = (rs, s') \<and> received rs = bs @ lost \<and> poll_errors rs = es
       \<and> length lost \<le> 1 \<and> (lost \<noteq> [] \<longrightarrow> rt_done st' \<or> r = Blocked)"
proof (induction "length (rt_sched st)" arbitrary: st s bs es rule: less_induct)
  case less
  from less.prems show ?case
  proof (cases rule: poll_loop_round)
    case End
    then show ?thesis by (intro exI [of _ 0] exI [of _ "[]"]) simp
  next
    case (Last p)
    then show ?thesis
      by (intro exI [of _ 1] exI [of _ "[p]"] exI [of _ "received [p]"]) (cases p; simp)
  next
    case (Next p s1 st0 bs' es')
    from less.hyps [OF Next(3,2)] obtain n rs lost where "polls sq config n s1 = (rs, s')" "received rs = bs' @ lost" "poll_errors rs = es'"
      "length lost \<le> 1" "lost \<noteq> [] \<longrightarrow> rt_done st' \<or> r = Blocked" by blast
    moreover have "received (p # rs) = received [p] @ received rs" "poll_errors (p # rs) = poll_errors [p] @ poll_errors rs"
      by (cases p; simp)+
    ultimately show ?thesis using Next(1,4,5) by (intro exI [of _ "Suc n"] exI [of _ "p # rs"] exI [of _ lost]) simp
  qed
qed

section \<open>Properties\<close>

text \<open>The CloudTrail event that Secrets Manager sends: its time and the secret it names.\<close>

definition cloudtrail :: "string \<Rightarrow> string \<Rightarrow> json" where
  "cloudtrail event_time secret_id =
     JObj [(''detail'', JObj [(''eventTime'', JStr event_time),
        (''requestParameters'', JObj [(''secretId'', JStr secret_id)])])]"

lemma sqs_event_cloudtrail:
  assumes "utf8_valid t" "utf8_valid i" "mg_Body m = Some (json_encode (cloudtrail t i))"
  shows "sqs_event m = Some \<lparr>ev_SecretIdentifier = i, ev_RotationTimestamp = t, ev_TriggerSource = AWS_SQS, ev_Namespace = []\<rparr>"
proof -
  have fits: "fits maxNestingDepth (cloudtrail t i)" by (simp add: cloudtrail_def maxNestingDepth_def)
  have "Unmarshal dec_SecretMessage (json_encode (cloudtrail t i)) zero_SecretMessage
      = Ok \<lparr>sm_Detail = \<lparr>smd_EventTime = t, smd_RequestParameters = \<lparr>rqp_SecretId = i\<rparr>\<rparr>\<rparr>"
    unfolding Unmarshal_encode [OF fits]
    using assms(1,2) by (simp add: cloudtrail_def dec_SecretMessage_def decode_members zero_SecretMessage_def)
  then show ?thesis by (simp add: sqs_event_def parseEvent_def assms(3))
qed

lemma sqs_delivery:
  assumes "poll_loop sq config pst s = (r, bs, es, pst', s')" and "batches ds = bs" and "steady (length (concat bs)) st"
  shows "\<exists>n rs lost st' evs. polls sq config n s = (rs, s') \<and> received rs = bs @ lost \<and> poll_errors rs = es
    \<and> length lost \<le> 1 \<and> (lost \<noteq> [] \<longrightarrow> rt_done pst' \<or> r = Blocked)
    \<and> consume ds st = (Ok (), st') \<and> rt_out st' = rt_out st @ evs
    \<and> map ev_SecretIdentifier evs = List.map_filter (\<lambda>m. map_option ev_SecretIdentifier (sqs_event m)) (concat bs)
    \<and> (\<forall>ev \<in> set evs. ev_TriggerSource ev = AWS_SQS)"
proof -
  obtain n rs lost where "polls sq config n s = (rs, s')" "received rs = bs @ lost" "poll_errors rs = es"
    "length lost \<le> 1" "lost \<noteq> [] \<longrightarrow> rt_done pst' \<or> r = Blocked"
    using poll_loop_batches [OF assms(1)] by blast
  moreover obtain st' evs where "consume ds st = (Ok (), st')" "rt_out st' = rt_out st @ evs"
    "map ev_SecretIdentifier evs = List.map_filter (\<lambda>m. map_option ev_SecretIdentifier (sqs_event m)) (concat bs)"
    "\<forall>ev \<in> set evs. ev_TriggerSource ev = AWS_SQS"
    using consume_publishes [of ds 0 st] assms(2,3) by fastforce
  ultimately show ?thesis by blast
qed

text \<open>
  C20: what the SQS source received from the queue it publishes. The run of the poller consists of
  some number of polls, with outcomes \<open>rs\<close>, and leaves the service in the state after exactly
  these polls. The batches it handed over are, in order, all the non-empty ones among \<open>rs\<close>, except
  that the last may be lost, and only when the source was stopped, or still waits, with that batch in
  hand; the errors it offered are all errors among \<open>rs\<close>. The consumer publishes, in order and
  whatever errors arrive in between, the secret named by each message of the batches handed over
  that can be parsed (the field \<^verbatim>\<open>detail.requestParameters.secretId\<close>, whatever the name of the event is),
  as an event of the type \<^verbatim>\<open>AwsSqs\<close>.
\<close>

theorem sqs_publishes_received:
  assumes "poll_loop sq config pst s = (r, bs, es, pst', s')" and "batches ds = bs" and "steady (length (concat bs)) st"
  shows "\<exists>n rs lost st' evs. polls sq config n s = (rs, s') \<and> received rs = bs @ lost \<and> poll_errors rs = es
    \<and> length lost \<le> 1 \<and> (lost \<noteq> [] \<longrightarrow> rt_done pst' \<or> r = Blocked)
    \<and> consume ds st = (Ok (), st') \<and> rt_out st' = rt_out st @ evs
    \<and> map ev_SecretIdentifier evs = List.map_filter (\<lambda>m. map_option ev_SecretIdentifier (sqs_event m)) (concat bs)
    \<and> (\<forall>ev \<in> set evs. ev_TriggerSource ev = AWS_SQS)"
  using assms by (rule sqs_delivery)

text \<open>A queue that holds the outcomes of the next polls; deleting always succeeds.\<close>

definition fixture_sqs :: "(error + Message list) list sqs" where
  "fixture_sqs =
     \<lparr>sq_ReceiveMessage = (\<lambda>_ q. case q of [] \<Rightarrow> (Inr [], []) | x # q' \<Rightarrow> (x, q')),
      sq_DeleteMessage = (\<lambda>_ _ q. (None, q))\<rparr>"

definition fixture_message :: "string \<Rightarrow> Message" where
  "fixture_message i = \<lparr>mg_Body = Some (json_encode (cloudtrail ''t'' i)), mg_MessageId = None, mg_ReceiptHandle = None\<rparr>"

definition fixture_poller_rt :: rt where
  "fixture_poller_rt =
     \<lparr>rt_done = False, rt_now = 0,
      rt_sched = [\<lparr>sc_cancel = False, sc_ready = True, sc_pick = True, sc_elapse = 1\<rparr>,
                  \<lparr>sc_cancel = False, sc_ready = True, sc_pick = True, sc_elapse = 1\<rparr>,
                  \<lparr>sc_cancel = True, sc_ready = True, sc_pick = True, sc_elapse = 1\<rparr>,
                  \<lparr>sc_cancel = False, sc_ready = False, sc_pick = False, sc_elapse = 1\<rparr>],
      rt_out = [], rt_retry = []\<rparr>"

lemma fixture_poll:
  "\<exists>st s. poll_loop fixture_sqs zero_mq fixture_poller_rt [Inr [fixture_message ''a'', fixture_message ''b''], Inr [fixture_message ''c'']]
     = (Ok (), [[fixture_message ''a'', fixture_message ''b'']], [], st, s)"
  by (simp add: poll_loop.simps fixture_poller_rt_def block_def resume_def PollMessages_def fixture_sqs_def select_or_done_def
      chan_ready_def Let_def)

theorem sqs_publishes_received_witness:
  "\<exists>st' evs. consume [PollError Canceled, Batch [fixture_message ''a'', fixture_message ''b'']]
      \<lparr>rt_done = False, rt_now = 0, rt_sched = replicate 2 \<lparr>sc_cancel = False, sc_ready = True, sc_pick = True, sc_elapse = 1\<rparr>,
       rt_out = [], rt_retry = []\<rparr> = (Ok (), st')
    \<and> rt_out st' = evs \<and> map ev_SecretIdentifier evs = [''a'', ''b'']"
proof -
  let ?st = "\<lparr>rt_done = False, rt_now = 0, rt_sched = replicate 2 \<lparr>sc_cancel = False, sc_ready = True, sc_pick = True, sc_elapse = 1\<rparr>,
       rt_out = [], rt_retry = []\<rparr>"
  let ?bs = "[[fixture_message ''a'', fixture_message ''b'']]"
  obtain pst s where run: "poll_loop fixture_sqs zero_mq fixture_poller_rt
      [Inr [fixture_message ''a'', fixture_message ''b''], Inr [fixture_message ''c'']] = (Ok (), ?bs, [], pst, s)"
    using fixture_poll by blast
  have ds: "batches [PollError Canceled, Batch [fixture_message ''a'', fixture_message ''b'']] = ?bs" by simp
  have st: "steady (length (concat ?bs)) ?st" by (simp add: steady_def)
  have idents: "List.map_filter (\<lambda>m. map_option ev_SecretIdentifier (sqs_event m)) (concat ?bs) = [''a'', ''b'']"
    using sqs_event_cloudtrail [of "''t''" "''a''" "fixture_message ''a''"] sqs_event_cloudtrail [of "''t''" "''b''" "fixture_message ''b''"]
    by (simp add: map_filter_simps fixture_message_def utf8_ascii)
  show ?thesis using sqs_publishes_received [OF run ds st] unfolding idents by auto
qed

end
