(* ===== verification/GcpAuth.thy ===== *)
theory GcpAuth
  imports Secrets JsonParse
begin

text \<open>
  Google Cloud authentication of the Pub/Sub source (\<^verbatim>\<open>pkg/auth/gcp\<close>): the choice between a stored
  service account key, workload identity and the default credentials, and the token exchange of
  workload identity. The Google and Kubernetes client libraries are the record \<open>gcp\<close>.
\<close>

section \<open>Environment\<close>

text \<open>The token sources of the \<^verbatim>\<open>oauth2\<close> packages, by what they were made of.\<close>

datatype TokenSource =
    DefaultTokenSource string
  | JWTTokenSource string string
  | StaticTokenSource string

record HttpResponse =
  hr_StatusCode :: nat
  hr_Body :: "error + string"

record HttpRequest =
  hq_Method :: string
  hq_URL :: string
  hq_ContentType :: string
  hq_Body :: string

text \<open>
  \<open>gc_Default scope\<close> and \<open>gc_JWT key scope\<close>: does \<^verbatim>\<open>google.DefaultTokenSource\<close>,
  \<^verbatim>\<open>google.JWTConfigFromJSON\<close> fail; \<open>gc_Config\<close>, \<open>gc_Clientset\<close>, \<open>gc_Iam\<close>: does
  \<^verbatim>\<open>ctrlcfg.GetConfig\<close>, \<^verbatim>\<open>kubernetes.NewForConfig\<close>, \<^verbatim>\<open>iam.NewIamCredentialsClient\<close>;
  \<open>gc_CreateToken ns name audiences ttl\<close>: the token of \<^verbatim>\<open>ServiceAccounts(ns).CreateToken\<close>; \<open>gc_Do\<close>:
  \<^verbatim>\<open>http.Client.Do\<close>; \<open>gc_Token\<close>: \<^verbatim>\<open>json.Unmarshal\<close> into an \<^verbatim>\<open>oauth2.Token\<close>, of which the access token
  is kept; \<open>gc_GenerateAccessToken name token\<close>: the IAM call made with a token;
  \<open>gc_Close\<close>: closing the IAM client.
\<close>

record gcp =
  gc_Default :: "string \<Rightarrow> error option"
  gc_JWT :: "string \<Rightarrow> string \<Rightarrow> error option"
  gc_Config :: "error option"
  gc_Clientset :: "error option"
  gc_Iam :: "error option"
  gc_CreateToken :: "string \<Rightarrow> string \<Rightarrow> string list \<Rightarrow> int64 \<Rightarrow> error + string"
  gc_Do :: "HttpRequest \<Rightarrow> error + HttpResponse"
  gc_Token :: "string \<Rightarrow> error + string"
  gc_GenerateAccessToken :: "string \<Rightarrow> string \<Rightarrow> error + string"
  gc_Close :: "error option"

definition CloudPlatformRole :: string where
  "CloudPlatformRole = ''https://www.googleapis.com/auth/cloud-platform''"

definition gcpSAAnnotation :: string where
  "gcpSAAnnotation = ''iam.gke.io/gcp-service-account''"

definition or_fail :: "error option \<Rightarrow> 'a \<Rightarrow> 'a result" where
  "or_fail e x = (case e of None \<Rightarrow> Ok x | Some err \<Rightarrow> Err err)"

section \<open>Workload identity\<close>

record workloadIdentity =
  wi_iamClient :: "unit option"
  wi_clusterProjectID :: string
  wi_targetURL :: string

definition newSATokenGenerator :: "gcp \<Rightarrow> unit result" where
  "newSATokenGenerator g = rbind (or_fail (gc_Config g) ()) (\<lambda>_. or_fail (gc_Clientset g) ())"

definition newIAMClient :: "gcp \<Rightarrow> unit result" where
  "newIAMClient g = or_fail (gc_Iam g) ()"

definition newIDBindTokenGenerator :: string where
  "newIDBindTokenGenerator = ''https://securetoken.googleapis.com/v1/identitybindingtoken''"

definition newWorkloadIdentity :: "gcp \<Rightarrow> string \<Rightarrow> workloadIdentity result" where
  "newWorkloadIdentity g projectID =
     rbind (newSATokenGenerator g) (\<lambda>_.
     rbind (newIAMClient g) (\<lambda>_.
       Ok \<lparr>wi_iamClient = Some (), wi_clusterProjectID = projectID, wi_targetURL = newIDBindTokenGenerator\<rparr>))"

text \<open>A token of the pod's service account, valid for a quarter of an hour.\<close>

definition sa_Generate :: "gcp \<Rightarrow> string list \<Rightarrow> string \<Rightarrow> string \<Rightarrow> string result" where
  "sa_Generate g audiences nm ns = lift (gc_CreateToken g ns nm audiences (15 * 60))"

text \<open>The body of the exchange request: a map of strings, marshalled with sorted keys.\<close>

definition exchange_body :: "string \<Rightarrow> string \<Rightarrow> string \<Rightarrow> string" where
  "exchange_body k8sToken idPool idProvider =
     json_encode (JObj
       [(''audience'', JStr (''identitynamespace:'' @ idPool @ '':'' @ idProvider)),
        (''grant_type'', JStr ''urn:ietf:params:oauth:grant-type:token-exchange''),
        (''requested_token_type'', JStr ''urn:ietf:params:oauth:token-type:access_token''),
        (''scope'', JStr ''https://www.googleapis.com/auth/cloud-platform''),
        (''subject_token'', JStr k8sToken),
        (''subject_token_type'', JStr ''urn:ietf:params:oauth:token-type:jwt'')])"

definition idbind_Generate :: "gcp \<Rightarrow> string \<Rightarrow> string \<Rightarrow> string \<Rightarrow> string \<Rightarrow> string result" where
  "idbind_Generate g targetURL k8sToken idPool idProvider =
     (let body = exchange_body k8sToken idPool idProvider;
          req = \<lparr>hq_Method = ''POST'', hq_URL = targetURL, hq_ContentType = ''application/json'', hq_Body = body\<rparr> in
      rbind (lift (gc_Do g req)) (\<lambda>resp.
        if hr_StatusCode resp \<noteq> 200
        then Err (Errorf ''could not get idbindtoken token, status: %v'' [IntArg (int (hr_StatusCode resp))])
        else
          rbind (lift (hr_Body resp)) (\<lambda>respBody.
            lift (gc_Token g respBody))))"

definition idPool_of :: "string \<Rightarrow> string" where
  "idPool_of project = project @ ''.svc.id.goog''"

definition idProvider_of :: "string \<Rightarrow> GCPWorkloadIdentity \<Rightarrow> string" where
  "idProvider_of project wi =
     ''https://container.googleapis.com/v1/projects/'' @ project @ ''/locations/'' @ gwi_ClusterLocation wi
       @ ''/clusters/'' @ gwi_ClusterName wi"

text \<open>\<open>Ok None\<close> is the pair of a nil token source and a nil error.\<close>

definition wi_TokenSource ::
  "gcp \<Rightarrow> 'w kube \<Rightarrow> 'w \<Rightarrow> workloadIdentity \<Rightarrow> GooglePubSubAuth \<Rightarrow> TokenSource option result" where
  "wi_TokenSource g k w wid auth =
     (case gpa_WorkloadIdentity auth of
        None \<Rightarrow> Ok None
      | Some wi \<Rightarrow>
          (let ref = gwi_ServiceAccountRef wi; saKey = NamespacedName (sas_Namespace ref) (sas_Name ref) in
           rbind (lift (k_GetServiceAccount k w saKey)) (\<lambda>sa.
             (let idProvider = idProvider_of (wi_clusterProjectID wid) wi;
                  idPool = idPool_of (wi_clusterProjectID wid);
                  audiences = [idPool] @ (if length (sas_Audiences ref) > 0 then sas_Audiences ref else []);
                  gcpSA = (case sa_Annotations sa of None \<Rightarrow> []
                    | Some as \<Rightarrow> (case as gcpSAAnnotation of None \<Rightarrow> [] | Some v \<Rightarrow> v)) in
              rbind (sa_Generate g audiences (nn_Name saKey) (nn_Namespace saKey)) (\<lambda>k8sToken.
              rbind (idbind_Generate g (wi_targetURL wid) k8sToken idPool idProvider) (\<lambda>idBindToken.
                if gcpSA = [] then Ok (Some (StaticTokenSource idBindToken))
                else
                  rbind (lift (gc_GenerateAccessToken g (''projects/-/serviceAccounts/'' @ gcpSA) idBindToken)) (\<lambda>accessToken.
                    Ok (Some (StaticTokenSource accessToken)))))))))"

section \<open>pkg/auth/gcp/auth.go\<close>

text \<open>Closing the IAM client, and a call whose function closes it when it ends, whatever it returns.\<close>

definition wi_Close :: "gcp \<Rightarrow> workloadIdentity \<Rightarrow> unit result" where
  "wi_Close g wid = (if wi_iamClient wid \<noteq> None then or_fail (gc_Close g) () else Ok ())"

definition defer_Close :: "gcp \<Rightarrow> workloadIdentity \<Rightarrow> 'a result \<Rightarrow> 'a result" where
  "defer_Close g wid r = (case wi_Close g wid of Panic p \<Rightarrow> Panic p | Blocked \<Rightarrow> Blocked | _ \<Rightarrow> r)"

definition tokenSourceFromSecret :: "gcp \<Rightarrow> 'w kube \<Rightarrow> 'w \<Rightarrow> GooglePubSubAuth \<Rightarrow> TokenSource option result" where
  "tokenSourceFromSecret g k w auth =
     (case gpa_SecretRef auth of
        None \<Rightarrow> Ok None
      | Some sr \<Rightarrow>
          rbind (SecretKeyRef k w (gsr_SecretAccessKey sr)) (\<lambda>credentials.
          rbind (map_err (Wrapf ''unable to process jwt credentials:%w'' []) (or_fail (gc_JWT g credentials CloudPlatformRole) ())) (\<lambda>_.
            Ok (Some (JWTTokenSource credentials CloudPlatformRole)))))"

definition default_source :: "gcp \<Rightarrow> TokenSource result" where
  "default_source g = or_fail (gc_Default g CloudPlatformRole) (DefaultTokenSource CloudPlatformRole)"

definition NewTokenSource :: "gcp \<Rightarrow> 'w kube \<Rightarrow> 'w \<Rightarrow> GooglePubSubAuth option \<Rightarrow> string \<Rightarrow> TokenSource result" where
  "NewTokenSource g k w auth projectID =
     (case auth of
        None \<Rightarrow> default_source g
      | Some au \<Rightarrow>
          rbind (tokenSourceFromSecret g k w au) (\<lambda>ts.
            (case ts of
               Some t \<Rightarrow> Ok t
             | None \<Rightarrow>
                 (let projectID' = (case gpa_WorkloadIdentity au of
                        Some wi \<Rightarrow> if gwi_ClusterProjectID wi \<noteq> [] then gwi_ClusterProjectID wi else projectID
                      | None \<Rightarrow> projectID) in
                  rbind (map_err (\<lambda>_. errors_New ''unable to initialize workload identity'') (newWorkloadIdentity g projectID')) (\<lambda>wi.
                  defer_Close g wi
                    (rbind (wi_TokenSource g k w wi au) (\<lambda>ts'.
                      (case ts' of Some t \<Rightarrow> Ok t | None \<Rightarrow> default_source g))))))))"

section \<open>Which identity is used\<close>

lemma returns_or_fail [simp]: "returns (or_fail e x)"
  by (simp add: or_fail_def split: option.split)

lemma or_fail_Ok [go_simps]: "or_fail e x = Ok y \<longleftrightarrow> e = None \<and> x = y"
  by (auto simp: or_fail_def split: option.split)

text \<open>Closing can fail but not panic: what the function returns stands.\<close>

lemma defer_Close_id [simp]: "defer_Close g wid r = r"
  by (simp add: defer_Close_def wi_Close_def or_fail_def split: option.split)

lemma returns_NewTokenSource: "returns (NewTokenSource g k w auth projectID)"
  by (auto simp: NewTokenSource_def default_source_def tokenSourceFromSecret_def newWorkloadIdentity_def newSATokenGenerator_def
      newIAMClient_def wi_TokenSource_def sa_Generate_def idbind_Generate_def Let_def SecretKeyRef.resolve_returns
      intro!: returns_rbind split: option.split)

text \<open>
  A stored key wins: when a secret reference is configured, workload identity and the default
  credentials are never tried, whatever else is configured.
\<close>

lemma NewTokenSource_secret:
  assumes "gpa_SecretRef au = Some sr"
  shows "NewTokenSource g k w (Some au) projectID = Ok ts \<longleftrightarrow>
    (\<exists>key. secret_value k w (gsr_SecretAccessKey sr) = Some key \<and> gc_JWT g key CloudPlatformRole = None
       \<and> ts = JWTTokenSource key CloudPlatformRole)"
  using assms by (auto simp: NewTokenSource_def tokenSourceFromSecret_def SecretKeyRef.resolve_value go_simps)

end
