(* ===== verification/PubSubSource.thy ===== *)
theory PubSubSource
  imports Publish GcpAuth
begin

text \<open>
  The Google Pub/Sub source (\<^verbatim>\<open>internal/listener/pubsub\<close>, \<^verbatim>\<open>pkg/models/gcp\<close>): audit log messages
  arrive through the client library's \<^verbatim>\<open>Receive\<close>, are decoded, published without regard to the
  context, and acknowledged. The library's client is an argument.
\<close>

section \<open>pkg/models/gcp\<close>

record AuthenticationInfo =
  ai_PrincipalEmail :: string

record RequestMetadata =
  rmd_CallerIp :: string
  rmd_CallerSupplied :: string

record GcpResource =
  gr_Labels :: "(string, string) gomap"
  gr_Type :: string

record GcpAuditLog =
  gal_AuthenticationInfo :: AuthenticationInfo
  gal_MethodName :: string
  gal_RequestMetadata :: RequestMetadata
  gal_ResourceName :: string
  gal_ServiceName :: string

record AuditLogMessage =
  alm_ProtoPayload :: GcpAuditLog
  alm_Resource :: GcpResource
  alm_Timestamp :: string
  alm_ReiveceTimestamp :: string

definition zero_AuditLogMessage :: AuditLogMessage where
  "zero_AuditLogMessage =
     \<lparr>alm_ProtoPayload = \<lparr>gal_AuthenticationInfo = \<lparr>ai_PrincipalEmail = []\<rparr>, gal_MethodName = [],
        gal_RequestMetadata = \<lparr>rmd_CallerIp = [], rmd_CallerSupplied = []\<rparr>, gal_ResourceName = [], gal_ServiceName = []\<rparr>,
      alm_Resource = \<lparr>gr_Labels = [], gr_Type = []\<rparr>, alm_Timestamp = [], alm_ReiveceTimestamp = []\<rparr>"

definition dec_GcpAuditLog :: "GcpAuditLog decoder" where
  "dec_GcpAuditLog = dec_struct
     [field_at ''authenticationInfo'' gal_AuthenticationInfo gal_AuthenticationInfo_update
        (dec_struct [field_at ''principalEmail'' ai_PrincipalEmail ai_PrincipalEmail_update dec_string]),
      field_at ''methodName'' gal_MethodName gal_MethodName_update dec_string,
      field_at ''requestMetadata'' gal_RequestMetadata gal_RequestMetadata_update
        (dec_struct
           [field_at ''callerIp'' rmd_CallerIp rmd_CallerIp_update dec_string,
            field_at ''callerSuppliedUserAgent'' rmd_CallerSupplied rmd_CallerSupplied_update dec_string]),
      field_at ''resourceName'' gal_ResourceName gal_ResourceName_update dec_string,
      field_at ''serviceName'' gal_ServiceName gal_ServiceName_update dec_string]"

definition dec_AuditLogMessage :: "AuditLogMessage decoder" where
  "dec_AuditLogMessage = dec_struct
     [field_at ''protoPayload'' alm_ProtoPayload alm_ProtoPayload_update dec_GcpAuditLog,
      field_at ''resource'' alm_Resource alm_Resource_update
        (dec_struct
           [field_at ''labels'' gr_Labels gr_Labels_update (dec_map [] dec_string),
            field_at ''type'' gr_Type gr_Type_update dec_string]),
      field_at ''timestamp'' alm_Timestamp alm_Timestamp_update dec_string,
      field_at ''receiveTimestamp'' alm_ReiveceTimestamp alm_ReiveceTimestamp_update dec_string]"

section \<open>internal/listener/pubsub\<close>

definition GOOGLE_PUB_SUB :: string where "GOOGLE_PUB_SUB = ''GooglePubSub''"

text \<open>\<open>gp_client\<close> is the client library's value, \<open>gp_receiving\<close> says that \<^verbatim>\<open>Receive\<close> was started.\<close>

record 'c GooglePubSub =
  gp_config :: GooglePubSubConfig
  gp_done :: bool
  gp_client :: 'c
  gp_receiving :: bool

definition pubsub_CreateListener ::
  "gcp \<Rightarrow> (string \<Rightarrow> TokenSource \<Rightarrow> error + 'c) \<Rightarrow> 'w kube \<Rightarrow> bool \<Rightarrow> NotificationSource option \<Rightarrow> 'w \<Rightarrow> 'c GooglePubSub result" where
  "pubsub_CreateListener g new_client k ctx_done source w =
     (case source of
        None \<Rightarrow> Err (errors_New ''GooglePubSub config is nil'')
      | Some src \<Rightarrow>
          (case ns_GooglePubSub src of
             None \<Rightarrow> Err (errors_New ''GooglePubSub config is nil'')
           | Some config \<Rightarrow>
               rbind (map_err (Wrapf ''could not create token source: %w'' [])
                   (NewTokenSource g k w (gps_Auth config) (gps_ProjectID config))) (\<lambda>ts.
               rbind (map_err (Wrapf ''could not create pubsub client: %w'' []) (lift (new_client (gps_ProjectID config) ts))) (\<lambda>cl.
                 Ok \<lparr>gp_config = config, gp_done = ctx_done, gp_client = cl, gp_receiving = False\<rparr>))))"

definition pubsub_Start :: "'c GooglePubSub \<Rightarrow> unit result \<times> 'c GooglePubSub" where
  "pubsub_Start h = (Ok (), h\<lparr>gp_receiving := True\<rparr>)"

text \<open>The goroutine when \<^verbatim>\<open>Receive\<close> returns: an error cancels the source's context.\<close>

definition receive_returned :: "error option \<Rightarrow> 'c GooglePubSub \<Rightarrow> 'c GooglePubSub" where
  "receive_returned err h = (if err \<noteq> None then h\<lparr>gp_done := True\<rparr> else h)"

definition pubsub_Stop :: "'c GooglePubSub \<Rightarrow> unit result \<times> 'c GooglePubSub" where
  "pubsub_Stop h = (Ok (), h\<lparr>gp_done := True\<rparr>)"

datatype ack = Ack | Nack

definition AddSecretVersion :: string where
  "AddSecretVersion = ''google.cloud.secretmanager.v1.SecretManagerService.AddSecretVersion''"

definition pubsub_event :: "string \<Rightarrow> string \<Rightarrow> SecretRotationEvent" where
  "pubsub_event nm msgTime =
     \<lparr>ev_SecretIdentifier = nm, ev_RotationTimestamp = msgTime, ev_TriggerSource = GOOGLE_PUB_SUB, ev_Namespace = []\<rparr>"

text \<open>The fourth segment of the resource name; a shorter name panics.\<close>

definition resource_secret :: "string \<Rightarrow> string result" where
  "resource_secret resourceName = slice_at (Split resourceName ''/'') 3"

definition pubsub_processMessage :: "(int \<Rightarrow> string) \<Rightarrow> string \<Rightarrow> rt \<Rightarrow> ack result \<times> rt" where
  "pubsub_processMessage format data st =
     (if rt_done st then (Ok Nack, st)
      else
        (case Unmarshal dec_AuditLogMessage data zero_AuditLogMessage of
           Err e \<Rightarrow> (Ok Nack, st)
         | Panic p \<Rightarrow> (Panic p, st)
         | Blocked \<Rightarrow> (Blocked, st)
         | Ok audit \<Rightarrow>
             (let msgTime = format (rt_now st); payload = alm_ProtoPayload audit in
              if gal_MethodName payload = AddSecretVersion then
                (case resource_secret (gal_ResourceName payload) of
                   Ok nm \<Rightarrow>
                     (case send (pubsub_event nm msgTime) st of
                        (Ok _, st') \<Rightarrow> (Ok Ack, st')
                      | (Err e, st') \<Rightarrow> (Err e, st')
                      | (Panic p, st') \<Rightarrow> (Panic p, st')
                      | (Blocked, st') \<Rightarrow> (Blocked, st'))
                 | Err e \<Rightarrow> (Err e, st)
                 | Panic p \<Rightarrow> (Panic p, st)
                 | Blocked \<Rightarrow> (Blocked, st))
              else (Ok Ack, st))))"

section \<open>What a message announces\<close>

text \<open>\<open>Some r\<close>: the message announces a new version, of the secret \<open>r\<close> if its name has one.\<close>

definition pubsub_announces :: "string \<Rightarrow> string result option" where
  "pubsub_announces data =
     (case Unmarshal dec_AuditLogMessage data zero_AuditLogMessage of
        Ok audit \<Rightarrow>
          (if gal_MethodName (alm_ProtoPayload audit) = AddSecretVersion
           then Some (resource_secret (gal_ResourceName (alm_ProtoPayload audit))) else None)
      | _ \<Rightarrow> None)"

definition decodable :: "string \<Rightarrow> bool" where
  "decodable data = is_ok (Unmarshal dec_AuditLogMessage data zero_AuditLogMessage)"

lemma total_AuditLogMessage [simp]: "total_dec dec_AuditLogMessage"
  by (simp add: dec_AuditLogMessage_def dec_GcpAuditLog_def)

lemma resource_secret_outcome: "(\<exists>n. resource_secret r = Ok n) \<or> (\<exists>p. resource_secret r = Panic p)"
  by (simp add: resource_secret_def slice_at_def)

lemma pubsub_processMessage_eq:
  "pubsub_processMessage format data st =
     (if rt_done st \<or> \<not> decodable data then (Ok Nack, st)
      else
        (case pubsub_announces data of
           None \<Rightarrow> (Ok Ack, st)
         | Some (Ok nm) \<Rightarrow>
             (case send (pubsub_event nm (format (rt_now st))) st of
                (Ok _, st') \<Rightarrow> (Ok Ack, st') | (Err e, st') \<Rightarrow> (Err e, st') | (Panic p, st') \<Rightarrow> (Panic p, st') | (Blocked, st') \<Rightarrow> (Blocked, st'))
         | Some r \<Rightarrow> (Panic (case r of Panic p \<Rightarrow> p | _ \<Rightarrow> []), st)))"
proof -
  have "returns (Unmarshal dec_AuditLogMessage data zero_AuditLogMessage)" by (rule returns_Unmarshal) simp
  then show ?thesis
  proof (cases rule: returns_cases)
    case (Ok audit)
    then show ?thesis
      using resource_secret_outcome [of "gal_ResourceName (alm_ProtoPayload audit)"]
      by (auto simp: pubsub_processMessage_def pubsub_announces_def decodable_def Let_def)
  next
    case (Err e)
    then show ?thesis by (simp add: pubsub_processMessage_def decodable_def)
  qed
qed

text \<open>
  C23: the Pub/Sub source acknowledges a message only when its work is done: an acknowledged
  message that announces a new secret version has published exactly that secret's event, any
  other acknowledged message published nothing, and a message that is handed back published
  nothing. A message that cannot be decoded is always handed back.
\<close>

theorem pubsub_ack_after_publish:
  assumes "pubsub_processMessage format data st = (r, st')"
  shows "(r = Ok Ack \<longrightarrow> decodable data \<and> rt_out st' = rt_out st @
      (case pubsub_announces data of Some (Ok nm) \<Rightarrow> [pubsub_event nm (format (rt_now st))] | _ \<Rightarrow> []))
    \<and> (r \<noteq> Ok Ack \<longrightarrow> rt_out st' = rt_out st) \<and> (\<not> decodable data \<longrightarrow> r = Ok Nack)"
proof (cases "pubsub_announces data")
  case None
  with assms show ?thesis by (auto simp: pubsub_processMessage_eq split: if_splits)
next
  case (Some x)
  show ?thesis
  proof (cases x)
    case (Ok nm)
    with Some assms show ?thesis
      by (cases rule: send_cases [of "pubsub_event nm (format (rt_now st))" st]) (auto simp: pubsub_processMessage_eq split: if_splits)
  qed (use Some assms in \<open>auto simp: pubsub_processMessage_eq split: if_splits\<close>)
qed

text \<open>An audit log message with the members the source looks at.\<close>

definition gcp_audit :: "string \<Rightarrow> string \<Rightarrow> json" where
  "gcp_audit meth resource = JObj [(''protoPayload'', JObj [(''methodName'', JStr meth), (''resourceName'', JStr resource)])]"

lemma decode_gcp_audit:
  assumes "utf8_valid meth" "utf8_valid resource"
  shows "decodable (json_encode (gcp_audit meth resource))"
    and "pubsub_announces (json_encode (gcp_audit meth resource)) = (if meth = AddSecretVersion then Some (resource_secret resource) else None)"
proof -
  have fits: "fits maxNestingDepth (gcp_audit meth resource)" by (simp add: gcp_audit_def maxNestingDepth_def)
  have "\<exists>audit. Unmarshal dec_AuditLogMessage (json_encode (gcp_audit meth resource)) zero_AuditLogMessage = Ok audit
      \<and> gal_MethodName (alm_ProtoPayload audit) = meth \<and> gal_ResourceName (alm_ProtoPayload audit) = resource"
    unfolding Unmarshal_encode [OF fits]
    using assms by (simp add: gcp_audit_def dec_AuditLogMessage_def dec_GcpAuditLog_def decode_members)
  then show "decodable (json_encode (gcp_audit meth resource))"
    "pubsub_announces (json_encode (gcp_audit meth resource)) = (if meth = AddSecretVersion then Some (resource_secret resource) else None)"
    by (auto simp: decodable_def pubsub_announces_def)
qed

theorem pubsub_ack_after_publish_witness:
  "\<exists>st'. pubsub_processMessage (\<lambda>_. ''now'') (json_encode (gcp_audit AddSecretVersion ''projects/p/secrets/db''))
      \<lparr>rt_done = False, rt_now = 0, rt_sched = [\<lparr>sc_cancel = True, sc_ready = False, sc_pick = True, sc_elapse = 1\<rparr>,
         \<lparr>sc_cancel = False, sc_ready = True, sc_pick = True, sc_elapse = 1\<rparr>], rt_out = [], rt_retry = []\<rparr> = (Ok Ack, st')
    \<and> rt_out st' = [pubsub_event ''db'' ''now'']"
proof -
  let ?st = "\<lparr>rt_done = False, rt_now = 0, rt_sched = [\<lparr>sc_cancel = True, sc_ready = False, sc_pick = True, sc_elapse = 1\<rparr>,
         \<lparr>sc_cancel = False, sc_ready = True, sc_pick = True, sc_elapse = 1\<rparr>], rt_out = [], rt_retry = []\<rparr>"
  let ?d = "json_encode (gcp_audit AddSecretVersion ''projects/p/secrets/db'')"
  have "Split ''projects/p/secrets/db'' ''/'' = [''projects'', ''p'', ''secrets'', ''db'']"
    using Split_char [of "CHR ''/''" "''projects''" "''p/secrets/db''"] Split_char [of "CHR ''/''" "''p''" "''secrets/db''"]
      Split_char [of "CHR ''/''" "''secrets''" "''db''"] by simp
  then have name: "resource_secret ''projects/p/secrets/db'' = Ok ''db''" by (simp add: resource_secret_def slice_at_def)
  have valid: "utf8_valid AddSecretVersion" "utf8_valid ''projects/p/secrets/db''" by (simp_all add: AddSecretVersion_def utf8_ascii)
  obtain st' where run: "pubsub_processMessage (\<lambda>_. ''now'') ?d ?st = (Ok Ack, st')"
    by (simp add: pubsub_processMessage_eq decode_gcp_audit valid name send_def Let_def)
  with pubsub_ack_after_publish [OF run] show ?thesis by (simp add: decode_gcp_audit valid name)
qed

end
