(* ===== verification/EventGridSource.thy ===== *)
theory EventGridSource
  imports TcpSource GoTime
begin

text \<open>
  The Azure Event Grid source (\<^verbatim>\<open>internal/listener/eventgrid\<close>): an HTTP server of its own whose
  handler takes a batch of events, answers subscription handshakes and publishes new secret
  versions. Response headers are not modelled; the calls to validation addresses, which run in
  goroutines of their own, are returned as a list. \<open>ul\<close> is the lower-case table of
  \<^verbatim>\<open>strings.ToLower\<close>, \<open>loc\<close> the time zone of the process.
\<close>

section \<open>Events\<close>

record EventGridEvent =
  eg_ID :: string
  eg_Topic :: string
  eg_Subject :: string
  eg_EventType :: string
  eg_EventTime :: Time
  eg_MetadataVersion :: string
  eg_DataVersion :: string
  eg_Data :: "raw option"

record SecretNewVersionCreatedData =
  snv_ObjectType :: string
  snv_ObjectName :: string

record SubscriptionValidationData =
  svd_ValidationCode :: string
  svd_ValidationURL :: string

definition zero_EventGridEvent :: EventGridEvent where
  "zero_EventGridEvent =
     \<lparr>eg_ID = [], eg_Topic = [], eg_Subject = [], eg_EventType = [], eg_EventTime = zero_Time, eg_MetadataVersion = [],
      eg_DataVersion = [], eg_Data = None\<rparr>"

text \<open>\<^verbatim>\<open>json.RawMessage\<close> takes any value, \<^verbatim>\<open>null\<close> included, as it is.\<close>

definition dec_RawMessage :: "raw option decoder" where
  "dec_RawMessage v cur = Ok (Some v)"

definition dec_EventGridEvent :: "location \<Rightarrow> EventGridEvent decoder" where
  "dec_EventGridEvent loc = dec_struct
     [field_at ''id'' eg_ID eg_ID_update dec_string,
      field_at ''topic'' eg_Topic eg_Topic_update dec_string,
      field_at ''subject'' eg_Subject eg_Subject_update dec_string,
      field_at ''eventType'' eg_EventType eg_EventType_update dec_string,
      field_at ''eventTime'' eg_EventTime eg_EventTime_update (dec_time loc),
      field_at ''metadataVersion'' eg_MetadataVersion eg_MetadataVersion_update dec_string,
      field_at ''dataVersion'' eg_DataVersion eg_DataVersion_update dec_string,
      field_at ''data'' eg_Data eg_Data_update dec_RawMessage]"

definition dec_SecretNewVersionCreatedData :: "SecretNewVersionCreatedData decoder" where
  "dec_SecretNewVersionCreatedData = dec_struct
     [field_at ''objectType'' snv_ObjectType snv_ObjectType_update dec_string,
      field_at ''objectName'' snv_ObjectName snv_ObjectName_update dec_string]"

definition dec_SubscriptionValidationData :: "SubscriptionValidationData decoder" where
  "dec_SubscriptionValidationData = dec_struct
     [field_at ''validationCode'' svd_ValidationCode svd_ValidationCode_update dec_string,
      field_at ''validationUrl'' svd_ValidationURL svd_ValidationURL_update dec_string]"

text \<open>\<^verbatim>\<open>json.Unmarshal(event.Data, ...)\<close>: data that was absent is an empty text.\<close>

definition Unmarshal_Raw :: "'a decoder \<Rightarrow> raw option \<Rightarrow> 'a \<Rightarrow> 'a result" where
  "Unmarshal_Raw d data zero =
     (case data of None \<Rightarrow> Err (errors_New ''unexpected end of JSON input'') | Some v \<Rightarrow> d v zero)"

section \<open>The listener\<close>

definition AZURE_EVENT_GRID :: string where "AZURE_EVENT_GRID = ''AzureEventGrid''"

text \<open>\<open>egl_server\<close>: the address and the registered paths of the HTTP server, \<open>None\<close> being nil.\<close>

record AzureEventGridListener =
  egl_config :: AzureEventGridConfig
  egl_done :: bool
  egl_server :: "(string \<times> string list) option"

definition eventgrid_CreateListener :: "bool \<Rightarrow> NotificationSource option \<Rightarrow> AzureEventGridListener result" where
  "eventgrid_CreateListener ctx_done source =
     (case source of
        None \<Rightarrow> Err (errors_New ''AzureEventGrid config is nil'')
      | Some src \<Rightarrow>
          (case ns_AzureEventGrid src of
             None \<Rightarrow> Err (errors_New ''AzureEventGrid config is nil'')
           | Some config \<Rightarrow> Ok \<lparr>egl_config = config, egl_done = ctx_done, egl_server = None\<rparr>))"

text \<open>
  \<^verbatim>\<open>mux.HandleFunc\<close> panics on a path that is registered already and on one with a blank, which
  it reads as a method. (Braces, which it reads as wild cards, are not told apart here.)
\<close>

fun register_paths :: "string list \<Rightarrow> string list \<Rightarrow> string list result" where
  "register_paths [] paths = Ok paths"
| "register_paths (subscription # subscriptions) paths =
     (let path = ''/'' @ subscription in
      if path \<in> set paths \<or> CHR '' '' \<in> set path \<or> CHR 0x09 \<in> set path then Panic ''http: invalid or duplicate pattern''
      else register_paths subscriptions (paths @ [path]))"

definition eventgrid_Start :: "AzureEventGridListener \<Rightarrow> unit result \<times> AzureEventGridListener" where
  "eventgrid_Start a =
     (case register_paths (aeg_Subscriptions (egl_config a)) [] of
        Ok paths \<Rightarrow>
          (let addr = socket_addr (aeg_Host (egl_config a)) (aeg_Port (egl_config a)) in
           (Ok (), a\<lparr>egl_server := Some (addr, paths)\<rparr>))
      | Err e \<Rightarrow> (Err e, a)
      | Panic p \<Rightarrow> (Panic p, a)
      | Blocked \<Rightarrow> (Blocked, a))"

text \<open>\<open>close_error\<close> is what closing the listening socket reports.\<close>

definition eventgrid_Stop :: "error option \<Rightarrow> AzureEventGridListener \<Rightarrow> unit result \<times> AzureEventGridListener" where
  "eventgrid_Stop close_error a =
     (let a' = a\<lparr>egl_done := True\<rparr> in
      case egl_server a of
        None \<Rightarrow> (Panic ''nil pointer dereference'', a')
      | Some _ \<Rightarrow> ((case close_error of None \<Rightarrow> Ok () | Some e \<Rightarrow> Err e), a'))"

section \<open>The handler\<close>

text \<open>The response and the validation addresses called so far.\<close>

record egw =
  egw_w :: ResponseWriter
  egw_calls :: "string list"

definition eg_Error :: "string \<Rightarrow> nat \<Rightarrow> egw \<Rightarrow> egw" where
  "eg_Error m code w = w\<lparr>egw_w := http_Error (StrArg m) code (egw_w w)\<rparr>"

fun subscribed :: "string list \<Rightarrow> string \<Rightarrow> bool" where
  "subscribed [] nm = False"
| "subscribed (sub # subs) nm = (if sub = nm then True else subscribed subs nm)"

definition handleEventGridHandshake ::
  "(string \<Rightarrow> string) \<Rightarrow> AzureEventGridConfig \<Rightarrow> Request \<Rightarrow> EventGridEvent \<Rightarrow> egw \<Rightarrow> egw" where
  "handleEventGridHandshake ul config r event w =
     (let subscriptionName = ToLower ul (Header_Get (rq_Header r) ''Aeg-Subscription-Name'') in
      if subscriptionName = [] then eg_Error ''Missing aeg-subscription-name header'' 400 w
      else if \<not> subscribed (aeg_Subscriptions config) subscriptionName then eg_Error ''Subscription not found'' 404 w
      else
        (case Unmarshal_Raw dec_SubscriptionValidationData (eg_Data event) \<lparr>svd_ValidationCode = [], svd_ValidationURL = []\<rparr> of
           Ok data \<Rightarrow>
             (let response = json_encode (JObj [(''validationResponse'', JStr (svd_ValidationCode data))]) in
              w\<lparr>egw_w := Fprintln (StrArg response) (WriteHeader 200 (egw_w w)),
                egw_calls := egw_calls w @ [svd_ValidationURL data]\<rparr>)
         | _ \<Rightarrow> eg_Error ''Failed to parse validation data'' 400 w))"

definition eventgrid_event :: "string \<Rightarrow> Time \<Rightarrow> SecretRotationEvent" where
  "eventgrid_event nm t =
     \<lparr>ev_SecretIdentifier = nm, ev_RotationTimestamp = Time_String t, ev_TriggerSource = AZURE_EVENT_GRID, ev_Namespace = []\<rparr>"

definition handleSecretEvent :: "EventGridEvent \<Rightarrow> egw \<Rightarrow> rt \<Rightarrow> unit result \<times> egw \<times> rt" where
  "handleSecretEvent event w st =
     (case Unmarshal_Raw dec_SecretNewVersionCreatedData (eg_Data event) \<lparr>snv_ObjectType = [], snv_ObjectName = []\<rparr> of
        Ok data \<Rightarrow>
          (case publish (eventgrid_event (snv_ObjectName data) (eg_EventTime event)) st of
             (Ok Ready, st') \<Rightarrow> (Ok (), w\<lparr>egw_w := WriteHeader 200 (egw_w w)\<rparr>, st')
           | (Ok DoneCase, st') \<Rightarrow> (Ok (), w, st')
           | (Err e, st') \<Rightarrow> (Err e, w, st')
           | (Panic p, st') \<Rightarrow> (Panic p, w, st')
           | (Blocked, st') \<Rightarrow> (Blocked, w, st'))
      | Err e \<Rightarrow> (Ok (), eg_Error ''Invalid JSON in request body'' 400 w, st)
      | Panic p \<Rightarrow> (Panic p, w, st)
      | Blocked \<Rightarrow> (Blocked, w, st))"

definition SubscriptionValidationEvent :: string where
  "SubscriptionValidationEvent = ''Microsoft.EventGrid.SubscriptionValidationEvent''"

definition SecretNewVersionCreated :: string where
  "SecretNewVersionCreated = ''Microsoft.KeyVault.SecretNewVersionCreated''"

fun process_events ::
  "(string \<Rightarrow> string) \<Rightarrow> AzureEventGridConfig \<Rightarrow> Request \<Rightarrow> EventGridEvent list \<Rightarrow> egw \<Rightarrow> rt \<Rightarrow> unit result \<times> egw \<times> rt" where
  "process_events ul config r [] w st = (Ok (), w, st)"
| "process_events ul config r (event # evts) w st =
     (if eg_EventType event = SubscriptionValidationEvent
      then process_events ul config r evts (handleEventGridHandshake ul config r event w) st
      else if eg_EventType event = SecretNewVersionCreated then
        (case handleSecretEvent event w st of
           (Ok _, w', st') \<Rightarrow> process_events ul config r evts w' st'
         | (x, w', st') \<Rightarrow> (x, w', st'))
      else process_events ul config r evts w st)"

text \<open>\<^verbatim>\<open>io.ReadAll(r.Body)\<close>, without a bound.\<close>

definition ReadAll :: "string \<times> error option \<Rightarrow> string result" where
  "ReadAll body = (case body of (data, None) \<Rightarrow> Ok data | (data, Some e) \<Rightarrow> Err e)"

definition eventHandler ::
  "(string \<Rightarrow> string) \<Rightarrow> location \<Rightarrow> AzureEventGridConfig \<Rightarrow> Request \<Rightarrow> egw \<Rightarrow> rt \<Rightarrow> unit result \<times> egw \<times> rt" where
  "eventHandler ul loc config r w st =
     (case ReadAll (rq_Body r) of
        Err e \<Rightarrow> (Ok (), eg_Error ''Failed to read request body'' 400 w, st)
      | Panic p \<Rightarrow> (Panic p, w, st)
      | Blocked \<Rightarrow> (Blocked, w, st)
      | Ok body \<Rightarrow>
          (case Unmarshal (dec_slice zero_EventGridEvent (dec_EventGridEvent loc)) body [] of
             Err e \<Rightarrow> (Ok (), eg_Error ''Failed to parse request body'' 400 w, st)
           | Panic p \<Rightarrow> (Panic p, w, st)
           | Blocked \<Rightarrow> (Blocked, w, st)
           | Ok evts \<Rightarrow> process_events ul config r evts w st))"

section \<open>The secret events are a source of events\<close>

definition eventgrid_ident :: "EventGridEvent \<Rightarrow> string option" where
  "eventgrid_ident event =
     (if eg_EventType event = SecretNewVersionCreated then
        (case Unmarshal_Raw dec_SecretNewVersionCreatedData (eg_Data event) \<lparr>snv_ObjectType = [], snv_ObjectName = []\<rparr> of
           Ok data \<Rightarrow> Some (snv_ObjectName data)
         | _ \<Rightarrow> None)
      else None)"

text \<open>What an event does to the source's channel.\<close>

definition eventgrid_process :: "EventGridEvent \<Rightarrow> rt \<Rightarrow> unit result \<times> rt" where
  "eventgrid_process event st =
     (case eventgrid_ident event of
        Some nm \<Rightarrow> publish_or_drop (eventgrid_event nm (eg_EventTime event)) st
      | None \<Rightarrow> (Ok (), st))"

interpretation eventgrid_source: live_event_source eventgrid_process eventgrid_ident AZURE_EVENT_GRID "\<lambda>_. True"
proof unfold_locales
  fix m st n
  assume "steady (Suc n) st"
  then show "\<exists>r st'. eventgrid_process m st = (r, st') \<and> returns r \<and> steady n st'"
    using publish_or_drop_live [of n st] steady_mono [of "Suc n" st n] by (fastforce simp: eventgrid_process_def split: option.split)
qed (auto simp: eventgrid_process_def eventgrid_event_def dest: publish_or_drop_out split: option.splits)

lemma total_eventgrid [simp]:
  "total_dec (dec_EventGridEvent loc)" "total_dec dec_SecretNewVersionCreatedData" "total_dec dec_SubscriptionValidationData"
proof -
  have "total_dec dec_RawMessage" by (simp add: total_dec_def dec_RawMessage_def)
  then show "total_dec (dec_EventGridEvent loc)" "total_dec dec_SecretNewVersionCreatedData" "total_dec dec_SubscriptionValidationData"
    by (simp_all add: dec_EventGridEvent_def dec_SecretNewVersionCreatedData_def dec_SubscriptionValidationData_def)
qed

lemma returns_Unmarshal_Raw: "total_dec d \<Longrightarrow> returns (Unmarshal_Raw d data zero)"
  by (simp add: Unmarshal_Raw_def total_dec_def split: option.split)

lemma handleSecretEvent_process:
  assumes "eg_EventType event = SecretNewVersionCreated"
  shows "\<exists>w'. handleSecretEvent event w st = (fst (eventgrid_process event st), w', snd (eventgrid_process event st))"
proof -
  have "returns (Unmarshal_Raw dec_SecretNewVersionCreatedData (eg_Data event) \<lparr>snv_ObjectType = [], snv_ObjectName = []\<rparr>)"
    by (rule returns_Unmarshal_Raw) simp
  then show ?thesis
  proof (cases rule: returns_cases)
    case (Ok data)
    then show ?thesis
      using assms by (cases rule: publish_cases [of "eventgrid_event (snv_ObjectName data) (eg_EventTime event)" st])
        (simp_all add: handleSecretEvent_def eventgrid_process_def eventgrid_ident_def publish_or_drop_def)
  next
    case (Err e)
    then show ?thesis using assms by (simp add: handleSecretEvent_def eventgrid_process_def eventgrid_ident_def)
  qed
qed

lemma eventgrid_process_outcome: "fst (eventgrid_process event st) = Ok () \<or> fst (eventgrid_process event st) = Blocked"
proof (cases "eventgrid_ident event")
  case (Some nm)
  then show ?thesis
    by (cases rule: publish_cases [of "eventgrid_event nm (eg_EventTime event)" st])
      (simp_all add: eventgrid_process_def publish_or_drop_def)
qed (simp add: eventgrid_process_def)

text \<open>Handling a batch does to the channel what processing its events one by one does.\<close>

lemma process_events_for_each:
  "\<exists>w'. process_events ul config r evts w st = (fst (for_each eventgrid_process evts st), w', snd (for_each eventgrid_process evts st))"
proof (induction evts arbitrary: w st)
  case (Cons event evts)
  show ?case
  proof (cases "eg_EventType event = SecretNewVersionCreated")
    case True
    then have "eg_EventType event \<noteq> SubscriptionValidationEvent"
      by (simp add: SecretNewVersionCreated_def SubscriptionValidationEvent_def)
    moreover obtain x st1 where p: "eventgrid_process event st = (x, st1)" by (cases "eventgrid_process event st")
    moreover have "x = Ok () \<or> x = Blocked" using eventgrid_process_outcome [of event st] p by simp
    ultimately show ?thesis
      using handleSecretEvent_process [OF True, of w st] Cons [of _ st1] True by auto
  next
    case False
    then have "eventgrid_process event st = (Ok (), st)" by (simp add: eventgrid_process_def eventgrid_ident_def)
    with Cons False show ?thesis by simp
  qed
qed simp

section \<open>Properties\<close>

text \<open>
  C24: a request to the Event Grid endpoint whose body decodes as a list of events publishes, in
  the order of the list, one event for every one of the type \<^verbatim>\<open>SecretNewVersionCreated\<close> whose data
  decodes, and nothing else, whatever other events and handshakes the batch holds. It names the
  member \<^verbatim>\<open>objectName\<close> of the data; the member \<^verbatim>\<open>Id\<close>, which \<^verbatim>\<open>docs/sources/azure-eventgrid.md\<close> says
  identifies the secret, is not read, and data without an object name publishes the empty name.
\<close>

theorem eventgrid_publishes_batch:
  assumes "rq_Body r = (body, None)" and "Unmarshal (dec_slice zero_EventGridEvent (dec_EventGridEvent loc)) body [] = Ok evts"
    and "steady (length evts) st"
  shows "\<exists>w' st' pub. eventHandler ul loc config r w st = (Ok (), w', st') \<and> rt_out st' = rt_out st @ pub
    \<and> map ev_SecretIdentifier pub = List.map_filter eventgrid_ident evts
    \<and> (\<forall>ev \<in> set pub. ev_TriggerSource ev = AZURE_EVENT_GRID)"
  using eventgrid_source.for_each_publishes [of evts 0 st] process_events_for_each [of ul config r evts w st] assms
  by (auto simp: eventHandler_def ReadAll_def)

text \<open>A batch with a handshake, an event that has an object name, and the event the documentation shows.\<close>

definition fixture_documented :: json where
  "fixture_documented =
     JObj [(''Id'', JStr ''https://v.vault.azure.net/secrets/db/1''), (''VaultName'', JStr ''v''), (''ObjectType'', JStr ''Secret''),
       (''Version'', JStr ''1''), (''NBF'', JNull), (''EXP'', JNull)]"

definition fixture_batch :: json where
  "fixture_batch =
     JArr [JObj [(''eventType'', JStr SubscriptionValidationEvent), (''data'', JObj [(''validationCode'', JStr ''512d'')])],
           JObj [(''eventType'', JStr SecretNewVersionCreated), (''data'', JObj [(''objectName'', JStr ''db'')])],
           JObj [(''eventType'', JStr SecretNewVersionCreated), (''data'', fixture_documented)]]"

definition fixture_eg_events :: "EventGridEvent list" where
  "fixture_eg_events =
     [zero_EventGridEvent\<lparr>eg_EventType := SubscriptionValidationEvent, eg_Data := Some (raw_of (JObj [(''validationCode'', JStr ''512d'')]))\<rparr>,
      zero_EventGridEvent\<lparr>eg_EventType := SecretNewVersionCreated, eg_Data := Some (raw_of (JObj [(''objectName'', JStr ''db'')]))\<rparr>,
      zero_EventGridEvent\<lparr>eg_EventType := SecretNewVersionCreated, eg_Data := Some (raw_of fixture_documented)\<rparr>]"

lemma fixture_batch_decodes:
  "Unmarshal (dec_slice zero_EventGridEvent (dec_EventGridEvent loc)) (json_encode fixture_batch) [] = Ok fixture_eg_events"
proof -
  have fits: "fits maxNestingDepth fixture_batch" by (simp add: fixture_batch_def fixture_documented_def maxNestingDepth_def)
  have "utf8_valid SubscriptionValidationEvent" "utf8_valid SecretNewVersionCreated"
    by (simp_all add: SubscriptionValidationEvent_def SecretNewVersionCreated_def utf8_ascii)
  then show ?thesis
    unfolding Unmarshal_encode [OF fits]
    by (simp add: fixture_batch_def fixture_documented_def fixture_eg_events_def dec_slice_def dec_EventGridEvent_def decode_members dec_RawMessage_def
        zero_EventGridEvent_def)
qed

lemma fixture_documented_data:
  "dec_SecretNewVersionCreatedData (raw_of fixture_documented) \<lparr>snv_ObjectType = [], snv_ObjectName = []\<rparr>
    = Ok \<lparr>snv_ObjectType = ''Secret'', snv_ObjectName = []\<rparr>"
proof -
  have "EqualFold ''ObjectType'' ''objectType''"
    "\<And>k f. k \<in> {''Id'', ''VaultName'', ''Version'', ''NBF'', ''EXP''} \<Longrightarrow> f \<in> {''objectType'', ''objectName''} \<Longrightarrow> \<not> EqualFold k f"
    by (auto simp: EqualFold_ascii ascii_lower_def char_eq_nat of_char_of simp del: of_char_eq_iff)
  then show ?thesis
    by (simp add: fixture_documented_def dec_SecretNewVersionCreatedData_def decode_members utf8_ascii)
qed

theorem eventgrid_publishes_batch_witness:
  "\<exists>w' st' pub. eventHandler (\<lambda>s. s) (\<lambda>_. (0, ''UTC'')) \<lparr>aeg_Host = [], aeg_Port = 80, aeg_Subscriptions = [''vault'']\<rparr>
      \<lparr>rq_Method = ''POST'', rq_Path = ''/vault'', rq_Header = [], rq_Body = (json_encode fixture_batch, None)\<rparr>
      \<lparr>egw_w = new_response, egw_calls = []\<rparr> fixture_steady = (Ok (), w', st')
    \<and> rt_out st' = pub \<and> map ev_SecretIdentifier pub = [''db'', [] ]"
proof -
  have st: "steady (length fixture_eg_events) fixture_steady" "rt_out fixture_steady = []"
    by (simp_all add: steady_def fixture_steady_def fixture_eg_events_def)
  have types: "SubscriptionValidationEvent \<noteq> SecretNewVersionCreated"
    by (simp add: SubscriptionValidationEvent_def SecretNewVersionCreated_def)
  have named: "dec_SecretNewVersionCreatedData (raw_of (JObj [(''objectName'', JStr ''db'')])) \<lparr>snv_ObjectType = [], snv_ObjectName = []\<rparr>
      = Ok \<lparr>snv_ObjectType = [], snv_ObjectName = ''db''\<rparr>"
    by (simp add: dec_SecretNewVersionCreatedData_def decode_members utf8_ascii)
  have "List.map_filter eventgrid_ident fixture_eg_events = [''db'', [] ]"
    by (simp add: fixture_eg_events_def map_filter_simps eventgrid_ident_def Unmarshal_Raw_def types named fixture_documented_data del: raw_of.simps)
  with eventgrid_publishes_batch [OF _ fixture_batch_decodes st(1),
      of "\<lparr>rq_Method = ''POST'', rq_Path = ''/vault'', rq_Header = [], rq_Body = (json_encode fixture_batch, None)\<rparr>"] st(2)
  show ?thesis by fastforce
qed

text \<open>Which subscriptions are found.\<close>

lemma subscribed_iff: "subscribed subs nm \<longleftrightarrow> nm \<in> set subs"
  by (induction subs) auto

lemma handshake_refused:
  assumes "ToLower ul (Header_Get (rq_Header r) ''Aeg-Subscription-Name'') \<notin> set (aeg_Subscriptions config)"
    and "ToLower ul (Header_Get (rq_Header r) ''Aeg-Subscription-Name'') \<noteq> []"
  shows "handleEventGridHandshake ul config r event w = eg_Error ''Subscription not found'' 404 w"
  using assms by (simp add: handleEventGridHandshake_def subscribed_iff Let_def)

lemma handshakes_refused:
  assumes "\<And>event v. handleEventGridHandshake ul config r event v = eg_Error m code v"
  shows "(\<And>event. event \<in> set evts \<Longrightarrow> eg_EventType event = SubscriptionValidationEvent) \<Longrightarrow>
    process_events ul config r evts w st = (Ok (), fold (\<lambda>_. eg_Error m code) evts w, st)"
  by (induction evts arbitrary: w) (simp_all add: assms)

lemma eg_Error_status:
  "egw_calls (fold (\<lambda>_. eg_Error m code) evts w) = egw_calls w"
  "evts \<noteq> [] \<Longrightarrow> rw_Status (egw_w w) = None \<Longrightarrow> rw_Status (egw_w (fold (\<lambda>_. eg_Error m code) evts w)) = Some code"
proof -
  show "egw_calls (fold (\<lambda>_. eg_Error m code) evts w) = egw_calls w"
    by (induction evts arbitrary: w) (simp_all add: eg_Error_def)
  have keep: "rw_Status (egw_w v) = Some code \<Longrightarrow> rw_Status (egw_w (fold (\<lambda>_. eg_Error m code) evts v)) = Some code" for evts :: "'a list" and v
    by (induction evts arbitrary: v) (simp_all add: eg_Error_def response_defs)
  show "evts \<noteq> [] \<Longrightarrow> rw_Status (egw_w w) = None \<Longrightarrow> rw_Status (egw_w (fold (\<lambda>_. eg_Error m code) evts w)) = Some code"
    by (cases evts) (simp_all add: keep eg_Error_def response_defs)
qed

text \<open>
  C37: the subscription named in a request is compared in lower case, the configured ones as they
  are written. So a subscription that is configured with an upper-case letter, and not in lower
  case too, can never be validated: every handshake that names it, in whatever case, is refused with
  404 and neither echoes the validation code nor calls the validation address, wherever in a batch
  it stands; and a request with nothing but handshakes is answered with 404.
\<close>

theorem eventgrid_uppercase_never_validates:
  assumes "list_all (\<lambda>c. (of_char c :: nat) < 128) sub" and "c \<in> set sub" "65 \<le> (of_char c :: nat)" "(of_char c :: nat) \<le> 90"
    and "sub \<in> set (aeg_Subscriptions config)" and "map ascii_lower sub \<notin> set (aeg_Subscriptions config)"
    and "ToLower ul (Header_Get (rq_Header r) ''Aeg-Subscription-Name'') = ToLower ul sub"
  shows "handleEventGridHandshake ul config r event v = eg_Error ''Subscription not found'' 404 v
    \<and> (rq_Body r = (body, None) \<longrightarrow> Unmarshal (dec_slice zero_EventGridEvent (dec_EventGridEvent loc)) body [] = Ok evts \<longrightarrow>
      evts \<noteq> [] \<longrightarrow> (\<forall>e \<in> set evts. eg_EventType e = SubscriptionValidationEvent) \<longrightarrow> rw_Status (egw_w w) = None \<longrightarrow>
      (\<exists>w'. eventHandler ul loc config r w st = (Ok (), w', st) \<and> rw_Status (egw_w w') = Some 404 \<and> egw_calls w' = egw_calls w))"
proof -
  have "ToLower ul sub = map ascii_lower sub" "sub \<noteq> []" using assms(1,2) by (auto simp: ToLower_def)
  then have no: "handleEventGridHandshake ul config r e v = eg_Error ''Subscription not found'' 404 v" for e v
    using assms(6,7) by (intro handshake_refused) simp_all
  show ?thesis
    using no handshakes_refused [OF no, of evts w st] by (auto simp: eventHandler_def ReadAll_def eg_Error_status)
qed

text \<open>A handshake for a subscription that was configured as \<^verbatim>\<open>Vault\<close>.\<close>

definition fixture_handshake :: json where
  "fixture_handshake = JArr [JObj [(''eventType'', JStr SubscriptionValidationEvent), (''data'', JObj [(''validationCode'', JStr ''512d'')])]]"

theorem eventgrid_uppercase_never_validates_witness:
  "\<exists>w'. eventHandler (\<lambda>s. s) (\<lambda>_. (0, ''UTC'')) \<lparr>aeg_Host = [], aeg_Port = 80, aeg_Subscriptions = [''Vault'']\<rparr>
      \<lparr>rq_Method = ''POST'', rq_Path = ''/Vault'', rq_Header = [(''Aeg-Subscription-Name'', [''VAULT''])], rq_Body = (json_encode fixture_handshake, None)\<rparr>
      \<lparr>egw_w = new_response, egw_calls = []\<rparr> fixture_steady = (Ok (), w', fixture_steady)
    \<and> rw_Status (egw_w w') = Some 404 \<and> egw_calls w' = []"
proof -
  let ?evts = "[zero_EventGridEvent\<lparr>eg_EventType := SubscriptionValidationEvent, eg_Data := Some (raw_of (JObj [(''validationCode'', JStr ''512d'')]))\<rparr>]"
  have fits: "fits maxNestingDepth fixture_handshake" by (simp add: fixture_handshake_def maxNestingDepth_def)
  have "utf8_valid SubscriptionValidationEvent" by (simp add: SubscriptionValidationEvent_def utf8_ascii)
  then have "Unmarshal (dec_slice zero_EventGridEvent (dec_EventGridEvent loc)) (json_encode fixture_handshake) [] = Ok ?evts" for loc
    unfolding Unmarshal_encode [OF fits]
    by (simp add: fixture_handshake_def dec_slice_def dec_EventGridEvent_def decode_members dec_RawMessage_def zero_EventGridEvent_def)
  then show ?thesis
    using eventgrid_uppercase_never_validates [of "''Vault''" "CHR ''V''" "\<lparr>aeg_Host = [], aeg_Port = 80, aeg_Subscriptions = [''Vault'']\<rparr>" "\<lambda>s. s"
        "\<lparr>rq_Method = ''POST'', rq_Path = ''/Vault'', rq_Header = [(''Aeg-Subscription-Name'', [''VAULT''])], rq_Body = (json_encode fixture_handshake, None)\<rparr>"
        undefined undefined "json_encode fixture_handshake" "\<lambda>_. (0, ''UTC'')" ?evts "\<lparr>egw_w = new_response, egw_calls = []\<rparr>" fixture_steady]
    by (simp add: Header_Get_def ToLower_def ascii_lower_def char_eq_nat of_char_of del: of_char_eq_iff)
qed

end
