(* ===== verification/KubernetesSource.thy ===== *)
theory KubernetesSource
  imports Publish Secrets
begin

text \<open>
  The Kubernetes source (\<^verbatim>\<open>internal/listener/kubernetes\<close> with the providers \<^verbatim>\<open>k8ssecret\<close> and
  \<^verbatim>\<open>k8sconfigmap\<close>): a watch on Secrets or ConfigMaps of a cluster that publishes an event whenever
  the resource version of an object it knows has changed, and the access to that cluster. The
  client libraries and the parsers of certificates are the record \<open>kenv\<close>.
\<close>

section \<open>Environment and state\<close>

record RestConfig =
  rc_Host :: string
  rc_Insecure :: bool
  rc_CAData :: string
  rc_BearerToken :: string

text \<open>
  \<open>ke_GetConfig\<close> is \<^verbatim>\<open>ctrl.GetConfig\<close>, \<open>ke_FromKubeConfig\<close> \<^verbatim>\<open>clientcmd.RESTConfigFromKubeConfig\<close>,
  \<open>ke_pem\<close> \<^verbatim>\<open>pem.Decode\<close> (the bytes of the first block), \<open>ke_x509\<close> \<^verbatim>\<open>x509.ParseCertificate\<close> (its
  error), \<open>ke_CreateToken ns name audiences seconds\<close> the token request of the client set;
  \<open>ke_NewForConfig\<close>, \<open>ke_NewManager\<close>, \<open>ke_Predicate\<close> and \<open>ke_Complete\<close> give the errors of
  \<^verbatim>\<open>typedcorev1.NewForConfig\<close>, \<^verbatim>\<open>ctrl.NewManager\<close>, \<^verbatim>\<open>predicate.LabelSelectorPredicate\<close> and of
  completing the controller of the given name.
\<close>

record kenv =
  ke_GetConfig :: "error + RestConfig"
  ke_FromKubeConfig :: "string \<Rightarrow> error + RestConfig"
  ke_pem :: "string \<Rightarrow> string option"
  ke_x509 :: "string \<Rightarrow> error option"
  ke_CreateToken :: "string \<Rightarrow> string \<Rightarrow> string list \<Rightarrow> int64 \<Rightarrow> error + string"
  ke_NewForConfig :: "RestConfig \<Rightarrow> error option"
  ke_NewManager :: "RestConfig \<Rightarrow> error option"
  ke_Predicate :: "LabelSelector \<Rightarrow> error option"
  ke_Complete :: "string \<Rightarrow> error option"

text \<open>
  \<open>kh_CtrlClientSet\<close> says whether the client set is there (a nil interface before \<^verbatim>\<open>Start\<close>),
  \<open>kh_Mgr\<close> whether the manager was started, \<open>kh_done\<close> whether the context is cancelled.
\<close>

record KubeHandler =
  kh_Config :: KubernetesObjectConfig
  kh_done :: bool
  kh_CtrlClientSet :: bool
  kh_Mgr :: bool
  kh_Name :: string

type_synonym version_map = "NamespacedName \<rightharpoonup> string"

section \<open>Providers\<close>

definition KUBERNETES_SECRET :: string where "KUBERNETES_SECRET = ''KubernetesSecret''"
definition KUBERNETES_CONFIG_MAP :: string where "KUBERNETES_CONFIG_MAP = ''KubernetesConfigMap''"

definition k8ssecret_CreateListener :: "bool \<Rightarrow> NotificationSource option \<Rightarrow> KubeHandler result" where
  "k8ssecret_CreateListener ctx_done source =
     (case source of
        None \<Rightarrow> Err (errors_New ''KubernetesSecret config is nil'')
      | Some src \<Rightarrow>
          (case ns_KubernetesSecret src of
             None \<Rightarrow> Err (errors_New ''KubernetesSecret config is nil'')
           | Some config \<Rightarrow>
               Ok \<lparr>kh_Config = \<lparr>koc_ServerURL = ksc_ServerURL config, koc_Auth = ksc_Auth config,
                     koc_LabelSelector = ksc_LabelSelector config\<rparr>,
                   kh_done = ctx_done, kh_CtrlClientSet = False, kh_Mgr = False, kh_Name = ''secret''\<rparr>))"

definition k8sconfigmap_CreateListener :: "bool \<Rightarrow> NotificationSource option \<Rightarrow> KubeHandler result" where
  "k8sconfigmap_CreateListener ctx_done source =
     (case source of
        None \<Rightarrow> Err (errors_New ''KubernetesConfigMap config is nil'')
      | Some src \<Rightarrow>
          (case ns_KubernetesConfigMap src of
             None \<Rightarrow> Err (errors_New ''KubernetesConfigMap config is nil'')
           | Some config \<Rightarrow>
               Ok \<lparr>kh_Config = \<lparr>koc_ServerURL = kcm_ServerURL config, koc_Auth = kcm_Auth config,
                     koc_LabelSelector = kcm_LabelSelector config\<rparr>,
                   kh_done = ctx_done, kh_CtrlClientSet = False, kh_Mgr = False, kh_Name = ''configmap''\<rparr>))"

section \<open>Access to the cluster\<close>

definition parseCertificateBytes :: "kenv \<Rightarrow> string \<Rightarrow> string result" where
  "parseCertificateBytes ke certBytes =
     (case ke_pem ke certBytes of
        None \<Rightarrow> Err (errors_New ''failed to parse the new certificate, not valid pem data'')
      | Some blk \<Rightarrow>
          (case ke_x509 ke blk of
             Some err \<Rightarrow> Err (Wrapf ''failed to validate certificate: %w'' [] err)
           | None \<Rightarrow> Ok certBytes))"

definition base64decode :: "kenv \<Rightarrow> string \<Rightarrow> string result" where
  "base64decode ke cert =
     (case parseCertificateBytes ke cert of
        Ok c \<Rightarrow> Ok c
      | _ \<Rightarrow>
          rbind (map_err (Wrapf ''failed to decode base64: %w'' []) (DecodeString cert)) (\<lambda>certificate.
            parseCertificateBytes ke certificate))"

definition fetchCACertFromSource :: "kenv \<Rightarrow> string \<Rightarrow> string result" where
  "fetchCACertFromSource ke caBundle =
     (if length caBundle > 0
      then map_err (Wrapf ''failed to decode ca bundle: %w'' []) (base64decode ke caBundle)
      else Ok [])"

definition serviceAccountToken :: "kenv \<Rightarrow> bool \<Rightarrow> ServiceAccountSelector option \<Rightarrow> string result" where
  "serviceAccountToken ke clientset sel =
     (case sel of
        None \<Rightarrow> Err (errors_New ''service account selector is nil'')
      | Some s \<Rightarrow>
          (if clientset then
             map_err (Wrapf ''could not create token: %w'' [])
               (lift (ke_CreateToken ke (sas_Namespace s) (sas_Name s) (sas_Audiences s) 3600))
           else Panic ''nil pointer dereference''))"

definition getKubeConfig :: "kenv \<Rightarrow> 'w kube \<Rightarrow> 'w \<Rightarrow> KubeHandler \<Rightarrow> RestConfig result" where
  "getKubeConfig ke k w h =
     (case koc_Auth (kh_Config h) of
        None \<Rightarrow> map_err (Wrapf ''failed to get default config: %w'' []) (lift (ke_GetConfig ke))
      | Some auth \<Rightarrow>
          (case ka_KubeConfigRef auth of
             Some ref \<Rightarrow> rbind (fetchSecretKey k w (Some (kcr_SecretRef ref))) (\<lambda>cfg. lift (ke_FromKubeConfig ke cfg))
           | None \<Rightarrow>
               (if koc_ServerURL (kh_Config h) = [] then Err (errors_New ''no server URL provided'')
                else
                  rbind (fetchCACertFromSource ke (ka_CABundle auth)) (\<lambda>ca.
                    (let cfg = \<lparr>rc_Host = koc_ServerURL (kh_Config h), rc_Insecure = False, rc_CAData = ca, rc_BearerToken = []\<rparr> in
                     case ka_TokenRef auth of
                       Some ref \<Rightarrow>
                         rbind (map_err (Wrapf ''could not fetch Auth.Token.BearerToken: %w'' [])
                             (fetchSecretKey k w (Some (tr_SecretRef ref)))) (\<lambda>token.
                           Ok (cfg\<lparr>rc_BearerToken := token\<rparr>))
                     | None \<Rightarrow>
                         (case ka_ServiceAccountRef auth of
                            Some sa \<Rightarrow>
                              rbind (map_err (Wrapf ''could not fetch Auth.ServiceAccount: %w'' [])
                                  (serviceAccountToken ke (kh_CtrlClientSet h) (Some sa))) (\<lambda>token.
                                Ok (cfg\<lparr>rc_BearerToken := token\<rparr>))
                          | None \<Rightarrow> Err (errors_New ''no auth provider given'')))))))"

section \<open>Start and Stop\<close>

definition fail_with :: "string \<Rightarrow> error option \<Rightarrow> unit result" where
  "fail_with f e = (case e of None \<Rightarrow> Ok () | Some err \<Rightarrow> Err (Wrapf f [] err))"

text \<open>
  The client set is kept even when a later step fails. One that could not be made counts as unset:
  the code then stores a typed nil pointer, in a listener that is dropped because of the error.
\<close>

definition kubernetes_Start :: "kenv \<Rightarrow> 'w kube \<Rightarrow> 'w \<Rightarrow> KubeHandler \<Rightarrow> unit result \<times> KubeHandler" where
  "kubernetes_Start ke k w h =
     (case map_err (Wrapf ''could not parse config: %w'' []) (getKubeConfig ke k w h) of
        Err e \<Rightarrow> (Err e, h)
      | Panic p \<Rightarrow> (Panic p, h)
      | Blocked \<Rightarrow> (Blocked, h)
      | Ok cfg \<Rightarrow>
          (case ke_NewForConfig ke cfg of
             Some err \<Rightarrow> (Err (Wrapf ''could not create client set: %w'' [] err), h\<lparr>kh_CtrlClientSet := False\<rparr>)
           | None \<Rightarrow>
               (let h1 = h\<lparr>kh_CtrlClientSet := True\<rparr>;
                    r = rbind (fail_with ''could not create manager: %w'' (ke_NewManager ke cfg)) (\<lambda>_.
                        rbind (case koc_LabelSelector (kh_Config h) of
                                 None \<Rightarrow> Ok ()
                               | Some sel \<Rightarrow> fail_with ''could not create selector predicate: %w'' (ke_Predicate ke sel)) (\<lambda>_.
                          fail_with ''could not create controller: %w'' (ke_Complete ke (''k8s'' @ kh_Name h)))) in
                case r of Ok _ \<Rightarrow> (Ok (), h1\<lparr>kh_Mgr := True\<rparr>) | _ \<Rightarrow> (r, h1))))"

definition kubernetes_Stop :: "KubeHandler \<Rightarrow> unit result \<times> KubeHandler" where
  "kubernetes_Stop h = (Ok (), h\<lparr>kh_done := True\<rparr>)"

section \<open>The watch\<close>

text \<open>
  One object the watch reports, as its metadata (\<open>None\<close>: it is not of the watched type). An
  object seen for the first time is only remembered. The send waits without regard to the
  context. The trigger names the Secret type for ConfigMaps as well.
\<close>

definition watch_event :: "(int \<Rightarrow> string) \<Rightarrow> ObjectMeta \<Rightarrow> int \<Rightarrow> SecretRotationEvent" where
  "watch_event format meta now =
     \<lparr>ev_SecretIdentifier = om_Name meta, ev_RotationTimestamp = format now,
      ev_TriggerSource = KUBERNETES_SECRET @ ''/'' @ om_Name meta, ev_Namespace = om_Namespace meta\<rparr>"

definition watch_object ::
  "(int \<Rightarrow> string) \<Rightarrow> ObjectMeta option \<Rightarrow> version_map \<Rightarrow> rt \<Rightarrow> unit result \<times> version_map \<times> rt" where
  "watch_object format ob vm st =
     (case ob of
        None \<Rightarrow> (Ok (), vm, st)
      | Some meta \<Rightarrow>
          (if om_DeletionTimestamp meta \<noteq> None then (Ok (), vm, st)
           else
             (let key = NamespacedName (om_Namespace meta) (om_Name meta); version = om_ResourceVersion meta in
              case vm key of
                None \<Rightarrow> (Ok (), vm(key \<mapsto> version), st)
              | Some storedVersion \<Rightarrow>
                  (if version = storedVersion then (Ok (), vm, st)
                   else
                     (case send (watch_event format meta (rt_now st)) st of
                        (r, st') \<Rightarrow> (r, vm(key \<mapsto> version), st'))))))"

text \<open>The reports of a watch, one after the other.\<close>

fun watch_objects ::
  "(int \<Rightarrow> string) \<Rightarrow> ObjectMeta option list \<Rightarrow> version_map \<Rightarrow> rt \<Rightarrow> unit result \<times> version_map \<times> rt" where
  "watch_objects format [] vm st = (Ok (), vm, st)"
| "watch_objects format (ob # obs) vm st =
     (case watch_object format ob vm st of
        (Ok _, vm', st') \<Rightarrow> watch_objects format obs vm' st'
      | (r, vm', st') \<Rightarrow> (r, vm', st'))"

section \<open>One event per new version\<close>

text \<open>The versions of one object among the reports, deleted ones left out.\<close>

definition reports_of :: "NamespacedName \<Rightarrow> ObjectMeta option list \<Rightarrow> string list" where
  "reports_of key obs = List.map_filter (\<lambda>ob. case ob of
     Some meta \<Rightarrow> (if om_DeletionTimestamp meta = None \<and> NamespacedName (om_Namespace meta) (om_Name meta) = key
       then Some (om_ResourceVersion meta) else None)
   | None \<Rightarrow> None) obs"

definition event_key :: "SecretRotationEvent \<Rightarrow> NamespacedName" where
  "event_key ev = NamespacedName (ev_Namespace ev) (ev_SecretIdentifier ev)"

text \<open>How often the version changes, starting from the remembered one.\<close>

definition changes :: "string option \<Rightarrow> string list \<Rightarrow> nat" where
  "changes known vs = length (remdups_adj (case known of None \<Rightarrow> vs | Some v \<Rightarrow> v # vs)) - 1"

lemma changes_simps:
  "changes None [] = 0" "changes None (v # vs) = changes (Some v) vs"
  "changes (Some u) [] = 0" "changes (Some u) (v # vs) = (if u = v then 0 else 1) + changes (Some v) vs"
proof -
  have "remdups_adj (v # vs) \<noteq> []" for v :: string and vs by simp
  then show "changes (Some u) (v # vs) = (if u = v then 0 else 1) + changes (Some v) vs"
    by (cases "remdups_adj (v # vs)") (auto simp: changes_def)
qed (simp_all add: changes_def)

lemma watch_object_live:
  assumes "steady (Suc n) st"
  shows "\<exists>vm' st' evs. watch_object format ob vm st = (Ok (), vm', st') \<and> steady n st' \<and> rt_out st' = rt_out st @ evs
    \<and> (\<forall>key. length (filter (\<lambda>ev. event_key ev = key) evs) + changes (vm' key) (vs key) = changes (vm key) (reports_of key [ob] @ vs key))"
proof -
  have idle: "steady n st" using assms by (rule steady_mono) simp
  have none: ?thesis if "watch_object format ob vm st = (Ok (), vm, st)" "\<And>key. changes (vm key) (reports_of key [ob] @ vs key) = changes (vm key) (vs key)"
    using that idle by (intro exI [of _ vm] exI [of _ st] exI [of _ "[]"]) simp
  show ?thesis
  proof (cases ob)
    case None
    then show ?thesis by (intro none) (simp_all add: watch_object_def reports_of_def map_filter_simps)
  next
    case (Some meta)
    let ?key = "NamespacedName (om_Namespace meta) (om_Name meta)"
    let ?v = "om_ResourceVersion meta"
    show ?thesis
    proof (cases "om_DeletionTimestamp meta")
      case None
      have reports: "reports_of key [ob] = (if key = ?key then [?v] else [])" for key
        by (auto simp: reports_of_def map_filter_simps Some None)
      consider (new) "vm ?key = None" | (same) "vm ?key = Some ?v" | (changed) u where "vm ?key = Some u" "u \<noteq> ?v" by fastforce
      then show ?thesis
      proof cases
        case new
        then have "watch_object format ob vm st = (Ok (), vm(?key \<mapsto> ?v), st)" by (simp add: watch_object_def Some None)
        with new idle show ?thesis
          by (intro exI [of _ "vm(?key \<mapsto> ?v)"] exI [of _ st] exI [of _ "[]"]) (simp add: reports changes_simps)
      next
        case same
        then have "watch_object format ob vm st = (Ok (), vm, st)" by (simp add: watch_object_def Some None)
        with same show ?thesis by (intro none) (simp_all add: reports changes_simps)
      next
        case changed
        obtain st' where sent: "send (watch_event format meta (rt_now st)) st = (Ok (), st')" "steady n st'"
          using steady_send [OF assms] by blast
        then have "rt_out st' = rt_out st @ [watch_event format meta (rt_now st)]"
          by (cases rule: send_cases [of "watch_event format meta (rt_now st)" st]) auto
        moreover have "watch_object format ob vm st = (Ok (), vm(?key \<mapsto> ?v), st')"
          using changed sent by (simp add: watch_object_def Some None)
        ultimately show ?thesis
          using changed sent by (intro exI [of _ "vm(?key \<mapsto> ?v)"] exI [of _ st'] exI [of _ "[watch_event format meta (rt_now st)]"])
            (auto simp: reports changes_simps event_key_def watch_event_def)
      qed
    qed (use none in \<open>simp add: watch_object_def reports_of_def map_filter_simps Some\<close>)
  qed
qed

lemma reports_of_Cons: "reports_of key (ob # obs) = reports_of key [ob] @ reports_of key obs"
  by (simp add: reports_of_def map_filter_simps split: option.split)

lemma watch_objects_live:
  "steady (length obs) st \<Longrightarrow>
     \<exists>vm' st' evs. watch_objects format obs vm st = (Ok (), vm', st') \<and> rt_out st' = rt_out st @ evs
       \<and> (\<forall>key. length (filter (\<lambda>ev. event_key ev = key) evs) = changes (vm key) (reports_of key obs))"
proof (induction obs arbitrary: vm st)
  case Nil
  have "reports_of key [] = []" for key by (simp add: reports_of_def map_filter_simps)
  then show ?case by (auto simp: changes_def split: option.split)
next
  case (Cons ob obs)
  then have "steady (Suc (length obs)) st" by simp
  from watch_object_live [OF this, of format ob vm "\<lambda>key. reports_of key obs"] obtain vm1 st1 evs1 where
    one: "watch_object format ob vm st = (Ok (), vm1, st1)" "steady (length obs) st1" "rt_out st1 = rt_out st @ evs1"
      "\<forall>key. length (filter (\<lambda>ev. event_key ev = key) evs1) + changes (vm1 key) (reports_of key obs)
         = changes (vm key) (reports_of key (ob # obs))" unfolding reports_of_Cons [of _ ob obs] by blast
  from Cons.IH [OF one(2), of vm1] obtain vm2 st2 evs2 where
    "watch_objects format obs vm1 st1 = (Ok (), vm2, st2)" "rt_out st2 = rt_out st1 @ evs2"
    "\<forall>key. length (filter (\<lambda>ev. event_key ev = key) evs2) = changes (vm1 key) (reports_of key obs)" by blast
  with one show ?case by (intro exI [of _ vm2] exI [of _ st2] exI [of _ "evs1 @ evs2"]) simp
qed

text \<open>
  C25: starting with an empty memory, the watch of the Kubernetes source publishes one event per
  new version of an object: for every object, the number of its events is the number of times
  its resource version differs from the one reported before it, so nothing for its first
  report, for repetitions, for deleted objects and for objects of another type, whatever the
  other objects do in between.
\<close>

theorem watch_one_event_per_version:
  assumes "steady (length obs) st" and "rt_out st = []"
  shows "\<exists>vm' st'. watch_objects format obs Map.empty st = (Ok (), vm', st')
    \<and> (\<forall>key. length (filter (\<lambda>ev. event_key ev = key) (rt_out st')) = length (remdups_adj (reports_of key obs)) - 1)"
  using watch_objects_live [OF assms(1), of format Map.empty] assms(2) by (auto simp: changes_def)

definition fixture_object :: "string \<Rightarrow> string \<Rightarrow> ObjectMeta" where
  "fixture_object nm version = (fixture_meta ''default'' nm)\<lparr>om_ResourceVersion := version\<rparr>"

theorem watch_one_event_per_version_witness:
  "\<exists>vm' st'. watch_objects (\<lambda>_. ''now'') (map Some [fixture_object ''a'' ''1'', fixture_object ''b'' ''5'', fixture_object ''a'' ''1'',
        fixture_object ''a'' ''2'', fixture_object ''a'' ''3'']) Map.empty
      \<lparr>rt_done = False, rt_now = 0, rt_sched = replicate 5 \<lparr>sc_cancel = False, sc_ready = True, sc_pick = True, sc_elapse = 1\<rparr>,
       rt_out = [], rt_retry = []\<rparr> = (Ok (), vm', st')
    \<and> length (filter (\<lambda>ev. event_key ev = NamespacedName ''default'' ''a'') (rt_out st')) = 2"
proof -
  let ?obs = "map Some [fixture_object ''a'' ''1'', fixture_object ''b'' ''5'', fixture_object ''a'' ''1'',
        fixture_object ''a'' ''2'', fixture_object ''a'' ''3'']"
  let ?st = "\<lparr>rt_done = False, rt_now = 0, rt_sched = replicate 5 \<lparr>sc_cancel = False, sc_ready = True, sc_pick = True, sc_elapse = 1\<rparr>,
       rt_out = [], rt_retry = []\<rparr>"
  have st: "steady (length ?obs) ?st" by (simp add: steady_def)
  have "reports_of (NamespacedName ''default'' ''a'') ?obs = [''1'', ''1'', ''2'', ''3'']"
    by (simp add: reports_of_def map_filter_simps fixture_object_def fixture_meta_def)
  with watch_one_event_per_version [OF st, of "\<lambda>_. ''now''"] show ?thesis by auto
qed

section \<open>Certificates and tokens\<close>

text \<open>A CA bundle may be given as PEM or as the base64 encoding of it.\<close>

lemma fetchCACert_plain:
  "cert \<noteq> [] \<Longrightarrow> parseCertificateBytes ke cert = Ok cert \<Longrightarrow> fetchCACertFromSource ke cert = Ok cert"
  by (simp add: fetchCACertFromSource_def base64decode_def)

lemma fetchCACert_base64:
  assumes "EncodeToString cert \<noteq> []" and "parseCertificateBytes ke cert = Ok cert" and "ke_pem ke (EncodeToString cert) = None"
  shows "fetchCACertFromSource ke (EncodeToString cert) = Ok cert"
  using assms by (simp add: fetchCACertFromSource_def base64decode_def parseCertificateBytes_def [of _ "EncodeToString cert"]
      DecodeString_EncodeToString)

text \<open>Whatever is used as CA data has passed the certificate check.\<close>

lemma parseCertificateBytes_Ok: "parseCertificateBytes ke b = Ok c \<longleftrightarrow> b = c \<and> (\<exists>blk. ke_pem ke b = Some blk \<and> ke_x509 ke blk = None)"
  by (auto simp: parseCertificateBytes_def split: option.splits)

lemma fetchCACert_checked:
  "fetchCACertFromSource ke ca = Ok c \<Longrightarrow> c = [] \<or> (\<exists>blk. ke_pem ke c = Some blk \<and> ke_x509 ke blk = None)"
  by (auto simp: fetchCACertFromSource_def base64decode_def parseCertificateBytes_Ok go_simps split: if_splits result.splits)

text \<open>
  C36: a Kubernetes source that authenticates with a service account cannot be started: before
  \<^verbatim>\<open>Start\<close> has ever got that far, the token is requested through a client set that is still
  nil, and \<^verbatim>\<open>Start\<close> panics, provided the server address is set and the CA bundle is accepted.
\<close>

theorem serviceAccount_start_panics:
  assumes "k8ssecret_CreateListener d (Some src) = Ok h \<or> k8sconfigmap_CreateListener d (Some src) = Ok h"
    and "koc_Auth (kh_Config h) = Some auth" and "ka_KubeConfigRef auth = None" and "ka_TokenRef auth = None"
    and "ka_ServiceAccountRef auth = Some sa" and "koc_ServerURL (kh_Config h) \<noteq> []"
    and "fetchCACertFromSource ke (ka_CABundle auth) = Ok ca"
  shows "kubernetes_Start ke k w h = (Panic ''nil pointer dereference'', h)"
proof -
  have "\<not> kh_CtrlClientSet h"
    using assms(1) by (auto simp: k8ssecret_CreateListener_def k8sconfigmap_CreateListener_def split: option.splits)
  with assms(2-) show ?thesis
    by (simp add: kubernetes_Start_def getKubeConfig_def serviceAccountToken_def Let_def)
qed

definition fixture_kenv :: kenv where
  "fixture_kenv =
     \<lparr>ke_GetConfig = Inl Canceled, ke_FromKubeConfig = (\<lambda>_. Inl Canceled), ke_pem = Some, ke_x509 = (\<lambda>_. None),
      ke_CreateToken = (\<lambda>_ _ _ _. Inr ''token''), ke_NewForConfig = (\<lambda>_. None), ke_NewManager = (\<lambda>_. None),
      ke_Predicate = (\<lambda>_. None), ke_Complete = (\<lambda>_. None)\<rparr>"

definition fixture_k8s_source :: NotificationSource where
  "fixture_k8s_source =
     \<lparr>ns_Type = ''KubernetesSecret'', ns_AwsSqs = None, ns_AzureEventGrid = None, ns_GooglePubSub = None, ns_Webhook = None,
      ns_HashicorpVault = None,
      ns_KubernetesSecret = Some \<lparr>ksc_ServerURL = ''https://other'',
        ksc_Auth = Some \<lparr>ka_KubeConfigRef = None, ka_CABundle = ''pem'', ka_TokenRef = None,
          ka_ServiceAccountRef = Some \<lparr>sas_Name = ''watcher'', sas_Namespace = ''default'', sas_Audiences = []\<rparr>\<rparr>,
        ksc_LabelSelector = None\<rparr>,
      ns_KubernetesConfigMap = None, ns_TCPSocket = None, ns_Mock = None\<rparr>"

theorem serviceAccount_start_panics_witness:
  "\<exists>h. k8ssecret_CreateListener False (Some fixture_k8s_source) = Ok h
     \<and> kubernetes_Start fixture_kenv (fixture_kube [] [] [] [] Map.empty) fixture_start h = (Panic ''nil pointer dereference'', h)"
proof -
  obtain h where h: "k8ssecret_CreateListener False (Some fixture_k8s_source) = Ok h"
    and cfg: "koc_ServerURL (kh_Config h) = ''https://other''" "koc_Auth (kh_Config h) = Some \<lparr>ka_KubeConfigRef = None, ka_CABundle = ''pem'',
      ka_TokenRef = None, ka_ServiceAccountRef = Some \<lparr>sas_Name = ''watcher'', sas_Namespace = ''default'', sas_Audiences = []\<rparr>\<rparr>"
    by (simp add: k8ssecret_CreateListener_def fixture_k8s_source_def)
  have "kubernetes_Start fixture_kenv (fixture_kube [] [] [] [] Map.empty) fixture_start h = (Panic ''nil pointer dereference'', h)"
    by (rule serviceAccount_start_panics [OF _ cfg(2), of False fixture_k8s_source])
      (simp_all add: h cfg fetchCACertFromSource_def base64decode_def parseCertificateBytes_def fixture_kenv_def)
  with h show ?thesis by blast
qed

end
