(* ===== verification/MockSource.thy ===== *)
theory MockSource
  imports Publish
begin

text \<open>
  The mock source (\<^verbatim>\<open>internal/listener/mock\<close>): a goroutine that emits a fixed list of events at an
  interval. An \<^verbatim>\<open>int32\<close> number of milliseconds becomes a 64-bit duration in nanoseconds.
\<close>

definition MOCK :: string where "MOCK = ''Mock''"

record MockNotificationListener =
  mk_events :: "SecretRotationEvent list"
  mk_emitInterval :: int64
  mk_stopped :: bool
  mk_emitting :: bool

definition NewMockListener :: "SecretRotationEvent list \<Rightarrow> int64 \<Rightarrow> MockNotificationListener" where
  "NewMockListener evts emitInterval =
     \<lparr>mk_events = evts, mk_emitInterval = emitInterval, mk_stopped = False, mk_emitting = False\<rparr>"

definition Millisecond :: int64 where "Millisecond = 1000000"

definition mock_event :: SecretRotationEvent where
  "mock_event =
     \<lparr>ev_SecretIdentifier = ''aws://secret/arn:aws:secretsmanager:us-east-1:123456789012:secret:mysecret'',
      ev_RotationTimestamp = ''2024-09-19T12:00:00Z'', ev_TriggerSource = ''aws-secretsmanager'', ev_Namespace = []\<rparr>"

definition mock_CreateListener :: "NotificationSource option \<Rightarrow> MockNotificationListener result" where
  "mock_CreateListener source =
     (case source of
        None \<Rightarrow> Err (errors_New ''mock listener requires a valid mock configuration'')
      | Some src \<Rightarrow>
          (case ns_Mock src of
             None \<Rightarrow> Err (errors_New ''mock listener requires a valid mock configuration'')
           | Some cfg \<Rightarrow> Ok (NewMockListener [mock_event] (scast (mock_EmitInterval cfg) * Millisecond))))"

definition mock_Start :: "MockNotificationListener \<Rightarrow> unit result \<times> MockNotificationListener" where
  "mock_Start m =
     (if mk_stopped m then (Err (errors_New ''listener has been stopped''), m) else (Ok (), m\<lparr>mk_emitting := True\<rparr>))"

text \<open>\<^verbatim>\<open>Stop\<close> leaves the goroutine alone.\<close>

definition mock_Stop :: "MockNotificationListener \<Rightarrow> unit result \<times> MockNotificationListener" where
  "mock_Stop m = (Ok (), m\<lparr>mk_stopped := True\<rparr>)"

text \<open>The goroutine: the sleep before every event ends when its time has come.\<close>

fun sleep_loop :: "int \<Rightarrow> sched list \<Rightarrow> rt \<Rightarrow> unit result \<times> rt" where
  "sleep_loop t [] st = (Blocked, st\<lparr>rt_sched := []\<rparr>)"
| "sleep_loop t (s # ss) st =
     (let st' = resume s ss st in if t \<le> rt_now st' then (Ok (), st') else sleep_loop t ss st')"

definition Sleep :: "int64 \<Rightarrow> rt \<Rightarrow> unit result \<times> rt" where
  "Sleep d st = (if sint d \<le> 0 then (Ok (), st) else sleep_loop (rt_now st + sint d) (rt_sched st) st)"

fun emit :: "int64 \<Rightarrow> SecretRotationEvent list \<Rightarrow> rt \<Rightarrow> unit result \<times> rt" where
  "emit interval [] st = (Ok (), st)"
| "emit interval (event # evts) st =
     (case Sleep interval st of
        (Ok _, st1) \<Rightarrow>
          (case send event st1 of
             (Ok _, st2) \<Rightarrow> emit interval evts st2
           | (r, st2) \<Rightarrow> (r, st2))
      | (r, st1) \<Rightarrow> (r, st1))"

section \<open>Lemmas\<close>

text \<open>The interval does not overflow: it is the configured number of milliseconds.\<close>

lemma mock_interval:
  assumes "mock_CreateListener (Some src) = Ok m" and "ns_Mock src = Some cfg"
  shows "sint (mk_emitInterval m) = sint (mock_EmitInterval cfg) * 1000000"
proof -
  let ?i = "sint (mock_EmitInterval cfg)"
  have bounds: "- (2 ^ 31) \<le> ?i" "?i < 2 ^ 31"
    using sint_range_size [of "mock_EmitInterval cfg"] by (simp_all add: word_size)
  have "mk_emitInterval m = scast (mock_EmitInterval cfg) * Millisecond"
    using assms by (simp add: mock_CreateListener_def NewMockListener_def split: option.splits) auto
  also have "\<dots> = word_of_int ?i * word_of_int 1000000" by (simp only: scast_eq Millisecond_def word_of_int_numeral)
  finally have "mk_emitInterval m = word_of_int (?i * 1000000)" by (simp only: wi_hom_mult)
  moreover have "signed_take_bit 63 (?i * 1000000) = ?i * 1000000"
    using bounds by (intro signed_take_bit_int_eq_self) simp_all
  moreover have "sint (word_of_int j :: int64) = signed_take_bit 63 j" for j
    by (simp add: sint_sbintrunc')
  ultimately show ?thesis by (simp only:)
qed

lemma sleep_loop_out: "sleep_loop t ss st = (r, st') \<Longrightarrow> rt_out st' = rt_out st \<and> (r = Ok () \<or> r = Blocked)"
  by (induction t ss st rule: sleep_loop.induct) (auto simp: Let_def split: if_splits)

lemma Sleep_out: "Sleep d st = (r, st') \<Longrightarrow> rt_out st' = rt_out st \<and> (r = Ok () \<or> r = Blocked)"
  by (auto simp: Sleep_def split: if_splits dest: sleep_loop_out)

text \<open>The goroutine publishes the events in order; it stops short only by waiting.\<close>

lemma emit_publishes:
  "emit d evts st = (r, st') \<Longrightarrow>
     \<exists>sent rest. evts = sent @ rest \<and> rt_out st' = rt_out st @ sent \<and> (r = Ok () \<and> rest = [] \<or> r = Blocked)"
proof (induction evts arbitrary: st)
  case (Cons ev evts)
  obtain x st1 where sl: "Sleep d st = (x, st1)" by (cases "Sleep d st")
  note out1 = Sleep_out [OF sl]
  show ?case
  proof (cases "x = Ok ()")
    case False
    then have "r = Blocked" "st' = st1" using Cons.prems sl out1 by auto
    with out1 show ?thesis by (intro exI [of _ "[]"] exI [of _ "ev # evts"]) simp
  next
    case True
    show ?thesis
    proof (cases rule: send_cases [of ev st1])
      case (Sent st2)
      then have "emit d evts st2 = (r, st')" using Cons.prems sl True by simp
      from Cons.IH [OF this] obtain sent rest where "evts = sent @ rest" "rt_out st' = rt_out st2 @ sent"
        "r = Ok () \<and> rest = [] \<or> r = Blocked" by blast
      with Sent out1 show ?thesis by (intro exI [of _ "ev # sent"] exI [of _ rest]) auto
    next
      case (Waits st2)
      then show ?thesis using Cons.prems sl True out1 by (intro exI [of _ "[]"] exI [of _ "ev # evts"]) auto
    qed
  qed
qed simp

end
