(* ===== verification/Listeners.thy ===== *)
theory Listeners
  imports Lifecycle VaultSource SqsSource PubSubSource EventGridSource KubernetesSource MockSource
begin

text \<open>
  All notification sources together, as the manager sees them: the provider registry that the
  \<^verbatim>\<open>init\<close> functions fill (\<^verbatim>\<open>internal/listener/register.go\<close>), the listener objects on a heap behind
  references, the shared webhook server, and \<^verbatim>\<open>Start\<close> and \<^verbatim>\<open>Stop\<close> dispatched on the dynamic type.
  This environment is an interpretation of \<open>managed_listeners\<close>.
\<close>

section \<open>Objects and references\<close>

datatype ('c, 'g) Listener =
    TcpL TCPSocket
  | VaultL HashicorpVault
  | SqsL "'c AWSSQSListener"
  | PubSubL "'g GooglePubSub"
  | EventGridL AzureEventGridListener
  | MockL MockNotificationListener
  | KubeL KubeHandler

text \<open>A webhook listener is known by its value, every other listener by its place on the heap.\<close>

datatype listener_ref = HookRef WebhookListener | Ref nat

record ('n, 'c, 'g) lworld =
  lw_server :: WebhookServer
  lw_net :: 'n
  lw_heap :: "('c, 'g) Listener list"

text \<open>
  What the listeners are given from outside: the API client with the state it reads, the
  sockets, the AWS session loader, the Google libraries, the Pub/Sub client, the Kubernetes
  libraries, what closing an HTTP server reports, and whether the manager's context is done.
\<close>

record ('w, 'n, 'c, 'g) outside =
  ou_kube :: "'w kube"
  ou_world :: 'w
  ou_net :: "'n net"
  ou_aws :: "'c aws_load"
  ou_gcp :: gcp
  ou_pubsub :: "string \<Rightarrow> TokenSource \<Rightarrow> error + 'g"
  ou_kenv :: kenv
  ou_close :: "error option"
  ou_done :: bool

section \<open>Providers\<close>

type_synonym ('n, 'c, 'g) provider = "(listener_ref, ('n, 'c, 'g) lworld) lprovider"

definition alloc :: "('c, 'g) Listener result \<Rightarrow> ('n, 'c, 'g) lworld \<Rightarrow> listener_ref result \<times> ('n, 'c, 'g) lworld" where
  "alloc r w =
     (case r of
        Ok l \<Rightarrow> (Ok (Ref (length (lw_heap w))), w\<lparr>lw_heap := lw_heap w @ [l]\<rparr>)
      | Err e \<Rightarrow> (Err e, w)
      | Panic p \<Rightarrow> (Panic p, w)
      | Blocked \<Rightarrow> (Blocked, w))"

fun map_result :: "('a \<Rightarrow> 'b) \<Rightarrow> 'a result \<Rightarrow> 'b result" where
  "map_result f (Ok x) = Ok (f x)"
| "map_result f (Err e) = Err e"
| "map_result f (Panic p) = Panic p"
| "map_result f Blocked = Blocked"

definition providers :: "('w, 'n, 'c, 'g) outside \<Rightarrow> (string \<times> ('n, 'c, 'g) provider) list" where
  "providers ou =
     [(AZURE_EVENT_GRID, \<lambda>source. alloc (map_result EventGridL (eventgrid_CreateListener (ou_done ou) (Some source)))),
      (HASHICORP_VAULT, \<lambda>source. alloc (map_result VaultL (vault_CreateListener (ou_done ou) (Some source)))),
      (KUBERNETES_CONFIG_MAP, \<lambda>source. alloc (map_result KubeL (k8sconfigmap_CreateListener (ou_done ou) (Some source)))),
      (KUBERNETES_SECRET, \<lambda>source. alloc (map_result KubeL (k8ssecret_CreateListener (ou_done ou) (Some source)))),
      (MOCK, \<lambda>source. alloc (map_result MockL (mock_CreateListener (Some source)))),
      (GOOGLE_PUB_SUB, \<lambda>source. alloc (map_result PubSubL
         (pubsub_CreateListener (ou_gcp ou) (ou_pubsub ou) (ou_kube ou) (ou_done ou) (Some source) (ou_world ou)))),
      (AWS_SQS, \<lambda>source. alloc (map_result SqsL
         (sqs_CreateListener (ou_kube ou) (ou_aws ou) (ou_done ou) (Some source) (ou_world ou)))),
      (TCP_SOCKET, \<lambda>source. alloc (map_result TcpL (tcp_CreateListener (ou_done ou) (Some source))))]"

section \<open>Start and Stop\<close>

definition with_net :: "unit result \<times> 'a \<times> 'n \<Rightarrow> ('a \<Rightarrow> ('c, 'g) Listener) \<Rightarrow> unit result \<times> ('c, 'g) Listener \<times> 'n" where
  "with_net r f = (case r of (x, h, n) \<Rightarrow> (x, f h, n))"

definition no_net :: "'n \<Rightarrow> unit result \<times> 'a \<Rightarrow> ('a \<Rightarrow> ('c, 'g) Listener) \<Rightarrow> unit result \<times> ('c, 'g) Listener \<times> 'n" where
  "no_net n r f = (case r of (x, h) \<Rightarrow> (x, f h, n))"

fun listener_Start :: "('w, 'n, 'c, 'g) outside \<Rightarrow> ('c, 'g) Listener \<Rightarrow> 'n \<Rightarrow> unit result \<times> ('c, 'g) Listener \<times> 'n" where
  "listener_Start ou (TcpL h) n = with_net (tcp_Start (ou_net ou) h n) TcpL"
| "listener_Start ou (VaultL h) n = with_net (vault_Start (ou_net ou) h n) VaultL"
| "listener_Start ou (SqsL h) n = no_net n (sqs_Start h) SqsL"
| "listener_Start ou (PubSubL h) n = no_net n (pubsub_Start h) PubSubL"
| "listener_Start ou (EventGridL h) n = no_net n (eventgrid_Start h) EventGridL"
| "listener_Start ou (MockL h) n = no_net n (mock_Start h) MockL"
| "listener_Start ou (KubeL h) n = no_net n (kubernetes_Start (ou_kenv ou) (ou_kube ou) (ou_world ou) h) KubeL"

fun listener_Stop :: "('w, 'n, 'c, 'g) outside \<Rightarrow> ('c, 'g) Listener \<Rightarrow> 'n \<Rightarrow> unit result \<times> ('c, 'g) Listener \<times> 'n" where
  "listener_Stop ou (TcpL h) n = with_net (tcp_Stop (ou_net ou) h n) TcpL"
| "listener_Stop ou (VaultL h) n = with_net (vault_Stop (ou_net ou) h n) VaultL"
| "listener_Stop ou (SqsL h) n = no_net n (sqs_Stop h) SqsL"
| "listener_Stop ou (PubSubL h) n = no_net n (pubsub_Stop h) PubSubL"
| "listener_Stop ou (EventGridL h) n = no_net n (eventgrid_Stop (ou_close ou) h) EventGridL"
| "listener_Stop ou (MockL h) n = no_net n (mock_Stop h) MockL"
| "listener_Stop ou (KubeL h) n = no_net n (kubernetes_Stop h) KubeL"

text \<open>Calling a method of a referenced listener; a dangling reference is a nil one.\<close>

definition on_heap ::
  "(('c, 'g) Listener \<Rightarrow> 'n \<Rightarrow> unit result \<times> ('c, 'g) Listener \<times> 'n) \<Rightarrow> nat \<Rightarrow> ('n, 'c, 'g) lworld
    \<Rightarrow> unit result \<times> ('n, 'c, 'g) lworld" where
  "on_heap f i w =
     (if i < length (lw_heap w) then
        (case f (lw_heap w ! i) (lw_net w) of (x, l, n) \<Rightarrow> (x, w\<lparr>lw_heap := (lw_heap w)[i := l], lw_net := n\<rparr>))
      else (Panic ''nil pointer dereference'', w))"

definition on_server ::
  "(WebhookServer \<Rightarrow> error option \<times> WebhookServer) \<Rightarrow> ('n, 'c, 'g) lworld \<Rightarrow> unit result \<times> ('n, 'c, 'g) lworld" where
  "on_server f w = call_result (case f (lw_server w) of (e, s) \<Rightarrow> (e, w\<lparr>lw_server := s\<rparr>))"

definition program_env :: "('w, 'n, 'c, 'g) outside \<Rightarrow> (listener_ref, ('n, 'c, 'g) lworld) listener_env" where
  "program_env ou =
     \<lparr>le_providers = register_all listener_RegisterProvider (providers ou) Map.empty,
      le_Start = (\<lambda>l w. case l of HookRef h \<Rightarrow> on_server (webhook_Start h) w | Ref i \<Rightarrow> on_heap (listener_Start ou) i w),
      le_Stop = (\<lambda>l w. case l of HookRef h \<Rightarrow> on_server (webhook_Stop h) w | Ref i \<Rightarrow> on_heap (listener_Stop ou) i w),
      le_hook = Some (\<lambda>routeKey cfg. HookRef (NewWebhookListener routeKey (ou_done ou) (Some cfg)))\<rparr>"

section \<open>Running and stoppable listeners\<close>

text \<open>Started and not stopped.\<close>

fun active :: "('c, 'g) Listener \<Rightarrow> bool" where
  "active (TcpL h) = (ts_accepting h \<and> \<not> ts_done h)"
| "active (VaultL h) = (ts_accepting (vs_tcpSocket h) \<and> \<not> ts_done (vs_tcpSocket h))"
| "active (SqsL h) = (sqsl_running h \<and> \<not> sl_done (sqsl_listener h))"
| "active (PubSubL h) = (gp_receiving h \<and> \<not> gp_done h)"
| "active (EventGridL h) = (egl_server h \<noteq> None \<and> \<not> egl_done h)"
| "active (MockL h) = (mk_emitting h \<and> \<not> mk_stopped h)"
| "active (KubeL h) = (kh_Mgr h \<and> \<not> kh_done h)"

text \<open>The listeners whose \<^verbatim>\<open>Stop\<close> does not panic: sockets and servers must have been opened.\<close>

fun opened :: "('c, 'g) Listener \<Rightarrow> bool" where
  "opened (TcpL h) = (ts_listener h \<noteq> None)"
| "opened (VaultL h) = (ts_listener (vs_tcpSocket h) \<noteq> None)"
| "opened (EventGridL h) = (egl_server h \<noteq> None)"
| "opened _ = True"

definition program_running :: "('n, 'c, 'g) lworld \<Rightarrow> listener_ref set" where
  "program_running w = HookRef ` serving (lw_server w) \<union> {Ref i | i. i < length (lw_heap w) \<and> active (lw_heap w ! i)}"

fun program_slot :: "listener_ref \<Rightarrow> string + nat" where
  "program_slot (HookRef h) = Inl (wl_routeKey h)"
| "program_slot (Ref i) = Inr i"

fun program_stoppable :: "('n, 'c, 'g) lworld \<Rightarrow> listener_ref \<Rightarrow> bool" where
  "program_stoppable w (HookRef h) = True"
| "program_stoppable w (Ref i) = (i < length (lw_heap w) \<and> opened (lw_heap w ! i))"

lemma listener_Start_opened:
  "listener_Start ou l n = (Ok u, l', n') \<Longrightarrow> opened l'"
  by (cases l)
    (auto simp: with_net_def no_net_def tcp_Start_def vault_Start_def eventgrid_Start_def Let_def
      split: prod.splits option.splits result.splits)

lemma listener_Stop_opened:
  assumes "opened l" and "listener_Stop ou l n = (r, l', n')"
  shows "returns r \<and> \<not> active l' \<and> opened l'"
  using assms
  by (cases l)
    (auto simp: with_net_def no_net_def tcp_Stop_def vault_Stop_def eventgrid_Stop_def sqs_Stop_def poller_Stop_def pubsub_Stop_def
      mock_Stop_def kubernetes_Stop_def Let_def split: prod.splits option.splits)

lemma alloc_simps:
  assumes "alloc r w = (x, w')"
  shows "program_stoppable w y \<Longrightarrow> program_stoppable w' y" and "x = Ok l \<Longrightarrow> \<not> program_stoppable w l"
  using assms by (cases y; auto simp: alloc_def nth_append split: result.splits)
    (use assms in \<open>auto simp: alloc_def split: result.splits\<close>)

lemma program_provider: "listener_GetProvider (le_providers (program_env ou)) t = map_of (providers ou) t"
  by (simp add: program_env_def listener_reg.get_register_all_empty)

lemma provider_alloc:
  assumes "listener_GetProvider (le_providers (program_env ou)) t = Some create"
  shows "\<exists>r. create source = alloc r"
proof -
  have "(t, create) \<in> set (providers ou)" using assms by (simp add: program_provider map_of_SomeD)
  then show ?thesis by (auto simp: providers_def)
qed

interpretation program: managed_listeners "program_env ou" program_running program_slot program_stoppable
proof unfold_locales
  fix t create source w r w' x l
  assume "listener_GetProvider (le_providers (program_env ou)) t = Some create" "create source w = (r, w')"
  then show "(program_stoppable w x \<longrightarrow> program_stoppable w' x) \<and> (r = Ok l \<longrightarrow> \<not> program_stoppable w l)"
    using provider_alloc alloc_simps by metis
next
  fix l w u w'
  assume "le_Start (program_env ou) l w = (Ok u, w')"
  then show "program_stoppable w' l"
    by (cases l) (auto simp: program_env_def on_heap_def dest: listener_Start_opened split: prod.splits if_splits)
next
  fix l w r w' x
  assume "le_Start (program_env ou) l w = (r, w')" "program_stoppable w x" "x \<noteq> l"
  then show "program_stoppable w' x"
    by (cases l; cases x)
      (auto simp: program_env_def on_heap_def on_server_def call_result_def split: prod.splits if_splits option.splits)
next
  fix new w rk cfg
  assume "le_hook (program_env ou) = Some new"
  then show "program_stoppable w (new rk cfg)" by (auto simp: program_env_def)
next
  fix w l r w'
  assume s: "program_stoppable w l" and run: "le_Stop (program_env ou) l w = (r, w')"
  show "returns r"
    using s run by (cases l)
      (auto simp: program_env_def on_heap_def on_server_def call_result_def dest: listener_Stop_opened split: prod.splits if_splits option.splits)
  show "program_stoppable w' x" if "program_stoppable w x" for x
    using s run that by (cases l; cases x)
      (auto simp: program_env_def on_heap_def on_server_def call_result_def nth_list_update dest: listener_Stop_opened
        split: prod.splits if_splits option.splits)
  show "program_running w' = {x \<in> program_running w. program_slot x \<noteq> program_slot l}"
  proof (cases l)
    case (HookRef h)
    then have "w' = w\<lparr>lw_server := snd (Unregister (wl_routeKey h) (lw_server w))\<rparr>"
      using run by (auto simp: program_env_def on_server_def webhook_Stop_def call_result_def)
    with HookRef show ?thesis by (auto simp: program_running_def serving_Unregister)
  next
    case (Ref i)
    then obtain l' n' where "w' = w\<lparr>lw_heap := (lw_heap w)[i := l'], lw_net := n'\<rparr>" "\<not> active l'" "i < length (lw_heap w)"
      using s run listener_Stop_opened by (fastforce simp: program_env_def on_heap_def split: prod.splits if_splits)
    with Ref show ?thesis by (auto simp: program_running_def nth_list_update)
  qed
qed

text \<open>What a creator returns was not started, and a start that fails leaves nothing running.\<close>

lemma map_result_Ok: "map_result f x = Ok l \<longleftrightarrow> (\<exists>h. x = Ok h \<and> l = f h)"
  by (cases x) auto

lemma creators_inactive:
  "eventgrid_CreateListener d src = Ok eg \<Longrightarrow> \<not> active (EventGridL eg)"
  "vault_CreateListener d src = Ok va \<Longrightarrow> \<not> active (VaultL va)"
  "k8sconfigmap_CreateListener d src = Ok kh \<Longrightarrow> \<not> active (KubeL kh)"
  "k8ssecret_CreateListener d src = Ok kh \<Longrightarrow> \<not> active (KubeL kh)"
  "mock_CreateListener src = Ok mk \<Longrightarrow> \<not> active (MockL mk)"
  "pubsub_CreateListener g cl k d src w = Ok gp \<Longrightarrow> \<not> active (PubSubL gp)"
  "sqs_CreateListener k load d src w = Ok sq \<Longrightarrow> \<not> active (SqsL sq)"
  "tcp_CreateListener d src = Ok ts \<Longrightarrow> \<not> active (TcpL ts)"
  by (auto simp: eventgrid_CreateListener_def vault_CreateListener_def k8sconfigmap_CreateListener_def k8ssecret_CreateListener_def
      mock_CreateListener_def NewMockListener_def pubsub_CreateListener_def sqs_CreateListener_def tcp_CreateListener_def
      NewTCPSocketListener_def SetProcessFn_def Let_def go_simps split: option.splits)

lemma created_inactive:
  assumes "(t, create) \<in> set (providers ou)"
  shows "\<exists>r. create source = alloc r \<and> (\<forall>l. r = Ok l \<longrightarrow> \<not> active l)"
proof -
  have new: "\<exists>r. alloc (map_result f x) = alloc r \<and> (\<forall>l. r = Ok l \<longrightarrow> \<not> active l)" if "\<And>h. x = Ok h \<Longrightarrow> \<not> active (f h)" for f x
    using that by (intro exI [of _ "map_result f x"]) (auto simp: map_result_Ok)
  show ?thesis
    using assms unfolding providers_def
    by (auto simp del: active.simps intro!: new simp: creators_inactive)
qed

lemma listener_Start_failed:
  "listener_Start ou l n = (r, l', n') \<Longrightarrow> r \<noteq> Ok () \<Longrightarrow> active l' \<Longrightarrow> active l"
  by (cases l)
    (auto simp: with_net_def no_net_def tcp_Start_def vault_Start_def sqs_Start_def pubsub_Start_def eventgrid_Start_def mock_Start_def
      kubernetes_Start_def Let_def split: prod.splits option.splits result.splits if_splits)

lemma alloc_running:
  "alloc r w = (x, w') \<Longrightarrow> \<forall>l. r = Ok l \<longrightarrow> \<not> active l \<Longrightarrow> program_running w' \<subseteq> program_running w"
  by (auto simp: alloc_def program_running_def nth_append less_Suc_eq split: result.splits if_splits)

interpretation program_tracked: tracked_listeners "program_env ou" program_running program_slot program_stoppable
proof unfold_locales
  fix t create source w r w'
  assume get: "listener_GetProvider (le_providers (program_env ou)) t = Some create" and run: "create source w = (r, w')"
  from get have "(t, create) \<in> set (providers ou)"
    by (simp add: program_provider map_of_SomeD)
  with run show "program_running w' \<subseteq> program_running w" using created_inactive [of t create ou source] alloc_running by metis
next
  fix l w r w'
  assume st: "le_Start (program_env ou) l w = (r, w')"
  show "program_running w' \<subseteq> program_running w \<union> {x. x = l \<and> r = Ok ()}"
  proof (cases l)
    case (HookRef h)
    then have "r = Ok ()" "w' = w\<lparr>lw_server := snd (Register (wl_routeKey h) (wl_routeCtx_done h) (wl_cfg h) (lw_server w))\<rparr>"
      using st by (auto simp: program_env_def on_server_def webhook_Start_def call_result_def)
    with HookRef show ?thesis by (auto simp: program_running_def serving_Register)
  next
    case (Ref i)
    show ?thesis
    proof (cases "i < length (lw_heap w)")
      case True
      obtain l' n' where "listener_Start ou (lw_heap w ! i) (lw_net w) = (r, l', n')" "w' = w\<lparr>lw_heap := (lw_heap w)[i := l'], lw_net := n'\<rparr>"
        using st Ref True by (auto simp: program_env_def on_heap_def split: prod.splits)
      with Ref True listener_Start_failed [of ou "lw_heap w ! i" "lw_net w" r l' n'] show ?thesis
        by (auto simp: program_running_def nth_list_update split: if_splits)
    next
      case False
      with st Ref show ?thesis by (auto simp: program_env_def on_heap_def)
    qed
  qed
qed

section \<open>The type and configuration of a listener\<close>

text \<open>The listener is of the type registered for the source, has the configuration of the source and,
  on a socket, the message handler of that type.\<close>

definition kube_config :: "KubernetesSecretConfig option \<Rightarrow> KubernetesConfigMapConfig option \<Rightarrow> KubernetesObjectConfig option" where
  "kube_config s c =
     (case (s, c) of
        (Some config, _) \<Rightarrow> Some \<lparr>koc_ServerURL = ksc_ServerURL config, koc_Auth = ksc_Auth config, koc_LabelSelector = ksc_LabelSelector config\<rparr>
      | (None, Some config) \<Rightarrow> Some \<lparr>koc_ServerURL = kcm_ServerURL config, koc_Auth = kcm_Auth config, koc_LabelSelector = kcm_LabelSelector config\<rparr>
      | (None, None) \<Rightarrow> None)"

fun listener_serves :: "('c, 'g) Listener \<Rightarrow> NotificationSource \<Rightarrow> bool" where
  "listener_serves (TcpL h) source = (ns_Type source = TCP_SOCKET \<and> ns_TCPSocket source \<noteq> None \<and> ts_config h = ns_TCPSocket source
     \<and> ts_processFn h = DefaultProcessFn)"
| "listener_serves (VaultL h) source =
     (ns_Type source = HASHICORP_VAULT \<and> ns_HashicorpVault source = Some (vs_config h)
      \<and> ts_config (vs_tcpSocket h) = Some \<lparr>tcp_Host = hv_Host (vs_config h), tcp_Port = hv_Port (vs_config h), tcp_SecretIdentifierOnPayload = []\<rparr>
      \<and> ts_processFn (vs_tcpSocket h) = VaultProcessFn)"
| "listener_serves (SqsL h) source =
     (ns_Type source = AWS_SQS \<and>
      (case ns_AwsSqs source of None \<Rightarrow> False
       | Some config \<Rightarrow> TransformConfig marshal_AWSSQSConfig dec_mq zero_mq config = Ok (sl_config (sqsl_listener h))))"
| "listener_serves (PubSubL h) source = (ns_Type source = GOOGLE_PUB_SUB \<and> ns_GooglePubSub source = Some (gp_config h))"
| "listener_serves (EventGridL h) source = (ns_Type source = AZURE_EVENT_GRID \<and> ns_AzureEventGrid source = Some (egl_config h))"
| "listener_serves (MockL h) source =
     (ns_Type source = MOCK \<and> mk_events h = [mock_event] \<and>
      (case ns_Mock source of None \<Rightarrow> False | Some config \<Rightarrow> mk_emitInterval h = scast (mock_EmitInterval config) * Millisecond))"
| "listener_serves (KubeL h) source =
     (ns_Type source = KUBERNETES_SECRET \<and> kh_Name h = ''secret'' \<and> kube_config (ns_KubernetesSecret source) None = Some (kh_Config h)
      \<or> ns_Type source = KUBERNETES_CONFIG_MAP \<and> kh_Name h = ''configmap'' \<and> kube_config None (ns_KubernetesConfigMap source) = Some (kh_Config h))"

fun program_serves :: "('n, 'c, 'g) lworld \<Rightarrow> listener_ref \<Rightarrow> NotificationSource \<Rightarrow> bool" where
  "program_serves w (HookRef h) source =
     (ns_Type source = WEBHOOK \<and> wl_cfg h = Some (case ns_Webhook source of None \<Rightarrow> empty_webhook_config | Some cfg \<Rightarrow> cfg))"
| "program_serves w (Ref i) source = (i < length (lw_heap w) \<and> listener_serves (lw_heap w ! i) source)"

lemma creators_serve:
  "eventgrid_CreateListener d (Some src) = Ok eg \<Longrightarrow> ns_Type src = AZURE_EVENT_GRID \<Longrightarrow> listener_serves (EventGridL eg) src"
  "vault_CreateListener d (Some src) = Ok va \<Longrightarrow> ns_Type src = HASHICORP_VAULT \<Longrightarrow> listener_serves (VaultL va) src"
  "k8sconfigmap_CreateListener d (Some src) = Ok kh \<Longrightarrow> ns_Type src = KUBERNETES_CONFIG_MAP \<Longrightarrow> listener_serves (KubeL kh) src"
  "k8ssecret_CreateListener d (Some src) = Ok kh \<Longrightarrow> ns_Type src = KUBERNETES_SECRET \<Longrightarrow> listener_serves (KubeL kh) src"
  "mock_CreateListener (Some src) = Ok mk \<Longrightarrow> ns_Type src = MOCK \<Longrightarrow> listener_serves (MockL mk) src"
  "pubsub_CreateListener g cl k d (Some src) w = Ok gp \<Longrightarrow> ns_Type src = GOOGLE_PUB_SUB \<Longrightarrow> listener_serves (PubSubL gp) src"
  "sqs_CreateListener k load d (Some src) w = Ok sq \<Longrightarrow> ns_Type src = AWS_SQS \<Longrightarrow> listener_serves (SqsL sq) src"
  "tcp_CreateListener d (Some src) = Ok ts \<Longrightarrow> ns_Type src = TCP_SOCKET \<Longrightarrow> listener_serves (TcpL ts) src"
  by (auto simp: eventgrid_CreateListener_def vault_CreateListener_def k8sconfigmap_CreateListener_def k8ssecret_CreateListener_def
      mock_CreateListener_def NewMockListener_def pubsub_CreateListener_def sqs_CreateListener_def tcp_CreateListener_def
      NewTCPSocketListener_def SetProcessFn_def NewAWSSQSListener_def kube_config_def Let_def go_simps split: option.splits)

lemma created_serves:
  assumes "(ns_Type source, create) \<in> set (providers ou)"
  shows "\<exists>r. create source = alloc r \<and> (\<forall>l. r = Ok l \<longrightarrow> listener_serves l source)"
proof -
  have new: "\<exists>r. alloc (map_result f x) = alloc r \<and> (\<forall>l. r = Ok l \<longrightarrow> listener_serves l source)"
    if "\<And>h. x = Ok h \<Longrightarrow> listener_serves (f h) source" for f x
    using that by (intro exI [of _ "map_result f x"]) (auto simp: map_result_Ok)
  show ?thesis
    using assms unfolding providers_def
    by (auto simp del: listener_serves.simps intro!: new simp: creators_serve)
qed

lemma alloc_serves:
  assumes "alloc r w = (x, w')"
  shows "program_serves w y src \<Longrightarrow> program_serves w' y src"
    and "\<forall>l. r = Ok l \<longrightarrow> listener_serves l src \<Longrightarrow> x = Ok i \<Longrightarrow> program_serves w' i src"
  using assms by (cases y; auto simp: alloc_def nth_append split: result.splits)
    (use assms in \<open>auto simp: alloc_def nth_append split: result.splits\<close>)

text \<open>Starting and stopping change neither the type nor the configuration.\<close>

lemma listener_Start_serves:
  "listener_Start ou l n = (r, l', n') \<Longrightarrow> listener_serves l src \<Longrightarrow> listener_serves l' src"
  by (cases l)
    (auto simp: with_net_def no_net_def tcp_Start_def vault_Start_def sqs_Start_def pubsub_Start_def eventgrid_Start_def mock_Start_def
      kubernetes_Start_def Let_def split: prod.splits option.splits result.splits if_splits)

lemma listener_Stop_serves:
  "listener_Stop ou l n = (r, l', n') \<Longrightarrow> listener_serves l src \<Longrightarrow> listener_serves l' src"
  by (cases l)
    (auto simp: with_net_def no_net_def tcp_Stop_def vault_Stop_def eventgrid_Stop_def sqs_Stop_def poller_Stop_def pubsub_Stop_def
      mock_Stop_def kubernetes_Stop_def Let_def split: prod.splits option.splits)

lemma on_heap_serves:
  assumes "on_heap f i w = (r, w')" and "program_serves w x src"
    and "\<And>l n r l' n'. f l n = (r, l', n') \<Longrightarrow> listener_serves l src \<Longrightarrow> listener_serves l' src"
  shows "program_serves w' x src"
  using assms(1,2)
  by (cases x) (auto simp: on_heap_def nth_list_update split: if_splits prod.splits dest: assms(3))

lemma on_server_serves: "on_server f w = (r, w') \<Longrightarrow> program_serves w x src \<Longrightarrow> program_serves w' x src"
  by (cases x) (auto simp: on_server_def call_result_def split: prod.splits option.splits)

interpretation program_typed: typed_listeners "program_env ou" program_serves
proof unfold_locales
  fix source create w rc w' x src l
  assume get: "listener_GetProvider (le_providers (program_env ou)) (ns_Type source) = Some create" and run: "create source w = (rc, w')"
  from get have "(ns_Type source, create) \<in> set (providers ou)" by (simp add: program_provider map_of_SomeD)
  then obtain r where "alloc r w = (rc, w')" "\<forall>l. r = Ok l \<longrightarrow> listener_serves l source" using run created_serves by metis
  then show "(program_serves w x src \<longrightarrow> program_serves w' x src) \<and> (rc = Ok l \<longrightarrow> program_serves w' l source)"
    using alloc_serves by blast
next
  fix new w rk and source :: NotificationSource
  assume "le_hook (program_env ou) = Some new" "ns_Type source = WEBHOOK"
  then show "program_serves w (new rk (case ns_Webhook source of None \<Rightarrow> empty_webhook_config | Some cfg \<Rightarrow> cfg)) source"
    by (auto simp: program_env_def NewWebhookListener_def)
next
  fix l w r w' x src
  assume "le_Start (program_env ou) l w = (r, w')" "program_serves w x src"
  then show "program_serves w' x src"
    by (cases l)
      (auto simp: program_env_def simp del: program_serves.simps intro: on_server_serves on_heap_serves [OF _ _ listener_Start_serves])
next
  fix l w r w' x src
  assume "le_Stop (program_env ou) l w = (r, w')" "program_serves w x src"
  then show "program_serves w' x src"
    by (cases l)
      (auto simp: program_env_def simp del: program_serves.simps intro: on_server_serves on_heap_serves [OF _ _ listener_Stop_serves])
qed

section \<open>Reachable states of the manager\<close>

text \<open>
  The states the manager can be in: it starts without listeners, every reconciliation of a Config
  is a call of \<^verbatim>\<open>ManageListeners\<close>, with what the outside holds then (one of \<open>ous\<close>, and not always
  the same) and whatever the result was, the network changes in between, and \<^verbatim>\<open>StopAll\<close> may be
  called.
\<close>

inductive reached :: "('w, 'n, 'c, 'g) outside set \<Rightarrow> listener_ref Manager \<Rightarrow> ('n, 'c, 'g) lworld \<Rightarrow> bool" for ous where
  start: "reached ous NewListenerManager \<lparr>lw_server = NewWebhookServer addr, lw_net = n, lw_heap = []\<rparr>"
| manage: "reached ous lm w \<Longrightarrow> ou \<in> ous \<Longrightarrow> ManageListeners (program_env ou) ord1 ord2 m sources lm w = (r, lm', w') \<Longrightarrow> reached ous lm' w'"
| net: "reached ous lm w \<Longrightarrow> reached ous lm (w\<lparr>lw_net := n\<rparr>)"
| stop: "reached ous lm w \<Longrightarrow> ou \<in> ous \<Longrightarrow> range_order ord1 \<Longrightarrow> range_order ord2 \<Longrightarrow>
    StopAll (program_env ou) ord1 ord2 lm w = (r, lm', w') \<Longrightarrow> reached ous lm' w'"

lemma stoppable_net [simp]: "program_stoppable (w\<lparr>lw_net := n\<rparr>) x = program_stoppable w x"
  by (cases x) auto

lemma reached_tracked: "reached ous lm w \<Longrightarrow> program_tracked.tracked lm w"
proof (induction rule: reached.induct)
  case (start addr n)
  show ?case
    unfolding program_tracked.tracked_def program.manager_live_def program.live_def
    by (auto simp: NewListenerManager_def listeners_of_def program_running_def serving_def NewWebhookServer_def)
next
  case (manage lm w ou ord1 ord2 m sources r lm' w')
  from program_tracked.ManageListeners_tracked [OF manage.IH manage.hyps(3)] show ?case .
next
  case (net lm w n)
  then show ?case
    unfolding program_tracked.tracked_def program.manager_live_def program.live_def by (simp add: program_running_def)
next
  case (stop lm w ou ord1 ord2 r lm' w')
  with program_tracked.StopAll_tracked [OF stop.hyps(3,4) stop.IH, of ou] show ?case
    unfolding program_tracked.tracked_def program.manager_live_def program.live_def by auto
qed

lemma reached_sourced: "reached ous lm w \<Longrightarrow> \<forall>m. program_typed.sourced w (listeners_of lm m)"
proof (induction rule: reached.induct)
  case (start addr n)
  show ?case by (simp add: program_typed.sourced_def NewListenerManager_def listeners_of_def)
next
  case (manage lm w ou ord1 ord2 m sources r lm' w')
  from program_typed.ManageListeners_sourced [OF manage.hyps(3) manage.IH] show ?case .
next
  case (net lm w n)
  have "program_serves (w\<lparr>lw_net := n\<rparr>) l src = program_serves w l src" for l src by (cases l) auto
  with net show ?case unfolding program_typed.sourced_def by simp
next
  case (stop lm w ou ord1 ord2 r lm' w')
  with program_tracked.StopAll_tracked [OF stop.hyps(3,4) reached_tracked [OF stop.hyps(1)], of ou] show ?case
    unfolding program_typed.sourced_def by auto
qed

text \<open>The server only has routes of webhook listeners.\<close>

definition routes_ok :: "WebhookServer \<Rightarrow> bool" where
  "routes_ok s \<longleftrightarrow> (\<forall>key rte. map_of (ws_routes s) key = Some rte \<longrightarrow> (\<exists>d cfg. rte = newRoute d key cfg))"

lemma routes_ok_Register: "routes_ok s \<Longrightarrow> routes_ok (snd (Register key d cfg s))"
  by (auto simp: routes_ok_def Register_def Let_def split: if_splits)

lemma routes_ok_Unregister: "routes_ok s \<Longrightarrow> routes_ok (snd (Unregister key s))"
  by (auto simp: routes_ok_def Unregister_def split: option.splits if_splits)

lemma on_heap_server: "on_heap f i w = (r, w') \<Longrightarrow> lw_server w' = lw_server w"
  by (auto simp: on_heap_def split: if_splits prod.splits)

lemma calls_routes:
  "le_Start (program_env ou) l w = (r, w') \<Longrightarrow> routes_ok (lw_server w) \<Longrightarrow> routes_ok (lw_server w')"
  "le_Stop (program_env ou) l w = (r, w') \<Longrightarrow> routes_ok (lw_server w) \<Longrightarrow> routes_ok (lw_server w')"
  by (cases l; auto simp: program_env_def on_server_def call_result_def webhook_Start_def webhook_Stop_def
      routes_ok_Register routes_ok_Unregister dest: on_heap_server)+

lemma create_routes:
  assumes "listener_GetProvider (le_providers (program_env ou)) t = Some create" and "create source w = (r, w')"
  shows "routes_ok (lw_server w') = routes_ok (lw_server w)"
  using provider_alloc [OF assms(1), of source] assms(2) by (auto simp: alloc_def split: result.splits)

lemma reached_routes: "reached ous lm w \<Longrightarrow> routes_ok (lw_server w)"
proof (induction rule: reached.induct)
  case (manage lm w ou ord1 ord2 m sources r lm' w')
  have "\<exists>cur'. routes_ok (lw_server w') \<and> (\<forall>n. listeners_of lm' n = (if n = m then cur' else listeners_of lm n))"
  proof (rule ManageListeners_rule [OF manage.hyps(3), where P = "\<lambda>cur v. routes_ok (lw_server v)"], goal_cases)
    case 1
    show ?case by (rule manage.IH)
  next
    case (2 key l cur v x v')
    then show ?case using calls_routes(2) by blast
  next
    case (3 key source cur v x cur' v')
    from 3(3) show ?case
      by (cases rule: add_listener_cases)
        (use 3(1) in \<open>auto elim!: start_and_enter_outcome dest!: calls_routes(1) simp: create_routes\<close>)
  qed
  then show ?case by blast
next
  case (stop lm w ou ord1 ord2 r lm' w')
  show ?case by (rule StopAll_rule [where Q = "\<lambda>v. routes_ok (lw_server v)", OF _ stop.IH stop.hyps(5)]) (rule calls_routes(2))
qed (simp_all add: routes_ok_def NewWebhookServer_def)

lemma routes_gone:
  assumes "routes_ok (lw_server w)" and "program_running w = {}"
  shows "ws_routes (lw_server w) = []"
proof -
  have "map_of (ws_routes (lw_server w)) key = None" for key
  proof (rule ccontr)
    assume "map_of (ws_routes (lw_server w)) key \<noteq> None"
    then obtain d cfg where "map_of (ws_routes (lw_server w)) key = Some (newRoute d key cfg)"
      using assms(1) unfolding routes_ok_def by blast
    then have "\<lparr>wl_routeKey = key, wl_routeCtx_done = d, wl_cfg = cfg\<rparr> \<in> serving (lw_server w)" by (simp add: serving_def)
    with assms(2) show False by (auto simp: program_running_def)
  qed
  then show ?thesis by (metis map_of_eq_empty_iff ext)
qed

lemma HasRoute_serving: "routes_ok s \<Longrightarrow> HasRoute s rk \<longleftrightarrow> (\<exists>h \<in> serving s. wl_routeKey h = rk)"
proof -
  assume ok: "routes_ok s"
  have "\<exists>h \<in> serving s. wl_routeKey h = rk" if route: "map_of (ws_routes s) rk = Some rte" for rte
  proof -
    obtain d cfg where "rte = newRoute d rk cfg" using ok route unfolding routes_ok_def by blast
    with route have "\<lparr>wl_routeKey = rk, wl_routeCtx_done = d, wl_cfg = cfg\<rparr> \<in> serving s" by (simp add: serving_def)
    then show ?thesis by force
  qed
  then show ?thesis by (auto simp: HasRoute_def serving_def)
qed

lemma reached_live: "reached ous lm w \<Longrightarrow> program.manager_live lm w"
  using reached_tracked by (auto simp: program_tracked.tracked_def)

lemmas reached_teardown = program.teardown_live [OF _ reached_live]

text \<open>
  In every state the manager can reach, whatever was reconciled and whatever went wrong,
  each listener that was started and not stopped is one the manager holds, and each listener
  it holds can be stopped; so \<^verbatim>\<open>StopAll\<close> returns without a panic, for any iteration orders, and
  leaves neither an entry nor a running listener.
\<close>

theorem program_shutdown:
  assumes "reached ous lm w" and "range_order ord1" "range_order ord2"
  shows "(\<forall>x \<in> program_running w. \<exists>m k. map_of (listeners_of lm m) k = Some x)
    \<and> (\<exists>r lm' w'. StopAll (program_env ou) ord1 ord2 lm w = (r, lm', w') \<and> returns r
        \<and> (\<forall>m. listeners_of lm' m = []) \<and> program_running w' = {})"
proof -
  have t: "program_tracked.tracked lm w" by (rule reached_tracked [OF assms(1)])
  have "\<exists>m k. map_of (listeners_of lm m) k = Some x" if "x \<in> program_running w" for x
  proof -
    from that t have "x \<in> program_tracked.held lm" by (auto simp: program_tracked.tracked_def)
    then show ?thesis by (auto simp: program_tracked.held_def ran_def)
  qed
  with program_tracked.StopAll_tracked [OF assms(2,3) t, of ou] show ?thesis by blast
qed

text \<open>
  C14: in every state the manager can reach, the listener held under a key is of the type that
  is registered for a source with this key, and runs with the configuration of that source.
\<close>

theorem listeners_match_their_keys:
  assumes "reached ous lm w" and "map_of (listeners_of lm m) k = Some l"
  shows "\<exists>source. generateListenerKey source = Ok k \<and> program_serves w l source"
  using reached_sourced [OF assms(1)] assms(2) unfolding program_typed.sourced_def by blast

text \<open>
  C30: tearing down a Config, with the listeners of all types and in every state the manager can
  reach: the call succeeds, whatever the stops report; the manager forgets this Config and keeps the
  entries of all others; of the running listeners exactly those stop that occupy the place of one
  of its listeners (the listeners themselves, and for webhooks whatever is served at their routes);
  and the server goes on having exactly the routes that it had and that belong to none of its
  webhook listeners.
\<close>

theorem teardown_unregisters_routes:
  assumes "reached ous lm w" and "ou \<in> ous" and "range_order ord1"
  shows "\<exists>w'. ManageListeners (program_env ou) ord1 ord2 m None lm w
        = (Ok (), lm\<lparr>lm_listeners := AList.delete m (lm_listeners lm)\<rparr>, w')
    \<and> program_running w' = {l \<in> program_running w. \<forall>key h. map_of (listeners_of lm m) key = Some h \<longrightarrow> program_slot l \<noteq> program_slot h}
    \<and> (\<forall>rk. HasRoute (lw_server w') rk \<longleftrightarrow>
        HasRoute (lw_server w) rk \<and> (\<forall>key h. map_of (listeners_of lm m) key = Some (HookRef h) \<longrightarrow> wl_routeKey h \<noteq> rk))"
proof -
  obtain w' where run: "ManageListeners (program_env ou) ord1 ord2 m None lm w = (Ok (), lm\<lparr>lm_listeners := AList.delete m (lm_listeners lm)\<rparr>, w')"
    and stopped: "program_running w' = {l \<in> program_running w. \<forall>key h. map_of (listeners_of lm m) key = Some h \<longrightarrow> program_slot l \<noteq> program_slot h}"
    using reached_teardown [OF assms(3,1), of None ou ord2 m] by blast
  have ok: "routes_ok (lw_server w')" "routes_ok (lw_server w)"
    using reached_routes [OF reached.manage [OF assms(1,2) run]] reached_routes [OF assms(1)] .
  have hook: "HasRoute (lw_server v) rk \<longleftrightarrow> (\<exists>h. HookRef h \<in> program_running v \<and> wl_routeKey h = rk)" if "routes_ok (lw_server v)" for v rk
    using HasRoute_serving [OF that] by (auto simp: program_running_def)
  have slot: "program_slot (HookRef h) = program_slot l \<longleftrightarrow> (\<exists>h'. l = HookRef h' \<and> wl_routeKey h' = wl_routeKey h)" for h l
    by (cases l) auto
  have "HasRoute (lw_server w') rk \<longleftrightarrow>
      HasRoute (lw_server w) rk \<and> (\<forall>key h. map_of (listeners_of lm m) key = Some (HookRef h) \<longrightarrow> wl_routeKey h \<noteq> rk)" for rk
    unfolding hook [OF ok(1)] hook [OF ok(2)] stopped using slot by fastforce
  with run stopped show ?thesis by blast
qed

text \<open>An outside in which sockets open and the clusters and clouds answer nothing.\<close>

definition fixture_outside :: "(fixture_world, unit, unit, unit) outside" where
  "fixture_outside =
     \<lparr>ou_kube = fixture_kube [] [] [] [] Map.empty, ou_world = fixture_start,
      ou_net = \<lparr>nt_Listen = (\<lambda>_ n. (None, n)), nt_Close = (\<lambda>_ n. (Some (errors_New ''use of closed network connection''), n))\<rparr>,
      ou_aws = (\<lambda>_ _. Inl Canceled),
      ou_gcp = \<lparr>gc_Default = (\<lambda>_. Some Canceled), gc_JWT = (\<lambda>_ _. Some Canceled), gc_Config = Some Canceled,
        gc_Clientset = Some Canceled, gc_Iam = Some Canceled, gc_CreateToken = (\<lambda>_ _ _ _. Inl Canceled), gc_Do = (\<lambda>_. Inl Canceled),
        gc_Token = (\<lambda>_. Inl Canceled), gc_GenerateAccessToken = (\<lambda>_ _. Inl Canceled), gc_Close = None\<rparr>,
      ou_pubsub = (\<lambda>_ _. Inl Canceled), ou_kenv = fixture_kenv, ou_close = None, ou_done = False\<rparr>"

definition fixture_tcp_source :: NotificationSource where
  "fixture_tcp_source =
     \<lparr>ns_Type = ''TCPSocket'', ns_AwsSqs = None, ns_AzureEventGrid = None, ns_GooglePubSub = None, ns_Webhook = None,
      ns_HashicorpVault = None, ns_KubernetesSecret = None, ns_KubernetesConfigMap = None,
      ns_TCPSocket = Some \<lparr>tcp_Host = ''0.0.0.0'', tcp_Port = 8000, tcp_SecretIdentifierOnPayload = ''name''\<rparr>, ns_Mock = None\<rparr>"

text \<open>A manager with a TCP listener, whose socket reports an error when it is closed.\<close>

lemma fixture_reached:
  "\<exists>lm w m k. reached {fixture_outside} lm w \<and> Ref 0 \<in> program_running w \<and> map_of (listeners_of lm m) k = Some (Ref 0)"
proof -
  let ?w = "\<lparr>lw_server = NewWebhookServer [], lw_net = (), lw_heap = []\<rparr> :: (unit, unit, unit) lworld"
  obtain key where key: "generateListenerKey fixture_tcp_source = Ok key"
    by (auto simp: generateListenerKey_def source_config_def fixture_tcp_source_def Let_def)
  have tcp: "listener_GetProvider (le_providers (program_env ou)) ''TCPSocket''
      = Some (\<lambda>source. alloc (map_result TcpL (tcp_CreateListener (ou_done ou) (Some source))))" for ou
    by (simp add: program_provider providers_def AZURE_EVENT_GRID_def HASHICORP_VAULT_def
        KUBERNETES_CONFIG_MAP_def KUBERNETES_SECRET_def MOCK_def GOOGLE_PUB_SUB_def AWS_SQS_def TCP_SOCKET_def)
  define h :: "(unit, unit) Listener" where "h = TcpL \<lparr>ts_config = ns_TCPSocket fixture_tcp_source, ts_done = False, ts_processFn = DefaultProcessFn,
    ts_listener = None, ts_accepting = False\<rparr>"
  define h' :: "(unit, unit) Listener" where "h' = TcpL \<lparr>ts_config = ns_TCPSocket fixture_tcp_source, ts_done = False, ts_processFn = DefaultProcessFn,
    ts_listener = Some (socket_addr ''0.0.0.0'' 8000), ts_accepting = True\<rparr>"
  let ?v = "?w\<lparr>lw_heap := [h]\<rparr>" and ?u = "?w\<lparr>lw_heap := [h']\<rparr>"
  have ty: "ns_Type fixture_tcp_source = ''TCPSocket''" "''TCPSocket'' \<noteq> WEBHOOK" by (simp_all add: fixture_tcp_source_def WEBHOOK_def)
  have new: "alloc (map_result TcpL (tcp_CreateListener (ou_done fixture_outside) (Some fixture_tcp_source))) ?w = (Ok (Ref 0), ?v)"
    by (simp add: alloc_def tcp_CreateListener_def NewTCPSocketListener_def SetProcessFn_def fixture_tcp_source_def fixture_outside_def h_def)
  have st: "le_Start (program_env fixture_outside) (Ref 0) ?v = (Ok (), ?u)"
    by (simp add: program_env_def on_heap_def with_net_def tcp_Start_def fixture_tcp_source_def fixture_outside_def h_def h'_def Let_def)
  have add: "add_listener (program_env fixture_outside) c n key fixture_tcp_source [] ?w = (Ok (), [(key, Ref 0)], ?u)" for c n
    using new st by (simp add: add_listener_def ty tcp start_and_enter_def)
  let ?lm = "\<lparr>lm_listeners = [(fixture_manifest, [(key, Ref 0)])]\<rparr>"
  have run: "ManageListeners (program_env fixture_outside) rev rev fixture_manifest (Some [fixture_tcp_source]) NewListenerManager ?w
      = (Ok (), ?lm, ?u)"
    using key add ty by (simp add: ManageListeners_def Validate_def validateUniqueWebhookPathSuffixes_def webhookNotificationSourceType_def
        listeners_of_def NewListenerManager_def set_listeners_def Let_def)
  have act: "Ref 0 \<in> program_running ?u" by (simp add: program_running_def h'_def)
  have "reached {fixture_outside} ?lm ?u" by (rule reached.manage [OF reached.start _ run]) simp
  moreover have "map_of (listeners_of ?lm fixture_manifest) key = Some (Ref 0)" by (simp add: listeners_of_def)
  ultimately show ?thesis using act by blast
qed

theorem teardown_unregisters_routes_witness:
  "\<exists>lm w m lm' w'. reached {fixture_outside} lm w \<and> Ref 0 \<in> program_running w
     \<and> ManageListeners (program_env fixture_outside) rev rev m None lm w = (Ok (), lm', w') \<and> Ref 0 \<notin> program_running w'"
proof -
  obtain lm w m k where lm: "reached {fixture_outside} lm w" "Ref 0 \<in> program_running w" "map_of (listeners_of lm m) k = Some (Ref 0)"
    using fixture_reached by blast
  from teardown_unregisters_routes [OF lm(1) _ range_order_rev, of fixture_outside rev m] lm show ?thesis by blast
qed

theorem program_shutdown_witness:
  "\<exists>lm w r lm' w'. reached {fixture_outside} lm w \<and> Ref 0 \<in> program_running w
     \<and> StopAll (program_env fixture_outside) rev sort lm w = (r, lm', w') \<and> returns r \<and> program_running w' = {}"
proof -
  obtain lm w where lm: "reached {fixture_outside} lm w" "Ref 0 \<in> program_running w" using fixture_reached by blast
  with program_shutdown [OF lm(1) range_order_rev range_order_sort, of fixture_outside] show ?thesis by blast
qed

theorem listeners_match_their_keys_witness:
  "\<exists>lm w m k source. reached {fixture_outside} lm w \<and> map_of (listeners_of lm m) k = Some (Ref 0)
     \<and> generateListenerKey source = Ok k \<and> program_serves w (Ref 0) source"
proof -
  obtain lm w m k where lm: "reached {fixture_outside} lm w" "map_of (listeners_of lm m) k = Some (Ref 0)" using fixture_reached by blast
  from listeners_match_their_keys [OF lm] lm show ?thesis by blast
qed

end
