(* ===== verification/System.thy ===== *)
theory System
  imports Controller Listeners
begin

text \<open>
  The parts put together, as \<^verbatim>\<open>SetupWithManager\<close> does: the reconciler with its listener manager, the
  listeners with the shared webhook server, the event channel with its pump, the event handler and
  the cluster. The steps of the system are reconciliations, requests to the webhook server, events
  of other sources, the steps of the pump, the handling of an event, what others do to the cluster
  and the network, and the shutdown.
\<close>

section \<open>Listeners beside a cluster\<close>

text \<open>The listeners' environment and the API client on a world that has both parts.\<close>

definition on_left :: "('a \<times> 'w) \<Rightarrow> 'k \<Rightarrow> 'a \<times> 'w \<times> 'k" where
  "on_left r k = (case r of (x, w) \<Rightarrow> (x, w, k))"

definition beside :: "('l, 'w) listener_env \<Rightarrow> ('l, 'w \<times> 'k) listener_env" where
  "beside env =
     \<lparr>le_providers = (\<lambda>t. map_option (map_option (\<lambda>create source w. on_left (create source (fst w)) (snd w))) (le_providers env t)),
      le_Start = (\<lambda>l w. on_left (le_Start env l (fst w)) (snd w)),
      le_Stop = (\<lambda>l w. on_left (le_Stop env l (fst w)) (snd w)),
      le_hook = le_hook env\<rparr>"

definition api_beside :: "'k config_api \<Rightarrow> ('w \<times> 'k) config_api" where
  "api_beside api =
     \<lparr>ca_Get = (\<lambda>w n. ca_Get api (snd w) n),
      ca_Update = (\<lambda>w c. case ca_Update api (snd w) c of (e, k) \<Rightarrow> (e, fst w, k)),
      ca_ContainsFinalizer = ca_ContainsFinalizer api,
      ca_AddFinalizer = ca_AddFinalizer api,
      ca_RemoveFinalizer = ca_RemoveFinalizer api,
      ca_Now = (\<lambda>w. ca_Now api (snd w))\<rparr>"

definition on_left3 :: "('a \<times> 'b \<times> 'w) \<Rightarrow> 'k \<Rightarrow> 'a \<times> 'b \<times> 'w \<times> 'k" where
  "on_left3 r k = (case r of (x, y, w) \<Rightarrow> (x, y, w, k))"

lemma stop_unwanted_beside:
  "stop_unwanted (beside env) W keys cur (w, k) = on_left3 (stop_unwanted env W keys cur w) k"
proof (induction keys arbitrary: cur w)
  case (Cons key keys)
  show ?case
  proof (cases "map_of cur key")
    case None
    with Cons show ?thesis by (simp add: on_left3_def)
  next
    case (Some l)
    obtain x w1 where "le_Stop env l w = (x, w1)" by (cases "le_Stop env l w")
    with Some Cons show ?thesis by (cases x) (simp_all add: beside_def on_left_def on_left3_def)
  qed
qed (simp add: on_left3_def)

lemma start_and_enter_beside:
  "start_and_enter (beside env) key l cur (w, k) = on_left3 (start_and_enter env key l cur w) k"
  by (cases "le_Start env l w"; cases "fst (le_Start env l w)") (simp_all add: start_and_enter_def beside_def on_left_def on_left3_def)

lemma GetProvider_beside:
  "listener_GetProvider (le_providers (beside env)) t =
     map_option (\<lambda>create source w. on_left (create source (fst w)) (snd w)) (listener_GetProvider (le_providers env) t)"
  by (simp add: beside_def listener_GetProvider_def split: option.split)

lemma hook_beside [simp]: "le_hook (beside env) = le_hook env"
  by (simp add: beside_def)

lemma add_listener_beside:
  "add_listener (beside env) c n key source cur (w, k) = on_left3 (add_listener env c n key source cur w) k"
proof (cases "listener_GetProvider (le_providers env) (ns_Type source)")
  case None
  then show ?thesis
    by (simp add: add_listener_def GetProvider_beside start_and_enter_beside on_left3_def Let_def split: option.split)
next
  case (Some create)
  obtain x w1 where "create source w = (x, w1)" by (cases "create source w")
  with Some show ?thesis
    by (cases x)
      (simp_all add: add_listener_def GetProvider_beside start_and_enter_beside on_left_def on_left3_def Let_def split: option.split)
qed

lemma add_listeners_beside:
  "add_listeners (beside env) c n desired keys cur (w, k) = on_left3 (add_listeners env c n desired keys cur w) k"
proof (induction keys arbitrary: cur w)
  case (Cons key keys)
  show ?case
  proof (cases "map_of desired key")
    case None
    with Cons show ?thesis by simp
  next
    case (Some source)
    obtain x cur1 w1 where "add_listener env c n key source cur w = (x, cur1, w1)"
      by (cases "add_listener env c n key source cur w")
    with Some Cons show ?thesis by (cases x) (simp_all add: add_listener_beside on_left3_def)
  qed
qed (simp add: on_left3_def)

lemma ManageListeners_beside:
  "ManageListeners (beside env) ord1 ord2 m sources lm (w, k) = on_left3 (ManageListeners env ord1 ord2 m sources lm w) k"
proof (cases "sources_valid sources")
  case False
  then obtain e where "ManageListeners env ord1 ord2 m sources lm w = (Err e, lm, w)"
    "ManageListeners (beside env) ord1 ord2 m sources lm (w, k) = (Err e, lm, w, k)"
    by (auto simp: ManageListeners_def validation_outcome)
  then show ?thesis by (simp add: on_left3_def)
next
  case True
  obtain r1 cur1 w1 where s: "stop_unwanted env (fst ` set (desired_of sources)) (ord1 (map fst (listeners_of lm m))) (listeners_of lm m) w = (r1, cur1, w1)"
    by (metis prod_cases3)
  obtain r2 cur2 w2 where a: "add_listeners env (nn_Name m) (webhook_count (desired_of sources)) (desired_of sources)
      (ord2 (map fst (desired_of sources))) cur1 w1 = (r2, cur2, w2)" by (metis prod_cases3)
  have "stop_unwanted (beside env) (fst ` set (desired_of sources)) (ord1 (map fst (listeners_of lm m))) (listeners_of lm m) (w, k) = (r1, cur1, w1, k)"
    "add_listeners (beside env) (nn_Name m) (webhook_count (desired_of sources)) (desired_of sources)
      (ord2 (map fst (desired_of sources))) cur1 (w1, k) = (r2, cur2, w2, k)"
    using s a by (simp_all add: stop_unwanted_beside add_listeners_beside on_left3_def)
  from ManageListeners_run [of sources "beside env" ord1 lm m "(w, k)" r1 cur1 "(w1, k)" ord2 r2 cur2 "(w2, k)", OF True this]
    ManageListeners_run [of sources env ord1 lm m w r1 cur1 w1 ord2 r2 cur2 w2, OF True s a] show ?thesis by (simp add: on_left3_def)
qed

text \<open>Reconciliations keep the manager within its reachable states.\<close>

lemma manage_beside:
  "manage (beside env) ord1 ord2 m sources r (w, k) = on_left3 (manage env ord1 ord2 m sources r w) k"
  by (simp add: manage_def ManageListeners_beside on_left3_def split: prod.split)

lemma manage_reached:
  assumes "reached ous (rr_listenerManager r) w" and "ou \<in> ous" and "manage (beside (program_env ou)) ord1 ord2 m sources r (w, k) = (x, r', w', k')"
  shows "reached ous (rr_listenerManager r') w'" and "k' = k"
proof -
  obtain lm where "ManageListeners (program_env ou) ord1 ord2 m sources (rr_listenerManager r) w = (x, lm, w')" "r' = r\<lparr>rr_listenerManager := lm\<rparr>" "k' = k"
    using assms(3) unfolding manage_beside by (auto simp: manage_def on_left3_def split: prod.splits)
  then show "reached ous (rr_listenerManager r') w'" "k' = k" using reached.manage [OF assms(1,2)] by simp_all
qed

lemma sync_config_reached:
  assumes "reached ous (rr_listenerManager r) w" and "ou \<in> ous" and "sync_config (beside (program_env ou)) ord1 ord2 m cfg r (w, k) = (x, r', w', k')"
  shows "reached ous (rr_listenerManager r') w'"
proof -
  let ?r = "r\<lparr>rr_eventHandler := UpdateDestinationsToWatch (cs_DestinationsToWatch (cfg_Spec cfg)) (rr_eventHandler r)\<rparr>"
  obtain y where "manage (beside (program_env ou)) ord1 ord2 m (Some (cs_NotificationSources (cfg_Spec cfg))) ?r (w, k) = (y, r', w', k')"
    using assms(3) by (auto simp: sync_config_def Let_def split: prod.splits)
  from manage_reached(1) [OF _ assms(2) this] assms(1) show ?thesis by simp
qed

lemma api_beside_simps [simp]:
  "ca_Get (api_beside api) (w, k) n = ca_Get api k n"
  "ca_Update (api_beside api) (w, k) c = (case ca_Update api k c of (e, k') \<Rightarrow> (e, w, k'))"
  "ca_Now (api_beside api) (w, k) = ca_Now api k"
  by (simp_all add: api_beside_def)

lemma Reconcile_reached:
  assumes "reached ous (rr_listenerManager r) w" and "ou \<in> ous"
    and "Reconcile (api_beside api) (beside (program_env ou)) ord1 ord2 req r (w, k) = (x, r', w', k')"
  shows "reached ous (rr_listenerManager r') w'"
proof -
  note m = manage_reached(1) [OF assms(1,2)] and s = sync_config_reached [OF assms(1,2)]
  show ?thesis
  proof (cases "ca_Get api k req")
    case (Inl e)
    with assms(1,3) m show ?thesis by (fastforce simp: Reconcile_def split: if_splits prod.splits)
  next
    case (Inr cfg)
    show ?thesis
      using assms(1,3) Inr
      by (auto simp: Reconcile_def Let_def split: if_splits prod.splits option.splits result.splits dest: m s)
  qed
qed

section \<open>Setup and shutdown\<close>

text \<open>
  \<^verbatim>\<open>SetupWithManager\<close>: the listener manager is made and the pump started, then the shutdown function
  and the controller are registered, each of which may fail.
\<close>

definition SetupWithManager ::
  "error option \<Rightarrow> error option \<Rightarrow> 'l ReloaderReconciler \<Rightarrow> unit result \<times> 'l ReloaderReconciler \<times> pump" where
  "SetupWithManager add_err complete_err r =
     (let r' = r\<lparr>rr_listenerManager := NewListenerManager\<rparr>; p = pump_init in
      case add_err of
        Some err \<Rightarrow> (Err err, r', p)
      | None \<Rightarrow> (case complete_err of Some err \<Rightarrow> (Err err, r', p) | None \<Rightarrow> (Ok (), r', p)))"

text \<open>The registered function once its context is done: cancel the controller's context, stop all listeners.\<close>

definition graceful_shutdown ::
  "('l, 'w) listener_env \<Rightarrow> (NamespacedName list \<Rightarrow> NamespacedName list) \<Rightarrow> (string list \<Rightarrow> string list)
    \<Rightarrow> 'l ReloaderReconciler \<Rightarrow> pump \<Rightarrow> 'w \<Rightarrow> unit result \<times> 'l ReloaderReconciler \<times> pump \<times> 'w" where
  "graceful_shutdown env ord1 ord2 r p w =
     (let p' = p\<lparr>pm_cancelled := True\<rparr> in
      case StopAll env ord1 ord2 (rr_listenerManager r) w of (x, lm, w') \<Rightarrow> (x, r\<lparr>rr_listenerManager := lm\<rparr>, p', w'))"

section \<open>The system\<close>

text \<open>
  Where an event came from: a request, with the server that answered it, the cluster and the time of
  the answer; or one of the other sources, which never sign an event as the webhooks do.
\<close>

datatype 'w cause = WebhookRequest Request WebhookServer 'w int | OtherSource

text \<open>\<open>sy_causes\<close> records the cause of every event sent so far.\<close>

record ('n, 'c, 'g, 'w) system =
  sy_reconciler :: "listener_ref ReloaderReconciler"
  sy_listeners :: "('n, 'c, 'g) lworld"
  sy_cluster :: 'w
  sy_pump :: pump
  sy_causes :: "(SecretRotationEvent \<times> 'w cause) list"

text \<open>What the program is given: the API for Configs, the outside of the listeners, gjson and the clock of the webhooks.\<close>

record ('w, 'n, 'c, 'g) program =
  pr_api :: "'w config_api"
  pr_outside :: "('w, 'n, 'c, 'g) outside"
  pr_web :: web
  pr_fuel :: nat

definition outside_at :: "('w, 'n, 'c, 'g) program \<Rightarrow> ('n, 'c, 'g, 'w) system \<Rightarrow> ('w, 'n, 'c, 'g) outside" where
  "outside_at pr s = (pr_outside pr)\<lparr>ou_world := sy_cluster s, ou_done := pm_cancelled (sy_pump s)\<rparr>"

abbreviation pr_kube :: "('w, 'n, 'c, 'g) program \<Rightarrow> 'w kube" where
  "pr_kube pr \<equiv> ou_kube (pr_outside pr)"

abbreviation pr_handlers :: "('w, 'n, 'c, 'g) program \<Rightarrow> 'w Processor.provider sync_map" where
  "pr_handlers pr \<equiv> handler_registry (pr_kube pr) (pr_fuel pr)"

definition system_init :: "string \<Rightarrow> 'n \<Rightarrow> 'w \<Rightarrow> ('n, 'c, 'g, 'w) system" where
  "system_init addr n k =
     (case SetupWithManager None None NewReloaderReconciler of
        (_, r, p) \<Rightarrow>
          \<lparr>sy_reconciler = r, sy_listeners = \<lparr>lw_server = NewWebhookServer addr, lw_net = n, lw_heap = []\<rparr>,
           sy_cluster = k, sy_pump = p, sy_causes = []\<rparr>)"

text \<open>Events on their way: appended to the channel's buffer.\<close>

definition enqueue :: "SecretRotationEvent list \<Rightarrow> pump \<Rightarrow> pump" where
  "enqueue evs p = p\<lparr>pm_buffer := pm_buffer p @ evs, pm_sent := pm_sent p @ evs\<rparr>"

datatype action =
    Reconciled NamespacedName
  | Requested Request
  | Published SecretRotationEvent
  | Dispatched SecretRotationEvent
  | Handled SecretRotationEvent
  | PumpLeft
  | OthersActed
  | ShutDown

text \<open>
  One step of one of the goroutines. A request and a reconciliation are one step each, as is the
  handling of an event; a handling that panics ends the process, so that no step follows it.
\<close>

inductive system_step :: "('w, 'n, 'c, 'g) program \<Rightarrow> action \<Rightarrow> ('n, 'c, 'g, 'w) system \<Rightarrow> ('n, 'c, 'g, 'w) system \<Rightarrow> bool" for pr where
  reconcile:
    "Reconcile (api_beside (pr_api pr)) (beside (program_env (outside_at pr s))) ord1 ord2 req (sy_reconciler s) (sy_listeners s, sy_cluster s)
       = (x, r', lw', k') \<Longrightarrow> range_order ord1 \<Longrightarrow> range_order ord2 \<Longrightarrow>
     system_step pr (Reconciled req) s (s\<lparr>sy_reconciler := r', sy_listeners := lw', sy_cluster := k'\<rparr>)"
| request:
    "ServeHTTP (pr_web pr) (pr_kube pr) (sy_cluster s) (lw_server (sy_listeners s)) new_response rq st = (x, resp, st') \<Longrightarrow>
     rt_out st = [] \<Longrightarrow> length (pm_buffer (sy_pump s)) + length (rt_out st') \<le> eventChannelBufferSize \<Longrightarrow>
     system_step pr (Requested rq) s
       (s\<lparr>sy_pump := enqueue (rt_out st') (sy_pump s),
          sy_causes := sy_causes s
            @ map (\<lambda>ev. (ev, WebhookRequest rq (lw_server (sy_listeners s)) (sy_cluster s) (rt_now st))) (rt_out st')\<rparr>)"
| publish:
    "length (pm_buffer (sy_pump s)) < eventChannelBufferSize \<Longrightarrow> ev_TriggerSource ev \<noteq> WEBHOOK \<Longrightarrow>
     system_step pr (Published ev) s (s\<lparr>sy_pump := enqueue [ev] (sy_pump s), sy_causes := sy_causes s @ [(ev, OtherSource)]\<rparr>)"
| dispatch:
    "pm_running (sy_pump s) \<Longrightarrow> pm_buffer (sy_pump s) = ev # rest \<Longrightarrow>
     system_step pr (Dispatched ev) s
       (s\<lparr>sy_pump := start_handler ev (sy_pump s)\<rparr>)"
| handle:
    "ev \<in> set (pm_active (sy_pump s)) \<Longrightarrow>
     HandleEvent (pr_handlers pr) (rr_eventHandler (sy_reconciler s)) ev (sy_cluster s) = (x, k') \<Longrightarrow> returns x \<Longrightarrow>
     system_step pr (Handled ev) s (s\<lparr>sy_pump := end_handler ev (sy_pump s), sy_cluster := k'\<rparr>)"
| leave:
    "pm_cancelled (sy_pump s) \<Longrightarrow> system_step pr PumpLeft s (s\<lparr>sy_pump := (sy_pump s)\<lparr>pm_running := False\<rparr>\<rparr>)"
| others:
    "system_step pr OthersActed s (s\<lparr>sy_cluster := k', sy_listeners := (sy_listeners s)\<lparr>lw_net := n'\<rparr>\<rparr>)"
| shutdown:
    "graceful_shutdown (program_env (outside_at pr s)) ord1 ord2 (sy_reconciler s) (sy_pump s) (sy_listeners s) = (x, r', p', lw') \<Longrightarrow>
     range_order ord1 \<Longrightarrow> range_order ord2 \<Longrightarrow>
     system_step pr ShutDown s (s\<lparr>sy_reconciler := r', sy_pump := p', sy_listeners := lw'\<rparr>)"

inductive_cases system_stepE: "system_step pr a s s'"

inductive system_run :: "('w, 'n, 'c, 'g) program \<Rightarrow> ('n, 'c, 'g, 'w) system \<Rightarrow> action list \<Rightarrow> ('n, 'c, 'g, 'w) system \<Rightarrow> bool" for pr where
  stay: "system_run pr s [] s"
| step: "system_run pr s as s1 \<Longrightarrow> system_step pr a s1 s2 \<Longrightarrow> system_run pr s (as @ [a]) s2"

section \<open>The event channel within the system\<close>

text \<open>A step of the system is, for the channel and its pump, no step or one of theirs.\<close>

lemma ServeHTTP_events:
  assumes "ServeHTTP wb k kw s new_response rq st = (x, resp, st')" and "rt_out st = []"
  obtains "rt_out st' = []" | ev where "rt_out st' = [ev]"
  using ServeHTTP_authorised [OF assms(1)] assms(2) by fastforce

lemma enqueue_Nil [simp]: "enqueue [] p = p"
  by (simp add: enqueue_def)

lemma system_step_pump: "system_step pr a s s' \<Longrightarrow> sy_pump s' = sy_pump s \<or> pump_step (sy_pump s) (sy_pump s')"
proof (induction rule: system_step.induct)
  case (request s rq st x resp st')
  then show ?case
    by (elim ServeHTTP_events) (auto simp: enqueue_def intro: pump_step.send)
next
  case (publish s ev)
  then show ?case by (auto simp: enqueue_def intro: pump_step.send)
next
  case (shutdown s ord1 ord2 x r' p' lw')
  then have "p' = (sy_pump s)\<lparr>pm_cancelled := True\<rparr>" by (auto simp: graceful_shutdown_def split: prod.splits)
  then show ?case by (auto intro: pump_step.cancel)
qed (auto intro: pump_step.intros)

section \<open>What the system keeps\<close>

text \<open>
  An event is justified by a request that was a POST to the path of a route the server had then,
  with the credentials of that route in the cluster of that time, and that named the secret; or it is
  not signed as a webhook event.
\<close>

fun justified :: "('w, 'n, 'c, 'g) program \<Rightarrow> SecretRotationEvent \<times> 'w cause \<Rightarrow> bool" where
  "justified pr (ev, WebhookRequest rq srv k now) \<longleftrightarrow>
     (\<exists>key rte ident. rq_Method rq = ''POST'' \<and> rq_Path rq = ''/webhook/'' @ key \<and> map_of (ws_routes srv) key = Some rte
        \<and> authorised (pr_kube pr) k rte (rq_Header rq) \<and> identifies (pr_web pr) rte rq ident
        \<and> ev = webhook_event (pr_web pr) ident now)"
| "justified pr (ev, OtherSource) \<longleftrightarrow> ev_TriggerSource ev \<noteq> WEBHOOK"

text \<open>Its manager and listeners are in one of the states that \<^const>\<open>reached\<close> describes, whatever the outside held at each call.\<close>

abbreviation listeners_reached :: "('n, 'c, 'g, 'w) system \<Rightarrow> bool" where
  "listeners_reached s \<equiv> reached (UNIV :: ('w, 'n, 'c, 'g) outside set) (rr_listenerManager (sy_reconciler s)) (sy_listeners s)"

definition system_ok :: "('w, 'n, 'c, 'g) program \<Rightarrow> ('n, 'c, 'g, 'w) system \<Rightarrow> bool" where
  "system_ok pr s \<longleftrightarrow>
     listeners_reached s \<and> pump_ok (sy_pump s)
     \<and> map fst (sy_causes s) = pm_sent (sy_pump s) \<and> list_all (justified pr) (sy_causes s)"

lemma system_ok_init: "system_ok pr (system_init addr n k)"
  by (simp add: system_ok_def system_init_def SetupWithManager_def pump_ok_init reached.start) (simp add: pump_init_def)

lemma request_justified:
  assumes "ServeHTTP (pr_web pr) (pr_kube pr) k srv new_response rq st = (x, resp, st')" and "rt_out st = []" and "ev \<in> set (rt_out st')"
  shows "justified pr (ev, WebhookRequest rq srv k (rt_now st))"
  using ServeHTTP_authorised [OF assms(1)] assms(2,3) by fastforce

lemma step_reached:
  assumes "system_step pr a s s'" and "listeners_reached s"
  shows "listeners_reached s'"
  using assms
proof (induction rule: system_step.induct)
  case (reconcile s ord1 ord2 req x r' lw' k')
  with Reconcile_reached [OF reconcile.prems UNIV_I reconcile.hyps(1)] show ?case by simp
next
  case (others s k' n')
  then show ?case by (simp add: reached.net)
next
  case (shutdown s ord1 ord2 x r' p' lw')
  then obtain lm where "StopAll (program_env (outside_at pr s)) ord1 ord2 (rr_listenerManager (sy_reconciler s)) (sy_listeners s) = (x, lm, lw')"
    "rr_listenerManager r' = lm"
    by (auto simp: graceful_shutdown_def split: prod.splits)
  with reached.stop [OF shutdown.prems UNIV_I shutdown.hyps(2,3)] show ?case by simp
qed simp_all

lemma step_causes:
  assumes "system_step pr a s s'" and "map fst (sy_causes s) = pm_sent (sy_pump s)" and "list_all (justified pr) (sy_causes s)"
  shows "map fst (sy_causes s') = pm_sent (sy_pump s') \<and> list_all (justified pr) (sy_causes s')"
  using assms
proof (induction rule: system_step.induct)
  case (request s rq st x resp st')
  with request_justified [OF request.hyps(1,2)] show ?case
    by (simp add: enqueue_def comp_def list_all_iff del: justified.simps) blast
next
  case (shutdown s ord1 ord2 x r' p' lw')
  then show ?case by (auto simp: graceful_shutdown_def split: prod.splits)
qed (simp_all add: enqueue_def)

lemma system_ok_step: "system_step pr a s s' \<Longrightarrow> system_ok pr s \<Longrightarrow> system_ok pr s'"
  using step_reached step_causes system_step_pump [of pr a s s'] pump_ok_step
  unfolding system_ok_def by metis

lemma system_ok_run: "system_run pr s as s' \<Longrightarrow> system_ok pr s \<Longrightarrow> system_ok pr s'"
  by (induction rule: system_run.induct) (auto intro: system_ok_step)

lemma system_run_append: "system_run pr s1 bs s2 \<Longrightarrow> system_run pr s as s1 \<Longrightarrow> system_run pr s (as @ bs) s2"
  by (induction rule: system_run.induct) (auto intro: system_run.step simp flip: append_assoc)

lemma system_run_single: "system_step pr a s s' \<Longrightarrow> system_run pr s [a] s'"
  using system_run.step [OF system_run.stay] by fastforce

lemma active_has_cause:
  assumes "system_ok pr s" and "ev \<in> set (pm_active (sy_pump s))"
  shows "\<exists>c. (ev, c) \<in> set (sy_causes s) \<and> justified pr (ev, c)"
proof -
  have "mset (pm_active (sy_pump s)) \<subseteq># mset (pm_dispatched (sy_pump s))"
    "pm_sent (sy_pump s) = pm_dispatched (sy_pump s) @ pm_buffer (sy_pump s)"
    using assms(1) by (simp_all add: system_ok_def pump_ok_def)
  with assms(2) have "ev \<in> set (pm_sent (sy_pump s))" using set_mset_mono by fastforce
  then have "ev \<in> fst ` set (sy_causes s)" using assms(1) unfolding system_ok_def by (metis list.set_map)
  then obtain c where "(ev, c) \<in> set (sy_causes s)" by auto
  moreover have "justified pr (ev, c)" using calculation assms(1) by (auto simp: system_ok_def list_all_iff)
  ultimately show ?thesis by blast
qed

section \<open>Properties of the system\<close>

text \<open>
  Whatever happened before, in any interleaving of reconciliations, requests, other sources,
  event handlers and shutdowns, an event that is being handled has a cause: if it is signed as a
  webhook event, there was an authorised POST to a route registered at that time whose body names its
  secret; and the handling, however it ends, writes nothing but the updates of the objects that a
  watched destination selects and that reference the secret.
\<close>

theorem writes_have_a_cause:
  assumes "system_run pr (system_init addr n k) as s" and "ev \<in> set (pm_active (sy_pump s))"
    and "HandleEvent (pr_handlers pr) (rr_eventHandler (sy_reconciler s)) ev (sy_cluster s) = (x, k')"
  shows "\<exists>c. (ev, c) \<in> set (sy_causes s) \<and> justified pr (ev, c)
    \<and> world_path (pr_kube pr) (touched (pr_handlers pr) (eh_cache (rr_eventHandler (sy_reconciler s))) ev) (sy_cluster s) k'"
proof -
  obtain c where "(ev, c) \<in> set (sy_causes s)" "justified pr (ev, c)"
    using active_has_cause [OF system_ok_run [OF assms(1) system_ok_init] assms(2)] by blast
  moreover have "k' = snd (handle_cache (pr_handlers pr) (eh_cache (rr_eventHandler (sy_reconciler s))) ev (sy_cluster s))"
    using assms(3) by (simp add: HandleEvent_def)
  ultimately show ?thesis by (auto simp del: justified.simps intro!: exI [of _ c] handle_cache_path)
qed

text \<open>
  C5: the shutdown of the program, from any state it can be in: it returns, the manager has held
  every listener that ran and has none left, none runs, the controller's context is cancelled, and
  from then on the server refuses every request with 404 or 405 without publishing anything.
\<close>

theorem system_shutdown:
  assumes "system_run pr (system_init addr n k) as s" and "range_order ord1" "range_order ord2"
  shows "(\<forall>l \<in> program_running (sy_listeners s). \<exists>m key. map_of (listeners_of (rr_listenerManager (sy_reconciler s)) m) key = Some l)
    \<and> (\<exists>x r' p' lw'. graceful_shutdown (program_env (outside_at pr s)) ord1 ord2 (sy_reconciler s) (sy_pump s) (sy_listeners s) = (x, r', p', lw')
    \<and> returns x \<and> (\<forall>m. listeners_of (rr_listenerManager r') m = []) \<and> program_running lw' = {} \<and> pm_cancelled p'
    \<and> (\<forall>wb kube kw rq st. \<exists>resp. ServeHTTP wb (kube :: 'v kube) kw (lw_server lw') new_response rq st = (Ok (), resp, st)
        \<and> rw_Status resp \<in> {Some 404, Some 405}))"
proof -
  let ?lm = "rr_listenerManager (sy_reconciler s)" and ?env = "program_env (outside_at pr s)"
  have r: "listeners_reached s"
    using system_ok_run [OF assms(1) system_ok_init] by (simp add: system_ok_def)
  obtain x lm w where stop: "StopAll ?env ord1 ord2 ?lm (sy_listeners s) = (x, lm, w)" "returns x"
    "\<forall>m. listeners_of lm m = []" "program_running w = {}"
    using program_shutdown [OF r assms(2,3)] by blast
  have "ws_routes (lw_server w) = []"
    by (rule routes_gone [OF reached_routes [OF reached.stop [OF r UNIV_I assms(2,3) stop(1)]] stop(4)])
  then have "\<exists>resp. ServeHTTP wb kube kw (lw_server w) new_response rq st = (Ok (), resp, st) \<and> rw_Status resp \<in> {Some 404, Some 405}"
    for wb and kube :: "'v kube" and kw rq st
    by (auto simp: ServeHTTP_def response_defs new_response_def split: option.split)
  with stop conjunct1 [OF program_shutdown [OF r assms(2,3)]] show ?thesis by (auto simp: graceful_shutdown_def)
qed

text \<open>The pump hands the buffered events to handlers, and nothing else changes meanwhile.\<close>

lemma system_drains:
  "pm_running (sy_pump s) \<Longrightarrow> \<exists>s'. system_run pr s (map Dispatched (pm_buffer (sy_pump s))) s'
     \<and> sy_cluster s' = sy_cluster s \<and> sy_reconciler s' = sy_reconciler s
     \<and> set (pm_buffer (sy_pump s)) \<union> set (pm_active (sy_pump s)) \<subseteq> set (pm_active (sy_pump s'))"
proof (induction "pm_buffer (sy_pump s)" arbitrary: s)
  case Nil
  then show ?case by (intro exI [of _ s]) (simp add: system_run.stay)
next
  case (Cons ev rest)
  let ?s = "s\<lparr>sy_pump := start_handler ev (sy_pump s)\<rparr>"
  have buffer: "pm_buffer (sy_pump s) = ev # rest" using Cons.hyps(2) by simp
  have step: "system_step pr (Dispatched ev) s ?s" using Cons.prems buffer by (rule system_step.dispatch)
  from Cons.hyps(1) [of ?s] Cons.prems buffer obtain s' where s': "system_run pr ?s (map Dispatched rest) s'" "sy_cluster s' = sy_cluster s"
    "sy_reconciler s' = sy_reconciler s" "set rest \<union> set (ev # pm_active (sy_pump s)) \<subseteq> set (pm_active (sy_pump s'))" by auto
  from system_run_append [OF s'(1) system_run_single [OF step]] s'(2-) Cons.hyps(2) [symmetric] show ?case by auto
qed

lemma handle_undisturbed:
  assumes "undisturbed (pr_handlers pr) (eh_cache (rr_eventHandler (sy_reconciler s))) ev" and "ev \<in> set (pm_active (sy_pump s))"
  shows "\<exists>s'. system_step pr (Handled ev) s s'
    \<and> sy_cluster s' = fold (destination_effect (pr_kube pr) (pr_handlers pr) ev) (eh_cache (rr_eventHandler (sy_reconciler s))) (sy_cluster s)"
proof -
  let ?k = "fold (destination_effect (pr_kube pr) (pr_handlers pr) ev) (eh_cache (rr_eventHandler (sy_reconciler s))) (sy_cluster s)"
  have "HandleEvent (pr_handlers pr) (rr_eventHandler (sy_reconciler s)) ev (sy_cluster s) = (Ok (), ?k)"
    unfolding HandleEvent_def using assms(1) by (rule handle_cache_all) simp
  from system_step.handle [OF assms(2) this] have "system_step pr (Handled ev) s
      (s\<lparr>sy_pump := end_handler ev (sy_pump s), sy_cluster := ?k\<rparr>)" by simp
  moreover have "sy_cluster (s\<lparr>sy_pump := p, sy_cluster := c\<rparr>) = c" for p c by simp
  ultimately show ?thesis by blast
qed

lemma ServeHTTP_accepted:
  assumes "ServeHTTP wb k kw srv new_response rq st = (x, resp, st')" and "rw_Status resp = Some 204"
  shows "rt_out st' \<noteq> rt_out st"
proof -
  have post: "rq_Method rq = ''POST''" using assms by (auto simp: ServeHTTP_def response_defs new_response_def split: if_splits)
  obtain key where key: "routeKeyFromPath (rq_Path rq) = Some key"
    using assms post by (cases "routeKeyFromPath (rq_Path rq)") (auto simp: ServeHTTP_def response_defs new_response_def)
  obtain rte where rte: "map_of (ws_routes srv) key = Some rte"
    using assms post key by (cases "map_of (ws_routes srv) key") (auto simp: ServeHTTP_def response_defs new_response_def)
  obtain y w1 st1 where h: "handle wb k kw rte new_response rq (st\<lparr>rt_done := r_done rte\<rparr>) = (y, w1, st1)"
    by (cases "handle wb k kw rte new_response rq (st\<lparr>rt_done := r_done rte\<rparr>)")
  have "st' = st1" "rw_Status w1 = Some 204"
    using assms post key rte h by (auto simp: ServeHTTP_def recoverMiddleware_def response_defs split: result.splits if_splits)
  with handle_outcome [OF h] show ?thesis by auto
qed

lemma accepted_request_run:
  assumes "system_run pr (system_init addr n k) as s" and "\<not> pm_cancelled (sy_pump s)"
    and "length (pm_buffer (sy_pump s)) < eventChannelBufferSize" and "rt_out st = []"
    and "ServeHTTP (pr_web pr) (pr_kube pr) (sy_cluster s) (lw_server (sy_listeners s)) new_response rq st = (x, resp, st')"
    and "rw_Status resp = Some 204"
  shows "\<exists>ev s1 s2. rt_out st' = [ev] \<and> system_step pr (Requested rq) s s1
    \<and> system_run pr s1 (map Dispatched (pm_buffer (sy_pump s) @ [ev])) s2 \<and> ev \<in> set (pm_active (sy_pump s2))
    \<and> (undisturbed (pr_handlers pr) (eh_cache (rr_eventHandler (sy_reconciler s))) ev \<longrightarrow>
        (\<exists>s3. system_step pr (Handled ev) s2 s3
          \<and> sy_cluster s3 = fold (destination_effect (pr_kube pr) (pr_handlers pr) ev) (eh_cache (rr_eventHandler (sy_reconciler s))) (sy_cluster s)))"
proof -
  obtain ev where ev: "rt_out st' = [ev]"
    using ServeHTTP_authorised [OF assms(5) ServeHTTP_accepted [OF assms(5,6)]] assms(4) by auto
  define s1 where "s1 = s\<lparr>sy_pump := enqueue (rt_out st') (sy_pump s), sy_causes := sy_causes s
    @ map (\<lambda>ev. (ev, WebhookRequest rq (lw_server (sy_listeners s)) (sy_cluster s) (rt_now st))) (rt_out st')\<rparr>"
  have step: "system_step pr (Requested rq) s s1"
    unfolding s1_def using assms(3,4,5) ev by (intro system_step.request) auto
  have "pm_running (sy_pump s)"
    using system_ok_run [OF assms(1) system_ok_init] assms(2) by (auto simp: system_ok_def pump_ok_def)
  then have s1: "pm_running (sy_pump s1)" "pm_buffer (sy_pump s1) = pm_buffer (sy_pump s) @ [ev]" "sy_cluster s1 = sy_cluster s"
    "sy_reconciler s1 = sy_reconciler s" by (simp_all add: s1_def enqueue_def ev)
  from system_drains [OF s1(1), of pr] s1 obtain s2 where s2: "system_run pr s1 (map Dispatched (pm_buffer (sy_pump s) @ [ev])) s2"
    "sy_cluster s2 = sy_cluster s" "sy_reconciler s2 = sy_reconciler s" "ev \<in> set (pm_active (sy_pump s2))" by auto
  with ev step handle_undisturbed [of pr s2 ev] show ?thesis by auto
qed

text \<open>
  C4: a request the server answered with 204 is followed through: its event is in the channel behind
  those sent before it, the pump's own steps bring it to a handler, in order, and when nothing disturbs
  the event the handler's step leaves every object updated that a watched destination selects and that
  references the secret.
\<close>

theorem accepted_request_reaches_objects:
  assumes "system_run pr (system_init addr n k) as s" and "\<not> pm_cancelled (sy_pump s)"
    and "length (pm_buffer (sy_pump s)) < eventChannelBufferSize" and "rt_out st = []"
    and "ServeHTTP (pr_web pr) (pr_kube pr) (sy_cluster s) (lw_server (sy_listeners s)) new_response rq st = (x, resp, st')"
    and "rw_Status resp = Some 204"
  shows "\<exists>ev s1 s2. rt_out st' = [ev] \<and> system_step pr (Requested rq) s s1
    \<and> system_run pr s1 (map Dispatched (pm_buffer (sy_pump s) @ [ev])) s2 \<and> ev \<in> set (pm_active (sy_pump s2))
    \<and> (undisturbed (pr_handlers pr) (eh_cache (rr_eventHandler (sy_reconciler s))) ev \<longrightarrow>
        (\<exists>s3. system_step pr (Handled ev) s2 s3
          \<and> sy_cluster s3 = fold (destination_effect (pr_kube pr) (pr_handlers pr) ev) (eh_cache (rr_eventHandler (sy_reconciler s))) (sy_cluster s)))"
  using assms by (rule accepted_request_run)

text \<open>The events handed to goroutines, and those whose goroutine has ended, in the order of the steps.\<close>

definition dispatched_of :: "action list \<Rightarrow> SecretRotationEvent list" where
  "dispatched_of = List.map_filter (\<lambda>a. case a of Dispatched ev \<Rightarrow> Some ev | _ \<Rightarrow> None)"

definition handled_of :: "action list \<Rightarrow> SecretRotationEvent list" where
  "handled_of = List.map_filter (\<lambda>a. case a of Handled ev \<Rightarrow> Some ev | _ \<Rightarrow> None)"

lemma dispatched_of_append: "dispatched_of (as @ bs) = dispatched_of as @ dispatched_of bs"
  unfolding dispatched_of_def by (induction as) (simp_all add: map_filter_simps split: option.split)

lemma handled_of_append: "handled_of (as @ bs) = handled_of as @ handled_of bs"
  unfolding handled_of_def by (induction as) (simp_all add: map_filter_simps split: option.split)

text \<open>A dispatch starts one goroutine, a handling ends one, and no other step has to do with them.\<close>

lemma step_goroutines:
  assumes "system_step pr a s s'"
  shows "pm_dispatched (sy_pump s') = pm_dispatched (sy_pump s) @ dispatched_of [a]
    \<and> mset (pm_active (sy_pump s')) + mset (handled_of [a]) = mset (pm_active (sy_pump s)) + mset (dispatched_of [a])"
  using assms
proof (induction rule: system_step.induct)
  case (shutdown s ord1 ord2 x r' p' lw')
  then show ?case by (auto simp: graceful_shutdown_def dispatched_of_def handled_of_def map_filter_simps split: prod.splits)
qed (auto simp: dispatched_of_def handled_of_def map_filter_simps enqueue_def)

lemma run_goroutines:
  assumes "system_run pr s as s'"
  shows "pm_dispatched (sy_pump s') = pm_dispatched (sy_pump s) @ dispatched_of as
    \<and> mset (pm_active (sy_pump s')) + mset (handled_of as) = mset (pm_active (sy_pump s)) + mset (dispatched_of as)"
  using assms
proof (induction rule: system_run.induct)
  case (stay s)
  then show ?case by (simp add: dispatched_of_def handled_of_def map_filter_simps)
next
  case (step s as s1 a s2)
  have move: "x2 + (y + y1) = x + (z + z1)" if "x1 + y = x + z" "x2 + y1 = x1 + z1" for x x1 x2 y y1 z z1 :: "SecretRotationEvent multiset"
    using that by (metis add.assoc add.commute)
  note one = step_goroutines [OF step.hyps(2)]
  show ?case
    unfolding dispatched_of_append handled_of_append mset_append
    using one step.IH move [OF conjunct2 [OF step.IH] conjunct2 [OF one]] by simp
qed

text \<open>
  C18: every event is handled once. In any run of the system, the events sent so far, each with its
  cause, are the dispatched ones followed by those in the channel, in the order they were sent, and the
  channel never holds more than 256; every dispatched event was handed to a goroutine of its own, and
  the dispatched events are, with multiplicity, those whose handling has ended and those being
  handled. So none is lost, handled twice or made up, whatever is reconciled, requested or shut down
  meanwhile.
\<close>

theorem events_handled_once:
  assumes "system_run pr (system_init addr n k) as s"
  shows "map fst (sy_causes s) = dispatched_of as @ pm_buffer (sy_pump s)
    \<and> length (pm_buffer (sy_pump s)) \<le> 256
    \<and> mset (dispatched_of as) = mset (handled_of as) + mset (pm_active (sy_pump s))"
proof -
  have ok: "pump_ok (sy_pump s)" "map fst (sy_causes s) = pm_sent (sy_pump s)"
    using system_ok_run [OF assms system_ok_init] by (simp_all add: system_ok_def)
  have "pm_dispatched (sy_pump s) = dispatched_of as" "mset (dispatched_of as) = mset (handled_of as) + mset (pm_active (sy_pump s))"
    using run_goroutines [OF assms] by (simp_all add: system_init_def SetupWithManager_def pump_init_def add.commute)
  with ok show ?thesis by (simp add: pump_ok_def eventChannelBufferSize_def)
qed

section \<open>A concrete run\<close>

text \<open>
  A cluster with one Config, already claimed, that has a webhook source with basic authentication
  and watches ExternalSecrets; one ExternalSecret reads the key \<^verbatim>\<open>db\<close>.
\<close>

definition fixture_hook_source :: NotificationSource where
  "fixture_hook_source = (fixture_webhook_source [])\<lparr>ns_Webhook := r_config fixture_route\<rparr>"

definition fixture_claimed :: Config where
  "fixture_claimed =
     \<lparr>cfg_Meta = (fixture_meta [] ''cfg'')\<lparr>om_Annotations := Some [ProcessedAnnotation \<mapsto> ''then''], om_Finalizers := [reloaderFinalizer]\<rparr>,
      cfg_Spec = \<lparr>cs_NotificationSources = [fixture_hook_source], cs_DestinationsToWatch = [fixture_destination ''ExternalSecret'']\<rparr>,
      cfg_Status = \<lparr>cst_Conditions = []\<rparr>\<rparr>"

definition fixture_program :: "(fixture_world, unit, unit, unit) program" where
  "fixture_program =
     \<lparr>pr_api = \<lparr>ca_Get = (\<lambda>w n. Inr fixture_claimed), ca_Update = (\<lambda>w c. (None, w)),
        ca_ContainsFinalizer = (\<lambda>c f. f \<in> set (om_Finalizers (cfg_Meta c))), ca_AddFinalizer = (\<lambda>c f. c), ca_RemoveFinalizer = (\<lambda>c f. c),
        ca_Now = (\<lambda>w. ''now'')\<rparr>,
      pr_outside = fixture_outside\<lparr>ou_kube := fixture_kube [] [fixture_es ''es'' [''db''] []] [] [] fixture_secrets\<rparr>,
      pr_web = fixture_web, pr_fuel = 0\<rparr>"

definition fixture_initial :: "(unit, unit, unit, fixture_world) system" where
  "fixture_initial = system_init '':8090'' () fixture_start"

abbreviation fixture_cfg :: NamespacedName where
  "fixture_cfg \<equiv> NamespacedName [] ''cfg''"

lemma fixture_manage:
  "\<exists>lm. ManageListeners (program_env (outside_at fixture_program fixture_initial)) rev rev fixture_cfg (Some [fixture_hook_source]) NewListenerManager
     (sy_listeners fixture_initial) = (Ok (), lm, (sy_listeners fixture_initial)\<lparr>lw_server := fixture_server\<rparr>)"
proof -
  let ?env = "program_env (outside_at fixture_program fixture_initial)" and ?w = "sy_listeners fixture_initial"
  obtain key where key: "generateListenerKey fixture_hook_source = Ok key"
    by (auto simp: generateListenerKey_def source_config_def fixture_hook_source_def fixture_webhook_source_def Let_def)
  have src: "ns_Type fixture_hook_source = WEBHOOK" "ns_Webhook fixture_hook_source = r_config fixture_route"
    "r_config fixture_route = Some (the (r_config fixture_route))" "wh_PathSuffix (the (r_config fixture_route)) = []"
    by (simp_all add: fixture_hook_source_def fixture_webhook_source_def WEBHOOK_def fixture_route_defs)
  have "add_listener ?env ''cfg'' (Suc 0) key fixture_hook_source [] ?w
      = (Ok (), [(key, HookRef (NewWebhookListener ''cfg'' False (r_config fixture_route)))], ?w\<lparr>lw_server := fixture_server\<rparr>)"
    using src by (simp add: add_listener_def)
      (simp add: program_env_def RouteKey_def start_and_enter_def on_server_def call_result_def webhook_Start_def NewWebhookListener_def Register_def
        outside_at_def fixture_program_def fixture_outside_def fixture_initial_def system_init_def SetupWithManager_def
        NewWebhookServer_def fixture_server_def fixture_route_def newRoute_def pump_init_def Let_def)
  with key src show ?thesis
    by (simp add: ManageListeners_def Validate_def validateUniqueWebhookPathSuffixes_def webhookNotificationSourceType_def
        listeners_of_def NewListenerManager_def set_listeners_def Let_def)
qed

text \<open>One reconciliation opens the route and watches the destination.\<close>

lemma fixture_reconciled:
  "\<exists>s. system_run fixture_program fixture_initial [Reconciled fixture_cfg] s \<and> lw_server (sy_listeners s) = fixture_server
     \<and> eh_cache (rr_eventHandler (sy_reconciler s)) = [fixture_destination ''ExternalSecret''] \<and> sy_cluster s = fixture_start \<and> sy_pump s = pump_init"
proof -
  let ?env = "beside (program_env (outside_at fixture_program fixture_initial))"
  obtain lm where lm: "ManageListeners (program_env (outside_at fixture_program fixture_initial)) rev rev fixture_cfg (Some [fixture_hook_source])
      NewListenerManager (sy_listeners fixture_initial) = (Ok (), lm, (sy_listeners fixture_initial)\<lparr>lw_server := fixture_server\<rparr>)"
    using fixture_manage by blast
  let ?r = "(sy_reconciler fixture_initial)\<lparr>rr_listenerManager := lm, rr_eventHandler := \<lparr>eh_cache = [fixture_destination ''ExternalSecret'']\<rparr>\<rparr>"
  have init: "sy_reconciler fixture_initial = \<lparr>rr_listenerManager = NewListenerManager, rr_eventHandler = NewEventHandler\<rparr>"
    "sy_cluster fixture_initial = fixture_start" "sy_pump fixture_initial = pump_init"
    by (simp_all add: fixture_initial_def system_init_def SetupWithManager_def NewReloaderReconciler_def)
  have api: "ca_Get (pr_api fixture_program) k n = Inr fixture_claimed" "ca_ContainsFinalizer (pr_api fixture_program) fixture_claimed reloaderFinalizer"
    "om_DeletionTimestamp (cfg_Meta fixture_claimed) = None" "om_Annotations (cfg_Meta fixture_claimed) = Some [ProcessedAnnotation \<mapsto> ''then'']"
    "cs_NotificationSources (cfg_Spec fixture_claimed) = [fixture_hook_source]"
    "cs_DestinationsToWatch (cfg_Spec fixture_claimed) = [fixture_destination ''ExternalSecret'']" for k n
    by (simp_all add: fixture_program_def fixture_claimed_def fixture_meta_def)
  have "Reconcile (api_beside (pr_api fixture_program)) ?env rev rev fixture_cfg (sy_reconciler fixture_initial)
      (sy_listeners fixture_initial, sy_cluster fixture_initial)
    = ((False, Ok ()), ?r, (sy_listeners fixture_initial)\<lparr>lw_server := fixture_server\<rparr>, sy_cluster fixture_initial)"
    using lm by (simp add: Reconcile_def api_beside_def api isResourceNew_def sync_config_def ManageListeners_beside manage_def on_left3_def
        UpdateDestinationsToWatch_def NewEventHandler_def init Let_def)
  note run = system_run_single [OF system_step.reconcile [OF this range_order_rev range_order_rev]]
  show ?thesis by (intro exI conjI, rule run) (simp_all add: init)
qed

text \<open>The request that the route of this Config accepts.\<close>

abbreviation fixture_post :: Request where
  "fixture_post \<equiv> fixture_request (''Basic '' @ EncodeToString ''bob:s3cret'') ''db''"

lemma fixture_served:
  "\<exists>st'. ServeHTTP (pr_web fixture_program) (pr_kube fixture_program) fixture_start fixture_server new_response fixture_post (fixture_rt False True)
     = (Ok (), WriteHeader 204 new_response, st')"
proof -
  let ?k = "pr_kube fixture_program"
  have "authenticate ?k fixture_start fixture_route (rq_Header fixture_post) = Ok ()"
    using authenticate_basic [of fixture_route fixture_auth "the (wa_BasicAuth fixture_auth)" ?k fixture_start]
    by (simp add: fixture_program_def fixture_route_defs fixture_defs auth_required_def secret_value_def basic_auth_Ok DecodeString_EncodeToString
        del: EncodeToString.simps)
  from handle_accepted [OF this fixture_identifies]
  have "\<exists>st'. handle fixture_web ?k fixture_start fixture_route new_response fixture_post (fixture_rt False True) = (Ok (), WriteHeader 204 new_response, st')"
    by (simp add: processSecret_def processEvent_def fixture_rt_def select_or_done_def resume_def chan_ready_def numeral_3_eq_3 Let_def
        del: EncodeToString.simps)
  moreover have "routeKeyFromPath (rq_Path fixture_post) = Some ''cfg''"
    by (simp add: routeKeyFromPath_iff fixture_request_def webhookRoutePrefix_def reachable_key_def segment_def del: EncodeToString.simps)
  moreover have "(fixture_rt False True)\<lparr>rt_done := r_done fixture_route\<rparr> = fixture_rt False True" by (simp add: fixture_route_defs)
  moreover have "rq_Method fixture_post = ''POST''" "map_of (ws_routes fixture_server) ''cfg'' = Some fixture_route"
    "pr_web fixture_program = fixture_web"
    by (simp_all add: fixture_request_def fixture_server_def fixture_program_def del: EncodeToString.simps)
  ultimately show ?thesis by (auto simp: ServeHTTP_def recoverMiddleware_def simp del: EncodeToString.simps)
qed

lemma fixture_undisturbed:
  "undisturbed (pr_handlers fixture_program) [fixture_destination ''ExternalSecret''] ev"
  using fixture_externalsecret_undisturbed [of "[]" "[]" "[]" fixture_secrets 0 ev] by (simp add: undisturbed_def fixture_program_def)

theorem accepted_request_reaches_objects_witness:
  "\<exists>as s ev. system_run fixture_program fixture_initial as s \<and> Handled ev \<in> set as
     \<and> sy_cluster s = destination_effect (pr_kube fixture_program) (pr_handlers fixture_program) ev (fixture_destination ''ExternalSecret'') fixture_start"
proof -
  obtain s st' where s: "system_run fixture_program fixture_initial [Reconciled fixture_cfg] s" "lw_server (sy_listeners s) = fixture_server"
    "eh_cache (rr_eventHandler (sy_reconciler s)) = [fixture_destination ''ExternalSecret'']" "sy_cluster s = fixture_start" "sy_pump s = pump_init"
    and served: "ServeHTTP (pr_web fixture_program) (pr_kube fixture_program) (sy_cluster s) (lw_server (sy_listeners s)) new_response fixture_post
      (fixture_rt False True) = (Ok (), WriteHeader 204 new_response, st')"
    using fixture_reconciled fixture_served by metis
  have "rt_out (fixture_rt False True) = []" "rw_Status (WriteHeader 204 new_response) = Some 204"
    by (simp_all add: fixture_rt_def response_defs new_response_def)
  from accepted_request_reaches_objects [OF s(1) [unfolded fixture_initial_def] _ _ this(1) served this(2)] s(5)
  obtain ev s1 s2 s3 where "system_step fixture_program (Requested fixture_post) s s1" "system_run fixture_program s1 [Dispatched ev] s2"
    "system_step fixture_program (Handled ev) s2 s3"
    "sy_cluster s3 = destination_effect (pr_kube fixture_program) (pr_handlers fixture_program) ev (fixture_destination ''ExternalSecret'') fixture_start"
    using fixture_undisturbed by (auto simp: pump_init_def eventChannelBufferSize_def s(3,4) simp del: EncodeToString.simps)
  note run = this
  have "system_run fixture_program fixture_initial ((([Reconciled fixture_cfg] @ [Requested fixture_post]) @ [Dispatched ev]) @ [Handled ev]) s3"
    by (rule system_run.step [OF system_run_append [OF run(2) system_run.step [OF s(1) run(1)]] run(3)])
  then show ?thesis using run(4) by (intro exI conjI) (assumption, simp_all del: EncodeToString.simps)
qed

text \<open>The event of the accepted request, on its way to the objects.\<close>

lemma fixture_dispatched:
  "\<exists>as s ev. system_run fixture_program fixture_initial as s \<and> ev \<in> set (pm_active (sy_pump s)) \<and> ev_TriggerSource ev = WEBHOOK"
proof -
  obtain s st' where s: "system_run fixture_program fixture_initial [Reconciled fixture_cfg] s" "lw_server (sy_listeners s) = fixture_server"
    "sy_cluster s = fixture_start" "sy_pump s = pump_init"
    and served: "ServeHTTP (pr_web fixture_program) (pr_kube fixture_program) (sy_cluster s) (lw_server (sy_listeners s)) new_response fixture_post
      (fixture_rt False True) = (Ok (), WriteHeader 204 new_response, st')"
    using fixture_reconciled fixture_served by metis
  have st: "rt_out (fixture_rt False True) = []" "rw_Status (WriteHeader 204 new_response) = Some 204"
    by (simp_all add: fixture_rt_def response_defs new_response_def)
  from accepted_request_run [OF s(1) [unfolded fixture_initial_def] _ _ st(1) served st(2)] s(4)
  obtain ev s1 s2 where run: "rt_out st' = [ev]" "system_step fixture_program (Requested fixture_post) s s1"
    "system_run fixture_program s1 [Dispatched ev] s2" "ev \<in> set (pm_active (sy_pump s2))"
    by (auto simp: pump_init_def eventChannelBufferSize_def simp del: EncodeToString.simps)
  have "ev_TriggerSource ev = WEBHOOK"
    using ServeHTTP_authorised [OF served] run(1) st(1) by (auto simp: webhook_event_def)
  with system_run_append [OF run(3) system_run.step [OF s(1) run(2)]] run(4) show ?thesis by blast
qed

theorem writes_have_a_cause_witness:
  "\<exists>as s ev rq srv k now. system_run fixture_program fixture_initial as s \<and> ev_TriggerSource ev = WEBHOOK
     \<and> justified fixture_program (ev, WebhookRequest rq srv k now)
     \<and> world_path (pr_kube fixture_program) (touched (pr_handlers fixture_program) (eh_cache (rr_eventHandler (sy_reconciler s))) ev) (sy_cluster s)
         (snd (HandleEvent (pr_handlers fixture_program) (rr_eventHandler (sy_reconciler s)) ev (sy_cluster s)))"
proof -
  obtain as s ev where run: "system_run fixture_program fixture_initial as s" "ev \<in> set (pm_active (sy_pump s))" "ev_TriggerSource ev = WEBHOOK"
    using fixture_dispatched by blast
  from writes_have_a_cause [OF run(1) [unfolded fixture_initial_def] run(2) prod.collapse [symmetric]]
  obtain c where c: "justified fixture_program (ev, c)"
    "world_path (pr_kube fixture_program) (touched (pr_handlers fixture_program) (eh_cache (rr_eventHandler (sy_reconciler s))) ev) (sy_cluster s)
      (snd (HandleEvent (pr_handlers fixture_program) (rr_eventHandler (sy_reconciler s)) ev (sy_cluster s)))" by blast
  with run(1,3) show ?thesis by (cases c) (blast, simp)
qed

theorem system_shutdown_witness:
  "\<exists>s x r' p' lw'. HasRoute (lw_server (sy_listeners s)) ''cfg''
     \<and> graceful_shutdown (program_env (outside_at fixture_program s)) rev rev (sy_reconciler s) (sy_pump s) (sy_listeners s) = (x, r', p', lw')
     \<and> returns x \<and> program_running lw' = {}"
proof -
  obtain s where s: "system_run fixture_program fixture_initial [Reconciled fixture_cfg] s" "lw_server (sy_listeners s) = fixture_server"
    using fixture_reconciled by blast
  have "HasRoute (lw_server (sy_listeners s)) ''cfg''" by (simp add: s(2) HasRoute_def fixture_server_def)
  with system_shutdown [OF s(1) [unfolded fixture_initial_def] range_order_rev range_order_rev] show ?thesis
    by (elim exE conjE, intro exI conjI)
qed

theorem events_handled_once_witness:
  "\<exists>as s ev. system_run fixture_program fixture_initial as s \<and> ev \<in> set (dispatched_of as) \<and> ev \<in> fst ` set (sy_causes s)"
proof -
  obtain as s ev where run: "system_run fixture_program fixture_initial as s" "ev \<in> set (pm_active (sy_pump s))"
    using fixture_dispatched by blast
  have once: "map fst (sy_causes s) = dispatched_of as @ pm_buffer (sy_pump s)"
    "mset (dispatched_of as) = mset (handled_of as) + mset (pm_active (sy_pump s))"
    using events_handled_once [OF run(1) [unfolded fixture_initial_def]] by blast+
  from once(2) run(2) have "ev \<in> set (dispatched_of as)" by (metis UnI2 set_mset_mset set_mset_union)
  moreover from this once(1) have "ev \<in> fst ` set (sy_causes s)" by (metis UnI1 list.set_map set_append)
  ultimately show ?thesis using run(1) by blast
qed

end
