(* ===== verification/WebhookRun.thy ===== *)
theory WebhookRun
  imports Server
begin

text \<open>
  The life of the shared webhook server as a runnable of the controller manager
  (\<^verbatim>\<open>WebhookServer.Start\<close> and \<^verbatim>\<open>closeHTTPServer\<close> of \<^verbatim>\<open>internal/listener/webhook/server.go\<close>): it
  listens until its context is done, shuts the HTTP server down once, and waits for it to end.
\<close>

section \<open>The HTTP server\<close>

text \<open>
  What \<^verbatim>\<open>net/http\<close> keeps of the server, and the \<^verbatim>\<open>sync.Once\<close> around its shutdown. \<^verbatim>\<open>Serve\<close> always
  returns an error: \<open>ErrServerClosed\<close> once the server is shutting down, else the error \<open>e\<close> of the
  \<^verbatim>\<open>Accept\<close> that failed.
\<close>

record http_state =
  hs_inShutdown :: bool
  hs_once :: bool

definition new_http :: http_state where
  "new_http = \<lparr>hs_inShutdown = False, hs_once = False\<rparr>"

definition ErrServerClosed :: error where
  "ErrServerClosed = errors_New ''http: Server closed''"

definition Serve :: "error \<Rightarrow> http_state \<Rightarrow> error" where
  "Serve e h = (if hs_inShutdown h then ErrServerClosed else e)"

text \<open>
  \<^verbatim>\<open>Shutdown\<close> refuses new connections at once; \<open>sd\<close> is what it returns: nothing when the open
  connections became idle in time, else the error of the context or of closing the socket.
\<close>

definition Shutdown :: "error option \<Rightarrow> http_state \<Rightarrow> error option \<times> http_state" where
  "Shutdown sd h = (sd, h\<lparr>hs_inShutdown := True\<rparr>)"

section \<open>Start\<close>

text \<open>The time the open requests are given to finish, in seconds.\<close>

definition shutdownTimeout :: int64 where "shutdownTimeout = 5"

definition closeHTTPServer :: "(int64 \<Rightarrow> error option) \<Rightarrow> int64 \<Rightarrow> http_state \<Rightarrow> error option \<times> http_state" where
  "closeHTTPServer sd timeout h =
     (if hs_once h then (None, h)
      else (case Shutdown (sd timeout) h of (e, h') \<Rightarrow> (e, h'\<lparr>hs_once := True\<rparr>)))"

definition NeedLeaderElection :: "WebhookServer \<Rightarrow> bool" where
  "NeedLeaderElection s = True"

text \<open>
  What the \<^verbatim>\<open>select\<close> meets first: the end of \<^verbatim>\<open>Serve\<close>, with the error of \<^verbatim>\<open>Accept\<close> that ended it, or
  the end of the context; or neither has happened yet.
\<close>

datatype awaited = ServeEnds error | ContextDone | NothingYet

definition serve_result :: "error \<Rightarrow> unit result" where
  "serve_result err = (if err \<noteq> ErrServerClosed then Err err else Ok ())"

text \<open>
  \<open>listen\<close> is the outcome of \<^verbatim>\<open>net.Listen\<close>, \<open>closed\<close> the error that \<^verbatim>\<open>Accept\<close> reports on the closed
  socket, which \<^verbatim>\<open>Serve\<close> replaces.
\<close>

definition server_Start ::
  "(string \<Rightarrow> error option) \<Rightarrow> (int64 \<Rightarrow> error option) \<Rightarrow> error \<Rightarrow> awaited \<Rightarrow> WebhookServer \<Rightarrow> http_state
    \<Rightarrow> unit result \<times> http_state" where
  "server_Start listen sd closed first s h =
     (case listen (ws_addr s) of
        Some err \<Rightarrow> (Err err, h)
      | None \<Rightarrow>
          (case first of
             NothingYet \<Rightarrow> (Blocked, h)
           | ServeEnds e \<Rightarrow> (serve_result (Serve e h), h)
           | ContextDone \<Rightarrow>
               (case closeHTTPServer sd shutdownTimeout h of
                  (Some err, h') \<Rightarrow> (Err err, h')
                | (None, h') \<Rightarrow> (serve_result (Serve closed h'), h'))))"

section \<open>How it ends\<close>

text \<open>The flag of the \<^verbatim>\<open>sync.Once\<close> is set only together with the one of the server.\<close>

definition http_ok :: "http_state \<Rightarrow> bool" where
  "http_ok h \<longleftrightarrow> (hs_once h \<longrightarrow> hs_inShutdown h)"

lemma http_ok_new: "http_ok new_http"
  by (simp add: http_ok_def new_http_def)

lemma server_Start_ok: "server_Start listen sd closed first s h = (r, h') \<Longrightarrow> http_ok h \<Longrightarrow> http_ok h'"
  by (auto simp: server_Start_def closeHTTPServer_def Shutdown_def http_ok_def split: option.splits awaited.splits prod.splits if_splits)

text \<open>
  A server that could listen ends cleanly when its context is done and the requests in flight finish
  in time, whatever \<^verbatim>\<open>Accept\<close> said about the closed socket; a shutdown that fails is reported; a server
  that ends by itself reports why.
\<close>

theorem server_Start_outcome:
  assumes "listen (ws_addr s) = None" and "http_ok h"
  shows "(sd 5 = None \<longrightarrow> (\<exists>h'. server_Start listen sd closed ContextDone s h = (Ok (), h') \<and> hs_inShutdown h'))
    \<and> (\<not> hs_once h \<and> sd 5 = Some e \<longrightarrow> (\<exists>h'. server_Start listen sd closed ContextDone s h = (Err e, h') \<and> hs_inShutdown h'))
    \<and> (\<not> hs_inShutdown h \<and> err \<noteq> ErrServerClosed \<longrightarrow> server_Start listen sd closed (ServeEnds err) s h = (Err err, h))
    \<and> (hs_inShutdown h \<longrightarrow> server_Start listen sd closed (ServeEnds err) s h = (Ok (), h))"
  using assms
  by (auto simp: server_Start_def closeHTTPServer_def Shutdown_def Serve_def serve_result_def shutdownTimeout_def http_ok_def)

text \<open>The HTTP server is shut down at most once: a second call neither calls \<^verbatim>\<open>Shutdown\<close> nor reports its error.\<close>

lemma closeHTTPServer_once:
  assumes "closeHTTPServer sd t h = (e, h')"
  shows "closeHTTPServer sd' t' h' = (None, h')"
  using assms by (auto simp: closeHTTPServer_def Shutdown_def split: if_splits)

end
