(* ===== verification/Entry.thy ===== *)
theory Entry
  imports System WebhookRun
begin

text \<open>
  The entry point (\<^verbatim>\<open>cmd/main.go\<close>): the flags with their defaults, the options that are made of them,
  and the order in which the parts are made and registered. The controller manager is code of
  controller-runtime: what its calls answer is a parameter.
\<close>

section \<open>Flags and options\<close>

record flags =
  fl_metricsAddr :: string
  fl_probeAddr :: string
  fl_enableLeaderElection :: bool
  fl_secureMetrics :: bool
  fl_enableHTTP2 :: bool
  fl_webhookAddr :: string

definition default_flags :: flags where
  "default_flags =
     \<lparr>fl_metricsAddr = ''0'', fl_probeAddr = '':8081'', fl_enableLeaderElection = False,
      fl_secureMetrics = True, fl_enableHTTP2 = False, fl_webhookAddr = '':8090''\<rparr>"

text \<open>A TLS option changes the protocols that are offered; nil leaves the choice to the library.\<close>

type_synonym tls_config = "string list option"

definition disableHTTP2 :: "tls_config \<Rightarrow> tls_config" where
  "disableHTTP2 c = Some [''http/1.1'']"

definition tlsOpts :: "flags \<Rightarrow> (tls_config \<Rightarrow> tls_config) list" where
  "tlsOpts fl = (if \<not> fl_enableHTTP2 fl then [disableHTTP2] else [])"

datatype filter_provider = WithAuthenticationAndAuthorization

record metrics_options =
  mo_BindAddress :: string
  mo_SecureServing :: bool
  mo_TLSOpts :: "(tls_config \<Rightarrow> tls_config) list"
  mo_FilterProvider :: "filter_provider option"

definition metricsServerOptions :: "flags \<Rightarrow> metrics_options" where
  "metricsServerOptions fl =
     (let mo = \<lparr>mo_BindAddress = fl_metricsAddr fl, mo_SecureServing = fl_secureMetrics fl, mo_TLSOpts = tlsOpts fl, mo_FilterProvider = None\<rparr> in
      if fl_secureMetrics fl then mo\<lparr>mo_FilterProvider := Some WithAuthenticationAndAuthorization\<rparr> else mo)"

record ctrl_options =
  co_Metrics :: metrics_options
  co_HealthProbeBindAddress :: string
  co_LeaderElection :: bool
  co_LeaderElectionID :: string

definition manager_options :: "flags \<Rightarrow> ctrl_options" where
  "manager_options fl =
     \<lparr>co_Metrics = metricsServerOptions fl, co_HealthProbeBindAddress = fl_probeAddr fl,
      co_LeaderElection = fl_enableLeaderElection fl, co_LeaderElectionID = ''0cd7d2f7.externalsecrets.com''\<rparr>"

section \<open>Registering the types\<close>

text \<open>
  The scheme belongs to apimachinery: \<open>sc_AddToGroupVersion\<close>, \<open>sc_AddKnownTypes\<close> and \<open>sc_AddToScheme\<close>
  are its calls. The builder of \<^verbatim>\<open>api/v1alpha1\<close> is a list of functions, to which the \<^verbatim>\<open>init\<close> function of
  the types adds one.
\<close>

type_synonym group_version = "string \<times> string"
type_synonym 's builder = "('s \<Rightarrow> error option \<times> 's) list"

record 's scheme_calls =
  sc_AddToGroupVersion :: "group_version \<Rightarrow> 's \<Rightarrow> 's"
  sc_AddKnownTypes :: "group_version \<Rightarrow> string list \<Rightarrow> 's \<Rightarrow> 's"
  sc_AddToScheme :: "'s builder \<Rightarrow> 's \<Rightarrow> error option \<times> 's"

definition GroupVersion :: group_version where
  "GroupVersion = (''reloader.external-secrets.io'', ''v1alpha1'')"

definition new_SchemeBuilder :: "'s scheme_calls \<Rightarrow> 's builder" where
  "new_SchemeBuilder sc = [\<lambda>s. (None, sc_AddToGroupVersion sc GroupVersion s)]"

definition register_types :: "'s scheme_calls \<Rightarrow> 's builder \<Rightarrow> 's builder" where
  "register_types sc builder = builder @ [\<lambda>s. (None, sc_AddKnownTypes sc GroupVersion [''Config'', ''ConfigList''] s)]"

text \<open>
  \<^verbatim>\<open>utilruntime.Must\<close> panics on an error. The types of Kubernetes and of the External Secrets Operator
  come first, by the calls \<open>others\<close> of their packages, then those of the Reloader.
\<close>

fun init_scheme :: "'s builder \<Rightarrow> 's \<Rightarrow> 's result" where
  "init_scheme [] s = Ok s"
| "init_scheme (f # fs) s = (case f s of (Some e, s') \<Rightarrow> Panic ''utilruntime.Must'' | (None, s') \<Rightarrow> init_scheme fs s')"

definition init_main :: "'s scheme_calls \<Rightarrow> 's builder \<Rightarrow> 's \<Rightarrow> 's result" where
  "init_main sc others s = init_scheme (others @ [sc_AddToScheme sc (register_types sc (new_SchemeBuilder sc))]) s"

lemma init_scheme_append: "init_scheme (fs @ gs) s = rbind (init_scheme fs s) (\<lambda>s'. init_scheme gs s')"
  by (induction fs arbitrary: s) (auto split: prod.split option.split)

text \<open>
  A builder runs its functions in order until one fails. Then the start fails only for the types of
  others, and afterwards the scheme knows Config and ConfigList.
\<close>

fun in_order :: "'s builder \<Rightarrow> 's \<Rightarrow> error option \<times> 's" where
  "in_order [] s = (None, s)"
| "in_order (f # fs) s = (case f s of (Some e, s') \<Rightarrow> (Some e, s') | (None, s') \<Rightarrow> in_order fs s')"

lemma init_main_knows:
  assumes "sc_AddToScheme sc = in_order"
  shows "init_main sc others s = rbind (init_scheme others s)
    (\<lambda>s'. Ok (sc_AddKnownTypes sc GroupVersion [''Config'', ''ConfigList''] (sc_AddToGroupVersion sc GroupVersion s')))"
  unfolding init_main_def init_scheme_append
  by (rule arg_cong [where f = "rbind (init_scheme others s)"])
    (auto simp: assms register_types_def new_SchemeBuilder_def)

section \<open>main\<close>

datatype runnable = WebhookRunnable WebhookServer | ShutdownFunc

text \<open>
  The controller manager, with a state of its own: \<open>cm_New\<close> makes it, \<open>cm_Complete\<close> registers the
  reconciler for Configs, \<open>cm_Start\<close> runs everything until it ends.
\<close>

record 'm ctrl =
  cm_New :: "ctrl_options \<Rightarrow> error + 'm"
  cm_Add :: "runnable \<Rightarrow> 'm \<Rightarrow> error option \<times> 'm"
  cm_Complete :: "'m \<Rightarrow> error option \<times> 'm"
  cm_AddHealthz :: "string \<Rightarrow> 'm \<Rightarrow> error option \<times> 'm"
  cm_AddReadyz :: "string \<Rightarrow> 'm \<Rightarrow> error option \<times> 'm"
  cm_Start :: "'m \<Rightarrow> error option"

datatype exit = Exit nat string error | Returned

text \<open>\<^verbatim>\<open>SetupWithManager\<close> on this manager: the controller is completed only after the shutdown function was added.\<close>

definition setup_controller ::
  "'m ctrl \<Rightarrow> 'l ReloaderReconciler \<Rightarrow> 'm \<Rightarrow> unit result \<times> 'l ReloaderReconciler \<times> pump \<times> 'm" where
  "setup_controller cm r m =
     (case cm_Add cm ShutdownFunc m of
        (Some err, m') \<Rightarrow> (case SetupWithManager (Some err) None r of (x, r', p) \<Rightarrow> (x, r', p, m'))
      | (None, m') \<Rightarrow>
          (case cm_Complete cm m' of (e, m'') \<Rightarrow> (case SetupWithManager None e r of (x, r', p) \<Rightarrow> (x, r', p, m''))))"

text \<open>\<^verbatim>\<open>main\<close> after the flags are parsed; with the exit, the parts it made before it started the manager.\<close>

definition main ::
  "'m ctrl \<Rightarrow> flags \<Rightarrow> exit \<times> (WebhookServer \<times> 'l ReloaderReconciler \<times> pump \<times> 'm) option" where
  "main cm fl =
     (let notificationWebhook = NewWebhookServer (fl_webhookAddr fl) in
      case cm_New cm (manager_options fl) of
        Inl err \<Rightarrow> (Exit 1 ''unable to start manager'' err, None)
      | Inr m0 \<Rightarrow>
     (case cm_Add cm (WebhookRunnable notificationWebhook) m0 of
        (Some err, m1) \<Rightarrow> (Exit 1 ''unable to add notification webhook server'' err, None)
      | (None, m1) \<Rightarrow>
     (case setup_controller cm NewReloaderReconciler m1 of
        (Err err, r, p, m2) \<Rightarrow> (Exit 1 ''unable to create controller'' err, None)
      | (_, r, p, m2) \<Rightarrow>
     (case cm_AddHealthz cm ''healthz'' m2 of
        (Some err, m3) \<Rightarrow> (Exit 1 ''unable to set up health check'' err, None)
      | (None, m3) \<Rightarrow>
     (case cm_AddReadyz cm ''readyz'' m3 of
        (Some err, m4) \<Rightarrow> (Exit 1 ''unable to set up ready check'' err, None)
      | (None, m4) \<Rightarrow>
     (case cm_Start cm m4 of
        Some err \<Rightarrow> (Exit 1 ''problem running manager'' err, Some (notificationWebhook, r, p, m4))
      | None \<Rightarrow> (Returned, Some (notificationWebhook, r, p, m4))))))))"

section \<open>What is running after main has set it up\<close>

lemma setup_controller_Ok:
  "setup_controller cm r m = (Ok (), r', p, m') \<longleftrightarrow>
     (\<exists>m1. cm_Add cm ShutdownFunc m = (None, m1) \<and> cm_Complete cm m1 = (None, m')
        \<and> SetupWithManager None None r = (Ok (), r', p))"
  by (auto simp: setup_controller_def SetupWithManager_def Let_def split: prod.splits option.splits)

lemma setup_controller_returns: "returns (fst (setup_controller cm r m))"
  by (auto simp: setup_controller_def SetupWithManager_def Let_def split: prod.split option.split)

text \<open>
  The manager is started only when the webhook server, the shutdown function and the controller have
  been registered with it, in this order, and both checks were added; and what then runs is the
  system in its initial state.
\<close>

theorem main_starts_the_system:
  assumes "main cm fl = (x, Some (hook, r, p, m))"
  shows "(\<exists>m0 m1 m2 m3 m4. cm_New cm (manager_options fl) = Inr m0 \<and> cm_Add cm (WebhookRunnable hook) m0 = (None, m1)
      \<and> cm_Add cm ShutdownFunc m1 = (None, m2) \<and> cm_Complete cm m2 = (None, m3)
      \<and> cm_AddHealthz cm ''healthz'' m3 = (None, m4) \<and> cm_AddReadyz cm ''readyz'' m4 = (None, m))
    \<and> system_init (fl_webhookAddr fl) n k
      = \<lparr>sy_reconciler = r, sy_listeners = \<lparr>lw_server = hook, lw_net = n, lw_heap = []\<rparr>, sy_cluster = k, sy_pump = p, sy_causes = []\<rparr>
    \<and> x = (case cm_Start cm m of None \<Rightarrow> Returned | Some err \<Rightarrow> Exit 1 ''problem running manager'' err)"
proof -
  obtain m0 where m0: "cm_New cm (manager_options fl) = Inr m0"
    using assms by (cases "cm_New cm (manager_options fl)") (auto simp: main_def Let_def)
  obtain m1 where m1: "cm_Add cm (WebhookRunnable (NewWebhookServer (fl_webhookAddr fl))) m0 = (None, m1)"
    using assms m0 by (auto simp: main_def Let_def split: prod.splits option.splits)
  obtain y r1 p1 m3 where made: "setup_controller cm (NewReloaderReconciler :: listener_ref ReloaderReconciler) m1 = (y, r1, p1, m3)"
    by (metis prod_cases4)
  have "y = Ok ()"
    using assms m0 m1 made setup_controller_returns [of cm "NewReloaderReconciler :: listener_ref ReloaderReconciler" m1]
    by (cases y) (auto simp: main_def Let_def)
  with made obtain m2 where made_ok: "cm_Add cm ShutdownFunc m1 = (None, m2)" "cm_Complete cm m2 = (None, m3)"
    "SetupWithManager None None NewReloaderReconciler = (Ok (), r1, p1)" by (auto simp: setup_controller_Ok)
  obtain m4 where m4: "cm_AddHealthz cm ''healthz'' m3 = (None, m4)"
    using assms m0 m1 made \<open>y = Ok ()\<close> by (auto simp: main_def Let_def split: prod.splits option.splits)
  obtain m5 where m5: "cm_AddReadyz cm ''readyz'' m4 = (None, m5)"
    using assms m0 m1 made \<open>y = Ok ()\<close> m4 by (auto simp: main_def Let_def split: prod.splits option.splits)
  have "hook = NewWebhookServer (fl_webhookAddr fl)" "r = r1" "p = p1" "m = m5"
    "x = (case cm_Start cm m5 of None \<Rightarrow> Returned | Some err \<Rightarrow> Exit 1 ''problem running manager'' err)"
    using assms m0 m1 made \<open>y = Ok ()\<close> m4 m5 by (auto simp: main_def Let_def split: option.splits)
  with m0 m1 made_ok m4 m5 show ?thesis by (auto simp: system_init_def)
qed

text \<open>The metrics are offered with authentication when they are offered over TLS, and never with HTTP/2 unless it is asked for.\<close>

lemma metrics_protected:
  "mo_FilterProvider (co_Metrics (manager_options fl)) = (if mo_SecureServing (co_Metrics (manager_options fl)) then Some WithAuthenticationAndAuthorization else None)"
  "\<not> fl_enableHTTP2 fl \<Longrightarrow> fold (\<lambda>f. f) (mo_TLSOpts (co_Metrics (manager_options fl))) c = Some [''http/1.1'']"
  by (simp_all add: manager_options_def metricsServerOptions_def tlsOpts_def disableHTTP2_def Let_def)

end
