(* ===== verification/Tasks.thy ===== *)
theory Tasks
  imports Processor
begin

text \<open>
  \<^verbatim>\<open>HandleEvent\<close> as the goroutine runs it, one call to the API server or one timer event at a time
  (\<^verbatim>\<open>internal/handler/processor.go\<close>, and the rollout wait of \<^verbatim>\<open>internal/handler/deployment\<close>), so that
  others can act in between. Run without interruption, the steps compute what \<^const>\<open>HandleEvent\<close>
  computes.
\<close>

section \<open>Where a handler goroutine stands\<close>

text \<open>
  At the head of the outer loop, of the inner loop, in the rollout wait before a timer event, in it
  with the ticker just fired, or at the end. \<open>h\<close> is the handler made for the destination \<open>d\<close>.
\<close>

datatype 'w position =
    AtDestination "DestinationToWatch list"
  | AtObject DestinationToWatch "'w Handler" "Object list" "DestinationToWatch list"
  | AtWait DestinationToWatch "'w Handler" Object "Object list" "DestinationToWatch list"
  | AtGet DestinationToWatch "'w Handler" Deployment "Object list" "DestinationToWatch list"
  | AtEnd "unit result"

abbreviation wait_failed :: "error \<Rightarrow> 'w position" where
  "wait_failed e \<equiv> AtEnd (Err (Wrapf ''failed to wait for object:%w'' [] e))"

definition rollout_timeout :: "Deployment \<Rightarrow> error" where
  "rollout_timeout deployment =
     Errorf ''timeout waiting for deployment %s/%s rollout to complete''
       [StrArg (om_Namespace (dep_Meta deployment)), StrArg (om_Name (dep_Meta deployment))]"

text \<open>Only the handler of Deployments waits; the fuel of the registry, which bounds that wait, is not used here.\<close>

fun task_step :: "'w kube \<Rightarrow> SecretRotationEvent \<Rightarrow> 'w position \<Rightarrow> 'w \<Rightarrow> 'w position \<times> 'w" where
  "task_step k event (AtDestination []) w = (AtEnd (Ok ()), w)"
| "task_step k event (AtDestination (d # ds)) w =
     (case handler_GetProvider (handler_registry k 0) (dw_Type d) of
        None \<Rightarrow> (AtDestination ds, w)
      | Some prov \<Rightarrow>
          (case h_Filter (prov d) d event w of
             Err e \<Rightarrow> (AtEnd (Err (Wrapf ''failed to filter objects:%w'' [] e)), w)
           | Panic p \<Rightarrow> (AtEnd (Panic p), w)
           | Blocked \<Rightarrow> (AtEnd Blocked, w)
           | Ok objs \<Rightarrow> (AtObject d (prov d) objs ds, w)))"
| "task_step k event (AtObject d h [] ds) w = (AtDestination ds, w)"
| "task_step k event (AtObject d h (ob # objs) ds) w =
     (case References h ob (ev_SecretIdentifier event) of
        Err e \<Rightarrow> (AtEnd (Err (Wrapf ''failed to check if object is referenced:%w'' [] e)), w)
      | Panic p \<Rightarrow> (AtEnd (Panic p), w)
      | Blocked \<Rightarrow> (AtEnd Blocked, w)
      | Ok isReferenced \<Rightarrow>
          (if \<not> isReferenced then (AtObject d h objs ds, w)
           else
             (case Apply h ob event w of
                (Err e, w') \<Rightarrow> (AtObject d h objs ds, w')
              | (Panic p, w') \<Rightarrow> (AtEnd (Panic p), w')
              | (Blocked, w') \<Rightarrow> (AtEnd Blocked, w')
              | (Ok ob', w') \<Rightarrow> (AtWait d h ob' objs ds, w'))))"
| "task_step k event (AtWait d h ob objs ds) w =
     (if dw_Type d = DEPLOYMENT then
        (case ob of
           ODeployment deployment \<Rightarrow>
             (case k_Wake k w of
                (TimeoutFired, w') \<Rightarrow> (wait_failed (rollout_timeout deployment), w')
              | (TickerFired, w') \<Rightarrow> (AtGet d h deployment objs ds, w'))
         | _ \<Rightarrow> (wait_failed (errors_New ''object is not a Deployment''), w))
      else
        (case WaitFor h ob w of
           (Err e, w') \<Rightarrow> (wait_failed e, w')
         | (Panic p, w') \<Rightarrow> (AtEnd (Panic p), w')
         | (Blocked, w') \<Rightarrow> (AtEnd Blocked, w')
         | (Ok _, w') \<Rightarrow> (AtObject d h objs ds, w')))"
| "task_step k event (AtGet d h deployment objs ds) w =
     (case k_GetDeployment k w (dep_key deployment) of
        Inl e \<Rightarrow> (wait_failed (Wrapf ''failed to get deployment: %w'' [] e), w)
      | Inr currentDeployment \<Rightarrow>
          (if isDeploymentRolloutComplete currentDeployment then (AtObject d h objs ds, w)
           else (AtWait d h (ODeployment deployment) objs ds, w)))"
| "task_step k event (AtEnd r) w = (AtEnd r, w)"

text \<open>\<open>n\<close> steps of one goroutine with nobody in between.\<close>

fun task_run :: "'w kube \<Rightarrow> SecretRotationEvent \<Rightarrow> nat \<Rightarrow> 'w position \<times> 'w \<Rightarrow> 'w position \<times> 'w" where
  "task_run k event 0 x = x"
| "task_run k event (Suc n) (a, w) = task_run k event n (task_step k event a w)"

text \<open>The object a step sends to the server, if it sends one.\<close>

fun written :: "SecretRotationEvent \<Rightarrow> 'w position \<Rightarrow> Object option" where
  "written event (AtObject d h (ob # objs) ds) =
     (if References h ob (ev_SecretIdentifier event) = Ok True then Some (mark_object event ob) else None)"
| "written event _ = None"

text \<open>The handler in use is the registered one.\<close>

definition made_for :: "'w kube \<Rightarrow> DestinationToWatch \<Rightarrow> 'w Handler \<Rightarrow> bool" where
  "made_for k d h \<longleftrightarrow> (\<exists>prov. handler_GetProvider (handler_registry k 0) (dw_Type d) = Some prov \<and> h = prov d)"

fun position_ok :: "'w kube \<Rightarrow> 'w position \<Rightarrow> bool" where
  "position_ok k (AtObject d h objs ds) \<longleftrightarrow> made_for k d h"
| "position_ok k (AtWait d h ob objs ds) \<longleftrightarrow> made_for k d h"
| "position_ok k (AtGet d h dep objs ds) \<longleftrightarrow> made_for k d h \<and> dw_Type d = DEPLOYMENT"
| "position_ok k _ \<longleftrightarrow> True"

lemma position_ok_step: "position_ok k a \<Longrightarrow> task_step k ev a w = (a', w') \<Longrightarrow> position_ok k a'"
  by (induction k ev a w rule: task_step.induct)
    (auto simp: made_for_def split: option.splits result.splits if_splits prod.splits Object.splits wake.splits sum.splits)

section \<open>The same handler with fuel for its wait\<close>

definition with_fuel :: "'w kube \<Rightarrow> nat \<Rightarrow> DestinationToWatch \<Rightarrow> 'w Handler \<Rightarrow> 'w Handler" where
  "with_fuel k fuel d h = (if dw_Type d = DEPLOYMENT then h\<lparr>h_waitForFn := deployment_waitFor k fuel\<rparr> else h)"

lemma with_fuel_simps [simp]:
  "h_Filter (with_fuel k fuel d h) = h_Filter h" "References (with_fuel k fuel d h) = References h" "Apply (with_fuel k fuel d h) = Apply h"
  "WaitFor (with_fuel k fuel d h) = (if dw_Type d = DEPLOYMENT then deployment_waitFor k fuel else WaitFor h)"
  by (auto simp: with_fuel_def References_def [abs_def] Apply_def [abs_def] WaitFor_def [abs_def])

lemma provider_with_fuel:
  assumes "made_for k d h"
  obtains prov where "handler_GetProvider (handler_registry k fuel) (dw_Type d) = Some prov" "prov d = with_fuel k fuel d h"
proof -
  obtain prov0 where p0: "handler_GetProvider (handler_registry k 0) (dw_Type d) = Some prov0" "h = prov0 d"
    using assms by (auto simp: made_for_def)
  from p0(1) show thesis
    by (cases rule: handler_registry_cases; intro that)
      (auto simp: p0(2) with_fuel_def handler_registry_get handler_providers_def deployment_NewHandler_def
        DEPLOYMENT_def EXTERNAL_SECRET_def PUSH_SECRET_def WORKFLOW_def)
qed

lemma no_provider_fuel:
  "handler_GetProvider (handler_registry k 0) n = None \<Longrightarrow> handler_GetProvider (handler_registry k fuel) n = None"
  by (auto simp: handler_registry_get handler_providers_def split: if_splits)

section \<open>What remains to be done\<close>

text \<open>
  The functions of the processor, continued from a position: \<open>fuel\<close> bounds the waits to come, \<open>f\<close> the
  one in progress.
\<close>

definition then_cache ::
  "'w kube \<Rightarrow> nat \<Rightarrow> SecretRotationEvent \<Rightarrow> DestinationToWatch list \<Rightarrow> unit result \<times> 'w \<Rightarrow> unit result \<times> 'w" where
  "then_cache k fuel ev ds x = (case x of (Ok _, w) \<Rightarrow> handle_cache (handler_registry k fuel) ds ev w | (r, w) \<Rightarrow> (r, w))"

definition after_wait ::
  "'w kube \<Rightarrow> nat \<Rightarrow> SecretRotationEvent \<Rightarrow> 'w Handler \<Rightarrow> Object list \<Rightarrow> DestinationToWatch list \<Rightarrow> unit result \<times> 'w \<Rightarrow> unit result \<times> 'w" where
  "after_wait k fuel ev h objs ds x =
     (case x of
        (Ok _, w) \<Rightarrow> then_cache k fuel ev ds (process_objects h ev objs w)
      | (Err e, w) \<Rightarrow> (Err (Wrapf ''failed to wait for object:%w'' [] e), w)
      | (Panic p, w) \<Rightarrow> (Panic p, w)
      | (Blocked, w) \<Rightarrow> (Blocked, w))"

definition after_tick :: "'w kube \<Rightarrow> nat \<Rightarrow> Deployment \<Rightarrow> 'w \<Rightarrow> unit result \<times> 'w" where
  "after_tick k f dep w =
     (case k_GetDeployment k w (dep_key dep) of
        Inl e \<Rightarrow> (Err (Wrapf ''failed to get deployment: %w'' [] e), w)
      | Inr cur \<Rightarrow> (if isDeploymentRolloutComplete cur then (Ok (), w) else waitFor_loop k f dep w))"

fun remainder :: "'w kube \<Rightarrow> nat \<Rightarrow> nat \<Rightarrow> SecretRotationEvent \<Rightarrow> 'w position \<Rightarrow> 'w \<Rightarrow> unit result \<times> 'w" where
  "remainder k fuel f ev (AtDestination ds) w = handle_cache (handler_registry k fuel) ds ev w"
| "remainder k fuel f ev (AtObject d h objs ds) w = then_cache k fuel ev ds (process_objects (with_fuel k fuel d h) ev objs w)"
| "remainder k fuel f ev (AtWait d h ob objs ds) w = after_wait k fuel ev (with_fuel k fuel d h) objs ds
     (if dw_Type d = DEPLOYMENT then deployment_waitFor k f ob w else WaitFor h ob w)"
| "remainder k fuel f ev (AtGet d h dep objs ds) w = after_wait k fuel ev (with_fuel k fuel d h) objs ds (after_tick k f dep w)"
| "remainder k fuel f ev (AtEnd r) w = (r, w)"

text \<open>How far a position is from the end.\<close>

fun rank :: "nat \<Rightarrow> 'w position \<Rightarrow> nat \<times> nat \<times> nat" where
  "rank f (AtDestination ds) = (2 * length ds + 2, 0, 0)"
| "rank f (AtObject d h objs ds) = (2 * length ds + 3, 2 * length objs + 1, 0)"
| "rank f (AtWait d h ob objs ds) = (2 * length ds + 3, 2 * length objs + 2, 2 * f)"
| "rank f (AtGet d h dep objs ds) = (2 * length ds + 3, 2 * length objs + 2, 2 * f + 1)"
| "rank f (AtEnd r) = (0, 0, 0)"

abbreviation closer :: "((nat \<times> nat \<times> nat) \<times> (nat \<times> nat \<times> nat)) set" where
  "closer \<equiv> less_than <*lex*> less_than <*lex*> less_than"

lemma waitFor_loop_Suc:
  "waitFor_loop k (Suc f) dep w =
     (case k_Wake k w of (TimeoutFired, w') \<Rightarrow> (Err (rollout_timeout dep), w') | (TickerFired, w') \<Rightarrow> after_tick k f dep w')"
  by (auto simp: rollout_timeout_def after_tick_def dep_key_def split: prod.split wake.split sum.split)

text \<open>A step leaves what remains unchanged and comes closer to the end, unless the fuel for the wait is used up.\<close>

lemma step_remainder:
  assumes "position_ok k a" and "task_step k ev a w = (a', w')" and "\<And>r. a \<noteq> AtEnd r"
  shows "f = 0 \<and> fst (remainder k fuel f ev a w) = Blocked
    \<or> (\<exists>f'. (f' = fuel \<or> f \<le> Suc f') \<and> remainder k fuel f ev a w = remainder k fuel f' ev a' w' \<and> (rank f' a', rank f a) \<in> closer)"
proof (cases a)
  case (AtDestination ds)
  show ?thesis
  proof (cases ds)
    case Nil
    with AtDestination assms(2) show ?thesis by auto
  next
    case (Cons d ds')
    show ?thesis
    proof (cases "handler_GetProvider (handler_registry k 0) (dw_Type d)")
      case None
      with AtDestination Cons assms(2) show ?thesis
        by (intro disjI2 exI [of _ fuel]) (auto simp: handle_destination_def no_provider_fuel)
    next
      case (Some prov)
      then have "made_for k d (prov d)" by (auto simp: made_for_def)
      then obtain prov' where "handler_GetProvider (handler_registry k fuel) (dw_Type d) = Some prov'" "prov' d = with_fuel k fuel d (prov d)"
        by (rule provider_with_fuel)
      with AtDestination Cons Some assms(2) show ?thesis
        by (intro disjI2 exI [of _ fuel])
          (auto simp: handle_destination_def then_cache_def Let_def split: result.splits prod.splits)
    qed
  qed
next
  case (AtObject d h objs ds)
  show ?thesis
  proof (cases objs)
    case Nil
    with AtObject assms(2) show ?thesis by (intro disjI2 exI [of _ fuel]) (auto simp: then_cache_def)
  next
    case (Cons ob objs')
    with AtObject assms(2) show ?thesis
      by (intro disjI2 exI [of _ fuel])
        (auto simp: then_cache_def after_wait_def split: result.splits prod.splits if_splits)
  qed
next
  case (AtWait d h ob objs ds)
  show ?thesis
  proof (cases "dw_Type d = DEPLOYMENT \<and> (\<exists>dep. ob = ODeployment dep)")
    case False
    with AtWait assms(2) show ?thesis
      by (intro disjI2 exI [of _ fuel])
        (auto simp: after_wait_def deployment_waitFor_def split: result.splits prod.splits if_splits Object.splits)
  next
    case True
    then obtain dep where dep: "dw_Type d = DEPLOYMENT" "ob = ODeployment dep" by blast
    show ?thesis
    proof (cases f)
      case 0
      with AtWait dep show ?thesis by (simp add: after_wait_def deployment_waitFor_def)
    next
      case (Suc f')
      with AtWait dep assms(2) show ?thesis
        by (intro disjI2 exI [of _ f'])
          (auto simp: deployment_waitFor_def waitFor_loop_Suc after_wait_def simp del: waitFor_loop.simps split: prod.splits wake.splits)
    qed
  qed
next
  case (AtGet d h dep objs ds)
  with assms(1,2) show ?thesis
    by (intro disjI2 exI [of _ f])
      (auto simp: after_tick_def after_wait_def deployment_waitFor_def split: sum.splits if_splits)
qed (use assms(3) in simp)

section \<open>The steps compute what the functions compute\<close>

lemma task_run_end: "task_run k ev n (AtEnd r, w) = (AtEnd r, w)"
  by (induction n) simp_all

lemma task_run_add: "task_run k ev (m + n) x = task_run k ev n (task_run k ev m x)"
proof (induction m arbitrary: x)
  case (Suc m)
  show ?case by (cases x; cases "task_step k ev (fst x) (snd x)") (simp add: Suc)
qed simp

lemma remainder_of_run:
  "task_run k ev n (a, w) = (AtEnd r, w') \<Longrightarrow> position_ok k a \<Longrightarrow> n \<le> fuel \<Longrightarrow> n \<le> f \<Longrightarrow> remainder k fuel f ev a w = (r, w')"
proof (induction n arbitrary: a w f)
  case (Suc n)
  obtain a1 w1 where step: "task_step k ev a w = (a1, w1)" by (cases "task_step k ev a w")
  show ?case
  proof (cases "\<exists>x. a = AtEnd x")
    case True
    with Suc.prems(1) show ?thesis by (auto simp: task_run_end)
  next
    case False
    with step_remainder [OF Suc.prems(2) step, of f fuel] Suc.prems(4)
    obtain f' where f': "f' = fuel \<or> f \<le> Suc f'" "remainder k fuel f ev a w = remainder k fuel f' ev a1 w1" by auto
    have "remainder k fuel f' ev a1 w1 = (r, w')"
      using Suc.IH [of a1 w1 f'] Suc.prems step position_ok_step [OF Suc.prems(2) step] f'(1) by auto
    with f'(2) show ?thesis by simp
  qed
qed simp

lemma run_of_remainder:
  "position_ok k a \<Longrightarrow> remainder k fuel f ev a w = (r, w') \<Longrightarrow> r \<noteq> Blocked \<Longrightarrow> \<exists>n. task_run k ev n (a, w) = (AtEnd r, w')"
proof (induction "rank f a" arbitrary: f a w rule: wf_induct_rule [OF wf_lex_prod [OF wf_less_than wf_lex_prod [OF wf_less_than wf_less_than]]])
  case 1
  obtain a1 w1 where step: "task_step k ev a w = (a1, w1)" by (cases "task_step k ev a w")
  show ?case
  proof (cases "\<exists>x. a = AtEnd x")
    case True
    with 1 show ?thesis by (intro exI [of _ 0]) auto
  next
    case False
    with step_remainder [OF "1.prems"(1) step, of f fuel] "1.prems"(2,3)
    obtain f' where "remainder k fuel f' ev a1 w1 = (r, w')" "(rank f' a1, rank f a) \<in> closer" by auto
    from "1.hyps" [OF this(2) position_ok_step [OF "1.prems"(1) step] this(1) "1.prems"(3)]
    obtain n where "task_run k ev n (a1, w1) = (AtEnd r, w')" by blast
    with step show ?thesis by (intro exI [of _ "Suc n"]) simp
  qed
qed

lemma run_iff_HandleEvent:
  assumes "r \<noteq> Blocked"
  shows "(\<exists>n. task_run k ev n (AtDestination (eh_cache eh), w) = (AtEnd r, w'))
    \<longleftrightarrow> (\<exists>m. \<forall>fuel \<ge> m. HandleEvent (handler_registry k fuel) eh ev w = (r, w'))"
proof
  assume "\<exists>n. task_run k ev n (AtDestination (eh_cache eh), w) = (AtEnd r, w')"
  then obtain n where n: "task_run k ev n (AtDestination (eh_cache eh), w) = (AtEnd r, w')" by blast
  have "HandleEvent (handler_registry k fuel) eh ev w = (r, w')" if "n \<le> fuel" for fuel
    using remainder_of_run [OF n _ that, of n] by (simp add: HandleEvent_def)
  then show "\<exists>m. \<forall>fuel \<ge> m. HandleEvent (handler_registry k fuel) eh ev w = (r, w')" by blast
next
  assume "\<exists>m. \<forall>fuel \<ge> m. HandleEvent (handler_registry k fuel) eh ev w = (r, w')"
  then obtain m where "HandleEvent (handler_registry k m) eh ev w = (r, w')" by blast
  then show "\<exists>n. task_run k ev n (AtDestination (eh_cache eh), w) = (AtEnd r, w')"
    using run_of_remainder [of k "AtDestination (eh_cache eh)" m m ev w r w'] assms by (simp add: HandleEvent_def)
qed

text \<open>
  C10: run without interruption, the steps of a handler goroutine, one call to the API server or one
  timer event each, end with a result exactly when \<^verbatim>\<open>HandleEvent\<close> has it for all sufficient fuel, and
  leave the cluster as it does: the fuel that bounds the rollout waits of the functional model takes
  nothing away from the loop of the code.
\<close>

theorem HandleEvent_by_steps:
  assumes "r \<noteq> Blocked"
  shows "(\<exists>n. task_run k ev n (AtDestination (eh_cache eh), w) = (AtEnd r, w'))
    \<longleftrightarrow> (\<exists>m. \<forall>fuel \<ge> m. HandleEvent (handler_registry k fuel) eh ev w = (r, w'))"
  using assms by (rule run_iff_HandleEvent)

text \<open>A Deployment whose rollout is complete when the ticker first fires.\<close>

lemma fixture_rollout:
  "HandleEvent (handler_registry (fixture_kube [fixture_deployment ''app'' ''db'' True] [] [] [] Map.empty) (Suc f))
     \<lparr>eh_cache = [fixture_destination ''Deployment'']\<rparr> (fixture_event ''db'') fixture_start
   = (Ok (), \<lparr>fw_updates = [ODeployment (mark_deployment (fixture_event ''db'') (fixture_deployment ''app'' ''db'' True))], fw_clock = 1\<rparr>)"
  by (simp add: HandleEvent_def handle_destination_def handler_registry_get handler_providers_def DEPLOYMENT_def fixture_defs
      deployment_NewHandler_def deployment_Filter_def deployment_isResourceWatched_def resource_watched_def MatchesAnyNamespaceSelector_def
      label_selector_def MatchesLabelSelectors_def IsNameInList_def References_def deployment_references_def containsKey_def
      Apply_def deployment_apply_def WaitFor_def deployment_waitFor_def mark_deployment_def isDeploymentRolloutComplete_def Let_def)

theorem HandleEvent_by_steps_witness:
  "\<exists>n w'. task_run (fixture_kube [fixture_deployment ''app'' ''db'' True] [] [] [] Map.empty) (fixture_event ''db'') n
     (AtDestination [fixture_destination ''Deployment''], fixture_start) = (AtEnd (Ok ()), w') \<and> length (fw_updates w') = 1"
proof -
  let ?k = "fixture_kube [fixture_deployment ''app'' ''db'' True] [] [] [] Map.empty"
  let ?eh = "\<lparr>eh_cache = [fixture_destination ''Deployment'']\<rparr>"
  obtain w' where w': "HandleEvent (handler_registry ?k (Suc f)) ?eh (fixture_event ''db'') fixture_start = (Ok (), w')" "length (fw_updates w') = 1" for f
    using fixture_rollout by fastforce
  then have "\<exists>m. \<forall>fuel \<ge> m. HandleEvent (handler_registry ?k fuel) ?eh (fixture_event ''db'') fixture_start = (Ok (), w')"
    by (metis Suc_le_D)
  with HandleEvent_by_steps [of "Ok ()" ?k "fixture_event ''db''" ?eh fixture_start w'] w'(2) show ?thesis by auto
qed

section \<open>The goroutine ends\<close>

text \<open>The timeout of a rollout wait fires at some time, whenever the wait begins.\<close>

definition timer_fires :: "'w kube \<Rightarrow> bool" where
  "timer_fires k \<longleftrightarrow> (\<forall>w. \<exists>n. fst (k_Wake k (after_wakes k n w)) = TimeoutFired)"

definition leads_to_end :: "'w kube \<Rightarrow> SecretRotationEvent \<Rightarrow> 'w position \<Rightarrow> 'w \<Rightarrow> bool" where
  "leads_to_end k ev a w \<longleftrightarrow> (\<exists>n r w'. task_run k ev n (a, w) = (AtEnd r, w'))"

lemma leads_step: "leads_to_end k ev a' w' \<Longrightarrow> task_step k ev a w = (a', w') \<Longrightarrow> leads_to_end k ev a w"
  unfolding leads_to_end_def by (metis task_run.simps(2))

lemma leads_end [simp]: "leads_to_end k ev (AtEnd r) w"
  unfolding leads_to_end_def by (metis task_run_end)

lemma wait_leads_to_end:
  assumes "\<And>v. leads_to_end k ev (AtObject d h objs ds) v"
  shows "fst (k_Wake k (after_wakes k n w)) = TimeoutFired \<Longrightarrow> dw_Type d = DEPLOYMENT \<Longrightarrow>
    leads_to_end k ev (AtWait d h (ODeployment dep) objs ds) w"
proof (induction n arbitrary: w)
  case 0
  then obtain v where "k_Wake k w = (TimeoutFired, v)" by (cases "k_Wake k w") auto
  then show ?case using 0 by (intro leads_step [OF leads_end]) auto
next
  case (Suc n)
  obtain e v where wake: "k_Wake k w = (e, v)" by (cases "k_Wake k w")
  show ?case
  proof (cases e)
    case TimeoutFired
    then show ?thesis using wake Suc.prems(2) by (intro leads_step [OF leads_end]) auto
  next
    case TickerFired
    have "leads_to_end k ev (AtGet d h dep objs ds) v"
    proof (cases "task_step k ev (AtGet d h dep objs ds) v")
      case (Pair a' v')
      moreover from Pair have "leads_to_end k ev a' v'"
        using Suc wake assms by (auto split: sum.splits if_splits)
      ultimately show ?thesis by (rule leads_step [rotated])
    qed
    then show ?thesis by (rule leads_step) (use wake TickerFired Suc.prems(2) in simp)
  qed
qed

lemma position_leads_to_end:
  assumes "timer_fires k"
  shows "position_ok k a \<Longrightarrow> leads_to_end k ev a w"
proof (induction "rank 0 a" arbitrary: a w rule: wf_induct_rule [OF wf_lex_prod [OF wf_less_than wf_lex_prod [OF wf_less_than wf_less_than]]])
  case (1 a w)
  obtain a1 w1 where step: "task_step k ev a w = (a1, w1)" by (cases "task_step k ev a w")
  note ok = position_ok_step [OF "1.prems" step]
  show ?case
  proof (cases "(rank 0 a1, rank 0 a) \<in> closer")
    case True
    from leads_step [OF "1.hyps" [OF True ok] step] show ?thesis .
  next
    case far: False
    show ?thesis
    proof (cases a)
      case (AtWait d h ob objs ds)
      have rest: "leads_to_end k ev (AtObject d h objs ds) v" for v
        by (rule "1.hyps") (use "1.prems" AtWait in auto)
      from far step AtWait obtain dep where "dw_Type d = DEPLOYMENT" "ob = ODeployment dep"
        by (auto split: if_splits Object.splits result.splits prod.splits)
      with wait_leads_to_end [OF rest] AtWait assms show ?thesis unfolding timer_fires_def by blast
    next
      case (AtGet d h dep objs ds)
      with far step show ?thesis by (auto split: sum.splits if_splits)
    next
      case (AtDestination ds)
      with far step show ?thesis by (cases ds) (auto split: option.splits result.splits)
    next
      case (AtObject d h objs ds)
      with far step show ?thesis by (cases objs) (auto split: result.splits prod.splits if_splits)
    qed (use leads_end in simp)
  qed
qed

text \<open>
  C11: a handler goroutine always comes to its end: from wherever it stands and whatever the cluster is
  then, its own steps lead it there, provided only that the timeout of a rollout wait fires at some time.
\<close>

theorem handler_ends:
  assumes "timer_fires k" and "position_ok k a"
  shows "\<exists>n r w'. task_run k ev n (a, w) = (AtEnd r, w')"
  using position_leads_to_end [OF assms] by (simp add: leads_to_end_def)

lemma fixture_timer: "timer_fires (fixture_kube ds es ps ws secs)"
  unfolding timer_fires_def
proof
  fix w
  have "fst (k_Wake (fixture_kube ds es ps ws secs) (after_wakes (fixture_kube ds es ps ws secs) (if even (fw_clock w) then 1 else 0) w)) = TimeoutFired"
    by (simp add: fixture_kube_def)
  then show "\<exists>n. fst (k_Wake (fixture_kube ds es ps ws secs) (after_wakes (fixture_kube ds es ps ws secs) n w)) = TimeoutFired" by blast
qed

theorem handler_ends_witness:
  "\<exists>n r w'. task_run (fixture_kube [fixture_deployment ''app'' ''db'' False] [] [] [] Map.empty) (fixture_event ''db'') n
     (AtDestination [fixture_destination ''Deployment''], fixture_start) = (AtEnd r, w')"
  by (rule handler_ends [OF fixture_timer]) simp

end
