(* ===== verification/Interleave.thy ===== *)
theory Interleave
  imports System Tasks
begin

text \<open>
  The system of \<open>System\<close> with its handler goroutines in full: each event that was dispatched is handled
  by a goroutine of its own, which takes one step of \<open>Tasks\<close> at a time between the steps of all
  the others.
\<close>

section \<open>The concurrent system\<close>

text \<open>
  A handler goroutine: its event, the destinations it ranges over, which are those that were watched
  when it began, and where it stands. \<open>tk_begun\<close> is the moment it began, as an index into the history.
\<close>

record 'w task =
  tk_event :: SecretRotationEvent
  tk_watched :: "DestinationToWatch list"
  tk_begun :: nat
  tk_at :: "'w position"

text \<open>\<open>cc_history\<close> are the states the cluster has been in, the present one last.\<close>

record ('n, 'c, 'g, 'w) concurrent =
  cc_system :: "('n, 'c, 'g, 'w) system"
  cc_tasks :: "'w task list"
  cc_history :: "'w list"

definition concurrent_init :: "('n, 'c, 'g, 'w) system \<Rightarrow> ('n, 'c, 'g, 'w) concurrent" where
  "concurrent_init s = \<lparr>cc_system = s, cc_tasks = [], cc_history = [sy_cluster s]\<rparr>"

definition begin_task :: "SecretRotationEvent \<Rightarrow> ('n, 'c, 'g, 'w) concurrent \<Rightarrow> 'w task" where
  "begin_task ev c =
     (let watched = eh_cache (rr_eventHandler (sy_reconciler (cc_system c))) in
      \<lparr>tk_event = ev, tk_watched = watched, tk_begun = length (cc_history c) - 1, tk_at = AtDestination watched\<rparr>)"

definition remove_nth :: "nat \<Rightarrow> 'a list \<Rightarrow> 'a list" where
  "remove_nth i xs = take i xs @ drop (Suc i) xs"

datatype concurrent_action = Other action | Begins SecretRotationEvent | Runs nat | Ends nat

inductive concurrent_step ::
  "('w, 'n, 'c, 'g) program \<Rightarrow> concurrent_action \<Rightarrow> ('n, 'c, 'g, 'w) concurrent \<Rightarrow> ('n, 'c, 'g, 'w) concurrent \<Rightarrow> bool" for pr where
  other:
    "system_step pr a (cc_system c) s' \<Longrightarrow> (\<And>ev. a \<noteq> Handled ev) \<Longrightarrow>
     concurrent_step pr (Other a) c (c\<lparr>cc_system := s', cc_history := cc_history c @ [sy_cluster s']\<rparr>)"
| begins:
    "count (mset (map tk_event (cc_tasks c))) ev < count (mset (pm_active (sy_pump (cc_system c)))) ev \<Longrightarrow>
     concurrent_step pr (Begins ev) c (c\<lparr>cc_tasks := cc_tasks c @ [begin_task ev c]\<rparr>)"
| runs:
    "i < length (cc_tasks c) \<Longrightarrow> t = cc_tasks c ! i \<Longrightarrow> (\<And>r. tk_at t \<noteq> AtEnd r) \<Longrightarrow>
     task_step (pr_kube pr) (tk_event t) (tk_at t) (sy_cluster (cc_system c)) = (a, k') \<Longrightarrow>
     concurrent_step pr (Runs i) c
       (c\<lparr>cc_system := (cc_system c)\<lparr>sy_cluster := k'\<rparr>, cc_tasks := (cc_tasks c)[i := t\<lparr>tk_at := a\<rparr>], cc_history := cc_history c @ [k']\<rparr>)"
| ends:
    "i < length (cc_tasks c) \<Longrightarrow> t = cc_tasks c ! i \<Longrightarrow> tk_at t = AtEnd r \<Longrightarrow> returns r \<Longrightarrow>
     concurrent_step pr (Ends i) c
       (c\<lparr>cc_system := (cc_system c)\<lparr>sy_pump := end_handler (tk_event t) (sy_pump (cc_system c))\<rparr>,
          cc_tasks := remove_nth i (cc_tasks c)\<rparr>)"

inductive concurrent_run ::
  "('w, 'n, 'c, 'g) program \<Rightarrow> ('n, 'c, 'g, 'w) concurrent \<Rightarrow> concurrent_action list \<Rightarrow> ('n, 'c, 'g, 'w) concurrent \<Rightarrow> bool" for pr where
  halt: "concurrent_run pr c [] c"
| go: "concurrent_run pr c as c1 \<Longrightarrow> concurrent_step pr a c1 c2 \<Longrightarrow> concurrent_run pr c (as @ [a]) c2"

section \<open>What a handler goroutine keeps\<close>

text \<open>The objects it still has to do were selected by a watched destination, from the cluster as it was at some moment since it began.\<close>

definition selected :: "'w list \<Rightarrow> 'w task \<Rightarrow> DestinationToWatch \<Rightarrow> 'w Handler \<Rightarrow> Object set \<Rightarrow> bool" where
  "selected H t d h obs \<longleftrightarrow> d \<in> set (tk_watched t)
     \<and> (\<exists>j objs. tk_begun t \<le> j \<and> j < length H \<and> h_Filter h d (tk_event t) (H ! j) = Ok objs \<and> obs \<subseteq> set objs)"

fun on_track :: "'w list \<Rightarrow> 'w task \<Rightarrow> 'w position \<Rightarrow> bool" where
  "on_track H t (AtDestination ds) \<longleftrightarrow> set ds \<subseteq> set (tk_watched t)"
| "on_track H t (AtObject d h objs ds) \<longleftrightarrow> set ds \<subseteq> set (tk_watched t) \<and> selected H t d h (set objs)"
| "on_track H t (AtWait d h ob objs ds) \<longleftrightarrow> set ds \<subseteq> set (tk_watched t) \<and> selected H t d h (set objs)"
| "on_track H t (AtGet d h dep objs ds) \<longleftrightarrow> set ds \<subseteq> set (tk_watched t) \<and> selected H t d h (set objs)"
| "on_track H t (AtEnd r) \<longleftrightarrow> True"

definition task_ok :: "'w kube \<Rightarrow> 'w list \<Rightarrow> 'w task \<Rightarrow> bool" where
  "task_ok k H t \<longleftrightarrow> position_ok k (tk_at t) \<and> tk_begun t < length H \<and> on_track H t (tk_at t)"

lemma selected_later: "selected H t d h obs \<Longrightarrow> obs' \<subseteq> obs \<Longrightarrow> selected (H @ H') t d h obs'"
  unfolding selected_def by (metis nth_append length_append trans_less_add1 subset_trans)

lemma on_track_later: "on_track H t a \<Longrightarrow> on_track (H @ H') t a"
  by (cases a) (auto intro: selected_later)

lemma task_ok_later: "task_ok k H t \<Longrightarrow> task_ok k (H @ H') t"
  by (simp add: task_ok_def on_track_later)

lemma selected_now:
  assumes "h_Filter h d (tk_event t) (last H) = Ok objs" and "d \<in> set (tk_watched t)" and "tk_begun t < length H"
  shows "selected H t d h (set objs)"
proof -
  have "last H = H ! (length H - 1)" using assms(3) by (intro last_conv_nth) auto
  with assms show ?thesis unfolding selected_def by (intro conjI exI [of _ "length H - 1"] exI [of _ objs]) auto
qed

lemma selected_tail: "selected H t d h (insert ob obs) \<Longrightarrow> selected H t d h obs"
  unfolding selected_def by blast

lemma on_track_step:
  assumes "task_step k (tk_event t) a (last H) = (a', w')" and "on_track H t a" and "tk_begun t < length H"
  shows "on_track H t a'"
  using assms
  by (induction k "tk_event t" a "last H" rule: task_step.induct)
    (auto intro: selected_now dest: selected_tail
      split: option.splits result.splits if_splits prod.splits Object.splits wake.splits sum.splits)

text \<open>Its steps change the cluster only by sending an object, or let it go on by itself while waiting.\<close>

lemma made_for_handler: "made_for k d h \<Longrightarrow> \<exists>kind. destination_handler k h kind mark_object"
  unfolding made_for_def using registry_handler by blast

lemma apply_selected:
  assumes "made_for k d h" and "selected H t d h obs" and "ob \<in> obs" and "Apply h ob ev w = (x, w')"
  shows "w' = snd (k_Update k w (mark_object ev ob))"
proof -
  obtain kind where dh: "destination_handler k h kind mark_object" using made_for_handler [OF assms(1)] by blast
  have "kind ob" using assms(2,3) destination_handler.filter_kind [OF dh] unfolding selected_def by blast
  from destination_handler.apply_world [OF dh this, of ev w] assms(4) show ?thesis by simp
qed

lemma task_step_world:
  assumes "task_step k (tk_event t) a w = (a', w')" and "position_ok k a" and "on_track H t a"
  shows "w' = w \<or> w' = snd (k_Wake k w) \<or> (\<exists>ob. written (tk_event t) a = Some ob \<and> w' = snd (k_Update k w ob))"
proof (cases a)
  case (AtObject d h objs ds)
  show ?thesis
  proof (cases "\<exists>ob objs'. objs = ob # objs' \<and> References h ob (ev_SecretIdentifier (tk_event t)) = Ok True")
    case True
    then obtain ob objs' where ob: "objs = ob # objs'" "References h ob (ev_SecretIdentifier (tk_event t)) = Ok True" by blast
    obtain x v where ap: "Apply h ob (tk_event t) w = (x, v)" by (cases "Apply h ob (tk_event t) w")
    have "v = snd (k_Update k w (mark_object (tk_event t) ob))"
      by (rule apply_selected [OF _ _ _ ap]) (use assms(2,3) AtObject ob in auto)
    moreover have "w' = v" using assms(1) AtObject ob ap by (auto split: result.splits)
    ultimately show ?thesis using AtObject ob by simp
  next
    case False
    with assms(1) AtObject show ?thesis by (cases objs) (auto split: result.splits if_splits)
  qed
next
  case (AtWait d h ob objs ds)
  show ?thesis
  proof (cases "dw_Type d = DEPLOYMENT")
    case True
    with assms(1) AtWait show ?thesis by (auto split: Object.splits prod.splits wake.splits)
  next
    case False
    have "WaitFor h ob w = (Ok (), w)"
      using assms(2) AtWait non_deployment_wait [OF _ False, of k 0 _ d ob w] by (auto simp: made_for_def)
    with False assms(1) AtWait show ?thesis by simp
  qed
next
  case (AtDestination ds)
  with assms(1) show ?thesis by (cases ds) (auto split: option.splits result.splits)
qed (use assms(1) in \<open>auto split: sum.splits if_splits\<close>)

section \<open>What the concurrent system keeps\<close>

definition concurrent_ok :: "('w, 'n, 'c, 'g) program \<Rightarrow> ('n, 'c, 'g, 'w) concurrent \<Rightarrow> bool" where
  "concurrent_ok pr c \<longleftrightarrow> system_ok pr (cc_system c) \<and> (\<forall>t \<in> set (cc_tasks c). task_ok (pr_kube pr) (cc_history c) t)
     \<and> mset (map tk_event (cc_tasks c)) \<subseteq># mset (pm_active (sy_pump (cc_system c)))
     \<and> cc_history c \<noteq> [] \<and> last (cc_history c) = sy_cluster (cc_system c)"

lemma concurrent_ok_init: "system_ok pr s \<Longrightarrow> concurrent_ok pr (concurrent_init s)"
  by (simp add: concurrent_ok_def concurrent_init_def)

lemma system_ok_cluster [simp]: "system_ok pr (s\<lparr>sy_cluster := k\<rparr>) = system_ok pr s"
  by (simp add: system_ok_def)

lemma system_ok_finish: "system_ok pr s \<Longrightarrow> ev \<in> set (pm_active (sy_pump s)) \<Longrightarrow>
  system_ok pr (s\<lparr>sy_pump := end_handler ev (sy_pump s)\<rparr>)"
  using pump_ok_step [OF pump_step.finish, of ev "sy_pump s"] by (simp add: system_ok_def)

lemma active_step:
  assumes "system_step pr a s s'" and "\<And>ev. a \<noteq> Handled ev"
  shows "mset (pm_active (sy_pump s)) \<subseteq># mset (pm_active (sy_pump s'))"
  using assms by (induction rule: system_step.induct) (auto simp: enqueue_def graceful_shutdown_def split: prod.splits)

lemma mset_remove_nth: "i < length xs \<Longrightarrow> mset (remove_nth i xs) = mset xs - {#xs ! i#}"
  unfolding remove_nth_def by (subst (3) id_take_nth_drop [of i xs]) simp_all

lemma set_remove_nth: "set (remove_nth i xs) \<subseteq> set xs"
  unfolding remove_nth_def using set_take_subset [of i xs] set_drop_subset [of "Suc i" xs] by auto

lemma begin_task_ok:
  assumes "cc_history c \<noteq> []"
  shows "task_ok k (cc_history c) (begin_task ev c)" and "tk_event (begin_task ev c) = ev"
  using assms by (simp_all add: begin_task_def task_ok_def Let_def)

lemma task_ok_at [simp]: "on_track H (t\<lparr>tk_at := a\<rparr>) b = on_track H t b"
  by (cases b) (auto simp: selected_def)

lemma task_ok_step:
  assumes "task_ok k H t" and "task_step k (tk_event t) (tk_at t) (last H) = (a, w')"
  shows "task_ok k H (t\<lparr>tk_at := a\<rparr>)"
  using assms position_ok_step [OF _ assms(2)] on_track_step [OF assms(2)] by (simp add: task_ok_def)

lemma concurrent_ok_step: "concurrent_step pr a c c' \<Longrightarrow> concurrent_ok pr c \<Longrightarrow> concurrent_ok pr c'"
proof (induction rule: concurrent_step.induct)
  case (other a c s')
  then have "system_ok pr s'" using system_ok_step unfolding concurrent_ok_def by blast
  moreover have "mset (map tk_event (cc_tasks c)) \<subseteq># mset (pm_active (sy_pump s'))"
    using other.prems active_step [OF other.hyps] unfolding concurrent_ok_def by (blast intro: subset_mset.order_trans)
  ultimately show ?case using other.prems by (auto simp: concurrent_ok_def intro: task_ok_later)
next
  case (begins c ev)
  then have "mset (map tk_event (cc_tasks c @ [begin_task ev c])) \<subseteq># mset (pm_active (sy_pump (cc_system c)))"
    by (auto simp: concurrent_ok_def begin_task_ok subseteq_mset_def Suc_leI)
  with begins show ?case by (auto simp: concurrent_ok_def begin_task_ok)
next
  case (runs i c t a k')
  have t: "task_ok (pr_kube pr) (cc_history c) t" using runs by (auto simp: concurrent_ok_def)
  have "task_ok (pr_kube pr) (cc_history c @ [k']) (t\<lparr>tk_at := a\<rparr>)"
    using task_ok_step [OF t] runs.hyps(4) runs.prems by (intro task_ok_later) (simp add: concurrent_ok_def)
  moreover have "task_ok (pr_kube pr) (cc_history c @ [k']) u" if "u \<in> set (cc_tasks c)" for u
    using that runs.prems by (intro task_ok_later) (simp add: concurrent_ok_def)
  moreover have "map tk_event ((cc_tasks c)[i := t\<lparr>tk_at := a\<rparr>]) = map tk_event (cc_tasks c)"
    using runs.hyps(1,2) by (metis (no_types, lifting) list_update_id map_update task.select_convs(1) task.surjective task.update_convs(4) nth_map)
  ultimately show ?case using runs.prems set_update_subset_insert [of "cc_tasks c" i "t\<lparr>tk_at := a\<rparr>"]
    by (auto simp: concurrent_ok_def)
next
  case (ends i c t r)
  let ?p = "pm_active (sy_pump (cc_system c))"
  have le: "mset (map tk_event (cc_tasks c)) \<subseteq># mset ?p" using ends.prems by (simp add: concurrent_ok_def)
  have "tk_event t \<in># mset (map tk_event (cc_tasks c))" using ends.hyps(1,2) by auto
  then have act: "tk_event t \<in> set ?p" using mset_subset_eqD [OF le] by simp
  have "mset (map tk_event (remove_nth i (cc_tasks c))) = mset (map tk_event (cc_tasks c)) - {#tk_event t#}"
    using ends.hyps(1,2) by (simp add: mset_remove_nth image_mset_Diff)
  then have "mset (map tk_event (remove_nth i (cc_tasks c))) \<subseteq># mset (remove1 (tk_event t) ?p)"
    using le unfolding subseteq_mset_def by (simp add: diff_le_mono)
  with ends.prems system_ok_finish [OF _ act] set_remove_nth [of i "cc_tasks c"] show ?case
    by (auto simp: concurrent_ok_def)
qed

lemma concurrent_ok_run: "concurrent_run pr c as c' \<Longrightarrow> concurrent_ok pr c \<Longrightarrow> concurrent_ok pr c'"
  by (induction rule: concurrent_run.induct) (auto intro: concurrent_ok_step)

section \<open>Every run of the system is one of the concurrent system\<close>

lemma concurrent_run_append: "concurrent_run pr c1 bs c2 \<Longrightarrow> concurrent_run pr c as c1 \<Longrightarrow> concurrent_run pr c (as @ bs) c2"
  by (induction rule: concurrent_run.induct) (auto intro: concurrent_run.go simp flip: append_assoc)

lemma concurrent_run_step: "concurrent_step pr a c c' \<Longrightarrow> concurrent_run pr c [a] c'"
  using concurrent_run.go [OF concurrent_run.halt] by fastforce

text \<open>A goroutine that is alone with its event can be run to its end.\<close>

lemma run_alone:
  assumes "task_run (pr_kube pr) ev n (a, sy_cluster (cc_system c)) = (AtEnd r, w')" and "cc_tasks c = [t]" and "tk_event t = ev" "tk_at t = a"
  shows "\<exists>as c' t'. concurrent_run pr c as c' \<and> cc_system c' = (cc_system c)\<lparr>sy_cluster := w'\<rparr> \<and> cc_tasks c' = [t'] \<and> tk_event t' = ev
    \<and> tk_at t' = AtEnd r"
  using assms
proof (induction n arbitrary: a c t)
  case 0
  then show ?case by (intro exI [of _ "[]"] exI [of _ c] exI [of _ t]) (auto intro: concurrent_run.halt)
next
  case (Suc n)
  show ?case
  proof (cases "\<exists>x. a = AtEnd x")
    case True
    with Suc.prems show ?thesis by (intro exI [of _ "[]"] exI [of _ c] exI [of _ t]) (auto simp: task_run_end intro: concurrent_run.halt)
  next
    case False
    obtain a1 w1 where one: "task_step (pr_kube pr) ev a (sy_cluster (cc_system c)) = (a1, w1)"
      by (cases "task_step (pr_kube pr) ev a (sy_cluster (cc_system c))")
    let ?t = "t\<lparr>tk_at := a1\<rparr>" and ?c = "c\<lparr>cc_system := (cc_system c)\<lparr>sy_cluster := w1\<rparr>, cc_tasks := (cc_tasks c)[0 := t\<lparr>tk_at := a1\<rparr>], cc_history := cc_history c @ [w1]\<rparr>"
    have "concurrent_step pr (Runs 0) c ?c" by (rule concurrent_step.runs) (use Suc.prems False one in auto)
    moreover have "\<exists>as c' t'. concurrent_run pr ?c as c' \<and> cc_system c' = (cc_system ?c)\<lparr>sy_cluster := w'\<rparr> \<and> cc_tasks c' = [t'] \<and> tk_event t' = ev
        \<and> tk_at t' = AtEnd r"
      by (rule Suc.IH [of a1 ?c ?t]) (use Suc.prems one in auto)
    ultimately show ?thesis using concurrent_run_append [OF _ concurrent_run_step] by fastforce
  qed
qed

lemma handled_by_goroutine:
  assumes "ev \<in> set (pm_active (sy_pump (cc_system c)))" and "cc_tasks c = []" and "returns x"
    and "HandleEvent (pr_handlers pr) (rr_eventHandler (sy_reconciler (cc_system c))) ev (sy_cluster (cc_system c)) = (x, k')"
  shows "\<exists>as c'. concurrent_run pr c as c' \<and> cc_tasks c' = []
    \<and> cc_system c' = (cc_system c)\<lparr>sy_pump := end_handler ev (sy_pump (cc_system c)), sy_cluster := k'\<rparr>"
proof -
  let ?watched = "eh_cache (rr_eventHandler (sy_reconciler (cc_system c)))"
  let ?c = "c\<lparr>cc_tasks := cc_tasks c @ [begin_task ev c]\<rparr>"
  have begins: "concurrent_step pr (Begins ev) c ?c" using assms(1,2) by (intro concurrent_step.begins) simp
  have "remainder (pr_kube pr) (pr_fuel pr) 0 ev (AtDestination ?watched) (sy_cluster (cc_system c)) = (x, k')"
    using assms(4) by (simp add: HandleEvent_def)
  then obtain n where n: "task_run (pr_kube pr) ev n (AtDestination ?watched, sy_cluster (cc_system c)) = (AtEnd x, k')"
    using run_of_remainder [of "pr_kube pr" "AtDestination ?watched"] assms(3) by fastforce
  obtain as c' t' where r: "concurrent_run pr ?c as c'" "cc_system c' = (cc_system c)\<lparr>sy_cluster := k'\<rparr>" "cc_tasks c' = [t']"
    "tk_event t' = ev" "tk_at t' = AtEnd x"
    using run_alone [of pr ev n "AtDestination ?watched" ?c x k' "begin_task ev c"] n assms(2) by (auto simp: begin_task_def Let_def)
  have "concurrent_step pr (Ends 0) c'
      (c'\<lparr>cc_system := (cc_system c')\<lparr>sy_pump := end_handler (tk_event t') (sy_pump (cc_system c'))\<rparr>,
        cc_tasks := remove_nth 0 (cc_tasks c')\<rparr>)"
    by (rule concurrent_step.ends) (use r assms(3) in auto)
  note run = concurrent_run.go [OF concurrent_run_append [OF r(1) concurrent_run_step [OF begins]] this]
  show ?thesis by (intro exI conjI, rule run) (use r in \<open>simp_all add: remove_nth_def\<close>)
qed

lemma run_simulated:
  "system_run pr s as s' \<Longrightarrow> cc_system c = s \<Longrightarrow> cc_tasks c = [] \<Longrightarrow> \<exists>bs c'. concurrent_run pr c bs c' \<and> cc_system c' = s' \<and> cc_tasks c' = []"
proof (induction rule: system_run.induct)
  case (stay s)
  then show ?case using concurrent_run.halt by blast
next
  case (step s as s1 a s2)
  then obtain bs c1 where c1: "concurrent_run pr c bs c1" "cc_system c1 = s1" "cc_tasks c1 = []" by blast
  have "\<exists>as c'. concurrent_run pr c1 as c' \<and> cc_system c' = s2 \<and> cc_tasks c' = []"
  proof (cases "\<exists>ev. a = Handled ev")
    case False
    then have "concurrent_step pr (Other a) c1 (c1\<lparr>cc_system := s2, cc_history := cc_history c1 @ [sy_cluster s2]\<rparr>)"
      using step.hyps(2) c1(2) by (intro concurrent_step.other) auto
    note run = concurrent_run_step [OF this]
    show ?thesis by (intro exI conjI, rule run) (simp_all add: c1(3))
  next
    case True
    then obtain ev x k' where "ev \<in> set (pm_active (sy_pump s1))" "returns x"
      "HandleEvent (pr_handlers pr) (rr_eventHandler (sy_reconciler s1)) ev (sy_cluster s1) = (x, k')"
      "s2 = s1\<lparr>sy_pump := end_handler ev (sy_pump s1), sy_cluster := k'\<rparr>"
      using step.hyps(2) by (auto elim: system_step.cases)
    with handled_by_goroutine [of ev c1 x pr k'] c1 show ?thesis by auto
  qed
  with concurrent_run_append [OF _ c1(1)] show ?case by blast
qed

section \<open>Properties\<close>

lemma concurrent_write:
  assumes "concurrent_ok pr c" and "t \<in> set (cc_tasks c)"
    and "task_step (pr_kube pr) (tk_event t) (tk_at t) (sy_cluster (cc_system c)) = (a, k')"
  shows "k' = sy_cluster (cc_system c) \<or> k' = snd (k_Wake (pr_kube pr) (sy_cluster (cc_system c)))
    \<or> (\<exists>ob d h j objs. k' = snd (k_Update (pr_kube pr) (sy_cluster (cc_system c)) (mark_object (tk_event t) ob))
        \<and> d \<in> set (tk_watched t) \<and> made_for (pr_kube pr) d h \<and> tk_begun t \<le> j \<and> j < length (cc_history c)
        \<and> h_Filter h d (tk_event t) (cc_history c ! j) = Ok objs \<and> ob \<in> set objs
        \<and> References h ob (ev_SecretIdentifier (tk_event t)) = Ok True)"
proof -
  have t: "position_ok (pr_kube pr) (tk_at t)" "on_track (cc_history c) t (tk_at t)"
    using assms(1,2) by (auto simp: concurrent_ok_def task_ok_def)
  have "\<exists>ob' d h j objs. ob = mark_object (tk_event t) ob' \<and> d \<in> set (tk_watched t) \<and> made_for (pr_kube pr) d h \<and> tk_begun t \<le> j
      \<and> j < length (cc_history c) \<and> h_Filter h d (tk_event t) (cc_history c ! j) = Ok objs \<and> ob' \<in> set objs
      \<and> References h ob' (ev_SecretIdentifier (tk_event t)) = Ok True"
    if "written (tk_event t) (tk_at t) = Some ob" for ob
    using that t by (auto simp: selected_def split: if_splits elim!: written.elims) blast
  with task_step_world [OF assms(3) t] show ?thesis by blast
qed

lemma concurrent_cause:
  assumes "concurrent_ok pr c" and "t \<in> set (cc_tasks c)"
  shows "\<exists>cause. (tk_event t, cause) \<in> set (sy_causes (cc_system c)) \<and> justified pr (tk_event t, cause)"
proof -
  have "mset (map tk_event (cc_tasks c)) \<subseteq># mset (pm_active (sy_pump (cc_system c)))" and ok: "system_ok pr (cc_system c)"
    using assms(1) by (simp_all add: concurrent_ok_def)
  from set_mset_mono [OF this(1)] have "tk_event t \<in> set (pm_active (sy_pump (cc_system c)))" using assms(2) by auto
  with active_has_cause [OF ok] show ?thesis by blast
qed

text \<open>
  C3: with all handler goroutines interleaved, call by call, with each other, with reconciliations,
  requests, other sources, the shutdown and whatever others do to the cluster: a handler that runs has
  a cause, an authorised POST if its event is signed as a webhook event; and every step it takes leaves
  the cluster as it is, waits for a timer, or sends an object with the annotations of its event that a
  destination watched when it began selected from the cluster of some moment since then, and that
  references the secret.
\<close>

theorem interleaved_writes_have_a_cause:
  assumes "concurrent_run pr (concurrent_init (system_init addr n k)) as c" and "t \<in> set (cc_tasks c)"
    and "task_step (pr_kube pr) (tk_event t) (tk_at t) (sy_cluster (cc_system c)) = (a, k')"
  shows "(\<exists>cause. (tk_event t, cause) \<in> set (sy_causes (cc_system c)) \<and> justified pr (tk_event t, cause))
    \<and> (k' = sy_cluster (cc_system c) \<or> k' = snd (k_Wake (pr_kube pr) (sy_cluster (cc_system c)))
      \<or> (\<exists>ob d h j objs. k' = snd (k_Update (pr_kube pr) (sy_cluster (cc_system c)) (mark_object (tk_event t) ob))
          \<and> d \<in> set (tk_watched t) \<and> made_for (pr_kube pr) d h \<and> tk_begun t \<le> j \<and> j < length (cc_history c)
          \<and> h_Filter h d (tk_event t) (cc_history c ! j) = Ok objs \<and> ob \<in> set objs
          \<and> References h ob (ev_SecretIdentifier (tk_event t)) = Ok True))"
proof -
  have ok: "concurrent_ok pr c" by (rule concurrent_ok_run [OF assms(1) concurrent_ok_init [OF system_ok_init]])
  show ?thesis by (rule conjI [OF concurrent_cause [OF ok assms(2)] concurrent_write [OF ok assms(2,3)]])
qed

text \<open>
  C9: whatever the system does when the handling of an event is taken as one step, it also does with
  the handler goroutines in full: the atomic steps are a refinement of the interleaved ones.
\<close>

theorem atomic_handling_refines:
  assumes "system_run pr s as s'"
  shows "\<exists>bs c. concurrent_run pr (concurrent_init s) bs c \<and> cc_system c = s' \<and> cc_tasks c = []"
  using run_simulated [OF assms, of "concurrent_init s"] by (simp add: concurrent_init_def)

section \<open>Concrete runs\<close>

theorem atomic_handling_refines_witness:
  "\<exists>bs c. concurrent_run fixture_program (concurrent_init fixture_initial) bs c \<and> lw_server (sy_listeners (cc_system c)) = fixture_server"
  using fixture_reconciled atomic_handling_refines by metis

text \<open>The event of an accepted request, at the object it is about.\<close>

theorem interleaved_writes_have_a_cause_witness:
  "\<exists>bs c t cause. concurrent_run fixture_program (concurrent_init fixture_initial) bs c \<and> t \<in> set (cc_tasks c)
     \<and> ev_TriggerSource (tk_event t) = WEBHOOK \<and> (tk_event t, cause) \<in> set (sy_causes (cc_system c))"
proof -
  obtain as s ev where s: "system_run fixture_program fixture_initial as s" "ev \<in> set (pm_active (sy_pump s))" "ev_TriggerSource ev = WEBHOOK"
    using fixture_dispatched by blast
  obtain bs c where c: "concurrent_run fixture_program (concurrent_init fixture_initial) bs c" "cc_system c = s" "cc_tasks c = []"
    using run_simulated [OF s(1), of "concurrent_init fixture_initial"] by (auto simp: concurrent_init_def)
  let ?c = "c\<lparr>cc_tasks := cc_tasks c @ [begin_task ev c]\<rparr>" and ?t = "begin_task ev c"
  have "concurrent_step fixture_program (Begins ev) c ?c" using c(2,3) s(2) by (intro concurrent_step.begins) simp
  note run = concurrent_run.go [OF c(1) this]
  have t: "?t \<in> set (cc_tasks ?c)" "tk_event ?t = ev" by (simp_all add: begin_task_def Let_def)
  from interleaved_writes_have_a_cause [OF run [unfolded fixture_initial_def] t(1) prod.collapse [symmetric]]
  obtain cause where "(tk_event ?t, cause) \<in> set (sy_causes (cc_system ?c))" by blast
  with run t s(3) show ?thesis by metis
qed

end
