(* ===== verification/ConfigLifecycle.thy ===== *)
theory ConfigLifecycle
  imports System
begin

text \<open>
  A \<^verbatim>\<open>Config\<close> within the program, from its creation to its deletion: how reconciliations adopt it,
  and that it is released only when its listeners are gone. Both hold in every state the system
  can reach, with the listeners of all types.
\<close>

section \<open>The API server\<close>

text \<open>
  What the API server promises for the object that a request names, and \<^verbatim>\<open>controllerutil\<close> for the
  list of finalizers. An update may always fail. When an update of the current version of an object
  that is not being deleted succeeds, what is stored is what was sent, with a resource version and a
  generation of the server's choice.
\<close>

definition same_object :: "Config \<Rightarrow> Config \<Rightarrow> bool" where
  "same_object c cur \<longleftrightarrow>
     om_Name (cfg_Meta c) = om_Name (cfg_Meta cur) \<and> om_Namespace (cfg_Meta c) = om_Namespace (cfg_Meta cur)
     \<and> om_ResourceVersion (cfg_Meta c) = om_ResourceVersion (cfg_Meta cur)
     \<and> om_DeletionTimestamp (cfg_Meta c) = om_DeletionTimestamp (cfg_Meta cur)"

definition stored_as :: "Config \<Rightarrow> Config \<Rightarrow> bool" where
  "stored_as c c' \<longleftrightarrow> cfg_Spec c' = cfg_Spec c
     \<and> (\<exists>v g. cfg_Meta c' = (cfg_Meta c)\<lparr>om_ResourceVersion := v, om_Generation := g\<rparr>)"

definition config_server :: "'w config_api \<Rightarrow> NamespacedName \<Rightarrow> bool" where
  "config_server api req \<longleftrightarrow>
     (\<forall>w w' c cur. ca_Get api w req = Inr cur \<longrightarrow> om_DeletionTimestamp (cfg_Meta cur) = None \<longrightarrow> same_object c cur \<longrightarrow>
        ca_Update api w c = (None, w') \<longrightarrow> (\<exists>c'. ca_Get api w' req = Inr c' \<and> stored_as c c'))
     \<and> (\<forall>c f. ca_ContainsFinalizer api c f \<longleftrightarrow> f \<in> set (om_Finalizers (cfg_Meta c)))
     \<and> (\<forall>c f. \<exists>fs. ca_AddFinalizer api c f = c\<lparr>cfg_Meta := (cfg_Meta c)\<lparr>om_Finalizers := fs\<rparr>\<rparr>
          \<and> set fs = insert f (set (om_Finalizers (cfg_Meta c))))"

lemma config_server_update:
  assumes "config_server api req" and "ca_Get api w req = Inr cur" "om_DeletionTimestamp (cfg_Meta cur) = None"
    and "same_object c cur" "ca_Update api w c = (None, w')"
  shows "\<exists>c'. ca_Get api w' req = Inr c' \<and> stored_as c c'"
  using assms unfolding config_server_def by blast

lemma claimed_stored:
  assumes "config_server api req" and "ca_Get api w req = Inr cfg" and "om_DeletionTimestamp (cfg_Meta cfg) = None"
    and "ca_Update api w (ca_AddFinalizer api cfg reloaderFinalizer) = (None, w')"
  shows "\<exists>cfg'. ca_Get api w' req = Inr cfg' \<and> ca_ContainsFinalizer api cfg' reloaderFinalizer
    \<and> om_DeletionTimestamp (cfg_Meta cfg') = None \<and> cfg_Spec cfg' = cfg_Spec cfg"
proof -
  obtain fs where add: "ca_AddFinalizer api cfg reloaderFinalizer = cfg\<lparr>cfg_Meta := (cfg_Meta cfg)\<lparr>om_Finalizers := fs\<rparr>\<rparr>"
    "reloaderFinalizer \<in> set fs" using assms(1) unfolding config_server_def by blast
  have "same_object (ca_AddFinalizer api cfg reloaderFinalizer) cfg" by (simp add: same_object_def add(1))
  from config_server_update [OF assms(1-3) this assms(4)] obtain cfg' where "ca_Get api w' req = Inr cfg'"
    "stored_as (ca_AddFinalizer api cfg reloaderFinalizer) cfg'" by blast
  moreover have "ca_ContainsFinalizer api c f \<longleftrightarrow> f \<in> set (om_Finalizers (cfg_Meta c))" for c f
    using assms(1) unfolding config_server_def by blast
  ultimately show ?thesis using add assms(3) by (auto simp: stored_as_def)
qed

lemma annotated_stored:
  assumes "config_server api req" and "ca_Get api w req = Inr cfg" and "om_DeletionTimestamp (cfg_Meta cfg) = None"
    and "annotated api cfg w = (None, cfg', w')"
  shows "\<exists>c. ca_Get api w' req = Inr c \<and> cfg_Spec c = cfg_Spec cfg \<and> \<not> isResourceNew c"
proof (cases "isResourceNew cfg")
  case True
  let ?c = "annotate cfg (ca_Now api w)"
  have up: "ca_Update api w ?c = (None, w')" using True assms(4) by (auto simp: annotated_def Let_def split: prod.splits)
  have "same_object ?c cfg" by (simp add: same_object_def annotate_def)
  from config_server_update [OF assms(1-3) this up] obtain c where c: "ca_Get api w' req = Inr c" "stored_as ?c c" by blast
  then have "cfg_Spec c = cfg_Spec cfg" "om_Annotations (cfg_Meta c) = om_Annotations (cfg_Meta ?c)" by (auto simp: stored_as_def)
  with c(1) show ?thesis by (simp add: isResourceNew_def annotate_def)
next
  case False
  with assms(2,4) show ?thesis by (simp add: annotated_def)
qed

section \<open>Adoption\<close>

lemma annotated_beside:
  "annotated (api_beside api) cfg (w, k) = (case annotated api cfg k of (e, cfg', k') \<Rightarrow> (e, cfg', w, k'))"
  by (auto simp: annotated_def Let_def split: prod.split)

lemma finalizers_beside [simp]:
  "ca_ContainsFinalizer (api_beside api) = ca_ContainsFinalizer api" "ca_AddFinalizer (api_beside api) = ca_AddFinalizer api"
  by (simp_all add: api_beside_def)

text \<open>Taking over a Config whose sources can be started, in a state the manager can reach.\<close>

lemma sync_config_complete:
  assumes "reached ous (rr_listenerManager r) w" and "range_order ord1" "range_order ord2" and "Validate (cfg_Spec cfg) = Ok ()"
    and "\<forall>source \<in> set (cs_NotificationSources (cfg_Spec cfg)). startable (program_env ou) source"
  shows "\<exists>r' w'. sync_config (beside (program_env ou)) ord1 ord2 req cfg r (w, k) = ((False, Ok ()), r', w', k)
    \<and> eh_cache (rr_eventHandler r') = cs_DestinationsToWatch (cfg_Spec cfg)
    \<and> dom (map_of (listeners_of (rr_listenerManager r') req))
        = {key. \<exists>source \<in> set (cs_NotificationSources (cfg_Spec cfg)). generateListenerKey source = Ok key}"
proof -
  let ?sources = "Some (cs_NotificationSources (cfg_Spec cfg))" and ?lm = "rr_listenerManager r"
  have valid: "sources_valid ?sources"
    using assms(4) by (simp add: sources_valid_def source_list_def Validate_eq validate_Ok_iff)
  have "program.live (listeners_of ?lm req) w" using reached_live [OF assms(1)] by (simp add: program.manager_live_def)
  note stop = program.stop_unwanted_live [OF this, of ou]
  obtain lm' w' where "ManageListeners (program_env ou) ord1 ord2 req ?sources ?lm w = (Ok (), lm', w')"
    "fst ` set (listeners_of lm' req) = fst ` set (desired_of ?sources)"
    by (rule ManageListeners_completes [OF assms(2,3) valid stop]) (use assms(5) in \<open>simp_all add: source_list_def\<close>)
  then show ?thesis
    by (simp add: sync_config_def manage_def ManageListeners_beside on_left3_def UpdateDestinationsToWatch_def dom_map_of_conv_image_fst
        desired_keys source_list_def)
qed

text \<open>
  C12: in every state the system can reach, one reconciliation brings a Config that is not being
  deleted one step on. Without the finalizer it is claimed: the finalizer is added, and when that
  update succeeds the Config is stored with it, otherwise the error is returned; the manager, the
  destinations and the listeners stay as they are. With the finalizer it is adopted: if it is new and
  cannot be annotated, the error is returned with a request to try again and nothing else changes;
  otherwise the reconciliation succeeds, the Config is not new any more, its destinations are
  watched, and it has exactly one listener per key of its notification sources, provided that its
  webhook suffixes are distinct and that its sources can be started. Stops that fail do not matter.
\<close>

theorem Reconcile_adopts:
  assumes "system_run pr (system_init addr n k) as s" and "range_order ord1" "range_order ord2" and "config_server (pr_api pr) req"
    and "ca_Get (pr_api pr) (sy_cluster s) req = Inr cfg" and "om_DeletionTimestamp (cfg_Meta cfg) = None"
    and "Validate (cfg_Spec cfg) = Ok ()"
    and "\<forall>source \<in> set (cs_NotificationSources (cfg_Spec cfg)). startable (program_env (outside_at pr s)) source"
  shows "\<exists>x r' lw' k'. Reconcile (api_beside (pr_api pr)) (beside (program_env (outside_at pr s))) ord1 ord2 req
        (sy_reconciler s) (sy_listeners s, sy_cluster s) = (x, r', lw', k')
    \<and> (if \<not> ca_ContainsFinalizer (pr_api pr) cfg reloaderFinalizer then
         r' = sy_reconciler s \<and> lw' = sy_listeners s
         \<and> (if fst (ca_Update (pr_api pr) (sy_cluster s) (ca_AddFinalizer (pr_api pr) cfg reloaderFinalizer)) = None then
              x = (False, Ok ()) \<and> (\<exists>cfg'. ca_Get (pr_api pr) k' req = Inr cfg' \<and> ca_ContainsFinalizer (pr_api pr) cfg' reloaderFinalizer
                \<and> om_DeletionTimestamp (cfg_Meta cfg') = None \<and> cfg_Spec cfg' = cfg_Spec cfg)
            else (\<exists>e. x = (False, Err e)))
       else if isResourceNew cfg \<and> fst (ca_Update (pr_api pr) (sy_cluster s) (annotate cfg (ca_Now (pr_api pr) (sy_cluster s)))) \<noteq> None then
         (\<exists>e. x = (True, Err e)) \<and> r' = sy_reconciler s \<and> lw' = sy_listeners s
       else
         x = (False, Ok ()) \<and> (\<exists>cfg'. ca_Get (pr_api pr) k' req = Inr cfg' \<and> cfg_Spec cfg' = cfg_Spec cfg \<and> \<not> isResourceNew cfg')
         \<and> eh_cache (rr_eventHandler r') = cs_DestinationsToWatch (cfg_Spec cfg)
         \<and> dom (map_of (listeners_of (rr_listenerManager r') req))
             = {key. \<exists>source \<in> set (cs_NotificationSources (cfg_Spec cfg)). generateListenerKey source = Ok key})"
proof -
  let ?api = "pr_api pr" and ?env = "beside (program_env (outside_at pr s))" and ?k = "sy_cluster s"
  have r: "listeners_reached s" using system_ok_run [OF assms(1) system_ok_init] by (simp add: system_ok_def)
  have get: "ca_Get (api_beside ?api) (sy_listeners s, ?k) req = Inr cfg" using assms(5) by simp
  show ?thesis
  proof (cases "ca_ContainsFinalizer ?api cfg reloaderFinalizer")
    case False
    obtain e k1 where up: "ca_Update ?api ?k (ca_AddFinalizer ?api cfg reloaderFinalizer) = (e, k1)"
      by (cases "ca_Update ?api ?k (ca_AddFinalizer ?api cfg reloaderFinalizer)")
    have nf: "\<not> ca_ContainsFinalizer (api_beside ?api) cfg reloaderFinalizer" using False by simp
    show ?thesis
    proof (cases e)
      case None
      from claimed_stored [OF assms(4-6) up [unfolded None]] False up None show ?thesis
        unfolding Reconcile_unclaimed [OF get nf] by simp
    next
      case (Some err)
      with False up show ?thesis unfolding Reconcile_unclaimed [OF get nf] by simp
    qed
  next
    case True
    then have f: "ca_ContainsFinalizer (api_beside ?api) cfg reloaderFinalizer" by simp
    obtain e cfg' k1 where a: "annotated ?api cfg ?k = (e, cfg', k1)" by (cases "annotated ?api cfg ?k")
    have e: "e \<noteq> None \<longleftrightarrow> isResourceNew cfg \<and> fst (ca_Update ?api ?k (annotate cfg (ca_Now ?api ?k))) \<noteq> None"
      using a by (auto simp: annotated_def Let_def split: if_splits prod.splits)
    show ?thesis
    proof (cases e)
      case (Some err)
      with True a e show ?thesis unfolding Reconcile_claimed [OF get assms(6) f] annotated_beside by simp
    next
      case None
      note spec = annotated_spec [OF a]
      from sync_config_complete [OF r assms(2,3), of cfg' "outside_at pr s" req k1] assms(7,8) spec
      obtain r' w' where "sync_config ?env ord1 ord2 req cfg' (sy_reconciler s) (sy_listeners s, k1) = ((False, Ok ()), r', w', k1)"
        "eh_cache (rr_eventHandler r') = cs_DestinationsToWatch (cfg_Spec cfg)"
        "dom (map_of (listeners_of (rr_listenerManager r') req))
           = {key. \<exists>source \<in> set (cs_NotificationSources (cfg_Spec cfg)). generateListenerKey source = Ok key}" by auto
      with True a e None annotated_stored [OF assms(4-6) a [unfolded None]] show ?thesis
        unfolding Reconcile_claimed [OF get assms(6) f] annotated_beside by simp
    qed
  qed
qed

text \<open>
  A server with one Config and optimistic locking: an update of any but the stored version is
  refused, and every update stores a new version. The Config has a webhook and a TCP source.
\<close>

definition fixture_store :: "Config config_api" where
  "fixture_store =
     \<lparr>ca_Get = (\<lambda>w n. if n = NamespacedName (om_Namespace (cfg_Meta w)) (om_Name (cfg_Meta w)) then Inr w else Inl (NotFound ''config'')),
      ca_Update = (\<lambda>w c. if same_object c w
        then (None, c\<lparr>cfg_Meta := (cfg_Meta c)\<lparr>om_ResourceVersion := CHR ''1'' # om_ResourceVersion (cfg_Meta c), om_Generation := om_Generation (cfg_Meta w) + 1\<rparr>\<rparr>)
        else (Some (errors_New ''the object has been modified''), w)),
      ca_ContainsFinalizer = (\<lambda>c f. f \<in> set (om_Finalizers (cfg_Meta c))),
      ca_AddFinalizer = (\<lambda>c f. c\<lparr>cfg_Meta := (cfg_Meta c)\<lparr>om_Finalizers := List.insert f (om_Finalizers (cfg_Meta c))\<rparr>\<rparr>),
      ca_RemoveFinalizer = (\<lambda>c f. c\<lparr>cfg_Meta := (cfg_Meta c)\<lparr>om_Finalizers := removeAll f (om_Finalizers (cfg_Meta c))\<rparr>\<rparr>),
      ca_Now = (\<lambda>w. ''now'')\<rparr>"

lemma fixture_store_server: "config_server fixture_store req"
  unfolding config_server_def fixture_store_def same_object_def stored_as_def
  by (auto split: if_splits intro!: exI)

definition fixture_new :: Config where
  "fixture_new =
     \<lparr>cfg_Meta = fixture_meta [] ''cfg'',
      cfg_Spec = \<lparr>cs_NotificationSources = [fixture_hook_source, fixture_tcp_source], cs_DestinationsToWatch = [fixture_destination ''ExternalSecret'']\<rparr>,
      cfg_Status = \<lparr>cst_Conditions = []\<rparr>\<rparr>"

definition fixture_adopting :: "(Config, unit, unit, unit) program" where
  "fixture_adopting =
     \<lparr>pr_api = fixture_store,
      pr_outside =
        \<lparr>ou_kube = \<lparr>k_ListDeployments = (\<lambda>_ _. Inr []), k_ListExternalSecrets = (\<lambda>_. Inr []), k_ListPushSecrets = (\<lambda>_. Inr []),
           k_ListWorkflows = (\<lambda>_. Inr []), k_GetNamespace = (\<lambda>_ _. Inr Map.empty), k_GetDeployment = (\<lambda>_ _. Inl (NotFound ''deployment'')),
           k_GetSecret = (\<lambda>_ _. Inl (NotFound ''secret'')), k_GetServiceAccount = (\<lambda>_ _. Inl (NotFound ''serviceaccount'')),
           k_Update = (\<lambda>w _. (None, w)), k_Selector = (\<lambda>s. Inr (fixture_matches s)), k_Regexp = (\<lambda>_. None), k_Wake = (\<lambda>w. (TimeoutFired, w))\<rparr>,
         ou_world = fixture_new, ou_net = ou_net fixture_outside, ou_aws = ou_aws fixture_outside, ou_gcp = ou_gcp fixture_outside,
         ou_pubsub = ou_pubsub fixture_outside, ou_kenv = fixture_kenv, ou_close = None, ou_done = False\<rparr>,
      pr_web = fixture_web, pr_fuel = 0\<rparr>"

lemma fixture_tcp_startable: "startable (program_env (outside_at fixture_adopting s)) fixture_tcp_source"
proof -
  have "(TCP_SOCKET, \<lambda>source. alloc (map_result TcpL (tcp_CreateListener (ou_done ou) (Some source)))) \<in> set (providers ou)"
    and "distinct (map fst (providers ou))" for ou :: "(Config, unit, unit, unit) outside"
    by (simp_all add: providers_def AZURE_EVENT_GRID_def HASHICORP_VAULT_def KUBERNETES_CONFIG_MAP_def KUBERNETES_SECRET_def MOCK_def
        GOOGLE_PUB_SUB_def AWS_SQS_def TCP_SOCKET_def)
  then have "listener_GetProvider (le_providers (program_env ou)) TCP_SOCKET
      = Some (\<lambda>source. alloc (map_result TcpL (tcp_CreateListener (ou_done ou) (Some source))))" for ou :: "(Config, unit, unit, unit) outside"
    by (simp add: program_provider)
  moreover have "ns_Type fixture_tcp_source = TCP_SOCKET" "TCP_SOCKET \<noteq> WEBHOOK"
    by (simp_all add: fixture_tcp_source_def TCP_SOCKET_def WEBHOOK_def)
  ultimately show ?thesis
    by (simp add: startable_def alloc_def tcp_CreateListener_def NewTCPSocketListener_def SetProcessFn_def program_env_def on_heap_def with_net_def
        tcp_Start_def fixture_tcp_source_def fixture_outside_def outside_at_def fixture_adopting_def Let_def)
qed

lemma fixture_hook_startable: "startable (program_env (outside_at fixture_adopting s)) fixture_hook_source"
  by (simp add: startable_def fixture_hook_source_def fixture_webhook_source_def fixture_route_defs WEBHOOK_def)
    (simp add: program_env_def on_server_def call_result_def webhook_Start_def split: prod.split)

text \<open>Two reconciliations of a new Config: the first claims it, the second adopts it.\<close>

theorem Reconcile_adopts_witness:
  "\<exists>s. system_run fixture_adopting (system_init [] () fixture_new) [Reconciled fixture_cfg, Reconciled fixture_cfg] s
     \<and> cfg_Spec (sy_cluster s) = cfg_Spec fixture_new \<and> \<not> isResourceNew (sy_cluster s)
     \<and> eh_cache (rr_eventHandler (sy_reconciler s)) = [fixture_destination ''ExternalSecret'']
     \<and> dom (map_of (listeners_of (rr_listenerManager (sy_reconciler s)) fixture_cfg))
         = {key. \<exists>source \<in> {fixture_hook_source, fixture_tcp_source}. generateListenerKey source = Ok key}"
proof -
  define s0 where "s0 = (system_init [] () fixture_new :: (unit, unit, unit, Config) system)"
  have api: "pr_api fixture_adopting = fixture_store" by (simp add: fixture_adopting_def)
  have store: "ca_ContainsFinalizer fixture_store c f \<longleftrightarrow> f \<in> set (om_Finalizers (cfg_Meta c))"
    "fst (ca_Update fixture_store w (ca_AddFinalizer fixture_store w f)) = None" "fst (ca_Update fixture_store w (annotate w t)) = None"
    "ca_Get fixture_store w req = Inr c \<Longrightarrow> c = w" for c w f t req
    by (auto simp: fixture_store_def same_object_def annotate_def split: if_splits)
  have new: "ca_Get fixture_store fixture_new fixture_cfg = Inr fixture_new" "om_DeletionTimestamp (cfg_Meta fixture_new) = None"
    "\<not> ca_ContainsFinalizer fixture_store fixture_new reloaderFinalizer"
    "cs_NotificationSources (cfg_Spec fixture_new) = [fixture_hook_source, fixture_tcp_source]"
    "cs_DestinationsToWatch (cfg_Spec fixture_new) = [fixture_destination ''ExternalSecret'']"
    by (simp_all add: store fixture_store_def fixture_new_def fixture_meta_def)
  have valid: "Validate (cfg_Spec fixture_new) = Ok ()"
    by (simp add: Validate_eq validate_Ok_iff new fixture_hook_source_def fixture_webhook_source_def fixture_tcp_source_def
        webhookNotificationSourceType_def)
  have start: "\<forall>source \<in> set (cs_NotificationSources (cfg_Spec fixture_new)). startable (program_env (outside_at fixture_adopting s)) source" for s
    by (simp add: new fixture_hook_startable fixture_tcp_startable)
  have s0: "system_run fixture_adopting (system_init [] () fixture_new) [] s0" "ca_Get fixture_store (sy_cluster s0) fixture_cfg = Inr fixture_new"
    using new(1) by (simp_all add: s0_def system_run.stay) (simp add: system_init_def SetupWithManager_def)
  note adopts = Reconcile_adopts [where pr = fixture_adopting, unfolded api, OF _ range_order_rev range_order_rev fixture_store_server]
  obtain x1 r1 lw1 k1 where one: "Reconcile (api_beside fixture_store) (beside (program_env (outside_at fixture_adopting s0))) rev rev fixture_cfg
      (sy_reconciler s0) (sy_listeners s0, sy_cluster s0) = (x1, r1, lw1, k1)"
    and claimed: "ca_Get fixture_store k1 fixture_cfg = Inr k1" "ca_ContainsFinalizer fixture_store k1 reloaderFinalizer"
    "om_DeletionTimestamp (cfg_Meta k1) = None" "cfg_Spec k1 = cfg_Spec fixture_new"
    using adopts [OF s0 new(2) valid start] new(3) store(2,4) s0(2) by (metis (no_types, lifting))
  define s1 where "s1 = s0\<lparr>sy_reconciler := r1, sy_listeners := lw1, sy_cluster := k1\<rparr>"
  have step1: "system_step fixture_adopting (Reconciled fixture_cfg) s0 s1"
    unfolding s1_def by (rule system_step.reconcile [OF _ range_order_rev range_order_rev]) (use one in \<open>simp add: api\<close>)
  have s1: "system_run fixture_adopting (system_init [] () fixture_new) [Reconciled fixture_cfg] s1"
    "ca_Get fixture_store (sy_cluster s1) fixture_cfg = Inr k1"
    using system_run.step [OF s0(1) step1] claimed(1) by (simp_all add: s1_def)
  obtain x2 r2 lw2 k2 where two: "Reconcile (api_beside fixture_store) (beside (program_env (outside_at fixture_adopting s1))) rev rev fixture_cfg
      (sy_reconciler s1) (sy_listeners s1, sy_cluster s1) = (x2, r2, lw2, k2)"
    and adopted: "cfg_Spec k2 = cfg_Spec k1" "\<not> isResourceNew k2" "eh_cache (rr_eventHandler r2) = cs_DestinationsToWatch (cfg_Spec k1)"
    "dom (map_of (listeners_of (rr_listenerManager r2) fixture_cfg))
         = {key. \<exists>source \<in> set (cs_NotificationSources (cfg_Spec k1)). generateListenerKey source = Ok key}"
    using adopts [OF s1 claimed(3) valid [folded claimed(4)] start [folded claimed(4)]] claimed(2) store(3,4) s1(2)
    by (metis (no_types, lifting))
  define s2 where "s2 = s1\<lparr>sy_reconciler := r2, sy_listeners := lw2, sy_cluster := k2\<rparr>"
  have "system_step fixture_adopting (Reconciled fixture_cfg) s1 s2"
    unfolding s2_def by (rule system_step.reconcile [OF _ range_order_rev range_order_rev]) (use two in \<open>simp add: api\<close>)
  from system_run.step [OF s1(1) this] adopted claimed(4) new(4,5) show ?thesis by (intro exI [of _ s2]) (simp add: s2_def)
qed

section \<open>Release\<close>

text \<open>
  C13: in every state the manager can reach, with the listeners of all types, a Config that is
  being deleted and carries the finalizer is released only after its listeners were stopped: the update
  without the finalizer is sent from a world in which, of the running listeners, exactly those are gone
  that occupied the place of one of its listeners, and the manager has forgotten this Config and only
  this one. Stops that fail do not hold the release up. The reconciliation succeeds exactly when the
  update does, and an update that fails leaves the finalizer for the next attempt.
\<close>

theorem Reconcile_stops_before_release:
  assumes "reached ous (rr_listenerManager r) lw" and "range_order ord1"
    and "ca_Get api (lw, k) req = Inr cfg" and "om_DeletionTimestamp (cfg_Meta cfg) \<noteq> None"
    and "ca_ContainsFinalizer api cfg reloaderFinalizer"
  shows "\<exists>lw1 x. program_running lw1 = {l \<in> program_running lw.
        \<forall>key h. map_of (listeners_of (rr_listenerManager r) req) key = Some h \<longrightarrow> program_slot l \<noteq> program_slot h}
    \<and> Reconcile api (beside (program_env ou)) ord1 ord2 req r (lw, k)
        = ((False, x), r\<lparr>rr_listenerManager := (rr_listenerManager r)
              \<lparr>lm_listeners := AList.delete req (lm_listeners (rr_listenerManager r))\<rparr>\<rparr>,
           snd (ca_Update api (lw1, k) (ca_RemoveFinalizer api cfg reloaderFinalizer)))
    \<and> (x = Ok () \<longleftrightarrow> fst (ca_Update api (lw1, k) (ca_RemoveFinalizer api cfg reloaderFinalizer)) = None)"
proof -
  let ?lm = "rr_listenerManager r"
  let ?lm' = "?lm\<lparr>lm_listeners := AList.delete req (lm_listeners ?lm)\<rparr>"
  obtain lw1 where run: "ManageListeners (program_env ou) ord1 ord2 req (Some []) ?lm lw = (Ok (), ?lm', lw1)"
    and stopped: "program_running lw1 = {l \<in> program_running lw.
        \<forall>key h. map_of (listeners_of ?lm req) key = Some h \<longrightarrow> program_slot l \<noteq> program_slot h}"
    using reached_teardown [OF assms(2,1), of "Some []" ou ord2 req] by blast
  have "manage (beside (program_env ou)) ord1 ord2 req (Some []) r (lw, k) = (Ok (), r\<lparr>rr_listenerManager := ?lm'\<rparr>, lw1, k)"
    by (simp add: manage_def ManageListeners_beside run on_left3_def)
  from Reconcile_deleted [OF assms(3-5) this] stopped show ?thesis
    by (intro exI [of _ lw1]) (auto split: prod.split option.split)
qed

text \<open>A client that keeps the listeners' world in which the last update was sent.\<close>

definition fixture_recorder :: "((unit, unit, unit) lworld \<times> (unit, unit, unit) lworld option) config_api" where
  "fixture_recorder =
     \<lparr>ca_Get = (\<lambda>w n. Inr (fixture_claimed\<lparr>cfg_Meta := (cfg_Meta fixture_claimed)\<lparr>om_DeletionTimestamp := Some ''now''\<rparr>\<rparr>)),
      ca_Update = (\<lambda>w c. (None, fst w, Some (fst w))),
      ca_ContainsFinalizer = (\<lambda>c f. f \<in> set (om_Finalizers (cfg_Meta c))),
      ca_AddFinalizer = (\<lambda>c f. c\<lparr>cfg_Meta := (cfg_Meta c)\<lparr>om_Finalizers := om_Finalizers (cfg_Meta c) @ [f]\<rparr>\<rparr>),
      ca_RemoveFinalizer = (\<lambda>c f. c\<lparr>cfg_Meta := (cfg_Meta c)\<lparr>om_Finalizers := removeAll f (om_Finalizers (cfg_Meta c))\<rparr>\<rparr>),
      ca_Now = (\<lambda>w. ''now'')\<rparr>"

theorem Reconcile_stops_before_release_witness:
  "\<exists>lm lw req r' lw1. reached {fixture_outside} lm lw \<and> Ref 0 \<in> program_running lw
     \<and> Reconcile fixture_recorder (beside (program_env fixture_outside)) rev rev req
         \<lparr>rr_listenerManager = lm, rr_eventHandler = NewEventHandler\<rparr> (lw, None) = ((False, Ok ()), r', lw1, Some lw1)
     \<and> Ref 0 \<notin> program_running lw1 \<and> listeners_of (rr_listenerManager r') req = []"
proof -
  obtain lm lw m key where lm: "reached {fixture_outside} lm lw" "Ref 0 \<in> program_running lw" "map_of (listeners_of lm m) key = Some (Ref 0)"
    using fixture_reached by blast
  let ?r = "\<lparr>rr_listenerManager = lm, rr_eventHandler = NewEventHandler\<rparr>"
  let ?cfg = "fixture_claimed\<lparr>cfg_Meta := (cfg_Meta fixture_claimed)\<lparr>om_DeletionTimestamp := Some ''now''\<rparr>\<rparr>"
  have api: "ca_Get fixture_recorder (lw, None) m = Inr ?cfg" "om_DeletionTimestamp (cfg_Meta ?cfg) \<noteq> None"
    "ca_ContainsFinalizer fixture_recorder ?cfg reloaderFinalizer"
    "ca_Update fixture_recorder (w, k) c = (None, w, Some w)" for w k c
    by (simp_all add: fixture_recorder_def fixture_claimed_def)
  have reach: "reached {fixture_outside} (rr_listenerManager ?r) lw" using lm(1) by simp
  from Reconcile_stops_before_release [OF reach range_order_rev api(1-3), of fixture_outside rev] api(4) lm
  show ?thesis by (fastforce simp: listeners_of_def)
qed

end
