(* ===== verification/Spec2Isabelle.thy ===== *)
theory Spec2Isabelle
  imports DeepCopy Entry Interleave ConfigLifecycle
begin

text \<open>
  \<^bold>\<open>A model of the external-secrets Reloader.\<close>

  The Reloader is a Kubernetes controller. A \<^verbatim>\<open>Config\<close> resource lists notification sources and
  destinations. For every source the listener manager runs a listener; a listener that learns of
  a rotated secret sends an event on a channel; the event pump of the controller hands each
  event to the event handler, which looks up the objects the destinations select, keeps those
  that refer to the secret and annotates them, so that they are reloaded. All paths below are
  relative to \<^verbatim>\<open>src/\<close>.

  \<^bold>\<open>Conventions.\<close> Structs are records, pointers are options, \<^verbatim>\<open>int32\<close>, \<^verbatim>\<open>int64\<close> and \<^verbatim>\<open>int\<close> are
  words of that width, byte strings and strings are \<^typ>\<open>string\<close>. A Go function returns a \<open>result\<close>
  (\<open>Prelude\<close>): \<open>Ok\<close>, \<open>Err\<close> for a returned error, \<open>Panic\<close>, or \<open>Blocked\<close> when it waits for something that
  never comes. Logging has no effect and is left out. Libraries the code calls but that are not
  in the repository (the Kubernetes client, label selectors, regular expressions, gjson, pem and
  x509, the cloud SDKs, sockets) are arguments of the definitions: the records \<open>kube\<close>, \<open>tcp_env\<close>,
  \<open>net\<close>, \<open>gcp\<close>, \<open>kenv\<close>, \<open>sqs\<close>, \<open>outside\<close>, \<open>ctrl\<close>, \<open>meta\<close>. The Go standard library, as far as it is used, is modelled:
  strings, Base64, SHA-1, JSON in both directions, RFC 3339 times.

  \<^bold>\<open>Theories.\<close>

  \<^item> \<open>Prelude\<close>, \<open>GoStrings\<close>: results and errors, maps with a chosen iteration order, the string
    functions, with the rewriting collection \<open>go_simps\<close>.
  \<^item> \<open>Kube\<close>, \<open>Api\<close>: the API objects that are read and written, the outside world as the record
    \<open>kube\<close>, the types of \<^verbatim>\<open>api/v1alpha1\<close> and \<^verbatim>\<open>config_validation.go\<close>. \<open>Validate\<close> accepts exactly the
    specs whose webhook suffixes differ.
  \<^item> \<open>Registry\<close>: the two provider registries (\<^verbatim>\<open>internal/handler/schema\<close>, \<^verbatim>\<open>internal/listener/schema\<close>)
    as instances of the interface \<open>registry\<close>.
  \<^item> \<open>Handlers\<close>, \<open>DeploymentHandler\<close>, \<open>SecretHandlers\<close>: \<^verbatim>\<open>internal/handler/deployment\<close>,
    \<^verbatim>\<open>externalsecret\<close>, \<^verbatim>\<open>pushsecret\<close>, \<^verbatim>\<open>workflow\<close> and \<^verbatim>\<open>internal/util/resource_watch.go\<close>: selection,
    references, the patch, and the rollout wait, which returns by the timeout and succeeds only
    after a complete rollout.
  \<^item> \<open>Processor\<close>: \<^verbatim>\<open>internal/handler/processor.go\<close>. \<open>HandleEvent\<close> writes only what is selected and
    refers to the secret, and, undisturbed, all of it.
  \<^item> \<open>Secrets\<close>: the readers of a key of a Secret (\<^verbatim>\<open>internal/util\<close>, the resolvers) as instances of
    one interface.
  \<^item> \<open>Runtime\<close>, \<open>Publish\<close>: goroutines, \<^verbatim>\<open>select\<close>, contexts, the clock and HTTP messages over explicit
    schedules; the ways a source hands an event over, with the interface \<open>event_source\<close>.
  \<^item> \<open>Base64\<close>, \<open>Route\<close>, \<open>Server\<close>: \<^verbatim>\<open>internal/listener/webhook\<close>: authentication, body limit,
    identifier extraction, retries, the route table and dispatch.
  \<^item> \<open>Sha1\<close>, \<open>Json\<close>: the encoding of the source configurations and \<open>generateListenerKey\<close>.
  \<^item> \<open>JsonParse\<close>, \<open>GoTime\<close>: \<^verbatim>\<open>json.Unmarshal\<close>, from the scanner over field matching to the typed
    decoders, and times; decoding an encoded value gives the value back, and no decoder panics.
  \<^item> \<open>TcpSource\<close>, \<open>VaultSource\<close>, \<open>SqsSource\<close>, \<open>PubSubSource\<close>, \<open>EventGridSource\<close>,
    \<open>KubernetesSource\<close>, \<open>MockSource\<close>: the other notification sources (\<^verbatim>\<open>internal/listener/tcp\<close>,
    \<^verbatim>\<open>hashivault\<close>, \<^verbatim>\<open>sqs\<close> with \<^verbatim>\<open>pkg/listener/aws\<close>, \<^verbatim>\<open>pubsub\<close>, \<^verbatim>\<open>eventgrid\<close>, \<^verbatim>\<open>kubernetes\<close> with
    \<^verbatim>\<open>k8ssecret\<close> and \<^verbatim>\<open>k8sconfigmap\<close>, \<^verbatim>\<open>mock\<close>) and the message types of \<^verbatim>\<open>pkg/models\<close>. For each, what
    it publishes for what it receives, and the inputs on which it panics.
  \<^item> \<open>AwsAuth\<close>, \<open>GcpAuth\<close>: \<^verbatim>\<open>pkg/auth\<close>, \<^verbatim>\<open>internal/util/token_retriever.go\<close> and \<^verbatim>\<open>mapper\<close>: which
    credentials a source gets.
  \<^item> \<open>Manager\<close>: \<^verbatim>\<open>internal/listener/manager.go\<close>, generic in the listeners and for any map order:
    isolation, one listener per key, nothing restarted.
  \<^item> \<open>Lifecycle\<close>: an invariant rule for \<open>ManageListeners\<close> and three interfaces on top of it:
    \<open>managed_listeners\<close> (what is held can be stopped, hence teardown and shutdown), its extension
    \<open>tracked_listeners\<close> (what runs is held) and \<open>typed_listeners\<close> (what is held serves the source of its key).
  \<^item> \<open>Listeners\<close>: all sources together (\<^verbatim>\<open>internal/listener/register.go\<close>): the listener objects on a
    heap, \<^verbatim>\<open>Start\<close> and \<^verbatim>\<open>Stop\<close> by dynamic type, the interpretation of the three interfaces, and the
    reachable states of the manager with what holds in each of them: types and configurations,
    the teardown of a Config, the shutdown.
  \<^item> \<open>Controller\<close>: \<^verbatim>\<open>internal/controller\<close>: \<open>Reconcile\<close> and the event pump as a step relation.
  \<^item> \<open>System\<close>: \<^verbatim>\<open>SetupWithManager\<close>, the shutdown function, and the program as one step relation
    \<open>system_step\<close> over the reconciler, the listeners, the channel and the cluster. Its invariant
    \<open>system_ok\<close> joins those of the parts and the cause of every event sent; from it follow that
    every write has a cause, that every event is handled once, that an accepted request reaches the
    objects, and that the shutdown leaves nothing running.
  \<^item> \<open>ConfigLifecycle\<close>: a Config within the program, over the contract \<open>config_server\<close> of the API
    server, by which updates may fail: a reconciliation claims it or adopts it, and the update that
    releases it is sent only when its listeners are gone.
  \<^item> \<open>Tasks\<close>, \<open>Interleave\<close>: \<open>HandleEvent\<close> as its goroutine runs it, call by call (\<open>task_step\<close>), which
    ends and computes what the function computes; and the system with one such goroutine for every
    dispatched event (\<open>concurrent_step\<close>). The atomic handling of \<open>System\<close> is a special case of it, and
    the cause of every write is proved for all interleavings.
  \<^item> \<open>WebhookRun\<close>, \<open>Entry\<close>: the webhook server as a runnable, with its graceful shutdown
    (\<^verbatim>\<open>WebhookServer.Start\<close>, \<^verbatim>\<open>closeHTTPServer\<close>), and \<^verbatim>\<open>cmd/main.go\<close>: the registration of the types, flags, options and the order of
    the registrations, after which the system is in its initial state.
  \<^item> \<open>Memory\<close>, \<open>DeepCopy\<close>: a memory of cells with pointers, slices and maps, and the generated copy
    functions of \<^verbatim>\<open>zz_generated.deepcopy.go\<close> on it, each an instance of the interface \<open>deep_copier\<close>: a
    copy unfolds to the value of the original and shares no cell with it.
  \<^item> \<open>Fixture\<close>: a concrete outside world for the witnesses.

  \<^bold>\<open>Concurrency.\<close> A goroutine is run against a schedule, a list that says for every point where it
  can wait what the environment has done meanwhile (\<open>Runtime\<close>). Safety statements hold for all
  schedules. Statements that something is published assume \<open>steady n\<close>: the context stays alive
  and the receiver is ready for the next \<open>n\<close> wake-ups, where \<open>n\<close> is what the goroutine needs, the
  number of messages or \<open>conn_wakes\<close> for a connection. The iteration order over a Go map is an
  argument, constrained by \<open>range_order\<close> to be a permutation. The manager's methods hold its lock
  throughout and are single steps; so are, in \<open>System\<close>, a request, a reconciliation and the handling
  of an event, interleaved in any order with each other and with what others do to the cluster and
  the network. \<open>Interleave\<close> takes the handling of an event apart: every update, every timer event and
  every read of a rollout wait is a step of its own; the list call of a destination is one step
  together with the selection from its result. A listener counts as running (\<open>active\<close>) from a successful
  \<^verbatim>\<open>Start\<close> to \<^verbatim>\<open>Stop\<close>, which cancels its context; that its goroutines then end is a separate
  matter, and not so for the mock source, which never looks at a context.

  \<^bold>\<open>Bounds.\<close> Loops over received data recurse on the data or on the schedule, so no fuel is
  needed; the JSON scanner recurses on the nesting limit of 10000 that \<^verbatim>\<open>encoding/json\<close> has
  itself, and the round trip asks for values within it, which the configurations are. The fuel of the
  rollout wait bounds its timer events; \<open>HandleEvent_by_steps\<close> shows that it takes nothing away.

  \<^bold>\<open>Not modelled.\<close> The parsing of the command line, to which zap adds flags of its own, and what
  controller-runtime does with the registered parts. That others act between the calls
  to the API server within one reconciliation, one request or one selection of objects. HTTP response headers and wildcard patterns of the mux. The validation
  address of an Event Grid handshake is recorded as a call, its answer is only logged. Outside
  \<open>Memory\<close> and \<open>DeepCopy\<close> records are values.
\<close>

end
